(* ===== verification/Prelude.thy ===== *)
theory Prelude
  imports Main "HOL-Library.Char_ord"
begin

text \<open>
  What the components share: the exceptions of \<^verbatim>\<open>core/src/exception\<close> as values, the result
  type of a C++ function that may throw, the operations of \<^verbatim>\<open>std::string\<close> the code uses (with
  what they do out of range), decimal printing and reading of machine integers, and the splitting
  functions of \<^verbatim>\<open>boost::algorithm\<close>. The lemmas here are the round trips and length laws that the
  component theories build on; those meant for the simplifier are declared so, the others are in the
  collections \<open>str_simps\<close> and \<open>res_simps\<close>.
\<close>

named_theorems str_simps "unfolding of the string operations"
named_theorems res_simps "unfolding of results"

section \<open>Exceptions and results\<close>

text \<open>
  One constructor per exception class of \<^verbatim>\<open>core/src/exception\<close>, with the error code and the
  complementary message, the two standard exceptions the code lets escape, that of
  the transport library, a pointer to an exception (\<^verbatim>\<open>throw new\<close>, which no handler of the program
  catches), and \<open>UndefinedBehaviour\<close>
  for the places where the C++ standard gives the program no meaning.
\<close>

datatype exn =
    UMSVishnuException int string
  | TMSVishnuException int string
  | FMSVishnuException int string
  | UserException int string
  | SystemException int string
  | OutOfRange
  | BadLexicalCast
  | ZmqError
  | ThrownPointer exn
  | UndefinedBehaviour

type_synonym 'a result = "exn + 'a"

fun res_bind :: "'a result \<Rightarrow> ('a \<Rightarrow> 'b result) \<Rightarrow> 'b result" where
  "res_bind (Inl e) f = Inl e"
| "res_bind (Inr x) f = f x"

lemma res_bind_Inr_iff [res_simps]:
  "res_bind m f = Inr y \<longleftrightarrow> (\<exists>x. m = Inr x \<and> f x = Inr y)"
  by (cases m) auto

lemma res_bind_Inl_iff [res_simps]:
  "res_bind m f = Inl e \<longleftrightarrow> m = Inl e \<or> (\<exists>x. m = Inr x \<and> f x = Inl e)"
  by (cases m) auto

lemma res_bind_assoc: "res_bind (res_bind m f) g = res_bind m (\<lambda>x. res_bind (f x) g)"
  by (cases m) auto

fun res_map :: "('a \<Rightarrow> 'b result) \<Rightarrow> 'a list \<Rightarrow> 'b list result" where
  "res_map f [] = Inr []"
| "res_map f (x # xs) = res_bind (f x) (\<lambda>y. res_bind (res_map f xs) (\<lambda>ys. Inr (y # ys)))"

lemma res_map_Inr: "(\<And>x. x \<in> set xs \<Longrightarrow> f x = Inr (g x)) \<Longrightarrow> res_map f xs = Inr (map g xs)"
  by (induction xs) auto

section \<open>Operations of std::string\<close>

text \<open>A position is an index; \<^verbatim>\<open>std::string::npos\<close> is \<open>None\<close>.\<close>

fun find_if_from :: "(char \<Rightarrow> bool) \<Rightarrow> nat \<Rightarrow> string \<Rightarrow> nat option" where
  "find_if_from p i [] = None"
| "find_if_from p i (c # cs) = (if p c then Some i else find_if_from p (Suc i) cs)"

definition find_first_of :: "string \<Rightarrow> string \<Rightarrow> nat option" where
  "find_first_of s cs = find_if_from (\<lambda>c. c \<in> set cs) 0 s"

definition find_first_not_of :: "string \<Rightarrow> string \<Rightarrow> nat option" where
  "find_first_not_of s cs = find_if_from (\<lambda>c. c \<notin> set cs) 0 s"

definition starts_with :: "string \<Rightarrow> string \<Rightarrow> bool" where
  "starts_with pat s \<longleftrightarrow> take (length pat) s = pat"

text \<open>\<^verbatim>\<open>s.find(pat)\<close>: the least index at which \<open>pat\<close> occurs.\<close>

fun find_str_from :: "string \<Rightarrow> nat \<Rightarrow> string \<Rightarrow> nat option" where
  "find_str_from pat i [] = (if pat = [] then Some i else None)"
| "find_str_from pat i (c # cs) =
     (if starts_with pat (c # cs) then Some i else find_str_from pat (Suc i) cs)"

definition find_str :: "string \<Rightarrow> string \<Rightarrow> nat option" where
  "find_str s pat = find_str_from pat 0 s"

text \<open>\<^verbatim>\<open>s.find(pat, pos)\<close>, which finds nothing from a position past the end.\<close>

definition find_at :: "string \<Rightarrow> string \<Rightarrow> nat \<Rightarrow> nat option" where
  "find_at s pat pos = (if pos \<le> length s then find_str_from pat pos (drop pos s) else None)"

definition contains_str :: "string \<Rightarrow> string \<Rightarrow> bool" where
  "contains_str s pat \<longleftrightarrow> find_str s pat \<noteq> None"

text \<open>\<^verbatim>\<open>s.rfind(c)\<close> for one character: the greatest index at which it occurs.\<close>

definition rfind_char :: "string \<Rightarrow> char \<Rightarrow> nat option" where
  "rfind_char s c = map_option (\<lambda>i. length s - 1 - i) (find_if_from (\<lambda>d. d = c) 0 (rev s))"

text \<open>
  \<^verbatim>\<open>s.substr(pos, len)\<close> throws \<^verbatim>\<open>std::out_of_range\<close> when \<open>pos\<close> is past the end and cuts
  \<open>len\<close> to what is left; \<open>None\<close> as the length is \<^verbatim>\<open>npos\<close>.
\<close>

definition substr :: "string \<Rightarrow> nat \<Rightarrow> nat option \<Rightarrow> string result" where
  "substr s pos len =
     (if length s < pos then Inl OutOfRange
      else Inr (case len of None \<Rightarrow> drop pos s | Some n \<Rightarrow> take n (drop pos s)))"

lemma substr_ok [simp]: "pos \<le> length s \<Longrightarrow> substr s pos None = Inr (drop pos s)"
  by (simp add: substr_def)

lemma substr_ok_len [simp]: "pos \<le> length s \<Longrightarrow> substr s pos (Some n) = Inr (take n (drop pos s))"
  by (simp add: substr_def)

lemma find_if_from_Some:
  "find_if_from p i s = Some k \<Longrightarrow> i \<le> k \<and> k < i + length s \<and> p (s ! (k - i))"
proof (induction s arbitrary: i)
  case Nil
  then show ?case by simp
next
  case (Cons c cs)
  show ?case
  proof (cases "p c")
    case True
    with Cons.prems show ?thesis by simp
  next
    case False
    with Cons.prems have "find_if_from p (Suc i) cs = Some k" by simp
    with Cons.IH have "Suc i \<le> k \<and> k < Suc i + length cs \<and> p (cs ! (k - Suc i))" by blast
    then show ?thesis by (auto simp: nth_Cons' )
  qed
qed

lemma find_if_from_None: "find_if_from p i s = None \<longleftrightarrow> (\<forall>c \<in> set s. \<not> p c)"
  by (induction s arbitrary: i) auto

lemma find_if_from_app:
  "\<forall>c \<in> set xs. \<not> p c \<Longrightarrow> find_if_from p i (xs @ ys) = find_if_from p (i + length xs) ys"
  by (induction xs arbitrary: i) auto

lemma find_if_from_shift: "find_if_from p i s = map_option (\<lambda>k. i + k) (find_if_from p 0 s)"
proof (induction s arbitrary: i)
  case Nil
  then show ?case by simp
next
  case (Cons c cs)
  show ?case using Cons [of "Suc i"] Cons [of "Suc 0"] by (auto simp: option.map_comp comp_def)
qed

lemma find_if_from_hit:
  "\<forall>c \<in> set xs. \<not> p c \<Longrightarrow> p y \<Longrightarrow> find_if_from p i (xs @ y # ys) = Some (i + length xs)"
  by (simp add: find_if_from_app)

lemma find_first_of_lt: "find_first_of s cs = Some k \<Longrightarrow> k < length s"
  unfolding find_first_of_def by (drule find_if_from_Some) simp

lemma find_first_of_hit:
  "set xs \<inter> set cs = {} \<Longrightarrow> y \<in> set cs \<Longrightarrow> find_first_of (xs @ y # ys) cs = Some (length xs)"
  unfolding find_first_of_def by (subst find_if_from_hit) auto

lemma find_first_of_miss: "set xs \<inter> set cs = {} \<Longrightarrow> find_first_of xs cs = None"
  unfolding find_first_of_def by (auto simp: find_if_from_None)

lemma rfind_char_hit:
  assumes "c \<notin> set ys"
  shows "rfind_char (xs @ c # ys) c = Some (length xs)"
proof -
  have "find_if_from (\<lambda>d. d = c) 0 (rev ys @ c # rev xs) = Some (length ys)"
    using assms by (subst find_if_from_hit) auto
  then show ?thesis by (simp add: rfind_char_def)
qed

lemma rfind_char_lt: "rfind_char s c = Some k \<Longrightarrow> k < length s"
  unfolding rfind_char_def by (auto dest!: find_if_from_Some)

lemma starts_with_append [simp]: "starts_with p (p @ s)"
  by (simp add: starts_with_def)

lemma starts_with_head: "starts_with (c # p) (d # s) \<longleftrightarrow> c = d \<and> starts_with p s"
  by (auto simp: starts_with_def)

lemma starts_with_Nil [simp]: "starts_with [] s"
  by (simp add: starts_with_def)

lemma starts_with_Cons_Nil [simp]: "\<not> starts_with (c # p) []"
  by (simp add: starts_with_def)

lemma find_str_from_shift: "find_str_from pat i s = map_option (\<lambda>k. k + i) (find_str_from pat 0 s)"
proof (induction s arbitrary: i)
  case Nil
  then show ?case by simp
next
  case (Cons c cs)
  show ?case
  proof (cases "starts_with pat (c # cs)")
    case True
    then show ?thesis by simp
  next
    case False
    then have "find_str_from pat i (c # cs) = map_option (\<lambda>k. k + Suc i) (find_str_from pat 0 cs)"
      using Cons.IH [of "Suc i"] by simp
    also have "\<dots> = map_option (\<lambda>k. k + i) (map_option (\<lambda>k. k + Suc 0) (find_str_from pat 0 cs))"
      by (simp add: option.map_comp comp_def)
    also have "\<dots> = map_option (\<lambda>k. k + i) (find_str_from pat (Suc 0) cs)"
      using Cons.IH [of "Suc 0"] by simp
    finally show ?thesis using False by simp
  qed
qed

lemma find_str_hit_char:
  "c \<notin> set xs \<Longrightarrow> find_str_from (c # p) i (xs @ c # p @ ys) = Some (i + length xs)"
  by (induction xs arbitrary: i) (auto simp: starts_with_head)

lemma find_str_miss_char: "c \<notin> set xs \<Longrightarrow> find_str_from (c # p) i xs = None"
  by (induction xs arbitrary: i) (auto simp: starts_with_head)

lemma find_str_char: "find_str_from [c] i s = find_if_from (\<lambda>d. d = c) i s"
  by (induction s arbitrary: i) (auto simp: starts_with_head)

lemma find_char_split:
  assumes "find_str s [c] = Some p"
  shows "s = take p s @ c # drop (p + 1) s"
proof -
  from assms have "find_if_from (\<lambda>d. d = c) 0 s = Some p" by (simp add: find_str_def find_str_char)
  then have "p < length s" "s ! p = c" by (auto dest: find_if_from_Some)
  then show ?thesis using id_take_nth_drop [of p s] by simp
qed

lemma find_str_from_Some:
  "find_str_from pat i s = Some k \<Longrightarrow> i \<le> k \<and> k + length pat \<le> i + length s \<and> starts_with pat (drop (k - i) s)"
proof (induction s arbitrary: i)
  case Nil
  then show ?case by (auto split: if_splits)
next
  case (Cons c cs)
  show ?case
  proof (cases "starts_with pat (c # cs)")
    case True
    then have "length pat \<le> length (c # cs)" by (metis starts_with_def length_take min.cobounded1)
    with True Cons.prems show ?thesis by auto
  next
    case False
    with Cons show ?thesis by (auto simp: Suc_diff_le dest!: Cons.IH) (metis Suc_diff_Suc Suc_le_lessD drop_Suc_Cons)
  qed
qed

lemma find_at_Some:
  assumes "find_at s pat pos = Some k"
  shows "pos \<le> k" and "k + length pat \<le> length s" and "starts_with pat (drop k s)"
  using assms find_str_from_Some [of pat pos "drop pos s" k] by (auto simp: find_at_def split: if_splits)

section \<open>Decimal numbers\<close>

definition digit_char :: "nat \<Rightarrow> char" where
  "digit_char n = char_of (48 + n)"

definition digit_val :: "char \<Rightarrow> nat" where
  "digit_val c = (of_char c :: nat) - 48"

definition is_digit :: "char \<Rightarrow> bool" where
  "is_digit c \<longleftrightarrow> 48 \<le> (of_char c :: nat) \<and> (of_char c :: nat) \<le> 57"

fun show_nat :: "nat \<Rightarrow> string" where
  "show_nat n = (if n < 10 then [digit_char n] else show_nat (n div 10) @ [digit_char (n mod 10)])"

declare show_nat.simps [simp del]

text \<open>\<^verbatim>\<open>operator<<\<close> of a stream and \<^verbatim>\<open>convertToString\<close> on a signed integer.\<close>

definition show_int :: "int \<Rightarrow> string" where
  "show_int i = (if i < 0 then CHR ''-'' # show_nat (nat (- i)) else show_nat (nat i))"

definition digits_val :: "nat \<Rightarrow> string \<Rightarrow> nat" where
  "digits_val a s = foldl (\<lambda>v c. 10 * v + digit_val c) a s"

definition parse_nat :: "string \<Rightarrow> nat option" where
  "parse_nat s = (if s \<noteq> [] \<and> list_all is_digit s then Some (digits_val 0 s) else None)"

text \<open>
  The integers \<^verbatim>\<open>boost::lexical_cast\<close> reads: an optional sign and at least one digit, nothing
  else, within the range of the target type.
\<close>

fun parse_int :: "string \<Rightarrow> int option" where
  "parse_int [] = None"
| "parse_int (c # cs) =
     (if c = CHR ''-'' then map_option (\<lambda>n. - int n) (parse_nat cs)
      else if c = CHR ''+'' then map_option int (parse_nat cs)
      else map_option int (parse_nat (c # cs)))"

definition in_width :: "nat \<Rightarrow> int \<Rightarrow> bool" where
  "in_width w i \<longleftrightarrow> - (2 ^ (w - 1)) \<le> i \<and> i < 2 ^ (w - 1)"

definition lexical_cast :: "nat \<Rightarrow> string \<Rightarrow> int result" where
  "lexical_cast w s =
     (case parse_int s of
        None \<Rightarrow> Inl BadLexicalCast
      | Some i \<Rightarrow> if in_width w i then Inr i else Inl BadLexicalCast)"

lemma of_char_digit: "n < 10 \<Longrightarrow> (of_char (digit_char n) :: nat) = 48 + n"
  by (simp add: digit_char_def)

lemma digit_val_char [simp]: "n < 10 \<Longrightarrow> digit_val (digit_char n) = n"
  by (simp add: digit_val_def of_char_digit)

lemma is_digit_char [simp]: "n < 10 \<Longrightarrow> is_digit (digit_char n)"
  by (simp add: is_digit_def of_char_digit)

lemma show_nat_nonempty [simp]: "show_nat n \<noteq> []"
  by (subst show_nat.simps) simp

lemma show_nat_digits [simp]: "list_all is_digit (show_nat n)"
proof (induction n rule: show_nat.induct)
  case (1 n)
  show ?case
  proof (cases "n < 10")
    case True
    then show ?thesis by (subst show_nat.simps) simp
  next
    case False
    with 1 show ?thesis by (subst show_nat.simps) simp
  qed
qed

lemma digits_val_append: "digits_val a (s @ t) = digits_val (digits_val a s) t"
  by (simp add: digits_val_def)

lemma digits_val_show_nat: "digits_val 0 (show_nat n) = n"
proof (induction n rule: show_nat.induct)
  case (1 n)
  show ?case
  proof (cases "n < 10")
    case True
    then show ?thesis by (subst show_nat.simps) (simp add: digits_val_def)
  next
    case False
    with 1 show ?thesis
      by (subst show_nat.simps) (simp add: digits_val_append, simp add: digits_val_def)
  qed
qed

lemma parse_nat_show_nat [simp]: "parse_nat (show_nat n) = Some n"
  by (simp add: parse_nat_def digits_val_show_nat)

lemma is_digit_not_sign: "is_digit c \<Longrightarrow> c \<noteq> CHR ''-'' \<and> c \<noteq> CHR ''+''"
  by (auto simp: is_digit_def)

lemma parse_int_digits: "list_all is_digit s \<Longrightarrow> parse_int s = map_option int (parse_nat s)"
  by (cases s) (auto simp: is_digit_not_sign parse_nat_def)

lemma parse_int_show_int [simp]: "parse_int (show_int i) = Some i"
  by (auto simp: show_int_def parse_int_digits)

lemma lexical_cast_show_int [simp]: "in_width w i \<Longrightarrow> lexical_cast w (show_int i) = Inr i"
  by (simp add: lexical_cast_def)

lemma show_nat_inj [simp]: "show_nat m = show_nat n \<longleftrightarrow> m = n"
  by (metis parse_nat_show_nat option.inject)

lemma show_int_inj [simp]: "show_int i = show_int j \<longleftrightarrow> i = j"
  by (metis parse_int_show_int option.inject)

lemma show_int_nonempty [simp]: "show_int i \<noteq> []"
  by (simp add: show_int_def)

lemma show_int_nat: "show_int (int n) = show_nat n"
  by (simp add: show_int_def)

lemma show_nat_no_char: "\<not> is_digit c \<Longrightarrow> c \<notin> set (show_nat n)"
  using show_nat_digits [of n] by (auto simp: list_all_iff)

lemma show_nat_small: "n < 10 \<Longrightarrow> show_nat n = [digit_char n]"
  by (subst show_nat.simps) simp

lemma show_nat_two: "10 \<le> n \<Longrightarrow> n < 100 \<Longrightarrow> show_nat n = [digit_char (n div 10), digit_char (n mod 10)]"
  by (subst show_nat.simps) (simp add: show_nat_small)

section \<open>White space, C strings and stream input\<close>

definition is_space_char :: "char \<Rightarrow> bool" where
  "is_space_char c \<longleftrightarrow> (of_char c :: nat) \<in> {9, 10, 11, 12, 13, 32}"

fun sign_prefix :: "string \<Rightarrow> string" where
  "sign_prefix [] = []"
| "sign_prefix (c # cs) =
     (if c = CHR ''-'' \<or> c = CHR ''+'' then c # takeWhile is_digit cs
      else takeWhile is_digit (c # cs))"

text \<open>\<^verbatim>\<open>boost::algorithm::trim\<close>, and what a \<^verbatim>\<open>char*\<close> keeps of a string: the part before the first NUL.\<close>

definition trim :: "string \<Rightarrow> string" where
  "trim s = rev (dropWhile is_space_char (rev (dropWhile is_space_char s)))"

definition c_str :: "string \<Rightarrow> string" where
  "c_str s = takeWhile (\<lambda>c. c \<noteq> CHR 0x00) s"

text \<open>
  \<^verbatim>\<open>stream >> i\<close> on an integer of \<open>w\<close> bits that holds \<open>old\<close>: the longest integer prefix after white
  space, clamped to the range; without digits the variable keeps its value.
\<close>

definition stream_read :: "nat \<Rightarrow> int \<Rightarrow> string \<Rightarrow> int" where
  "stream_read w old s =
     (case parse_int (sign_prefix (dropWhile is_space_char s)) of
        None \<Rightarrow> old
      | Some i \<Rightarrow> max (- (2 ^ (w - 1))) (min (2 ^ (w - 1) - 1) i))"

lemma c_str_id: "CHR 0x00 \<notin> set s \<Longrightarrow> c_str s = s"
  by (auto simp: c_str_def takeWhile_eq_all_conv)

lemma dropWhile_id: "s = [] \<or> \<not> p (hd s) \<Longrightarrow> dropWhile p s = s"
  by (cases s) auto

lemma trim_id:
  assumes "s = [] \<or> \<not> is_space_char (hd s) \<and> \<not> is_space_char (last s)"
  shows "trim s = s"
proof -
  have "dropWhile is_space_char s = s" using assms by (intro dropWhile_id) auto
  moreover have "dropWhile is_space_char (rev s) = rev s"
    using assms by (intro dropWhile_id) (auto simp: hd_rev)
  ultimately show ?thesis by (simp add: trim_def)
qed

section \<open>Splitting and joining\<close>

text \<open>
  \<^verbatim>\<open>boost::algorithm::split\<close> with a predicate on characters and no token compression: one token
  more than there are separators, so the empty string gives one empty token.
\<close>

fun split_if :: "(char \<Rightarrow> bool) \<Rightarrow> string \<Rightarrow> string list" where
  "split_if p [] = [[]]"
| "split_if p (c # cs) =
     (if p c then [] # split_if p cs
      else (case split_if p cs of [] \<Rightarrow> [[c]] | t # ts \<Rightarrow> (c # t) # ts))"

text \<open>
  \<^verbatim>\<open>boost::algorithm::split_regex\<close> with a regex that matches one fixed non-empty string: the
  tokens between the leftmost non-overlapping occurrences.
\<close>

fun split_go :: "string \<Rightarrow> string \<Rightarrow> string \<Rightarrow> string list" where
  "split_go sep acc [] = [rev acc]"
| "split_go sep acc (c # cs) =
     (if starts_with sep (c # cs) then rev acc # split_go sep [] (drop (length sep - 1) cs)
      else split_go sep (c # acc) cs)"

definition split_str :: "string \<Rightarrow> string \<Rightarrow> string list" where
  "split_str sep s = split_go sep [] s"

fun join :: "string \<Rightarrow> string list \<Rightarrow> string" where
  "join sep [] = []"
| "join sep [x] = x"
| "join sep (x # y # zs) = x @ sep @ join sep (y # zs)"

text \<open>
  A token is \<open>sep_free\<close> when the first occurrence of the separator in the token followed by the
  separator is the separator itself: the token neither holds it nor ends with a proper part of it
  that the next separator completes.
\<close>

definition sep_free :: "string \<Rightarrow> string \<Rightarrow> bool" where
  "sep_free sep t \<longleftrightarrow> (\<forall>i < length t. \<not> starts_with sep (drop i (t @ sep)))"

lemma split_if_nonempty [simp]: "split_if p s \<noteq> []"
  by (cases s) (auto split: list.splits)

lemma split_if_token: "\<forall>c \<in> set t. \<not> p c \<Longrightarrow> split_if p t = [t]"
  by (induction t) auto

lemma split_if_app:
  "\<forall>c \<in> set t. \<not> p c \<Longrightarrow> p d \<Longrightarrow> split_if p (t @ d # s) = t # split_if p s"
  by (induction t) auto

lemma split_if_join:
  "\<forall>t \<in> set ts. \<forall>c \<in> set t. \<not> p c \<Longrightarrow> p d \<Longrightarrow> ts \<noteq> [] \<Longrightarrow> split_if p (join [d] ts) = ts"
proof (induction ts rule: induct_list012)
  case 1
  then show ?case by simp
next
  case (2 x)
  then show ?case by (simp add: split_if_token)
next
  case (3 x y zs)
  then show ?case by (simp add: split_if_app)
qed

lemma split_if_tokens: "t \<in> set (split_if p s) \<Longrightarrow> c \<in> set t \<Longrightarrow> \<not> p c"
  by (induction s arbitrary: t) (auto split: if_splits list.splits, blast)

lemma split_if_length: "length (split_if p s) = Suc (length (filter p s))"
  by (induction s) (auto split: list.splits)

lemma starts_with_prefix: "length sep \<le> length (xs @ sep) \<Longrightarrow>
  starts_with sep (xs @ sep @ ys) = starts_with sep (xs @ sep)"
  by (simp add: starts_with_def)

lemma split_go_token:
  assumes "sep \<noteq> []" and "sep_free sep t"
  shows "split_go sep acc (t @ sep @ s) = (rev acc @ t) # split_go sep [] s"
  using assms(2)
proof (induction t arbitrary: acc)
  case Nil
  obtain c cs where "sep = c # cs" using assms(1) by (cases sep) auto
  then show ?case using starts_with_append [of "c # cs" s] by simp
next
  case (Cons c t)
  from Cons.prems have "\<not> starts_with sep (c # t @ sep)"
    unfolding sep_free_def by (metis append_Cons drop0 length_greater_0_conv list.distinct(1))
  then have no: "\<not> starts_with sep (c # t @ sep @ s)"
    using starts_with_prefix [of sep "c # t" s] by simp
  from Cons.prems have "sep_free sep t"
    unfolding sep_free_def by (metis Suc_less_eq append_Cons drop_Suc_Cons length_Cons)
  with no Cons.IH [of "c # acc"] show ?case by simp
qed

lemma split_go_last:
  assumes "find_str t sep = None"
  shows "split_go sep acc t = [rev acc @ t]"
proof -
  have "find_str_from sep i t = None \<Longrightarrow> split_go sep acc t = [rev acc @ t]" for i
    by (induction t arbitrary: acc i) (auto split: if_splits)
  with assms show ?thesis by (simp add: find_str_def)
qed

text \<open>A token without the separator's characters is free of it.\<close>

lemma sep_free_char:
  assumes "c \<notin> set t" and "sep = c # p"
  shows "sep_free sep t"
  unfolding sep_free_def
proof (intro allI impI)
  fix i assume i: "i < length t"
  then have "drop i (t @ sep) = (t ! i) # drop (Suc i) (t @ sep)"
    by (metis Cons_nth_drop_Suc length_append nth_append trans_less_add1)
  moreover have "t ! i \<noteq> c" using assms(1) i by auto
  ultimately show "\<not> starts_with sep (drop i (t @ sep))"
    using assms(2) by (simp add: starts_with_head)
qed

lemma split_str_terminated:
  assumes "sep \<noteq> []" and "\<forall>t \<in> set ts. sep_free sep t"
  shows "split_str sep (concat (map (\<lambda>t. t @ sep) ts)) = ts @ [[]]"
proof -
  have "split_go sep [] (concat (map (\<lambda>t. t @ sep) ts)) = ts @ [[]]"
    using assms(2) by (induction ts) (auto simp: split_go_token [OF assms(1)])
  then show ?thesis by (simp add: split_str_def)
qed

end
