(* ===== verification/Errors.thy ===== *)
theory Errors
  imports Prelude
begin

text \<open>
  The exception classes of \<^verbatim>\<open>core/src/exception\<close>: error codes, message tables, the texts an
  exception is shown as (\<^verbatim>\<open>what\<close>) and sent over the wire as (\<^verbatim>\<open>buildExceptionString\<close>), and the
  client's decoder of that text, \<^verbatim>\<open>raiseExceptionIfNotEmptyMsg\<close> of
  \<^verbatim>\<open>core/src/utils/utilClient.cpp\<close>. The lemmas show that an error a server raises reaches the client
  with the same code and message, and which class it then has.
\<close>

section \<open>Error codes\<close>

abbreviation (input) ERRCODE_AUTHENTERR :: int where
  "ERRCODE_AUTHENTERR \<equiv> (- 1)"

abbreviation (input) ERRCODE_COMMUNICATION :: int where
  "ERRCODE_COMMUNICATION \<equiv> 1"

abbreviation (input) ERRCODE_DBERR :: int where
  "ERRCODE_DBERR \<equiv> 2"

abbreviation (input) ERRCODE_DBCONN :: int where
  "ERRCODE_DBCONN \<equiv> 3"

abbreviation (input) ERRCODE_SYSTEM :: int where
  "ERRCODE_SYSTEM \<equiv> 4"

abbreviation (input) ERRCODE_INVCOMP :: int where
  "ERRCODE_INVCOMP \<equiv> 5"

abbreviation (input) ERRCODE_INVMAPPER :: int where
  "ERRCODE_INVMAPPER \<equiv> 6"

abbreviation (input) ERRCODE_INVEXCEP :: int where
  "ERRCODE_INVEXCEP \<equiv> 7"

abbreviation (input) ERRCODE_INVDATA :: int where
  "ERRCODE_INVDATA \<equiv> 8"

abbreviation (input) ERRCODE_SSH :: int where
  "ERRCODE_SSH \<equiv> 9"

abbreviation (input) ERRCODE_INVALID_PARAM :: int where
  "ERRCODE_INVALID_PARAM \<equiv> 10"

abbreviation (input) ERRCODE_FILENOTFOUND :: int where
  "ERRCODE_FILENOTFOUND \<equiv> 11"

abbreviation (input) ERRCODE_CONFIGNOTFOUND :: int where
  "ERRCODE_CONFIGNOTFOUND \<equiv> 12"

abbreviation (input) ERRCODE_CLI_ERROR_NO_SESSION :: int where
  "ERRCODE_CLI_ERROR_NO_SESSION \<equiv> 13"

abbreviation (input) ERRCODE_CLI_ERROR_MISSING_PARAMETER :: int where
  "ERRCODE_CLI_ERROR_MISSING_PARAMETER \<equiv> 14"

abbreviation (input) ERRCODE_CLI_ERROR_COMMUNICATION :: int where
  "ERRCODE_CLI_ERROR_COMMUNICATION \<equiv> 15"

abbreviation (input) ERRCODE_CLI_ERROR_RUNTIME :: int where
  "ERRCODE_CLI_ERROR_RUNTIME \<equiv> 16"

abbreviation (input) ERRCODE_UNKNOWN_USER :: int where
  "ERRCODE_UNKNOWN_USER \<equiv> 20"

abbreviation (input) ERRCODE_UNKNOWN_USERID :: int where
  "ERRCODE_UNKNOWN_USERID \<equiv> 21"

abbreviation (input) ERRCODE_USERID_EXISTING :: int where
  "ERRCODE_USERID_EXISTING \<equiv> 22"

abbreviation (input) ERRCODE_USER_LOCKED :: int where
  "ERRCODE_USER_LOCKED \<equiv> 23"

abbreviation (input) ERRCODE_USER_ALREADY_LOCKED :: int where
  "ERRCODE_USER_ALREADY_LOCKED \<equiv> 24"

abbreviation (input) ERRCODE_NO_ADMIN :: int where
  "ERRCODE_NO_ADMIN \<equiv> 25"

abbreviation (input) ERRCODE_TEMPORARY_PASSWORD :: int where
  "ERRCODE_TEMPORARY_PASSWORD \<equiv> 26"

abbreviation (input) ERRCODE_INVALID_MAIL_ADRESS :: int where
  "ERRCODE_INVALID_MAIL_ADRESS \<equiv> 27"

abbreviation (input) ERRCODE_SESSIONKEY_NOT_FOUND :: int where
  "ERRCODE_SESSIONKEY_NOT_FOUND \<equiv> 28"

abbreviation (input) ERRCODE_SESSIONKEY_EXPIRED :: int where
  "ERRCODE_SESSIONKEY_EXPIRED \<equiv> 29"

abbreviation (input) ERRCODE_UNKNOWN_SESSION_ID :: int where
  "ERRCODE_UNKNOWN_SESSION_ID \<equiv> 30"

abbreviation (input) ERRCODE_COMMAND_RUNNING :: int where
  "ERRCODE_COMMAND_RUNNING \<equiv> 31"

abbreviation (input) ERRCODE_UNKNOWN_MACHINE :: int where
  "ERRCODE_UNKNOWN_MACHINE \<equiv> 32"

abbreviation (input) ERRCODE_MACHINE_EXISTING :: int where
  "ERRCODE_MACHINE_EXISTING \<equiv> 33"

abbreviation (input) ERRCODE_MACHINE_LOCKED :: int where
  "ERRCODE_MACHINE_LOCKED \<equiv> 34"

abbreviation (input) ERRCODE_MACHINE_ALREADY_LOCKED :: int where
  "ERRCODE_MACHINE_ALREADY_LOCKED \<equiv> 35"

abbreviation (input) ERRCODE_UNUSABLE_MACHINE :: int where
  "ERRCODE_UNUSABLE_MACHINE \<equiv> 36"

abbreviation (input) ERRCODE_LOCAL_ACCOUNT_EXIST :: int where
  "ERRCODE_LOCAL_ACCOUNT_EXIST \<equiv> 37"

abbreviation (input) ERRCODE_UNKNOWN_LOCAL_ACCOUNT :: int where
  "ERRCODE_UNKNOWN_LOCAL_ACCOUNT \<equiv> 38"

abbreviation (input) ERRCODE_SAVE_CONFIG_ERROR :: int where
  "ERRCODE_SAVE_CONFIG_ERROR \<equiv> 39"

abbreviation (input) ERRCODE_RESTORE_CONFIG_ERROR :: int where
  "ERRCODE_RESTORE_CONFIG_ERROR \<equiv> 40"

abbreviation (input) ERRCODE_UNKNOWN_OPTION :: int where
  "ERRCODE_UNKNOWN_OPTION \<equiv> 41"

abbreviation (input) ERRCODE_UNKNOWN_CLOSURE_MODE :: int where
  "ERRCODE_UNKNOWN_CLOSURE_MODE \<equiv> 42"

abbreviation (input) ERRCODE_INCORRECT_TIMEOUT :: int where
  "ERRCODE_INCORRECT_TIMEOUT \<equiv> 43"

abbreviation (input) ERRCODE_INCORRECT_TRANSFER_CMD :: int where
  "ERRCODE_INCORRECT_TRANSFER_CMD \<equiv> 44"

abbreviation (input) ERRCODE_ROOT_USER_ONLY :: int where
  "ERRCODE_ROOT_USER_ONLY \<equiv> 45"

abbreviation (input) ERRCODE_LOGIN_ALREADY_USED :: int where
  "ERRCODE_LOGIN_ALREADY_USED \<equiv> 46"

abbreviation (input) ERRCODE_UNKNOWN_AUTH_SYSTEM_TYPE :: int where
  "ERRCODE_UNKNOWN_AUTH_SYSTEM_TYPE \<equiv> 47"

abbreviation (input) ERRCODE_UNKNOWN_AUTH_SYSTEM :: int where
  "ERRCODE_UNKNOWN_AUTH_SYSTEM \<equiv> 48"

abbreviation (input) ERRCODE_AUTH_SYSTEM_ALREADY_LOCKED :: int where
  "ERRCODE_AUTH_SYSTEM_ALREADY_LOCKED \<equiv> 49"

abbreviation (input) ERRCODE_AUTH_SYSTEM_ALREADY_EXIST :: int where
  "ERRCODE_AUTH_SYSTEM_ALREADY_EXIST \<equiv> 50"

abbreviation (input) ERRCODE_AUTH_ACCOUNT_EXIST :: int where
  "ERRCODE_AUTH_ACCOUNT_EXIST \<equiv> 51"

abbreviation (input) ERRCODE_UNKNOWN_AUTH_ACCOUNT :: int where
  "ERRCODE_UNKNOWN_AUTH_ACCOUNT \<equiv> 52"

abbreviation (input) ERRCODE_UNKNOWN_ENCRYPTION_METHOD :: int where
  "ERRCODE_UNKNOWN_ENCRYPTION_METHOD \<equiv> 53"

abbreviation (input) ERRCODE_READONLY_ACCOUNT :: int where
  "ERRCODE_READONLY_ACCOUNT \<equiv> 54"

abbreviation (input) ERRCODE_UNKNOWN_BATCH_SCHEDULER :: int where
  "ERRCODE_UNKNOWN_BATCH_SCHEDULER \<equiv> 101"

abbreviation (input) ERRCODE_BATCH_SCHEDULER_ERROR :: int where
  "ERRCODE_BATCH_SCHEDULER_ERROR \<equiv> 102"

abbreviation (input) ERRCODE_UNKNOWN_JOBID :: int where
  "ERRCODE_UNKNOWN_JOBID \<equiv> 103"

abbreviation (input) ERRCODE_PERMISSION_DENIED :: int where
  "ERRCODE_PERMISSION_DENIED \<equiv> 104"

abbreviation (input) ERRCODE_ALREADY_TERMINATED :: int where
  "ERRCODE_ALREADY_TERMINATED \<equiv> 105"

abbreviation (input) ERRCODE_ALREADY_CANCELED :: int where
  "ERRCODE_ALREADY_CANCELED \<equiv> 106"

abbreviation (input) ERRCODE_JOB_IS_NOT_TERMINATED :: int where
  "ERRCODE_JOB_IS_NOT_TERMINATED \<equiv> 107"

abbreviation (input) ERRCODE_ALREADY_DOWNLOADED :: int where
  "ERRCODE_ALREADY_DOWNLOADED \<equiv> 108"

abbreviation (input) ERRCODE_UNKNOWN_WORKID :: int where
  "ERRCODE_UNKNOWN_WORKID \<equiv> 109"

abbreviation (input) ERRCODE_INVALID_PATH :: int where
  "ERRCODE_INVALID_PATH \<equiv> 201"

abbreviation (input) ERRCODE_RUNTIME_ERROR :: int where
  "ERRCODE_RUNTIME_ERROR \<equiv> 202"

abbreviation (input) ERRCODE_UNKNOWN_FILETRANSFERID :: int where
  "ERRCODE_UNKNOWN_FILETRANSFERID \<equiv> 203"

definition user_messages :: "(int \<times> string) list" where
  "user_messages =
    [(ERRCODE_INVALID_PARAM, ''Error invalid parameters''),
     (ERRCODE_FILENOTFOUND, ''File not found''),
     (ERRCODE_CONFIGNOTFOUND, ''Undefined configuration parameter''),
     (ERRCODE_CLI_ERROR_NO_SESSION, ''Session key not found''),
     (ERRCODE_CLI_ERROR_MISSING_PARAMETER, ''Missing parameters''),
     (ERRCODE_CLI_ERROR_COMMUNICATION, ''Vishnu initialization failed''),
     (ERRCODE_CLI_ERROR_RUNTIME, ''Undefined error'')]"

definition system_messages :: "(int \<times> string) list" where
  "system_messages =
    [(ERRCODE_COMMUNICATION, ''Communication failed''),
     (ERRCODE_DBERR, ''Database query failed''),
     (ERRCODE_DBCONN, ''Database connection failed''),
     (ERRCODE_SYSTEM, ''VISHNU system failed''),
     (ERRCODE_INVCOMP, ''Unknown component''),
     (ERRCODE_INVMAPPER, ''VISHNU Mapper failed''),
     (ERRCODE_INVDATA, ''Data error''),
     (ERRCODE_SSH, ''SSH error''),
     (ERRCODE_AUTHENTERR, ''Authentication error'')]"

definition ums_messages :: "(int \<times> string) list" where
  "ums_messages =
    [(ERRCODE_UNKNOWN_USER, ''The user is unknown or the password is wrong''),
     (ERRCODE_UNKNOWN_USERID, ''The userid is unknown''),
     (ERRCODE_USERID_EXISTING, ''The userid already exists''),
     (ERRCODE_USER_LOCKED, ''The user is locked''),
     (ERRCODE_USER_ALREADY_LOCKED, ''The user is already locked''),
     (ERRCODE_NO_ADMIN, ''The user is not an administrator''),
     (ERRCODE_TEMPORARY_PASSWORD, ''The password is a temporary password''),
     (ERRCODE_INVALID_MAIL_ADRESS, ''The mail adress is invalid''),
     (ERRCODE_SESSIONKEY_NOT_FOUND, ''The session key is unrecognized''),
     (ERRCODE_SESSIONKEY_EXPIRED, ''The session key is expired.''),
     (ERRCODE_UNKNOWN_SESSION_ID, ''The session id is unknown''),
     (ERRCODE_COMMAND_RUNNING, ''Commands are running''),
     (ERRCODE_UNKNOWN_MACHINE, ''The machine id is unknown''),
     (ERRCODE_MACHINE_EXISTING, ''The machine id already exists''),
     (ERRCODE_MACHINE_LOCKED, ''The machine is locked''),
     (ERRCODE_MACHINE_ALREADY_LOCKED, ''The machine is already locked''),
     (ERRCODE_UNUSABLE_MACHINE, ''The machine does not exist or it is locked''),
     (ERRCODE_LOCAL_ACCOUNT_EXIST, ''The local account already exists''),
     (ERRCODE_UNKNOWN_LOCAL_ACCOUNT, ''The local account is unknown''),
     (ERRCODE_SAVE_CONFIG_ERROR, ''A problem occurs during the configuration saving ''),
     (ERRCODE_RESTORE_CONFIG_ERROR, ''A problem occurs during the configuration restoring''),
     (ERRCODE_UNKNOWN_OPTION, ''The name of the user option is unknown''),
     (ERRCODE_UNKNOWN_CLOSURE_MODE, ''The closure policy is unknown''),
     (ERRCODE_INCORRECT_TIMEOUT, ''The value of the timeout is incorrect''),
     (ERRCODE_INCORRECT_TRANSFER_CMD, ''The value of the transfer command is incorrect''),
     (ERRCODE_ROOT_USER_ONLY, ''It can be done by the root user only''),
     (ERRCODE_LOGIN_ALREADY_USED, ''The account login is already used by another VISHNU user''),
     (ERRCODE_UNKNOWN_AUTH_SYSTEM_TYPE, ''The type of the user-authentication system is unknown''),
     (ERRCODE_UNKNOWN_AUTH_SYSTEM, ''The user-authentication system is unknown or locked''),
     (ERRCODE_AUTH_SYSTEM_ALREADY_LOCKED, ''The user-authentication system is already locked''),
     (ERRCODE_AUTH_SYSTEM_ALREADY_EXIST, ''The identifier (name or generated identifier) of the user-authentication system already exists''),
     (ERRCODE_AUTH_ACCOUNT_EXIST, ''The user-authentication account already exists''),
     (ERRCODE_UNKNOWN_AUTH_ACCOUNT, ''The user-authentication account is unknown''),
     (ERRCODE_UNKNOWN_ENCRYPTION_METHOD, ''The encryption method is unknown''),
     (ERRCODE_READONLY_ACCOUNT, ''You can modify information. This account is read-only'')]"

definition tms_messages :: "(int \<times> string) list" where
  "tms_messages =
    [(ERRCODE_UNKNOWN_BATCH_SCHEDULER, ''Unknown batch''),
     (ERRCODE_BATCH_SCHEDULER_ERROR, ''Batch error''),
     (ERRCODE_UNKNOWN_JOBID, ''The job id is unknown''),
     (ERRCODE_PERMISSION_DENIED, ''Permission denied''),
     (ERRCODE_ALREADY_TERMINATED, ''The job is already terminated''),
     (ERRCODE_ALREADY_CANCELED, ''The job is already canceled''),
     (ERRCODE_JOB_IS_NOT_TERMINATED, ''The job is not completed''),
     (ERRCODE_ALREADY_DOWNLOADED, ''The job is already downloaded''),
     (ERRCODE_UNKNOWN_WORKID, ''The work id is unknown'')]"

definition fms_messages :: "(int \<times> string) list" where
  "fms_messages =
    [(ERRCODE_INVALID_PATH, ''Invalid path ''),
     (ERRCODE_RUNTIME_ERROR, ''Remote command execution error''),
     (ERRCODE_UNKNOWN_FILETRANSFERID, ''The file transfer  id is unknown'')]"

section \<open>Reading an exception\<close>

definition map_get :: "(int \<times> string) list \<Rightarrow> int \<Rightarrow> string \<Rightarrow> string" where
  "map_get mp k dflt = (case map_of mp k of None \<Rightarrow> dflt | Some m \<Rightarrow> m)"

fun getMsgI :: "exn \<Rightarrow> int" where
  "getMsgI (UMSVishnuException c m) = c"
| "getMsgI (TMSVishnuException c m) = c"
| "getMsgI (FMSVishnuException c m) = c"
| "getMsgI (UserException c m) = c"
| "getMsgI (SystemException c m) = c"
| "getMsgI _ = -1"

fun getMsgComp :: "exn \<Rightarrow> string" where
  "getMsgComp (UMSVishnuException c m) = m"
| "getMsgComp (TMSVishnuException c m) = m"
| "getMsgComp (FMSVishnuException c m) = m"
| "getMsgComp (UserException c m) = m"
| "getMsgComp (SystemException c m) = m"
| "getMsgComp _ = []"

text \<open>
  \<^verbatim>\<open>std::map::insert\<close> keeps the first entry of a key, and the base class's constructor runs
  first: the tables of a subclass come after those of \<^verbatim>\<open>UserException\<close>.
\<close>

definition user_getMsg :: "(int \<times> string) list \<Rightarrow> int \<Rightarrow> string" where
  "user_getMsg own c =
     map_get (user_messages @ own) c
       (''Unknown error code for the User: '' @ show_int c @ ''.'' @ [CHR 10])"

definition system_getMsg :: "int \<Rightarrow> string" where
  "system_getMsg c = map_get system_messages c (''Internal Error: Unknown error code.'' @ [CHR 10])"

fun getMsg :: "exn \<Rightarrow> string" where
  "getMsg (UMSVishnuException c m) = user_getMsg ums_messages c"
| "getMsg (TMSVishnuException c m) = user_getMsg tms_messages c"
| "getMsg (FMSVishnuException c m) = user_getMsg fms_messages c"
| "getMsg (UserException c m) = user_getMsg [] c"
| "getMsg (SystemException c m) = system_getMsg c"
| "getMsg _ = []"

definition what :: "exn \<Rightarrow> string" where
  "what e = ''FAIL '' @ show_int (getMsgI e) @ '': '' @ getMsg e @ '' ['' @ getMsgComp e @ '']''"

fun appendMsgComp :: "exn \<Rightarrow> string \<Rightarrow> exn" where
  "appendMsgComp (UMSVishnuException c m) s = UMSVishnuException c (m @ s)"
| "appendMsgComp (TMSVishnuException c m) s = TMSVishnuException c (m @ s)"
| "appendMsgComp (FMSVishnuException c m) s = FMSVishnuException c (m @ s)"
| "appendMsgComp (UserException c m) s = UserException c (m @ s)"
| "appendMsgComp (SystemException c m) s = SystemException c (m @ s)"
| "appendMsgComp e s = e"

definition buildExceptionString :: "exn \<Rightarrow> string" where
  "buildExceptionString e = show_int (getMsgI e) @ ''#'' @ getMsgComp e"

section \<open>The client's decoder\<close>

text \<open>
  \<^verbatim>\<open>isCode >> code\<close> skips white space and reads the longest integer prefix; when there is none,
  or it does not fit, \<^verbatim>\<open>code\<close> stays uninitialised (C++98).
\<close>

definition stream_int :: "string \<Rightarrow> int result" where
  "stream_int s =
     (case parse_int (sign_prefix (dropWhile is_space_char s)) of
        None \<Rightarrow> Inl UndefinedBehaviour
      | Some i \<Rightarrow> if in_width 32 i then Inr i else Inl UndefinedBehaviour)"

definition exception_of_code :: "int \<Rightarrow> string \<Rightarrow> exn" where
  "exception_of_code code message =
     (if code < 10 then SystemException code message
      else if code < 100 then UMSVishnuException code message
      else if 100 \<le> code \<and> code < 200 then TMSVishnuException code message
      else if 200 \<le> code \<and> code < 300 then FMSVishnuException code message
      else SystemException ERRCODE_INVEXCEP
             (''Invalid code: '' @ show_int code @ '' with message: '' @ message))"

definition raiseExceptionIfNotEmptyMsg :: "string \<Rightarrow> unit result" where
  "raiseExceptionIfNotEmptyMsg msg =
     (if msg = [] then Inr ()
      else (case find_str msg ''#'' of
              Some pos \<Rightarrow>
                res_bind (substr msg 0 (Some pos)) (\<lambda>codeInString.
                  if codeInString \<noteq> [] then
                    res_bind (stream_int codeInString) (\<lambda>code.
                      res_bind (substr msg (pos + 1) None) (\<lambda>message.
                        Inl (exception_of_code code message)))
                  else Inr ())
            | None \<Rightarrow> Inl (SystemException ERRCODE_INVEXCEP msg)))"

section \<open>Transport of an error\<close>

lemma takeWhile_digits: "list_all is_digit s \<Longrightarrow> takeWhile is_digit s = s"
  by (induction s) auto

lemma show_int_head_not_space: "dropWhile is_space_char (show_int i) = show_int i"
proof (cases "i < 0")
  case True
  then show ?thesis by (simp add: show_int_def is_space_char_def)
next
  case False
  obtain c cs where c: "show_nat (nat i) = c # cs" by (cases "show_nat (nat i)") auto
  then have "is_digit c" using show_nat_digits [of "nat i"] by simp
  then have "\<not> is_space_char c" by (auto simp: is_digit_def is_space_char_def)
  with False c show ?thesis by (simp add: show_int_def)
qed

lemma sign_prefix_show_int [simp]: "sign_prefix (show_int i) = show_int i"
proof (cases "i < 0")
  case True
  then show ?thesis by (simp add: show_int_def takeWhile_digits)
next
  case False
  obtain c cs where c: "show_nat (nat i) = c # cs" by (cases "show_nat (nat i)") auto
  have d: "list_all is_digit (c # cs)" using show_nat_digits [of "nat i"] c by simp
  then have "c \<noteq> CHR ''-'' \<and> c \<noteq> CHR ''+''" using is_digit_not_sign by simp
  with False c d show ?thesis by (simp add: show_int_def takeWhile_digits)
qed

lemma stream_int_show_int: "in_width 32 i \<Longrightarrow> stream_int (show_int i) = Inr i"
  by (simp add: stream_int_def show_int_head_not_space)

lemma hash_notin_show_int: "CHR ''#'' \<notin> set (show_int i)"
  using show_nat_no_char [of "CHR ''#''"] by (auto simp: show_int_def is_digit_def)

lemma raise_built:
  assumes "in_width 32 (getMsgI e)"
  shows "raiseExceptionIfNotEmptyMsg (buildExceptionString e) =
         Inl (exception_of_code (getMsgI e) (getMsgComp e))"
proof -
  let ?c = "show_int (getMsgI e)"
  have pos: "find_str (?c @ CHR ''#'' # getMsgComp e) ''#'' = Some (length ?c)"
    using find_str_hit_char [of "CHR ''#''" ?c "[]" 0 "getMsgComp e"] hash_notin_show_int
    by (simp add: find_str_def)
  then show ?thesis
    using assms by (simp add: raiseExceptionIfNotEmptyMsg_def buildExceptionString_def
        stream_int_show_int)
qed

section \<open>Properties\<close>

text \<open>
  C4. Transport of an error: the text a server sends for an exception makes the client throw an
  exception with the same code and the same complementary message for every code below 300; from 300
  on it throws a \<^verbatim>\<open>SystemException\<close> that quotes the code. The class depends on the code only: an exception of
  class UMS, TMS, FMS or System with a code of its own range comes back as it was, a
  \<^verbatim>\<open>UserException\<close> comes back as the class of its code.
\<close>

theorem error_transport:
  assumes "in_width 32 (getMsgI e)"
  shows "\<exists>e'. raiseExceptionIfNotEmptyMsg (buildExceptionString e) = Inl e' \<and>
    (getMsgI e < 300 \<longrightarrow> getMsgI e' = getMsgI e \<and> getMsgComp e' = getMsgComp e) \<and>
    (\<forall>c m. e = UMSVishnuException c m \<and> 10 \<le> c \<and> c < 100 \<longrightarrow> e' = e) \<and>
    (\<forall>c m. e = TMSVishnuException c m \<and> 100 \<le> c \<and> c < 200 \<longrightarrow> e' = e) \<and>
    (\<forall>c m. e = FMSVishnuException c m \<and> 200 \<le> c \<and> c < 300 \<longrightarrow> e' = e) \<and>
    (\<forall>c m. e = SystemException c m \<and> c < 10 \<longrightarrow> e' = e) \<and>
    (\<forall>c m. e = UserException c m \<and> 10 \<le> c \<and> c < 100 \<longrightarrow> e' = UMSVishnuException c m)"
  using raise_built [OF assms] by (auto simp: exception_of_code_def)

theorem error_transport_witness:
  "raiseExceptionIfNotEmptyMsg (buildExceptionString (UMSVishnuException 23 ''root'')) =
     Inl (UMSVishnuException 23 ''root'')"
  using error_transport [of "UMSVishnuException 23 ''root''"] by (auto simp: in_width_def)

end
