(* ===== verification/Util_Vishnu.thy ===== *)
theory Util_Vishnu
  imports Errors
begin

text \<open>
  The utility functions of \<^verbatim>\<open>core/src/utils/utilVishnu.cpp\<close>: reading numbers, the validity checks the
  API functions run on their parameters, version strings, the environment file \<^verbatim>\<open>.vishnurc\<close> and the time
  stamps of generated names. The clock, \<^verbatim>\<open>crypt\<close> and the file system are parameters.
\<close>

section \<open>Numbers\<close>

definition convertToInt :: "string \<Rightarrow> int" where
  "convertToInt sval = (case lexical_cast 32 sval of Inl _ \<Rightarrow> -1 | Inr i \<Rightarrow> i)"

definition convertToLong :: "string \<Rightarrow> int" where
  "convertToLong sval = (case lexical_cast 64 sval of Inl _ \<Rightarrow> -1 | Inr i \<Rightarrow> i)"

definition isNumericalValue :: "string \<Rightarrow> bool result" where
  "isNumericalValue v =
     (if v = [] then
        Inl (UserException ERRCODE_INVALID_PARAM ''Invalid numerical value: The given value is empty'')
      else if find_first_not_of v ''0123456789'' \<noteq> None then
        Inl (UserException ERRCODE_INVALID_PARAM (''Invalid numerical value: '' @ v))
      else Inr True)"

section \<open>Checks of parameters\<close>

definition checkMetricHistoryValue :: "int \<Rightarrow> unit result" where
  "checkMetricHistoryValue metric =
     (if metric < -1 \<or> metric > 6
      then Inl (UserException ERRCODE_INVALID_PARAM ''The metric value is incorrect'')
      else Inr ())"

definition checkRemotePath :: "string \<Rightarrow> unit result" where
  "checkRemotePath path =
     (if find_str path '':'' = None
      then Inl (FMSVishnuException ERRCODE_INVALID_PATH
             ''The path must be a remote file and in the form machineId:path'')
      else Inr ())"

definition checkEmptyString :: "string \<Rightarrow> string \<Rightarrow> unit result" where
  "checkEmptyString str compMsg =
     (if str = [] then Inl (UserException ERRCODE_INVALID_PARAM (compMsg @ '' must not be empty''))
      else Inr ())"

definition validatePath :: "string \<Rightarrow> unit result" where
  "validatePath path =
     (if find_first_of path (''; &| $(),'' @ [CHR 9] @ ''#'') \<noteq> None
      then Inl (UserException ERRCODE_INVALID_PARAM
        ''Invalid path, the following characters are not allowed: <space><tab>()&,|;$#'')
      else Inr ())"

text \<open>\<^verbatim>\<open>name.replace(name.find("localhost"), 9, IP)\<close> throws when there is nothing to replace.\<close>

definition setIP :: "string \<Rightarrow> string \<Rightarrow> string result" where
  "setIP name ip =
     (case find_str name ''localhost'' of
        None \<Rightarrow> Inl OutOfRange
      | Some p \<Rightarrow> Inr (take p name @ ip @ drop (p + length ''localhost'') name))"

section \<open>Component states\<close>

abbreviation (input) STATUS_UNDEFINED :: int where "STATUS_UNDEFINED \<equiv> - 1"
abbreviation (input) STATUS_LOCKED :: int where "STATUS_LOCKED \<equiv> 0"
abbreviation (input) STATUS_ACTIVE :: int where "STATUS_ACTIVE \<equiv> 1"
abbreviation (input) STATUS_DELETED :: int where "STATUS_DELETED \<equiv> 2"

definition statusToString :: "int \<Rightarrow> string" where
  "statusToString status =
     (if status = STATUS_ACTIVE then ''ACTIVE''
      else if status = STATUS_LOCKED then ''LOCKED''
      else if status = STATUS_DELETED then ''DELETED''
      else ''UNDEFINED'')"

section \<open>Versions\<close>

record version =
  v_major :: int
  v_minor :: int
  v_patch :: int
  v_string :: string

text \<open>
  The split at the first two dots and at the first \<^verbatim>\<open>-\<close> or \<^verbatim>\<open>.\<close> after them, as the code does it;
  when that last separator is missing \<^verbatim>\<open>found + 1\<close> wraps to 0 and the patch is the whole rest.
\<close>

definition version_parts :: "string \<Rightarrow> string \<times> string \<times> string" where
  "version_parts version =
     (case find_first_of version ''.'' of
        None \<Rightarrow> ([], [], [])
      | Some f1 \<Rightarrow>
          let major = take f1 version; rest = drop (f1 + 1) version in
          (case find_first_of rest ''.'' of
             None \<Rightarrow> (major, [], [])
           | Some f2 \<Rightarrow>
               let minor = take f2 rest; rest2 = drop (f2 + 1) rest in
               (case find_first_of rest2 ''-.'' of
                  Some f3 \<Rightarrow> (major, minor, take f3 rest2)
                | None \<Rightarrow> (major, minor, rest2))))"

definition parseVersion :: "string \<Rightarrow> version option" where
  "parseVersion version =
     (case version_parts version of (major, minor, patch) \<Rightarrow>
        if major \<noteq> [] \<and> minor \<noteq> [] \<and> patch \<noteq> [] then
          (if convertToInt major > 0 \<and> convertToInt minor \<ge> 0 \<and> convertToInt patch \<ge> 0 then
             Some \<lparr>v_major = convertToInt major, v_minor = convertToInt minor,
                   v_patch = convertToInt patch, v_string = version\<rparr>
           else None)
        else None)"

section \<open>Files and the environment\<close>

text \<open>What \<^verbatim>\<open>boost::filesystem\<close> finds at a path.\<close>

datatype fs_entry = NoFile | NotRegular | Regular string

definition get_file_content :: "string \<Rightarrow> fs_entry \<Rightarrow> bool \<Rightarrow> string result" where
  "get_file_content filePath f rejectEmptyFile =
     (case f of
        Regular content \<Rightarrow>
          if content = [] \<and> rejectEmptyFile
          then Inl (UserException ERRCODE_INVALID_PARAM (''can not read the file: '' @ filePath))
          else Inr content
      | _ \<Rightarrow> Inl (UserException ERRCODE_INVALID_PARAM (''can not read the file: '' @ filePath)))"

definition is_alpha :: "char \<Rightarrow> bool" where
  "is_alpha c \<longleftrightarrow> (65 \<le> (of_char c :: nat) \<and> (of_char c :: nat) \<le> 90) \<or>
                 (97 \<le> (of_char c :: nat) \<and> (of_char c :: nat) \<le> 122)"

definition set_env :: "string \<Rightarrow> string \<Rightarrow> bool \<Rightarrow> (string \<rightharpoonup> string) \<Rightarrow> (string \<rightharpoonup> string)" where
  "set_env name val overwrite env =
     (if name = [] \<or> CHR ''='' \<in> set name then env
      else if overwrite \<or> env name = None then env(name \<mapsto> val) else env)"

text \<open>
  One line of the file: \<^verbatim>\<open>VAR=value\<close>. Without an equals sign \<^verbatim>\<open>pos\<close> is \<^verbatim>\<open>npos\<close>, so the variable
  and its value are both the whole line.
\<close>

definition source_line :: "(string \<rightharpoonup> string) \<Rightarrow> string \<Rightarrow> (string \<rightharpoonup> string)" where
  "source_line env line =
     (case line of
        [] \<Rightarrow> env
      | c # _ \<Rightarrow>
          if \<not> is_alpha c then env
          else (case find_str line ''='' of
                  Some pos \<Rightarrow> set_env (take pos line) (drop (pos + 1) line) False env
                | None \<Rightarrow> set_env line line False env))"

definition sourceRcFile :: "string \<Rightarrow> fs_entry \<Rightarrow> (string \<rightharpoonup> string) \<Rightarrow> (string \<rightharpoonup> string) result" where
  "sourceRcFile rcFile f env =
     (if f = NoFile then Inr env
      else res_bind (get_file_content rcFile f False) (\<lambda>content.
             Inr (foldl source_line env (split_if (\<lambda>c. c = CHR 10) content))))"

section \<open>Passwords and generated names\<close>

text \<open>\<^verbatim>\<open>crypt(3)\<close> is a parameter; it may fail, and a null pointer given to \<^verbatim>\<open>std::string\<close> is undefined.\<close>

type_synonym crypt_fn = "string \<Rightarrow> string \<Rightarrow> string option"

definition cryptPassword :: "crypt_fn \<Rightarrow> string \<Rightarrow> string \<Rightarrow> bool \<Rightarrow> string result" where
  "cryptPassword crypt salt password encrypted =
     (if \<not> encrypted then Inr password
      else let saltTmp = ''$6$'' @ salt @ ''$'' in
           (case crypt password saltTmp of
              None \<Rightarrow> Inl UndefinedBehaviour
            | Some e \<Rightarrow> substr e (length saltTmp) None))"

record tm =
  tm_year :: int
  tm_mon :: int
  tm_mday :: int
  tm_hour :: int
  tm_min :: int
  tm_sec :: int

definition pad_below :: "int \<Rightarrow> int \<Rightarrow> string" where
  "pad_below bound x = (if x < bound then ''0'' else [])"

definition generatedUniquePatternFromCurTime :: "string \<Rightarrow> tm \<Rightarrow> string" where
  "generatedUniquePatternFromCurTime prefx t =
     prefx @ ''_'' @ show_int (1900 + tm_year t)
       @ pad_below 9 (tm_mon t) @ show_int (tm_mon t + 1)
       @ pad_below 10 (tm_mday t) @ show_int (tm_mday t)
       @ pad_below 10 (tm_hour t) @ show_int (tm_hour t)
       @ pad_below 10 (tm_min t) @ show_int (tm_min t)
       @ pad_below 10 (tm_sec t) @ show_int (tm_sec t)"

section \<open>Lemmas\<close>

lemma convertToInt_show_int [simp]: "in_width 32 i \<Longrightarrow> convertToInt (show_int i) = i"
  by (simp add: convertToInt_def)

lemma convertToInt_range: "in_width 32 (convertToInt s)"
  by (auto simp: convertToInt_def lexical_cast_def in_width_def split: option.splits)

lemma convertToInt_Nil [simp]: "convertToInt [] = -1"
  by (simp add: convertToInt_def lexical_cast_def)

lemma is_digit_cases:
  assumes "is_digit c"
  shows "c \<in> set ''0123456789''"
proof -
  let ?n = "of_char c :: nat"
  have c: "c = char_of ?n" by simp
  have "?n = 48 \<or> ?n = 49 \<or> ?n = 50 \<or> ?n = 51 \<or> ?n = 52 \<or>
        ?n = 53 \<or> ?n = 54 \<or> ?n = 55 \<or> ?n = 56 \<or> ?n = 57"
    using assms unfolding is_digit_def by arith
  then have "char_of ?n \<in> set ''0123456789''"
    by (elim disjE) (simp_all only: , simp_all add: char_of_def bit_numeral_rec bit_0)
  with c show ?thesis by simp
qed

lemma digits_set: "set ''0123456789'' = Collect is_digit"
proof
  show "set ''0123456789'' \<subseteq> Collect is_digit" by (simp add: is_digit_def)
  show "Collect is_digit \<subseteq> set ''0123456789''" using is_digit_cases by blast
qed

lemma isNumericalValue_digits:
  "isNumericalValue v = Inr b \<longleftrightarrow> b \<and> v \<noteq> [] \<and> list_all is_digit v"
proof -
  have "find_first_not_of v ''0123456789'' = None \<longleftrightarrow> list_all is_digit v"
    unfolding find_first_not_of_def digits_set by (simp add: find_if_from_None list_all_iff)
  then show ?thesis unfolding isNumericalValue_def by (simp split: if_split)
qed

text \<open>The printed form of a version with decimal components parses back to it.\<close>

definition version_text :: "nat \<Rightarrow> nat \<Rightarrow> nat \<Rightarrow> string \<Rightarrow> string" where
  "version_text a b c suffix = show_nat a @ ''.'' @ show_nat b @ ''.'' @ show_nat c @ suffix"

lemma dot_notin_show_nat: "CHR ''.'' \<notin> set (show_nat n)" "CHR ''-'' \<notin> set (show_nat n)"
  by (rule show_nat_no_char, simp add: is_digit_def)+

lemma version_parts_text:
  assumes "suffix = [] \<or> hd suffix \<in> set ''-.''"
  shows "version_parts (version_text a b c suffix) = (show_nat a, show_nat b, show_nat c)"
proof -
  have f1: "find_first_of (show_nat n @ CHR ''.'' # r) ''.'' = Some (length (show_nat n))" for n r
    by (rule find_first_of_hit) (auto simp: dot_notin_show_nat)
  show ?thesis
  proof (cases suffix)
    case Nil
    have "find_first_of (show_nat c) ''-.'' = None"
      by (rule find_first_of_miss) (auto simp: dot_notin_show_nat)
    with Nil show ?thesis by (simp add: version_parts_def version_text_def f1)
  next
    case (Cons d ds)
    with assms have d: "d \<in> set ''-.''" by simp
    have "find_first_of (show_nat c @ d # ds) ''-.'' = Some (length (show_nat c))"
      using d by (intro find_first_of_hit) (auto simp: dot_notin_show_nat)
    with Cons show ?thesis by (simp add: version_parts_def version_text_def f1)
  qed
qed

section \<open>Properties\<close>

text \<open>
  A version of three decimal components, followed by nothing or by a suffix that starts with a dash
  or a dot, parses to those components, as long as they fit an \<^verbatim>\<open>int\<close> and the first is positive.
\<close>

theorem parseVersion_text:
  assumes "0 < a" and "in_width 32 (int a)" "in_width 32 (int b)" "in_width 32 (int c)"
    and "suffix = [] \<or> hd suffix \<in> set ''-.''"
  shows "parseVersion (version_text a b c suffix) =
         Some \<lparr>v_major = int a, v_minor = int b, v_patch = int c, v_string = version_text a b c suffix\<rparr>"
proof -
  have "convertToInt (show_nat n) = int n" if "in_width 32 (int n)" for n
    using convertToInt_show_int [OF that] by (simp add: show_int_nat)
  then show ?thesis
    using assms by (simp add: parseVersion_def version_parts_text)
qed

theorem parseVersion_text_witness:
  "parseVersion ''4.1.0-SNAPSHOT'' =
     Some \<lparr>v_major = 4, v_minor = 1, v_patch = 0, v_string = ''4.1.0-SNAPSHOT''\<rparr>"
proof -
  have "version_text 4 1 0 ''-SNAPSHOT'' = ''4.1.0-SNAPSHOT''"
    by (simp add: version_text_def show_nat_small digit_char_def char_of_def bit_numeral_rec bit_0)
  then show ?thesis using parseVersion_text [of 4 1 0 "''-SNAPSHOT''"] by (simp add: in_width_def)
qed

end
