(* ===== verification/Util_Tms.thy ===== *)
theory Util_Tms
  imports Util_Vishnu "HOL-Library.Signed_Division"
begin

text \<open>
  The job utilities of \<^verbatim>\<open>core/src/utils/tmsUtils.cpp\<close> (batch types, job states, wall times, node
  requests, script parameters), the file-transfer command lines of \<^verbatim>\<open>fmsUtils.cpp\<close> and the message
  parsing of \<^verbatim>\<open>utilPosix.cpp\<close>. The lemmas give the exact value of a wall time after a round trip
  through its printed form.
\<close>

section \<open>Batch types and job states\<close>

datatype BatchType =
  TORQUE | LOADLEVELER | SLURM | LSF | SGE | PBSPRO | DELTACLOUD | POSIX | OPENNEBULA | UNDEFINED

definition batch_name_to_type :: "(string \<times> BatchType) list" where
  "batch_name_to_type =
     [(''DELTACLOUD'', DELTACLOUD), (''LOADLEVELER'', LOADLEVELER), (''LSF'', LSF),
      (''OPENNEBULA'', OPENNEBULA), (''POSIX'', POSIX), (''SGE'', SGE), (''SLURM'', SLURM),
      (''TORQUE'', TORQUE)]"

definition convertToBatchType :: "string \<Rightarrow> BatchType" where
  "convertToBatchType batchName =
     (case map_of batch_name_to_type batchName of Some b \<Rightarrow> b | None \<Rightarrow> UNDEFINED)"

definition convertBatchTypeToString :: "BatchType \<Rightarrow> string" where
  "convertBatchTypeToString b =
     (case find (\<lambda>p. snd p = b) batch_name_to_type of
        Some p \<Rightarrow> fst p
      | None \<Rightarrow> ''UNKNOWN_BATCH_TYPE'')"

abbreviation (input) STATE_UNDEFINED :: int where "STATE_UNDEFINED \<equiv> 0"
abbreviation (input) STATE_SUBMITTED :: int where "STATE_SUBMITTED \<equiv> 1"
abbreviation (input) STATE_QUEUED :: int where "STATE_QUEUED \<equiv> 2"
abbreviation (input) STATE_WAITING :: int where "STATE_WAITING \<equiv> 3"
abbreviation (input) STATE_RUNNING :: int where "STATE_RUNNING \<equiv> 4"
abbreviation (input) STATE_COMPLETED :: int where "STATE_COMPLETED \<equiv> 5"
abbreviation (input) STATE_CANCELLED :: int where "STATE_CANCELLED \<equiv> 6"
abbreviation (input) STATE_DOWNLOADED :: int where "STATE_DOWNLOADED \<equiv> 7"
abbreviation (input) STATE_FAILED :: int where "STATE_FAILED \<equiv> 8"

definition job_state_to_name :: "(int \<times> string) list" where
  "job_state_to_name =
     [(STATE_UNDEFINED, ''UNDEFINED''), (STATE_SUBMITTED, ''SUBMITTED''), (STATE_QUEUED, ''QUEUED''),
      (STATE_WAITING, ''WAITING''), (STATE_RUNNING, ''RUNNING''), (STATE_COMPLETED, ''COMPLETED''),
      (STATE_CANCELLED, ''CANCELLED''), (STATE_DOWNLOADED, ''DOWNLOADED''), (STATE_FAILED, ''FAILED'')]"

definition convertJobStateToString :: "int \<Rightarrow> string" where
  "convertJobStateToString state =
     (case map_of job_state_to_name state of Some n \<Rightarrow> n | None \<Rightarrow> ''INVALID_JOB_STATE'')"

definition supported_batch_versions :: "(BatchType \<times> string list) list" where
  "supported_batch_versions =
     [(TORQUE, [''2.3'']), (PBSPRO, [''10.4'']), (LSF, [''7.0'']), (SGE, [''11'']),
      (DELTACLOUD, [''ANY'']), (OPENNEBULA, [''ANY'']), (LOADLEVELER, [''2.x'', ''3.x'']),
      (SLURM, [''2.2'', ''2.3'', ''2.4'', ''2.5'', ''2.6''])]"

definition batch_number :: "BatchType \<Rightarrow> nat" where
  "batch_number b = (case b of
     TORQUE \<Rightarrow> 0 | LOADLEVELER \<Rightarrow> 1 | SLURM \<Rightarrow> 2 | LSF \<Rightarrow> 3 | SGE \<Rightarrow> 4 | PBSPRO \<Rightarrow> 5
   | DELTACLOUD \<Rightarrow> 6 | POSIX \<Rightarrow> 7 | OPENNEBULA \<Rightarrow> 8 | UNDEFINED \<Rightarrow> 99)"

text \<open>The out parameter \<^verbatim>\<open>supportedVersion\<close> is the second component; it is written on failure only.\<close>

definition checkIfSupportedBatchVersion :: "BatchType \<Rightarrow> string \<Rightarrow> string \<Rightarrow> bool \<times> string" where
  "checkIfSupportedBatchVersion btype version supportedVersion =
     (case map_of supported_batch_versions btype of
        Some vs \<Rightarrow>
          if version \<in> set vs then (True, supportedVersion)
          else (False, concat (map (\<lambda>v. v @ '', '') vs))
      | None \<Rightarrow> (False, ''Unknown batch type '' @ show_nat (batch_number btype)))"

section \<open>Wall times\<close>

definition pad2 :: "int \<Rightarrow> string" where
  "pad2 x = (if x < 10 then ''0'' else []) @ show_int x"

text \<open>\<^verbatim>\<open>/\<close> on \<^verbatim>\<open>long\<close> truncates towards zero, which is \<open>sdiv\<close>.\<close>

definition convertWallTimeToString :: "int \<Rightarrow> string" where
  "convertWallTimeToString walltime =
     (let j = walltime sdiv 86400;
          t1 = walltime - j * 86400;
          h = t1 sdiv 3600;
          t2 = t1 - h * 3600;
          m = t2 sdiv 60;
          s = t2 - m * 60
      in (if j > 0 then pad2 j @ '':'' else []) @ pad2 h @ '':'' @ pad2 m @ '':'' @ pad2 s)"

text \<open>
  The groups of the regular expression: an optional quote, one to four numbers separated by colons,
  an optional quote, and nothing else.
\<close>

definition strip_quotes :: "string \<Rightarrow> string" where
  "strip_quotes s =
     (let s1 = (if s \<noteq> [] \<and> hd s = CHR 34 then tl s else s)
      in if s1 \<noteq> [] \<and> last s1 = CHR 34 then butlast s1 else s1)"

definition walltime_groups :: "string \<Rightarrow> string list option" where
  "walltime_groups s =
     (let gs = split_if (\<lambda>c. c = CHR '':'') (strip_quotes s)
      in if length gs \<le> 4 \<and> list_all (\<lambda>g. g \<noteq> [] \<and> list_all is_digit g) gs then Some gs else None)"

definition add_long :: "int \<Rightarrow> int \<Rightarrow> int result" where
  "add_long a b = (if in_width 64 (a + b) then Inr (a + b) else Inl UndefinedBehaviour)"

fun walltime_loop :: "int \<Rightarrow> string list \<Rightarrow> int result" where
  "walltime_loop time [] = Inr time"
| "walltime_loop time (g # gs) =
     res_bind (lexical_cast 64 g) (\<lambda>n.
       res_bind (add_long time (60 ^ length gs * n)) (\<lambda>t. walltime_loop t gs))"

definition convertStringToWallTime :: "string \<Rightarrow> int result" where
  "convertStringToWallTime walltime =
     (let time = 21600 in
      if walltime = [] then Inr time
      else (case walltime_groups walltime of
              Some gs \<Rightarrow>
                if length gs = 4 then
                  res_bind (lexical_cast 64 (hd gs)) (\<lambda>days.
                    res_bind (add_long time (86400 * days)) (\<lambda>t. walltime_loop t (tl gs)))
                else walltime_loop time gs
            | None \<Rightarrow> Inl (UserException ERRCODE_INVALID_PARAM
                        (''Invalid walltime value: '' @ [CHR 39] @ walltime @ [CHR 39]))))"

section \<open>Checks\<close>

definition checkJobStatus :: "int \<Rightarrow> unit result" where
  "checkJobStatus status =
     (if status < -1 \<or> status > 8
      then Inl (UserException ERRCODE_INVALID_PARAM ''The status value is incorrect'') else Inr ())"

definition checkJobPriority :: "int \<Rightarrow> unit result" where
  "checkJobPriority priority =
     (if priority < -1 \<or> priority > 5
      then Inl (UserException ERRCODE_INVALID_PARAM ''The priority value is incorrect'') else Inr ())"

definition nbnodes_error :: "string \<Rightarrow> exn" where
  "nbnodes_error v = UserException ERRCODE_INVALID_PARAM (''Invalid NbNodesAndNbCpuPerNode value: '' @ v)"

definition checkJobNbNodesAndNbCpuPerNode :: "string \<Rightarrow> unit result" where
  "checkJobNbNodesAndNbCpuPerNode v =
     (if v = [] then Inr ()
      else (case find_str v '':'' of
              None \<Rightarrow> Inl (nbnodes_error v)
            | Some p \<Rightarrow>
                (case isNumericalValue (take p v) of
                   Inl e \<Rightarrow> Inl (nbnodes_error v)
                 | Inr _ \<Rightarrow>
                     (case isNumericalValue (drop (p + 1) v) of
                        Inl e \<Rightarrow> Inl (nbnodes_error v)
                      | Inr _ \<Rightarrow> Inr ()))))"

section \<open>Script parameters\<close>

text \<open>\<^verbatim>\<open>boost::replace_all\<close>: leftmost occurrences, the inserted text is not searched again.\<close>

definition replaceAllOccurences :: "string \<Rightarrow> string \<Rightarrow> string \<Rightarrow> string" where
  "replaceAllOccurences scriptContent oldValue newValue =
     (if oldValue = [] then scriptContent else join newValue (split_str oldValue scriptContent))"

definition set_param :: "string \<Rightarrow> string \<Rightarrow> string" where
  "set_param scriptContent param =
     (case find_str param ''='' of
        None \<Rightarrow> scriptContent
      | Some pos \<Rightarrow>
          let paramName = take pos param; paramValue = drop (pos + 1) param
          in replaceAllOccurences
               (replaceAllOccurences scriptContent (''$'' @ paramName) paramValue)
               (''${'' @ paramName @ ''}'') paramValue)"

definition setParams :: "string \<Rightarrow> string \<Rightarrow> string" where
  "setParams scriptContent params = foldl set_param scriptContent (split_if (\<lambda>c. c = CHR '' '') (trim params))"

definition set_param_env :: "string \<Rightarrow> (string \<rightharpoonup> string) \<Rightarrow> (string \<rightharpoonup> string)" where
  "set_param_env param env =
     (case find_str param ''='' of
        None \<Rightarrow> env
      | Some pos \<Rightarrow> set_env (take pos param) (drop (pos + 1) param) True env)"

text \<open>
  The loop of \<^verbatim>\<open>setParamsEnvVars\<close>: the second argument of \<^verbatim>\<open>substr\<close> is the end position, although
  the function takes a length.
\<close>

function env_params_loop :: "string \<Rightarrow> nat \<Rightarrow> (string \<rightharpoonup> string) \<Rightarrow> (string \<rightharpoonup> string)" where
  "env_params_loop params pos1 env =
     (case find_if_from (\<lambda>c. c = CHR '' '') pos1 (drop pos1 params) of
        Some pos2 \<Rightarrow> env_params_loop params (pos2 + 1) (set_param_env (take pos2 (drop pos1 params)) env)
      | None \<Rightarrow> set_param_env (drop pos1 params) env)"
  by pat_completeness auto
termination
  by (relation "measure (\<lambda>(params, pos1, env). length params - pos1)")
     (auto dest!: find_if_from_Some)

declare env_params_loop.simps [simp del]

definition setParamsEnvVars :: "string \<Rightarrow> (string \<rightharpoonup> string) \<Rightarrow> (string \<rightharpoonup> string)" where
  "setParamsEnvVars params env = env_params_loop params 0 env"

definition getVar :: "(string \<rightharpoonup> string) \<Rightarrow> string \<Rightarrow> bool \<Rightarrow> string \<Rightarrow> string result" where
  "getVar env name optional defaultValue =
     (case env name of
        Some v \<Rightarrow> Inr v
      | None \<Rightarrow>
          if \<not> optional
          then Inl (TMSVishnuException ERRCODE_BATCH_SCHEDULER_ERROR (''Missing parameter '' @ name))
          else Inr defaultValue)"

section \<open>Result files\<close>

record job_result =
  r_jobId :: string
  r_outputPath :: string
  r_errorPath :: string
  r_outputDir :: string

definition getResultFiles :: "job_result \<Rightarrow> bool \<Rightarrow> string" where
  "getResultFiles r appendJobId =
     (let existing = (if appendJobId then r_jobId r else [])
      in existing @ (if existing \<noteq> [] then '' '' else []) @ r_outputPath r
           @ '' '' @ r_errorPath r @ '' '' @ r_outputDir r @ [CHR 10])"

text \<open>The text written to the file: every token but the first, one to a line.\<close>

definition recordMissingFiles :: "string \<Rightarrow> string" where
  "recordMissingFiles missingDesc =
     concat (map (\<lambda>f. f @ [CHR 10]) (tl (split_if is_space_char missingDesc)))"

section \<open>Transfer commands\<close>

definition ssh_common_options :: string where
  "ssh_common_options =
     '' -o UserKnownHostsFile=/dev/null -o StrictHostKeyChecking=no -o PasswordAuthentication=no -o BatchMode=yes''"

definition buildTransferBaseCommand :: "int \<Rightarrow> bool \<Rightarrow> bool \<Rightarrow> int \<Rightarrow> string" where
  "buildTransferBaseCommand type isRecursive useCompression timeout =
     (let options0 = (if isRecursive then '' -r'' else []) in
      if type = 1 then
        let options1 = options0 @ (if useCompression then '' -z'' else []);
            options2 = options1 @ (if timeout \<noteq> 0 then '' --timeout='' @ show_int timeout else []);
            options3 = options2 @ ''--rsh='' @ [CHR 34] @ ''ssh -t -q'' @ ssh_common_options
                         @ '' -o Compression=yes'' @ [CHR 34] @ '' ''
        in ''rsync -aPq '' @ options3
      else
        let options1 = options0 @ (if useCompression then '' -o Compression=yes'' else []);
            options2 = options1 @ (if timeout > 0 then '' -o ConnectTimeout='' @ show_int timeout else []);
            options3 = options2 @ ssh_common_options
        in ''scp -q '' @ options3)"

text \<open>The out parameter \<^verbatim>\<open>direction\<close> keeps its value when no side is local.\<close>

definition ifLocalTransferInvolved :: "string \<Rightarrow> string \<Rightarrow> int \<Rightarrow> bool \<times> int" where
  "ifLocalTransferInvolved srcMachine destMachine direction =
     (if srcMachine = ''localhost'' \<or> srcMachine = ''127.0.0.1'' then (True, 0)
      else if destMachine = ''localhost'' \<or> destMachine = ''127.0.0.1'' then (True, 1)
      else (False, direction))"

section \<open>Messages of commands\<close>

definition parseErrorMessage :: "string \<Rightarrow> string" where
  "parseErrorMessage errorMsg =
     (case find_str errorMsg '':'' of
        None \<Rightarrow> errorMsg
      | Some commandPos \<Rightarrow>
          let result = drop (commandPos + 1) errorMsg in
          (case rfind_char result (CHR 10) of
             Some endOfLinePos \<Rightarrow> take endOfLinePos result
           | None \<Rightarrow> result))"

definition getStatusValue :: "string \<Rightarrow> fs_entry \<Rightarrow> int result" where
  "getStatusValue path f =
     res_bind (get_file_content path f True) (\<lambda>content.
       Inr (convertToInt (case find_str content [CHR 10] of
                            Some pos \<Rightarrow> take pos content | None \<Rightarrow> content)))"

section \<open>Lemmas\<close>

lemma pad2_digits: "0 \<le> x \<Longrightarrow> list_all is_digit (pad2 x) \<and> pad2 x \<noteq> []"
  by (auto simp: pad2_def show_int_def is_digit_def)

lemma digits_val_zero: "digits_val 0 (CHR ''0'' # s) = digits_val 0 s"
  by (simp add: digits_val_def digit_val_def)

lemma parse_int_pad2: "0 \<le> x \<Longrightarrow> parse_int (pad2 x) = Some x"
  by (auto simp: pad2_def parse_int_digits is_digit_def parse_nat_def digits_val_zero
      digits_val_show_nat show_int_def)

lemma cast_pad2: "0 \<le> x \<Longrightarrow> in_width 64 x \<Longrightarrow> lexical_cast 64 (pad2 x) = Inr x"
  by (simp add: lexical_cast_def parse_int_pad2)

lemma colon_not_digit: "\<not> is_digit (CHR '':'')" "\<not> is_digit (CHR 34)"
  by (simp_all add: is_digit_def)

lemma strip_quotes_id: "s \<noteq> [] \<Longrightarrow> hd s \<noteq> CHR 34 \<Longrightarrow> last s \<noteq> CHR 34 \<Longrightarrow> strip_quotes s = s"
  by (simp add: strip_quotes_def)

lemma walltime_groups_join:
  assumes "gs \<noteq> []" "length gs \<le> 4" "\<forall>g \<in> set gs. g \<noteq> [] \<and> list_all is_digit g"
  shows "walltime_groups (join '':'' gs) = Some gs"
proof -
  have nc: "\<forall>g \<in> set gs. \<forall>c \<in> set g. c \<noteq> CHR '':''"
    using assms(3) colon_not_digit by (force simp: list_all_iff)
  have digit: "is_digit c \<Longrightarrow> c \<noteq> CHR 34" for c by (auto simp: is_digit_def)
  have ends: "join '':'' xs \<noteq> [] \<and> is_digit (hd (join '':'' xs)) \<and> is_digit (last (join '':'' xs))"
    if "xs \<noteq> []" "\<forall>g \<in> set xs. g \<noteq> [] \<and> list_all is_digit g" for xs
    using that by (induction xs rule: induct_list012)
      (auto simp: list_all_iff hd_append)
  have "strip_quotes (join '':'' gs) = join '':'' gs"
    using ends [OF assms(1,3)] digit by (intro strip_quotes_id) auto
  moreover have "split_if (\<lambda>c. c = CHR '':'') (join '':'' gs) = gs"
    using split_if_join [of gs "\<lambda>c. c = CHR '':''" "CHR '':''"] nc assms(1) by blast
  ultimately show ?thesis
    using assms(2,3) by (simp add: walltime_groups_def list_all_iff)
qed

text \<open>The fields of a non-negative wall time.\<close>

definition wall_fields :: "int \<Rightarrow> int list" where
  "wall_fields t =
     (if 86400 \<le> t then [t div 86400] else [])
       @ [t mod 86400 div 3600, t mod 3600 div 60, t mod 60]"

lemma wall_fields_nonneg: "0 \<le> t \<Longrightarrow> x \<in> set (wall_fields t) \<Longrightarrow> 0 \<le> x"
  by (auto simp: wall_fields_def split: if_splits)

lemma convertWallTimeToString_fields:
  assumes "0 \<le> t"
  shows "convertWallTimeToString t = join '':'' (map pad2 (wall_fields t))"
proof -
  have d: "(a::int) sdiv b = a div b" if "0 \<le> a" "0 < b" for a b
    using that by (cases "a = 0") (simp_all add: signed_divide_int_def)
  have a: "t - t div 86400 * 86400 = t mod 86400" by (simp add: minus_div_mult_eq_mod)
  have b: "t mod 86400 - t mod 86400 div 3600 * 3600 = t mod 3600"
    by (simp add: minus_div_mult_eq_mod mod_mod_cancel)
  have c: "t mod 3600 - t mod 3600 div 60 * 60 = t mod 60"
    by (simp add: minus_div_mult_eq_mod mod_mod_cancel)
  have j: "0 < t div 86400 \<longleftrightarrow> 86400 \<le> t" using assms by linarith
  show ?thesis
    using assms j unfolding convertWallTimeToString_def wall_fields_def Let_def
    by (simp add: d a b c)
qed

lemma add_long_ok: "0 \<le> a \<Longrightarrow> 0 \<le> b \<Longrightarrow> a + b < 2 ^ 63 \<Longrightarrow> add_long a b = Inr (a + b)"
  by (simp add: add_long_def in_width_def)

fun wall_val :: "int list \<Rightarrow> int" where
  "wall_val [] = 0"
| "wall_val (x # xs) = 60 ^ length xs * x + wall_val xs"

lemma wall_val_nonneg: "\<forall>x \<in> set xs. 0 \<le> x \<Longrightarrow> 0 \<le> wall_val xs"
  by (induction xs) auto

lemma walltime_loop_map:
  "\<forall>x \<in> set xs. 0 \<le> x \<Longrightarrow> 0 \<le> a \<Longrightarrow> a + wall_val xs < 2 ^ 63 \<Longrightarrow>
   walltime_loop a (map pad2 xs) = Inr (a + wall_val xs)"
proof (induction xs arbitrary: a)
  case Nil
  then show ?case by simp
next
  case (Cons x xs)
  let ?k = "60 ^ length xs :: int"
  have x: "0 \<le> x" and xs: "0 \<le> wall_val xs" using Cons.prems(1) wall_val_nonneg by auto
  have k: "1 \<le> ?k" by simp
  then have "x \<le> ?k * x" using x mult_right_mono [of 1 ?k x] by simp
  with Cons.prems x xs have "in_width 64 x" by (simp add: in_width_def)
  moreover have "add_long a (?k * x) = Inr (a + ?k * x)"
    using Cons.prems x xs k by (intro add_long_ok) auto
  ultimately show ?case
    using Cons x by (simp add: cast_pad2 add.assoc)
qed

lemma wall_fields_val:
  assumes "0 \<le> t"
  shows "wall_val (wall_fields t) + (if 86400 \<le> t then t div 86400 * (86400 - 216000) else 0) = t"
proof -
  have "t = 86400 * (t div 86400) + t mod 86400" by simp
  moreover have "t mod 86400 = 3600 * (t mod 86400 div 3600) + t mod 3600"
    using mult_div_mod_eq [of 3600 "t mod 86400"] by (simp add: mod_mod_cancel)
  moreover have "t mod 3600 = 60 * (t mod 3600 div 60) + t mod 60"
    using mult_div_mod_eq [of 60 "t mod 3600"] by (simp add: mod_mod_cancel)
  moreover have "t div 86400 = 0" if "\<not> 86400 \<le> t" using assms that by simp
  ultimately show ?thesis by (auto simp: wall_fields_def)
qed

section \<open>Properties\<close>

text \<open>
  C39. Reading back a printed wall time gives that wall time plus 21600 seconds, not the wall time: the
  default of six hours that the empty string stands for is never cleared before the fields are added.
\<close>

theorem walltime_roundtrip:
  assumes "0 \<le> t" and "21600 + t < 2 ^ 63"
  shows "convertStringToWallTime (convertWallTimeToString t) = Inr (21600 + t)"
proof -
  let ?fs = "wall_fields t"
  have nn: "\<forall>x \<in> set ?fs. 0 \<le> x" using assms(1) wall_fields_nonneg by blast
  have gs: "walltime_groups (convertWallTimeToString t) = Some (map pad2 ?fs)"
    unfolding convertWallTimeToString_fields [OF assms(1)]
    using nn pad2_digits by (intro walltime_groups_join) (auto simp: wall_fields_def)
  have ne: "convertWallTimeToString t \<noteq> []"
    by (simp add: convertWallTimeToString_def Let_def)
  show ?thesis
  proof (cases "86400 \<le> t")
    case False
    then have "wall_val ?fs = t" "length ?fs = 3" using wall_fields_val [OF assms(1)] by (simp_all add: wall_fields_def)
    then show ?thesis
      using gs ne nn assms walltime_loop_map [of ?fs 21600] by (simp add: convertStringToWallTime_def)
  next
    case True
    let ?d = "t div 86400"
    obtain fs where fs: "?fs = ?d # fs" "length fs = 3" using True by (auto simp: wall_fields_def)
    have val: "86400 * ?d + wall_val fs = t" using wall_fields_val [OF assms(1)] True fs by simp
    have d: "0 \<le> ?d" and w: "0 \<le> wall_val fs"
      using nn fs wall_val_nonneg by (simp_all add: assms(1) pos_imp_zdiv_nonneg_iff)
    have c: "lexical_cast 64 (pad2 ?d) = Inr ?d"
      using d val w assms by (intro cast_pad2) (auto simp: in_width_def)
    have "add_long 21600 (86400 * ?d) = Inr (21600 + 86400 * ?d)"
      using d w val assms by (intro add_long_ok) auto
    moreover have "walltime_loop (21600 + 86400 * ?d) (map pad2 fs) = Inr (21600 + 86400 * ?d + wall_val fs)"
      using nn fs d val assms by (intro walltime_loop_map) auto
    ultimately show ?thesis
      using gs ne fs c val by (simp add: convertStringToWallTime_def add.assoc)
  qed
qed

theorem walltime_roundtrip_witness:
  "convertWallTimeToString 90061 = ''01:01:01:01'' \<and>
   convertStringToWallTime ''01:01:01:01'' = Inr 111661"
proof -
  have p: "convertWallTimeToString 90061 = ''01:01:01:01''"
    by (simp add: convertWallTimeToString_def pad2_def show_int_def show_nat.simps digit_char_def
        char_of_def bit_numeral_rec bit_0 signed_divide_int_def)
  then show ?thesis using walltime_roundtrip [of 90061] by simp
qed

text \<open>
  The node request is accepted exactly when it is empty or two decimal numbers around one colon.
\<close>

theorem nbnodes_accepts:
  "checkJobNbNodesAndNbCpuPerNode v = Inr () \<longleftrightarrow>
     v = [] \<or> (\<exists>a b. v = a @ '':'' @ b \<and> a \<noteq> [] \<and> b \<noteq> [] \<and> list_all is_digit a \<and> list_all is_digit b)"
  (is "?l \<longleftrightarrow> ?r")
proof
  assume l: ?l
  show ?r
  proof (cases "v = []")
    case False
    with l obtain p where p: "find_str v '':'' = Some p"
      and a: "isNumericalValue (take p v) = Inr True" and b: "isNumericalValue (drop (p + 1) v) = Inr True"
      by (auto simp: checkJobNbNodesAndNbCpuPerNode_def isNumericalValue_digits
          split: option.splits sum.splits)
    have "v = take p v @ '':'' @ drop (p + 1) v" using find_char_split [OF p] by simp
    then show ?thesis using a b unfolding isNumericalValue_digits by blast
  qed simp
next
  assume ?r
  then consider "v = []" | a b where "v = a @ CHR '':'' # b" "a \<noteq> []" "b \<noteq> []" "list_all is_digit a" "list_all is_digit b"
    by auto
  then show ?l
  proof cases
    case 1
    then show ?thesis by (simp add: checkJobNbNodesAndNbCpuPerNode_def)
  next
    case 2
    then have "CHR '':'' \<notin> set a" using colon_not_digit by (auto simp: list_all_iff)
    then have "find_str v '':'' = Some (length a)"
      using find_str_hit_char [of "CHR '':''" a "[]" 0 b] 2 by (simp add: find_str_def)
    moreover have "isNumericalValue a = Inr True" "isNumericalValue b = Inr True"
      using 2 by (simp_all add: isNumericalValue_digits)
    ultimately show ?thesis using 2 by (simp add: checkJobNbNodesAndNbCpuPerNode_def)
  qed
qed

end
