(* ===== verification/Object_Id.thy ===== *)
theory Object_Id
  imports Util_Vishnu
begin

text \<open>
  The generation of object identifiers in \<^verbatim>\<open>core/src/utils/utilServer.cpp\<close>: the expansion of an
  identifier template (\<^verbatim>\<open>getKeywords\<close>, \<^verbatim>\<open>getGeneratedName\<close>), the reservation of a row and of a
  unique identifier in the table of the object's type (\<^verbatim>\<open>getVishnuCounter\<close>, \<^verbatim>\<open>checkObjectId\<close>,
  \<^verbatim>\<open>reserveObjectId\<close>, \<^verbatim>\<open>getObjectId\<close>). A table is the list of its rows, of which only the automatic
  key and the identifier column matter here; \<open>None\<close> is SQL's NULL. The local date is a parameter.
\<close>

section \<open>Types of identifiers\<close>

datatype IdType = MACHINE | USER | JOB | FILETRANSFERT | AUTH | WORK

fun id_code :: "IdType \<Rightarrow> int" where
  "id_code MACHINE = 0"
| "id_code USER = 1"
| "id_code JOB = 2"
| "id_code FILETRANSFERT = 3"
| "id_code AUTH = 4"
| "id_code WORK = 5"

lemma id_code_inj [simp]: "id_code s = id_code t \<longleftrightarrow> s = t"
  by (cases s; cases t) simp_all

text \<open>The enumeration is ordered by its integers, as C++ compares its values.\<close>

instantiation IdType :: linorder
begin

definition less_eq_IdType :: "IdType \<Rightarrow> IdType \<Rightarrow> bool" where
  "less_eq_IdType s t \<longleftrightarrow> id_code s \<le> id_code t"

definition less_IdType :: "IdType \<Rightarrow> IdType \<Rightarrow> bool" where
  "less_IdType s t \<longleftrightarrow> id_code s < id_code t"

instance
  by standard (auto simp: less_eq_IdType_def less_IdType_def)

end

definition getIdFormatTemplate :: "IdType \<Rightarrow> string" where
  "getIdFormatTemplate objectType =
     (case objectType of
        MACHINE \<Rightarrow> ''$NAME''
      | USER \<Rightarrow> ''$NAME''
      | JOB \<Rightarrow> ''J_$CPT''
      | FILETRANSFERT \<Rightarrow> ''TR_$CPT''
      | AUTH \<Rightarrow> ''AUTH_$CPT''
      | WORK \<Rightarrow> ''$CPT'')"

section \<open>Expansion of a template\<close>

text \<open>The positions are those of the first and the last character of the variable.\<close>

record Format_t =
  kw_start :: nat
  kw_end :: nat
  kw_value :: string

record date =
  d_year :: string
  d_month :: string
  d_day :: string

text \<open>
  The tests read the characters after the dollar sign one by one; the first that differs, the final
  NUL included, ends the comparison.
\<close>

definition isMonth :: "string \<Rightarrow> bool" where "isMonth s = starts_with ''MONTH'' s"
definition isYear :: "string \<Rightarrow> bool" where "isYear s = starts_with ''YEAR'' s"
definition isSite :: "string \<Rightarrow> bool" where "isSite s = starts_with ''SITE'' s"
definition isType :: "string \<Rightarrow> bool" where "isType s = starts_with ''TYPE'' s"
definition isUName :: "string \<Rightarrow> bool" where "isUName s = starts_with ''UNAME'' s"
definition isName :: "string \<Rightarrow> bool" where "isName s = starts_with ''NAME'' s"
definition isMaName :: "string \<Rightarrow> bool" where "isMaName s = starts_with ''MANAME'' s"
definition isDay :: "string \<Rightarrow> bool" where "isDay s = starts_with ''DAY'' s"
definition isCpt :: "string \<Rightarrow> bool" where "isCpt s = starts_with ''CPT'' s"

lemmas keyword_tests = isMonth_def isYear_def isSite_def isType_def isUName_def isName_def
  isMaName_def isDay_def isCpt_def

definition type_letter :: "IdType \<Rightarrow> string" where
  "type_letter type =
     (if id_code type = 0 then ''M''
      else if id_code type = 1 then ''U''
      else if id_code type = 2 then ''J''
      else if id_code type = 3 then ''F''
      else if id_code type = 4 then ''A''
      else if id_code type = 5 then ''W''
      else [])"

text \<open>
  The variable after a dollar sign: the length of its name and its value. The counter is printed into
  a buffer of ten characters with its final NUL, so more than nine characters overrun it.
\<close>

definition keyword_at :: "date \<Rightarrow> int \<Rightarrow> IdType \<Rightarrow> string \<Rightarrow> string \<Rightarrow> string \<Rightarrow>
    (nat \<times> string result) option" where
  "keyword_at now cpt type name site r =
     (if isDay r then Some (3, Inr (d_day now))
      else if isMonth r then Some (5, Inr (d_month now))
      else if isYear r then Some (4, Inr (d_year now))
      else if isCpt r then
        Some (3, if length (show_int cpt) < 10 then Inr (show_int cpt) else Inl UndefinedBehaviour)
      else if isSite r then Some (4, Inr site)
      else if isMaName r then Some (6, Inr name)
      else if isUName r then Some (5, Inr name)
      else if isName r then Some (4, Inr name)
      else if isType r then Some (4, Inr (type_letter type))
      else None)"

text \<open>\<open>Inr None\<close> is the return value -1; \<open>Inr (Some ks)\<close> is 0 with the array filled with \<open>ks\<close>.\<close>

fun getKeywords_from :: "date \<Rightarrow> int \<Rightarrow> IdType \<Rightarrow> string \<Rightarrow> string \<Rightarrow> nat \<Rightarrow> string \<Rightarrow>
    Format_t list option result" where
  "getKeywords_from now cpt type name site i [] = Inr (Some [])"
| "getKeywords_from now cpt type name site i (c # cs) =
     (if c = CHR ''$'' then
        (case keyword_at now cpt type name site cs of
           None \<Rightarrow> Inr None
         | Some (n, v) \<Rightarrow>
             res_bind v (\<lambda>w.
             res_bind (getKeywords_from now cpt type name site (Suc i) cs) (\<lambda>ks.
             Inr (map_option ((#) \<lparr>kw_start = i, kw_end = i + n, kw_value = w\<rparr>) ks))))
      else getKeywords_from now cpt type name site (Suc i) cs)"

definition getKeywords :: "date \<Rightarrow> string \<Rightarrow> int \<Rightarrow> IdType \<Rightarrow> string \<Rightarrow> string \<Rightarrow>
    Format_t list option result" where
  "getKeywords now format cpt type name site = getKeywords_from now cpt type name site 0 format"

text \<open>
  The loop that builds the result from the array. A read of the format at its length gives the final
  NUL; \<open>append (p, n)\<close> copies \<open>n\<close> characters.
\<close>

fun gen_loop :: "string \<Rightarrow> Format_t list \<Rightarrow> string" where
  "gen_loop format [] = []"
| "gen_loop format [k] =
     kw_value k @
     (if kw_end k + 1 < length format
      then take (length format - kw_end k - 1) (drop (kw_end k + 1) format) else [])"
| "gen_loop format (k # k' # ks) =
     kw_value k @
     (if kw_end k + 1 < length format
      then take (kw_start k' - kw_end k - 1) (drop (kw_end k + 1) format) else []) @
     gen_loop format (k' # ks)"

definition getGeneratedName :: "date \<Rightarrow> string \<Rightarrow> int \<Rightarrow> IdType \<Rightarrow> string \<Rightarrow> string \<Rightarrow> string result" where
  "getGeneratedName now format cpt type name site =
     res_bind (getKeywords now format cpt type name site) (\<lambda>ret. Inr (case ret of
       None \<Rightarrow> []
     | Some ks \<Rightarrow>
         (if ks \<noteq> [] then take (kw_start (hd ks)) format else format) @ gen_loop format ks))"

section \<open>Reservation of a row and of its identifier\<close>

record id_row =
  row_key :: int
  row_ident :: "string option"

record id_table =
  rows :: "id_row list"
  next_key :: int

text \<open>The identifier the inserted row gets from the values \<^verbatim>\<open>getVishnuCounter\<close> gives.\<close>

definition placeholder :: "IdType \<Rightarrow> string option" where
  "placeholder type =
     (case type of
        MACHINE \<Rightarrow> None
      | USER \<Rightarrow> Some []
      | JOB \<Rightarrow> None
      | FILETRANSFERT \<Rightarrow> None
      | AUTH \<Rightarrow> None
      | WORK \<Rightarrow> Some ''t'')"

text \<open>
  \<^verbatim>\<open>generateId\<close> inserts the row and reads its key from the sequence, through \<^verbatim>\<open>convertToInt\<close>: a key past
  32 bits is read as -1.
\<close>

definition getVishnuCounter :: "IdType \<Rightarrow> id_table \<Rightarrow> int \<times> id_table" where
  "getVishnuCounter type t =
     (convertToInt (show_int (next_key t)),
      \<lparr>rows = rows t @ [\<lparr>row_key = next_key t, row_ident = placeholder type\<rparr>],
       next_key = next_key t + 1\<rparr>)"

definition checkObjectId :: "id_row list \<Rightarrow> string \<Rightarrow> bool" where
  "checkObjectId rs objectId \<longleftrightarrow> \<not> list_ex (\<lambda>r. row_ident r = Some objectId) rs"

fun ident_length :: "id_row \<Rightarrow> nat" where
  "ident_length r = (case row_ident r of None \<Rightarrow> 0 | Some s \<Rightarrow> length s)"

lemma checkObjectId_long:
  assumes "\<not> checkObjectId rs s"
  shows "length s \<le> sum_list (map ident_length rs)"
proof -
  from assms obtain r where "r \<in> set rs" "row_ident r = Some s"
    by (auto simp: checkObjectId_def list_ex_iff)
  then have "ident_length r \<in> set (map ident_length rs)" and "ident_length r = length s"
    by (simp_all del: ident_length.simps) simp
  then show ?thesis using member_le_sum_list [of "ident_length r" "map ident_length rs"] by simp
qed

text \<open>The loop ends because the identifier grows in each round and those in the table are finitely many.\<close>

function unique_id :: "id_row list \<Rightarrow> int \<Rightarrow> string \<Rightarrow> string" where
  "unique_id rs key objectId =
     (if checkObjectId rs objectId then objectId else unique_id rs key (objectId @ show_int key))"
  by auto
termination
proof (relation "measure (\<lambda>(rs, key, s). Suc (sum_list (map ident_length rs)) - length s)")
  fix rs :: "id_row list" and key :: int and s :: string
  assume "\<not> checkObjectId rs s"
  then have "length s \<le> sum_list (map ident_length rs)" by (rule checkObjectId_long)
  moreover have "0 < length (show_int key)" by (subst length_greater_0_conv) simp
  ultimately show "((rs, key, s @ show_int key), rs, key, s) \<in>
      measure (\<lambda>(rs, key, s). Suc (sum_list (map ident_length rs)) - length s)"
    by (simp del: length_greater_0_conv)
qed simp

declare unique_id.simps [simp del]

definition update_ident :: "int \<Rightarrow> string \<Rightarrow> id_row list \<Rightarrow> id_row list" where
  "update_ident key objectId rs =
     map (\<lambda>r. if row_key r = key then r\<lparr>row_ident := Some objectId\<rparr> else r) rs"

text \<open>The identifier is an in-out parameter; the update is one SQL statement.\<close>

definition reserveObjectId :: "int \<Rightarrow> string \<Rightarrow> id_table \<Rightarrow> string \<times> id_table" where
  "reserveObjectId key objectId t =
     (let oid = unique_id (rows t) key objectId
      in (oid, t\<lparr>rows := update_ident key oid (rows t)\<rparr>))"

definition getObjectId :: "date \<Rightarrow> IdType \<Rightarrow> string \<Rightarrow> id_table \<Rightarrow> string result \<times> id_table" where
  "getObjectId now type stringforgeneration t =
     (case getVishnuCounter type t of (counter, t1) \<Rightarrow>
      (case getGeneratedName now (getIdFormatTemplate type) counter type stringforgeneration [] of
         Inl e \<Rightarrow> (Inl e, t1)
       | Inr idGenerated \<Rightarrow>
           (case reserveObjectId counter idGenerated t1 of (oid, t2) \<Rightarrow>
             (if idGenerated = []
              then (Inl (SystemException ERRCODE_SYSTEM
                      (''Failed to generate ID for object type '' @ show_int (id_code type))), t2)
              else (Inr oid, t2)))))"

section \<open>The expansion is a substitution\<close>

text \<open>
  What the pair of functions computes, stated on the template alone: each variable is replaced by its
  value, the rest is copied, and a dollar sign that starts no variable makes the expansion fail.
\<close>

type_synonym keyword_values = "string \<Rightarrow> (nat \<times> string) option"

function expand_template :: "keyword_values \<Rightarrow> string \<Rightarrow> string option" where
  "expand_template kw [] = Some []"
| "expand_template kw (c # cs) =
     (if c = CHR ''$'' then
        (case kw cs of
           None \<Rightarrow> None
         | Some (n, v) \<Rightarrow> map_option ((@) v) (expand_template kw (drop n cs)))
      else map_option ((#) c) (expand_template kw cs))"
  by pat_completeness auto
termination by (relation "measure (\<lambda>(kw, s). length s)") auto

definition template_values :: "date \<Rightarrow> int \<Rightarrow> IdType \<Rightarrow> string \<Rightarrow> string \<Rightarrow> keyword_values" where
  "template_values now cpt type name site r =
     (case keyword_at now cpt type name site r of
        Some (n, Inr v) \<Rightarrow> Some (n, v)
      | _ \<Rightarrow> None)"

definition short_counter :: "int \<Rightarrow> bool" where
  "short_counter cpt \<longleftrightarrow> length (show_int cpt) < 10"

text \<open>What the array of variables stands for, from position \<open>p\<close> of the template on.\<close>

fun render :: "string \<Rightarrow> nat \<Rightarrow> Format_t list \<Rightarrow> string" where
  "render fmt p [] = drop p fmt"
| "render fmt p (k # ks) =
     take (kw_start k - p) (drop p fmt) @ kw_value k @ render fmt (kw_end k + 1) ks"

lemma starts_with_split: "starts_with w s \<Longrightarrow> s = w @ drop (length w) s"
  by (metis append_take_drop_id starts_with_def)

lemma keyword_at_no_dollar:
  assumes "keyword_at now cpt type name site r = Some (n, v)"
  shows "\<exists>w. r = w @ drop n r \<and> length w = n \<and> CHR ''$'' \<notin> set w"
proof -
  have eq: "starts_with w r \<Longrightarrow> n = length w \<Longrightarrow> CHR ''$'' \<notin> set w \<Longrightarrow> ?thesis" for w
    using starts_with_split [of w r] by auto
  show ?thesis
    using assms eq [of "''DAY''"] eq [of "''MONTH''"] eq [of "''YEAR''"] eq [of "''CPT''"]
      eq [of "''SITE''"] eq [of "''MANAME''"] eq [of "''UNAME''"] eq [of "''NAME''"] eq [of "''TYPE''"]
    unfolding keyword_at_def keyword_tests by (simp add: numeral_eq_Suc split: if_splits)
qed

lemma keyword_at_value:
  "short_counter cpt \<Longrightarrow> keyword_at now cpt type name site r = Some (n, v) \<Longrightarrow> \<exists>w. v = Inr w"
  by (auto simp: keyword_at_def short_counter_def split: if_splits)

fun kws_ok :: "string \<Rightarrow> nat \<Rightarrow> Format_t list \<Rightarrow> bool" where
  "kws_ok fmt p [] = True"
| "kws_ok fmt p (k # ks) =
     (p \<le> kw_start k \<and> kw_start k \<le> kw_end k \<and> kw_end k < length fmt \<and> kws_ok fmt (kw_end k + 1) ks)"

lemma kws_ok_mono: "kws_ok fmt q ks \<Longrightarrow> p \<le> q \<Longrightarrow> kws_ok fmt p ks"
  by (cases ks) auto

lemma getKeywords_skip:
  "CHR ''$'' \<notin> set w \<Longrightarrow>
   getKeywords_from now cpt type name site i (w @ s) =
   getKeywords_from now cpt type name site (i + length w) s"
  by (induction w arbitrary: i) auto

lemma render_shift:
  assumes "kws_ok fmt (Suc i) ks" and "i < length fmt"
  shows "render fmt i ks = (fmt ! i) # render fmt (Suc i) ks"
proof (cases ks)
  case Nil
  then show ?thesis using assms(2) by (simp add: Cons_nth_drop_Suc)
next
  case (Cons k ks')
  then have "kw_start k - i = Suc (kw_start k - Suc i)" using assms(1) by (simp add: Suc_diff_Suc)
  then show ?thesis using Cons assms(2) by (simp add: Cons_nth_drop_Suc [symmetric])
qed

lemma getKeywords_render:
  assumes "short_counter cpt"
  shows "s = drop i fmt \<Longrightarrow> i \<le> length fmt \<Longrightarrow>
    (\<exists>r. getKeywords_from now cpt type name site i s = Inr r \<and>
      (case r of
         None \<Rightarrow> expand_template (template_values now cpt type name site) s = None
       | Some ks \<Rightarrow> kws_ok fmt i ks \<and>
           expand_template (template_values now cpt type name site) s = Some (render fmt i ks)))"
    (is "_ \<Longrightarrow> _ \<Longrightarrow> ?P s i")
proof (induction "length s" arbitrary: s i rule: less_induct)
  case less
  show ?case
  proof (cases s)
    case Nil
    then show ?thesis using less.prems by simp
  next
    case (Cons c cs)
    have i: "i < length fmt" using Cons less.prems by (metis drop_all leI list.distinct(1))
    then have c: "fmt ! i = c" and cs: "cs = drop (Suc i) fmt"
      using Cons less.prems by (metis Cons_nth_drop_Suc list.inject)+
    show ?thesis
    proof (cases "c = CHR ''$''")
      case False
      have "?P cs (Suc i)" using less.hyps [of cs "Suc i"] Cons cs i by simp
      then obtain r where r: "getKeywords_from now cpt type name site (Suc i) cs = Inr r"
        and x: "case r of
          None \<Rightarrow> expand_template (template_values now cpt type name site) cs = None
        | Some ks \<Rightarrow> kws_ok fmt (Suc i) ks \<and>
            expand_template (template_values now cpt type name site) cs = Some (render fmt (Suc i) ks)"
        by blast
      have "kws_ok fmt (Suc i) ks \<Longrightarrow> kws_ok fmt i ks" for ks by (rule kws_ok_mono) auto
      with r x show ?thesis
        using Cons False i c by (cases r) (auto simp: render_shift)
    next
      case True
      show ?thesis
      proof (cases "keyword_at now cpt type name site cs")
        case None
        then show ?thesis using Cons True by (simp add: template_values_def)
      next
        case (Some nv)
        then obtain n v where nv: "keyword_at now cpt type name site cs = Some (n, v)" by (cases nv) auto
        then obtain w where v: "v = Inr w" using keyword_at_value [OF assms] by blast
        from keyword_at_no_dollar [OF nv] obtain u where
          u: "cs = u @ drop n cs" "length u = n" "CHR ''$'' \<notin> set u" by blast
        have le: "n + Suc i \<le> length fmt"
        proof -
          have "n \<le> length cs" using u by (metis le_add1 length_append)
          then show ?thesis using cs i by simp
        qed
        have dn: "drop n cs = drop (n + Suc i) fmt" using cs by simp
        have lt: "length (drop n cs) < length s" using Cons by simp
        obtain r where r: "getKeywords_from now cpt type name site (n + Suc i) (drop n cs) = Inr r"
          and x: "case r of
            None \<Rightarrow> expand_template (template_values now cpt type name site) (drop n cs) = None
          | Some ks \<Rightarrow> kws_ok fmt (n + Suc i) ks \<and>
              expand_template (template_values now cpt type name site) (drop n cs) =
                Some (render fmt (n + Suc i) ks)"
          using less.hyps [OF lt dn le] by blast
        have "getKeywords_from now cpt type name site (Suc i) cs = Inr r"
          using getKeywords_skip [OF u(3), of now cpt type name site "Suc i" "drop n cs"] u r
          by (simp add: add.commute)
        moreover have "template_values now cpt type name site cs = Some (n, w)"
          by (simp add: template_values_def nv v)
        ultimately show ?thesis
          using Cons True nv v le x by (cases r) (auto simp: add.commute [of i n])
      qed
    qed
  qed
qed

lemma gen_loop_render:
  "kws_ok fmt p (k # ks) \<Longrightarrow> gen_loop fmt (k # ks) = kw_value k @ render fmt (kw_end k + 1) ks"
proof (induction ks arbitrary: p k)
  case Nil
  then show ?case by auto
next
  case (Cons k' ks)
  then have "kws_ok fmt (kw_end k + 1) (k' # ks)" by simp
  from Cons.IH [OF this] Cons.prems show ?case by (auto simp: Suc_diff_Suc)
qed

lemma getGeneratedName_expand:
  assumes "short_counter cpt"
  shows "getGeneratedName now format cpt type name site =
    Inr (case expand_template (template_values now cpt type name site) format of
           None \<Rightarrow> [] | Some s \<Rightarrow> s)"
proof -
  from getKeywords_render [OF assms, of format 0 format now type name site]
  obtain r where r: "getKeywords now format cpt type name site = Inr r"
    and x: "case r of
        None \<Rightarrow> expand_template (template_values now cpt type name site) format = None
      | Some ks \<Rightarrow> kws_ok format 0 ks \<and>
          expand_template (template_values now cpt type name site) format = Some (render format 0 ks)"
    by (auto simp: getKeywords_def)
  show ?thesis
  proof (cases r)
    case None
    then show ?thesis using r x by (simp add: getGeneratedName_def)
  next
    case (Some ks)
    then show ?thesis
      using r x gen_loop_render [of format 0]
      by (cases ks) (simp_all add: getGeneratedName_def)
  qed
qed

section \<open>Unique identifiers\<close>

lemma unique_id_fresh: "checkObjectId rs (unique_id rs key s)"
proof (induction rs key s rule: unique_id.induct)
  case (1 rs key s)
  then show ?case by (subst unique_id.simps) simp
qed

lemma unique_id_free: "checkObjectId rs s \<Longrightarrow> unique_id rs key s = s"
  by (subst unique_id.simps) simp

text \<open>The result is the given identifier followed by the least number of copies of the key that frees it.\<close>

lemma unique_id_form:
  "\<exists>n. unique_id rs key s = s @ concat (replicate n (show_int key)) \<and>
       (\<forall>m < n. \<not> checkObjectId rs (s @ concat (replicate m (show_int key))))"
proof (induction rs key s rule: unique_id.induct)
  case (1 rs key s)
  show ?case
  proof (cases "checkObjectId rs s")
    case True
    then show ?thesis by (intro exI [of _ 0]) (simp add: unique_id_free)
  next
    case False
    with 1 obtain n where n: "unique_id rs key (s @ show_int key) =
        (s @ show_int key) @ concat (replicate n (show_int key))"
      "\<forall>m < n. \<not> checkObjectId rs ((s @ show_int key) @ concat (replicate m (show_int key)))" by blast
    have "unique_id rs key s = s @ concat (replicate (Suc n) (show_int key))"
      using n(1) False by (subst unique_id.simps) simp
    moreover have "\<not> checkObjectId rs (s @ concat (replicate m (show_int key)))" if "m < Suc n" for m
      using that n(2) False by (cases m) auto
    ultimately show ?thesis by blast
  qed
qed

text \<open>
  The invariant of a table: keys are distinct and below the sequence, and no two rows have the same
  identifier.
\<close>

definition table_ok :: "id_table \<Rightarrow> bool" where
  "table_ok t \<longleftrightarrow> distinct (map row_key (rows t)) \<and> list_all (\<lambda>r. row_key r < next_key t) (rows t) \<and>
     distinct (List.map_filter row_ident (rows t))"

lemma map_filter_update_other:
  "list_all (\<lambda>r. row_key r \<noteq> key) rs \<Longrightarrow> update_ident key oid rs = rs"
  by (induction rs) (auto simp: update_ident_def)

lemma keys_update [simp]: "map row_key (update_ident key oid rs) = map row_key rs"
  by (simp add: update_ident_def comp_def if_distrib cong: if_cong)

lemma update_append [simp]:
  "update_ident key oid (rs @ ss) = update_ident key oid rs @ update_ident key oid ss"
  by (simp add: update_ident_def)

lemma ident_in_map_filter: "x \<in> set (List.map_filter row_ident rs) \<longleftrightarrow> \<not> checkObjectId rs x"
  by (auto simp: checkObjectId_def list_ex_iff map_filter_def image_iff)

lemma checkObjectId_append:
  "checkObjectId (rs @ ss) s \<longleftrightarrow> checkObjectId rs s \<and> checkObjectId ss s"
  by (simp add: checkObjectId_def)

lemma map_filter_append: "List.map_filter f (xs @ ys) = List.map_filter f xs @ List.map_filter f ys"
  by (simp add: map_filter_def)

lemma update_none:
  "key \<notin> set (map row_key rs) \<Longrightarrow> update_ident key oid rs = rs"
  by (induction rs) (auto simp: update_ident_def)

lemma reserve_last:
  assumes "table_ok t" and "- (2 ^ 31) \<le> next_key t" and "next_key t < 2 ^ 31"
    and "getVishnuCounter type t = (key, t1)"
    and "reserveObjectId key s t1 = (oid, t2)"
  shows "rows t2 = rows t @ [\<lparr>row_key = next_key t, row_ident = Some oid\<rparr>]"
    and "checkObjectId (rows t) oid" and "next_key t2 = next_key t + 1"
proof -
  have key: "key = next_key t"
    using assms(2-4) by (auto simp: getVishnuCounter_def convertToInt_def in_width_def)
  have t1: "rows t1 = rows t @ [\<lparr>row_key = next_key t, row_ident = placeholder type\<rparr>]"
      "next_key t1 = next_key t + 1"
    using assms(4) by (auto simp: getVishnuCounter_def)
  have "next_key t \<notin> set (map row_key (rows t))"
    using assms(1) by (auto simp: table_ok_def list_all_iff)
  then have un: "update_ident key oid (rows t) = rows t" by (simp add: key update_none)
  have t2: "rows t2 = update_ident key oid (rows t1)" "next_key t2 = next_key t1"
      "oid = unique_id (rows t1) key s"
    using assms(5) by (auto simp: reserveObjectId_def Let_def)
  show "rows t2 = rows t @ [\<lparr>row_key = next_key t, row_ident = Some oid\<rparr>]"
    using t1 t2(1) un by (simp add: update_ident_def [of _ _ "[_]"] key)
  have "checkObjectId (rows t1) oid" by (simp add: t2(3) unique_id_fresh)
  then show "checkObjectId (rows t) oid" using t1 by (simp add: checkObjectId_append)
  show "next_key t2 = next_key t + 1" using t1 t2 by simp
qed

lemma table_ok_extend:
  assumes "table_ok t" and "rows t2 = rows t @ [\<lparr>row_key = next_key t, row_ident = Some oid\<rparr>]"
    and "checkObjectId (rows t) oid" and "next_key t2 = next_key t + 1"
  shows "table_ok t2"
  using assms
  by (auto simp: table_ok_def list_all_iff map_filter_append ident_in_map_filter map_filter_simps)

lemma show_nat_length: "n < 10 ^ k \<Longrightarrow> 0 < k \<Longrightarrow> length (show_nat n) \<le> k"
proof (induction k arbitrary: n)
  case 0
  then show ?case by simp
next
  case (Suc k)
  show ?case
  proof (cases "n < 10")
    case True
    then show ?thesis by (simp add: show_nat_small)
  next
    case False
    then have "0 < k" using Suc.prems(1) by (cases k) auto
    moreover have "n div 10 < 10 ^ k" using Suc.prems(1) by (simp add: less_mult_imp_div_less)
    ultimately show ?thesis using Suc.IH False by (subst show_nat.simps) simp
  qed
qed

lemma short_counterI: "0 \<le> cpt \<Longrightarrow> cpt < 1000000000 \<Longrightarrow> short_counter cpt"
  using show_nat_length [of "nat cpt" 9] by (simp add: short_counter_def show_int_def nat_less_iff)

lemma getVishnuCounter_key:
  "- (2 ^ 31) \<le> next_key t \<Longrightarrow> next_key t < 2 ^ 31 \<Longrightarrow> fst (getVishnuCounter type t) = next_key t"
  by (simp add: getVishnuCounter_def convertToInt_def in_width_def)

lemma next_key_getObjectId: "next_key (snd (getObjectId now type s t)) = next_key t + 1"
  by (simp add: getObjectId_def getVishnuCounter_def reserveObjectId_def Let_def split: sum.splits)

lemma getObjectId_extends:
  assumes "table_ok t" and "0 \<le> next_key t" and "next_key t < 1000000000"
  shows "\<exists>oid. snd (getObjectId now type s t) =
      \<lparr>rows = rows t @ [\<lparr>row_key = next_key t, row_ident = Some oid\<rparr>], next_key = next_key t + 1\<rparr> \<and>
    checkObjectId (rows t) oid \<and> table_ok (snd (getObjectId now type s t)) \<and>
    (\<forall>x. fst (getObjectId now type s t) = Inr x \<longrightarrow> x = oid)"
proof -
  obtain key t1 where c: "getVishnuCounter type t = (key, t1)" by (cases "getVishnuCounter type t")
  then have "key = next_key t" using getVishnuCounter_key [of t type] assms by simp
  then have "short_counter key" using assms by (simp add: short_counterI)
  then obtain g where g: "getGeneratedName now (getIdFormatTemplate type) key type s [] = Inr g"
    by (simp add: getGeneratedName_expand)
  obtain oid t2 where r: "reserveObjectId key g t1 = (oid, t2)" by (cases "reserveObjectId key g t1")
  have w: "- (2 ^ 31) \<le> next_key t" "next_key t < 2 ^ 31" using assms by simp_all
  note l = reserve_last [OF assms(1) w c r]
  have "table_ok t2" by (rule table_ok_extend [OF assms(1) l])
  moreover have "t2 = \<lparr>rows = rows t2, next_key = next_key t2\<rparr>" by simp
  ultimately show ?thesis
    using c g r l by (intro exI [of _ oid]) (simp add: getObjectId_def)
qed

section \<open>Properties\<close>

text \<open>
  C33. The expansion of a template by \<^verbatim>\<open>getKeywords\<close> and \<^verbatim>\<open>getGeneratedName\<close>, which works on an array of
  positions, is the substitution of each variable by its value, and is empty exactly when the template
  holds a dollar sign that starts no variable (or expands to nothing). The counter has to print on at
  most nine characters.
\<close>

theorem getGeneratedName_substitutes:
  assumes "short_counter cpt"
  shows "getGeneratedName now format cpt type name site =
    Inr (case expand_template (template_values now cpt type name site) format of
           None \<Rightarrow> [] | Some s \<Rightarrow> s)"
  by (rule getGeneratedName_expand [OF assms])

theorem getGeneratedName_substitutes_witness:
  "getGeneratedName \<lparr>d_year = ''2014'', d_month = ''Feb'', d_day = ''3''\<rparr>
     ''$SITE_$UNAME-$DAY$CPT.'' 7 JOB ''u'' ''ens'' = Inr ''ens_u-37.''"
proof -
  have "short_counter 7" by (rule short_counterI) simp_all
  then show ?thesis
    by (subst getGeneratedName_substitutes)
      (simp_all add: template_values_def keyword_at_def keyword_tests starts_with_def show_int_def
        show_nat_small digit_char_def char_of_def bit_numeral_rec bit_0)
qed

text \<open>
  C3. \<^verbatim>\<open>getObjectId\<close> keeps the table's invariant (distinct keys, no identifier given twice) whether it
  returns or throws, and the identifier it returns was free, is set on one row that it adds, and no
  other row changes.
\<close>

theorem getObjectId_unique:
  assumes "table_ok t" and "0 \<le> next_key t" and "next_key t < 1000000000"
  shows "\<exists>oid. snd (getObjectId now type s t) =
      \<lparr>rows = rows t @ [\<lparr>row_key = next_key t, row_ident = Some oid\<rparr>], next_key = next_key t + 1\<rparr> \<and>
    checkObjectId (rows t) oid \<and> table_ok (snd (getObjectId now type s t)) \<and>
    (\<forall>x. fst (getObjectId now type s t) = Inr x \<longrightarrow> x = oid)"
  by (rule getObjectId_extends [OF assms])

theorem getObjectId_unique_witness:
  "fst (getObjectId \<lparr>d_year = ''2014'', d_month = ''Feb'', d_day = ''3''\<rparr> JOB []
     \<lparr>rows = [\<lparr>row_key = 1, row_ident = Some ''J_2''\<rparr>], next_key = 2\<rparr>) \<noteq> Inr ''J_2''"
    (is "fst (getObjectId ?now JOB _ ?t) \<noteq> _")
proof
  assume "fst (getObjectId ?now JOB [] ?t) = Inr ''J_2''"
  moreover have "table_ok ?t" by (simp add: table_ok_def map_filter_simps)
  ultimately have "checkObjectId (rows ?t) ''J_2''"
    using getObjectId_unique [of ?t ?now JOB "[]"] by auto
  then show False by (simp add: checkObjectId_def)
qed

text \<open>
  The loop that makes an identifier unique always ends, with the given identifier followed by the
  least number of copies of the row's key that no row of the table has.
\<close>

theorem reserveObjectId_least:
  "\<exists>n. fst (reserveObjectId key s t) = s @ concat (replicate n (show_int key)) \<and>
       checkObjectId (rows t) (fst (reserveObjectId key s t)) \<and>
       list_all (\<lambda>m. \<not> checkObjectId (rows t) (s @ concat (replicate m (show_int key)))) [0..<n]"
  using unique_id_form [of "rows t" key s] unique_id_fresh [of "rows t" key s]
  by (auto simp: reserveObjectId_def Let_def list_all_iff)

text \<open>
  The mutex of \<^verbatim>\<open>getObjectId\<close> is a local variable, so two calls exclude nothing: when both run their
  uniqueness loop before either runs its update, both rows get the same identifier.
\<close>

theorem reserve_race:
  assumes "k1 \<in> set (map row_key rs)" and "k2 \<in> set (map row_key rs)" and "k1 \<noteq> k2"
    and "checkObjectId rs s"
  shows "\<exists>r1 r2. {r1, r2} \<subseteq> set (update_ident k2 (unique_id rs k2 s) (update_ident k1 (unique_id rs k1 s) rs)) \<and>
    row_key r1 = k1 \<and> row_key r2 = k2 \<and> row_ident r1 = row_ident r2 \<and> row_ident r1 = Some s"
proof -
  from assms(1,2) obtain q1 q2 where q: "q1 \<in> set rs" "row_key q1 = k1" "q2 \<in> set rs" "row_key q2 = k2"
    by auto
  let ?f = "\<lambda>k r. if row_key r = k then r\<lparr>row_ident := Some s\<rparr> else r"
  have eq: "update_ident k2 (unique_id rs k2 s) (update_ident k1 (unique_id rs k1 s) rs) =
      map (?f k2 \<circ> ?f k1) rs"
    using assms(4) by (simp add: unique_id_free update_ident_def)
  have "{(?f k2 \<circ> ?f k1) q1, (?f k2 \<circ> ?f k1) q2} \<subseteq> set (map (?f k2 \<circ> ?f k1) rs)" using q by auto
  moreover have "row_key ((?f k2 \<circ> ?f k1) q1) = k1 \<and> row_ident ((?f k2 \<circ> ?f k1) q1) = Some s \<and>
      row_key ((?f k2 \<circ> ?f k1) q2) = k2 \<and> row_ident ((?f k2 \<circ> ?f k1) q2) = Some s"
    using q assms(3) by simp
  ultimately show ?thesis
    unfolding eq by (intro exI [of _ "(?f k2 \<circ> ?f k1) q1"] exI [of _ "(?f k2 \<circ> ?f k1) q2"]) simp
qed

theorem reserve_race_witness:
  "\<exists>r1 r2. {r1, r2} \<subseteq> set (update_ident 2 (unique_id [\<lparr>row_key = 1, row_ident = None\<rparr>,
      \<lparr>row_key = 2, row_ident = None\<rparr>] 2 ''m'') (update_ident 1 (unique_id [\<lparr>row_key = 1, row_ident = None\<rparr>,
      \<lparr>row_key = 2, row_ident = None\<rparr>] 1 ''m'') [\<lparr>row_key = 1, row_ident = None\<rparr>, \<lparr>row_key = 2, row_ident = None\<rparr>])) \<and>
    row_key r1 = 1 \<and> row_key r2 = 2 \<and> row_ident r1 = row_ident r2 \<and> row_ident r1 = Some ''m''"
  by (rule reserve_race) (simp_all add: checkObjectId_def)

end
