(* ===== verification/Config.thy ===== *)
theory Config
  imports Errors
begin

text \<open>
  The configuration of a component: the names of the parameters
  (\<^verbatim>\<open>core/src/config/constants.cpp\<close>), the tokeniser of a line (\<^verbatim>\<open>CommonParser.cpp\<close>), the reading of a
  file (\<^verbatim>\<open>FileParser.cpp\<close>) and the typed access to the values (\<^verbatim>\<open>ExecConfiguration\<close>). A file is its
  contents. Reading is a loop on the stream's state that need not end, so its value is an option:
  \<open>None\<close> is a loop that never ends.
\<close>

section \<open>Names of the parameters\<close>

datatype param_type =
    DBTYPE | DBHOST | DBPORT | DBNAME | DBUSERNAME | DBPASSWORD | SENDMAILSCRIPT | BATCHTYPE
  | BATCHVERSION | MACHINEID | TIMEOUT | REMOTEBINDIR | INTERVALMONITOR | DBPOOLSIZE | AUTHENTYPE
  | DEFAULTBATCHCONFIGFILE | URISUPERVISOR | DISP_URIADDR | DISP_URISUBS | NBTHREADS | HOST_URIADDR
  | SED_URIADDR | CLOUDENDPOINT | DEBUG_LEVEL | DB_USE_SSL | DB_SSL_CA_FILE | USE_SSL
  | SERVER_PUBLIC_KEY | SERVER_PRIVATE_KEY | SERVER_SSL_CERTICATE | SSL_CA | SUBSCRIBE | STANDALONE
  | HAS_UMS | HAS_TMS | HAS_FMS | IPC_URI_BASE | OPTION_SESSION_TIMEOUT | OPTION_TRANSFER_TIMEOUT
  | OPTION_DEFAULT_TRANSFER_CMD | OPTION_DEFAULT_CONNECTION_CLOSE_POLICY

fun param_key :: "param_type \<Rightarrow> string" where
  "param_key DBTYPE = ''databaseType''"
| "param_key DBHOST = ''databaseHost''"
| "param_key DBPORT = ''databasePort''"
| "param_key DBNAME = ''databaseName''"
| "param_key DBUSERNAME = ''databaseUserName''"
| "param_key DBPASSWORD = ''databaseUserPassword''"
| "param_key SENDMAILSCRIPT = ''sendmailScriptPath''"
| "param_key BATCHTYPE = ''batchSchedulerType''"
| "param_key BATCHVERSION = ''batchSchedulerVersion''"
| "param_key MACHINEID = ''vishnuMachineId''"
| "param_key TIMEOUT = ''timeout''"
| "param_key REMOTEBINDIR = ''vishnuRemoteBinDirectory''"
| "param_key INTERVALMONITOR = ''intervalMonitor''"
| "param_key DBPOOLSIZE = ''databaseConnectionsNb''"
| "param_key AUTHENTYPE = ''authenticationType''"
| "param_key DEFAULTBATCHCONFIGFILE = ''defaultBatchConfig''"
| "param_key URISUPERVISOR = ''uriSupervisor''"
| "param_key DISP_URIADDR = ''disp_uriAddr''"
| "param_key DISP_URISUBS = ''disp_uriSubs''"
| "param_key NBTHREADS = ''nbthreads''"
| "param_key HOST_URIADDR = ''host_uriAddr''"
| "param_key SED_URIADDR = ''sed_uriAddr''"
| "param_key CLOUDENDPOINT = ''cloudEndpoint''"
| "param_key DEBUG_LEVEL = ''debugLevel''"
| "param_key DB_USE_SSL = ''databaseUseSsl''"
| "param_key DB_SSL_CA_FILE = ''databaseSslCa''"
| "param_key USE_SSL = ''useSsl''"
| "param_key SERVER_PUBLIC_KEY = ''serverPublicKey''"
| "param_key SERVER_PRIVATE_KEY = ''serverPrivateKey''"
| "param_key SERVER_SSL_CERTICATE = ''serverSslCertificate''"
| "param_key SSL_CA = ''sslCa''"
| "param_key SUBSCRIBE = ''subscribe''"
| "param_key STANDALONE = ''standalone''"
| "param_key HAS_UMS = ''enableUMS''"
| "param_key HAS_TMS = ''enableTMS''"
| "param_key HAS_FMS = ''enableFMS''"
| "param_key IPC_URI_BASE = ''ipcUriBase''"
| "param_key OPTION_SESSION_TIMEOUT = ''sessionTimeout''"
| "param_key OPTION_TRANSFER_TIMEOUT = ''transferTimeout''"
| "param_key OPTION_DEFAULT_TRANSFER_CMD = ''defaultTransferCommand''"
| "param_key OPTION_DEFAULT_CONNECTION_CLOSE_POLICY = ''defaultConnectionClosePolicy''"

section \<open>The tokeniser\<close>

record splitter =
  sp_delim :: char
  sp_hasNext :: bool
  sp_previous :: nat
  sp_str :: string

definition splitter_reset :: "string \<Rightarrow> splitter \<Rightarrow> splitter" where
  "splitter_reset str sp = sp\<lparr>sp_str := str, sp_hasNext := (str \<noteq> []), sp_previous := 0\<rparr>"

text \<open>
  The length passed to \<^verbatim>\<open>substr\<close> is the position of the delimiter, not its distance from \<open>previous\<close>.
\<close>

definition find_from :: "string \<Rightarrow> char \<Rightarrow> nat \<Rightarrow> nat option" where
  "find_from s c p = find_if_from (\<lambda>d. d = c) p (drop p s)"

definition splitter_next :: "splitter \<Rightarrow> (string \<times> splitter) result" where
  "splitter_next sp =
     (if \<not> sp_hasNext sp then Inr ([], sp)
      else
        let current = find_from (sp_str sp) (sp_delim sp) (sp_previous sp) in
        res_bind (substr (sp_str sp) (sp_previous sp) current) (\<lambda>sub.
          let previous = (case current of None \<Rightarrow> length (sp_str sp) + 1 | Some c \<Rightarrow> c + 1) in
          Inr (trim sub,
               sp\<lparr>sp_previous := previous, sp_hasNext := \<not> length (sp_str sp) < previous\<rparr>)))"

section \<open>Reading a file\<close>

type_synonym config_map = "string \<rightharpoonup> string"

text \<open>The two tokens of a line: the second is empty when there is no delimiter.\<close>

definition line_tokens :: "string \<Rightarrow> (string \<times> string) result" where
  "line_tokens line =
     res_bind (splitter_next (splitter_reset line
         \<lparr>sp_delim = CHR ''='', sp_hasNext = False, sp_previous = 0, sp_str = []\<rparr>)) (\<lambda>(key, sp).
     res_bind (splitter_next sp) (\<lambda>(val, sp'). Inr (key, val)))"

text \<open>The first definition of a key wins.\<close>

definition parse_line :: "string \<Rightarrow> config_map \<Rightarrow> config_map result" where
  "parse_line buffer opts =
     (let line0 = c_str buffer;
          line1 = (case find_str line0 ''#'' of Some pos \<Rightarrow> take pos line0 | None \<Rightarrow> line0);
          line = trim line1
      in if line = [] then Inr opts
         else res_bind (line_tokens line) (\<lambda>(key, val).
           Inr (if opts key = None then opts(key \<mapsto> val) else opts)))"

record stream =
  st_rest :: string
  st_eof :: bool
  st_fail :: bool

definition stream_ok :: "stream \<Rightarrow> bool" where
  "stream_ok st \<longleftrightarrow> \<not> st_eof st \<and> \<not> st_fail st"

text \<open>
  \<^verbatim>\<open>file.getline(buffer, n)\<close>: a stream that is not good gives an empty buffer and fails; a line that
  does not fit leaves the rest of it and fails; the end of the file sets eof, and fails when no
  character was read.
\<close>

definition getline :: "nat \<Rightarrow> stream \<Rightarrow> string \<times> stream" where
  "getline n st =
     (if \<not> stream_ok st then ([], st\<lparr>st_fail := True\<rparr>)
      else
        let line = takeWhile (\<lambda>c. c \<noteq> CHR 0x0A) (st_rest st);
            rest = dropWhile (\<lambda>c. c \<noteq> CHR 0x0A) (st_rest st)
        in if n - 1 < length line then (take (n - 1) line, st\<lparr>st_rest := drop (n - 1) (st_rest st), st_fail := True\<rparr>)
           else if rest = [] then (line, st\<lparr>st_rest := [], st_eof := True, st_fail := (line = [])\<rparr>)
           else (line, st\<lparr>st_rest := tl rest\<rparr>))"

text \<open>\<^verbatim>\<open>while (! file.eof()) { file.getline(buffer, n); ... }\<close>, with the body of the loop as a function of the buffer.\<close>

partial_function (option) read_lines :: "nat \<Rightarrow> (string \<Rightarrow> 'a \<Rightarrow> 'a result) \<Rightarrow> stream \<Rightarrow> 'a \<Rightarrow> 'a result option" where
  "read_lines n body st x =
     (if st_eof st then Some (Inr x)
      else
        case getline n st of (buffer, st') \<Rightarrow>
        (case body buffer x of
           Inl e \<Rightarrow> Some (Inl e)
         | Inr x' \<Rightarrow> read_lines n body st' x'))"

text \<open>The file at the path, or \<open>None\<close> when it cannot be opened.\<close>

definition parseFile :: "string \<Rightarrow> string option \<Rightarrow> config_map result option" where
  "parseFile path content =
     (case content of
        None \<Rightarrow> Some (Inl (UserException ERRCODE_FILENOTFOUND path))
      | Some s \<Rightarrow> read_lines 1024 parse_line \<lparr>st_rest = s, st_eof = False, st_fail = False\<rparr> Map.empty)"

section \<open>Access to the values\<close>

definition getConfigString :: "config_map \<Rightarrow> param_type \<Rightarrow> string \<Rightarrow> bool \<times> string" where
  "getConfigString config param val =
     (case config (param_key param) of None \<Rightarrow> (False, val) | Some v \<Rightarrow> (True, v))"

text \<open>
  \<^verbatim>\<open>simple_cast\<close> starts from zero, so a value that is not a number is 0. A Boolean is read as an integer:
  0 is false, any other is true.
\<close>

definition getConfigInt :: "config_map \<Rightarrow> param_type \<Rightarrow> int \<Rightarrow> bool \<times> int" where
  "getConfigInt config param val =
     (case config (param_key param) of None \<Rightarrow> (False, val) | Some v \<Rightarrow> (True, stream_read 32 0 v))"

definition getConfigBool :: "config_map \<Rightarrow> param_type \<Rightarrow> bool \<Rightarrow> bool \<times> bool" where
  "getConfigBool config param val =
     (case config (param_key param) of None \<Rightarrow> (False, val) | Some v \<Rightarrow> (True, stream_read 64 0 v \<noteq> 0))"

definition getConfigValues :: "config_map \<Rightarrow> param_type \<Rightarrow> string list \<Rightarrow> bool \<times> string list" where
  "getConfigValues config param values =
     (case config (param_key param) of
        None \<Rightarrow> (False, values)
      | Some v \<Rightarrow> (True, split_if (\<lambda>c. c = CHR '';'') v))"

definition getRequiredConfigString :: "config_map \<Rightarrow> param_type \<Rightarrow> string result" where
  "getRequiredConfigString config param =
     (case getConfigString config param [] of
        (True, v) \<Rightarrow> Inr v
      | (False, _) \<Rightarrow> Inl (UserException ERRCODE_CONFIGNOTFOUND (param_key param)))"

text \<open>\<^verbatim>\<open>scriptToString\<close> walks the map in the order of its keys.\<close>

definition scriptToString :: "(string \<times> string) list \<Rightarrow> string" where
  "scriptToString entries = concat (map (\<lambda>(k, v). k @ ''='' @ v @ [CHR 0x0A]) entries)"

section \<open>Reading a line\<close>

lemma find_from_le: "find_from s c p = Some k \<Longrightarrow> p \<le> length s \<Longrightarrow> p \<le> k \<and> k < length s"
  unfolding find_from_def by (drule find_if_from_Some) simp

text \<open>A splitter whose position is inside its string whenever it promises another token.\<close>

definition splitter_ok :: "splitter \<Rightarrow> bool" where
  "splitter_ok sp \<longleftrightarrow> (sp_hasNext sp \<longrightarrow> sp_previous sp \<le> length (sp_str sp))"

lemma splitter_reset_ok: "splitter_ok (splitter_reset str sp)"
  by (simp add: splitter_ok_def splitter_reset_def)

lemma splitter_next_ok:
  assumes "splitter_ok sp"
  shows "\<exists>t sp'. splitter_next sp = Inr (t, sp') \<and> splitter_ok sp'"
proof (cases "sp_hasNext sp")
  case False
  then show ?thesis using assms by (simp add: splitter_next_def)
next
  case True
  then have le: "sp_previous sp \<le> length (sp_str sp)" using assms by (simp add: splitter_ok_def)
  show ?thesis
  proof (cases "find_from (sp_str sp) (sp_delim sp) (sp_previous sp)")
    case None
    then show ?thesis using True le by (simp add: splitter_next_def splitter_ok_def)
  next
    case (Some c)
    then show ?thesis using True le by (simp add: splitter_next_def splitter_ok_def Let_def)
  qed
qed

lemma line_tokens_total: "\<exists>kv. line_tokens line = Inr kv"
proof -
  obtain t sp where 1: "splitter_next (splitter_reset line
      \<lparr>sp_delim = CHR ''='', sp_hasNext = False, sp_previous = 0, sp_str = []\<rparr>) = Inr (t, sp)"
    "splitter_ok sp"
    using splitter_next_ok [OF splitter_reset_ok] by blast
  obtain v sp' where "splitter_next sp = Inr (v, sp')" using splitter_next_ok [OF 1(2)] by blast
  with 1 show ?thesis by (simp add: line_tokens_def)
qed

lemma parse_line_total: "\<exists>opts'. parse_line buffer opts = Inr opts'"
proof -
  have "\<exists>kv. line_tokens l = Inr kv" for l by (rule line_tokens_total)
  then obtain f where f: "line_tokens l = Inr (f l)" for l by metis
  show ?thesis by (auto simp: parse_line_def Let_def f split: prod.splits)
qed

definition apply_line :: "config_map \<Rightarrow> string \<Rightarrow> config_map" where
  "apply_line opts buffer = projr (parse_line buffer opts)"

lemma parse_line_apply: "parse_line buffer opts = Inr (apply_line opts buffer)"
  using parse_line_total [of buffer opts] by (auto simp: apply_line_def)

section \<open>Reading a file ends exactly when every line fits in the buffer\<close>

abbreviation newline :: "char \<Rightarrow> bool" where
  "newline c \<equiv> c = CHR 0x0A"

lemma split_newline:
  "split_if newline s =
     takeWhile (\<lambda>c. \<not> newline c) s #
     (case dropWhile (\<lambda>c. \<not> newline c) s of [] \<Rightarrow> [] | c # t \<Rightarrow> split_if newline t)"
  by (induction s) (auto split: list.splits)

text \<open>
  What the loop makes of the lines of a text: they are taken in their order until one throws; of a line that does not
  fit the beginning is taken, and then the loop does not end.
\<close>

fun lines_result :: "nat \<Rightarrow> (string \<Rightarrow> 'a \<Rightarrow> 'a result) \<Rightarrow> string list \<Rightarrow> 'a \<Rightarrow> 'a result option" where
  "lines_result n body [] x = Some (Inr x)"
| "lines_result n body (l # ls) x =
     (if n - 1 < length l then (case body (take (n - 1) l) x of Inl e \<Rightarrow> Some (Inl e) | Inr _ \<Rightarrow> None)
      else (case body l x of Inl e \<Rightarrow> Some (Inl e) | Inr x' \<Rightarrow> lines_result n body ls x'))"

locale line_reader =
  fixes n :: nat and body :: "string \<Rightarrow> 'a \<Rightarrow> 'a result"
  assumes empty_line: "body [] x = Inr x"
begin

lemma read_lines_fail_aux:
  assumes "read_lines n body st x = Some r"
  shows "n = n \<longrightarrow> body = body \<longrightarrow> st_fail st \<longrightarrow> st_eof st"
proof (rule read_lines.raw_induct [where P = "\<lambda>n' body' st x r. n' = n \<longrightarrow> body' = body \<longrightarrow> st_fail st \<longrightarrow> st_eof st"
      and xa = "(((n, body), st), x)" and y = r, unfolded prod.case, OF _ assms], intro impI, rule ccontr)
  fix rec n' body' and st :: stream and x and r :: "'a result"
  assume ih: "\<And>n' body' st x r. rec n' body' st x = Some r \<Longrightarrow> n' = n \<longrightarrow> body' = body \<longrightarrow> st_fail st \<longrightarrow> st_eof st"
    and run: "(if st_eof st then Some (Inr x)
      else case getline n' st of (buffer, st') \<Rightarrow>
        (case body' buffer x of Inl e \<Rightarrow> Some (Inl e) | Inr x' \<Rightarrow> rec n' body' st' x')) = Some r"
    and same: "n' = n" "body' = body" and fail: "st_fail st" and eof: "\<not> st_eof st"
  have g: "getline n st = ([], st\<lparr>st_fail := True\<rparr>)"
    using fail by (simp add: getline_def stream_ok_def)
  have "rec n body (st\<lparr>st_fail := True\<rparr>) x = Some r"
    using run eof by (simp add: same g empty_line)
  from ih [OF this] eof show False by simp
qed

lemma read_lines_fail: "st_fail st \<Longrightarrow> \<not> st_eof st \<Longrightarrow> read_lines n body st x = None"
  using read_lines_fail_aux by (cases "read_lines n body st x") auto

lemma read_lines_lines:
  "read_lines n body \<lparr>st_rest = s, st_eof = False, st_fail = False\<rparr> x = lines_result n body (split_if newline s) x"
proof (induction "length s" arbitrary: s x rule: less_induct)
  case less
  let ?l = "takeWhile (\<lambda>c. \<not> newline c) s" and ?r = "dropWhile (\<lambda>c. \<not> newline c) s"
  show ?case
  proof (cases "n - 1 < length ?l")
    case True
    then show ?thesis by (subst split_newline, subst read_lines.simps)
        (simp add: getline_def stream_ok_def read_lines_fail split: sum.splits)
  next
    case short: False
    show ?thesis
    proof (cases ?r)
      case Nil
      then have "split_if newline s = [?l]" by (subst split_newline) (simp only: list.case)
      moreover have "read_lines n body \<lparr>st_rest = [], st_eof = True, st_fail = b\<rparr> x' = Some (Inr x')" for b x'
        by (subst read_lines.simps) simp
      ultimately show ?thesis using short Nil
        by (subst read_lines.simps) (simp add: getline_def stream_ok_def Let_def split: sum.splits)
    next
      case (Cons c t)
      then have "length t < length s"
        by (metis length_Cons length_dropWhile_le less_le_trans lessI)
      note ih = less.hyps [OF this]
      have "split_if newline s = ?l # split_if newline t" using Cons by (subst split_newline) (simp only: list.case)
      then show ?thesis using short Cons ih
        by (subst read_lines.simps) (simp add: getline_def stream_ok_def split: sum.splits)
    qed
  qed
qed

end

lemma parse_line_Nil: "parse_line [] opts = Inr opts"
  by (simp add: parse_line_def c_str_def find_str_def trim_def)

interpretation config_lines: line_reader 1024 parse_line
  by unfold_locales (rule parse_line_Nil)

lemma config_result:
  "lines_result 1024 parse_line ls opts =
     (if list_all (\<lambda>l. length l < 1024) ls then Some (Inr (foldl apply_line opts ls)) else None)"
  by (induction ls arbitrary: opts) (auto simp: parse_line_apply)

section \<open>Properties\<close>

text \<open>
  C30. Reading a configuration file ends exactly when every line of it has fewer than 1024 characters,
  and then the map is the one the lines give in their order; a longer line makes \<^verbatim>\<open>getline\<close> fail
  without setting eof, and the loop never ends.
\<close>

theorem parseFile_terminates:
  "parseFile path (Some s) =
     (if list_all (\<lambda>l. length l < 1024) (split_if newline s)
      then Some (Inr (foldl apply_line Map.empty (split_if newline s))) else None)"
  by (simp add: parseFile_def config_lines.read_lines_lines config_result)

lemma find_from_hit: "c \<notin> set xs \<Longrightarrow> find_from (pre @ xs @ c # ys) c (length pre) = Some (length pre + length xs)"
  by (simp add: find_from_def) (subst find_if_from_hit; auto)

lemma find_from_miss: "c \<notin> set xs \<Longrightarrow> find_from (pre @ xs) c (length pre) = None"
  by (auto simp: find_from_def find_if_from_None)

text \<open>
  A line \<^verbatim>\<open>key=value\<close> whose value has no equals sign gives that binding, trimmed. When the value
  has one, the tokeniser passes the position of that second sign to \<^verbatim>\<open>substr\<close> as a length, so the
  value is cut to as many characters as there are before the sign in the whole line.
\<close>

theorem line_tokens_value:
  assumes "CHR ''='' \<notin> set key"
  shows "line_tokens (key @ ''='' @ val) =
    Inr (trim key,
         trim (case find_str val ''='' of None \<Rightarrow> val | Some j \<Rightarrow> take (length key + 1 + j) val))"
proof -
  let ?l = "key @ CHR ''='' # val"
  let ?sp = "\<lparr>sp_delim = CHR ''='', sp_hasNext = True, sp_previous = length key + 1, sp_str = ?l\<rparr>"
  have f1: "find_from ?l (CHR ''='') 0 = Some (length key)"
    using find_from_hit [OF assms, of "[]" val] by simp
  have 1: "splitter_next (splitter_reset ?l
      \<lparr>sp_delim = CHR ''='', sp_hasNext = False, sp_previous = 0, sp_str = []\<rparr>) = Inr (trim key, ?sp)"
    by (simp add: splitter_next_def splitter_reset_def f1 Let_def)
  have 2: "find_from ?l (CHR ''='') (length key + 1) = map_option (\<lambda>j. length key + 1 + j) (find_str val ''='')"
    by (cases "find_str val ''=''")
      (auto simp: find_from_def find_str_def find_str_char find_if_from_None
        find_if_from_shift [of _ "Suc (length key)"])
  show ?thesis
    unfolding line_tokens_def
    using 1 2 by (cases "find_str val ''=''") (simp_all add: splitter_next_def Let_def)
qed

theorem line_tokens_value_witness:
  "line_tokens ''databasePassword=ab=cdefghijklmnopqrstuvw'' = Inr (''databasePassword'', ''ab=cdefghijklmnopqr'') \<and>
   line_tokens ''k = v'' = Inr (''k'', ''v'')"
  using line_tokens_value [of "''databasePassword''" "''ab=cdefghijklmnopqrstuvw''"] line_tokens_value [of "''k ''" "'' v''"]
  by (simp add: find_str_def starts_with_def trim_def is_space_char_def)

text \<open>
  No name of a parameter is a prefix of another, as the comment beside the table demands.
\<close>

theorem param_key_prefix_free: "starts_with (param_key p) (param_key q) \<longleftrightarrow> p = q"
  by (cases p; simp; cases q; simp add: starts_with_def)

end
