(* ===== verification/Comm_Server.thy ===== *)
theory Comm_Server
  imports Config
begin

text \<open>
  The registry of the servers in the dispatcher: a server's description and its wire format
  (\<^verbatim>\<open>communication/Server.cpp\<close>), the service names of the three modules
  (\<^verbatim>\<open>XMS/src/*Services.hpp\<close>) and the annuary (\<^verbatim>\<open>communication/Annuary.cpp\<close>). Every operation of the
  annuary runs under its mutex, so each is one step on the list of servers. The locale
  \<open>service_registry\<close> is what the dispatcher's workers rely on.
\<close>

section \<open>The description of a server\<close>

record server =
  mname :: string
  mservices :: "string list"
  muri :: string

definition server_add :: "string \<Rightarrow> server \<Rightarrow> server" where
  "server_add service s =
     (if service \<in> set (mservices s) then s else s\<lparr>mservices := mservices s @ [service]\<rparr>)"

definition server_remove :: "string \<Rightarrow> server \<Rightarrow> server" where
  "server_remove service s = s\<lparr>mservices := filter (\<lambda>x. x \<noteq> service) (mservices s)\<rparr>"

definition hasService :: "string \<Rightarrow> server \<Rightarrow> bool" where
  "hasService service s \<longleftrightarrow> service \<in> set (mservices s)"

text \<open>
  \<^verbatim>\<open>mservices.size() - 1\<close> is unsigned: without services it wraps, and the first \<^verbatim>\<open>at\<close> throws.
\<close>

definition toString :: "server \<Rightarrow> string result" where
  "toString s =
     (if mservices s = [] then Inl OutOfRange
      else Inr (mname s @ ''$$$'' @ muri s @ ''$$$'' @
        concat (map (\<lambda>x. x @ ''$$$'') (butlast (mservices s))) @ last (mservices s) @ ''$$$''))"

text \<open>The first two tokens are read without a test that there are two.\<close>

definition fromString :: "string \<Rightarrow> server result" where
  "fromString prof =
     (case split_str ''$$$'' prof of
        name # uri # services \<Rightarrow>
          Inr \<lparr>mname = name, mservices = filter (\<lambda>x. x \<noteq> []) services, muri = uri\<rparr>
      | _ \<Rightarrow> Inl UndefinedBehaviour)"

section \<open>The services of the modules\<close>

definition SERVICES_UMS :: "string list" where
  "SERVICES_UMS =
     [''sessionConnect'', ''sessionReconnect'', ''sessionClose'', ''userCreate'', ''userUpdate'',
      ''userDelete'', ''userPasswordChange'', ''userPasswordReset'', ''machineCreate'',
      ''machineUpdate'', ''machineDelete'', ''localAccountCreate'', ''localAccountUpdate'',
      ''localAccountDelete'', ''sessionList'', ''localAccountList'', ''machineList'', ''commandList'',
      ''userList'', ''restore'', ''authSystemCreate'', ''authSystemUpdate'', ''authSystemDelete'',
      ''authSystemList'', ''authAccountCreate'', ''authAccountUpdate'', ''authAccountDelete'',
      ''authAccountList'', ''exportCommands'']"

definition SERVICES_TMS :: "string list" where
  "SERVICES_TMS =
     [''jobSubmit'', ''jobCancel'', ''jobInfo'', ''getJobsProgression'', ''getListOfQueues'',
      ''jobOutputGetResult'', ''jobOutputGetCompletedJobs'', ''getListOfJobs_all'', ''addwork'',
      ''workUpdate'', ''workDelete'']"

definition SERVICES_FMS :: "string list" where
  "SERVICES_FMS =
     [''FileCopyAsync'', ''FileMoveAsync'', ''FileMove'', ''FileCopy'', ''FileGetInfos'',
      ''FileChangeGroup'', ''FileChangeMode'', ''FileHead'', ''FileContent'', ''FileCreate'',
      ''DirCreate'', ''FileRemove'', ''DirRemove'', ''FileTail'', ''DirList'',
      ''RemoteFileCopyAsync'', ''RemoteFileMoveAsync'', ''RemoteFileCopy'', ''RemoteFileMove'',
      ''FileTransfersList'', ''FileTransferStop'', ''UpdateClientSideTransfer'']"

definition isMachineSpecificServicesTMS :: "nat \<Rightarrow> bool" where
  "isMachineSpecificServicesTMS i \<longleftrightarrow> i \<le> 7"

definition fillServices :: "string \<Rightarrow> string \<Rightarrow> string list" where
  "fillServices name mid =
     (if name = ''umssed'' then SERVICES_UMS
      else if name = ''tmssed'' then
        map (\<lambda>(i, s). if isMachineSpecificServicesTMS i then s @ ''@'' @ mid else s)
          (zip [0..<length SERVICES_TMS] SERVICES_TMS)
      else if name = ''fmssed'' then SERVICES_FMS
      else [''routage''])"

section \<open>The annuary\<close>

type_synonym annuary = "server list"

definition is_server :: "string \<Rightarrow> string \<Rightarrow> server \<Rightarrow> bool" where
  "is_server name uri s \<longleftrightarrow> mname s = name \<and> muri s = uri"

definition annuary_add :: "annuary \<Rightarrow> string \<Rightarrow> string \<Rightarrow> string list \<Rightarrow> annuary" where
  "annuary_add ann name uri services =
     (if list_ex (is_server name uri) ann then ann
      else ann @ [\<lparr>mname = name, mservices = services, muri = uri\<rparr>])"

definition annuary_remove :: "annuary \<Rightarrow> string \<Rightarrow> string \<Rightarrow> annuary" where
  "annuary_remove ann name uri = filter (\<lambda>s. \<not> is_server name uri s) ann"

definition annuary_get :: "annuary \<Rightarrow> string \<Rightarrow> server list" where
  "annuary_get ann service = (if service = [] then ann else filter (hasService service) ann)"

text \<open>
  \<^verbatim>\<open>iss >> w\<close>: the next word, or the variable unchanged when only white space is left.
\<close>

definition next_word :: "string \<Rightarrow> string \<Rightarrow> string \<times> string" where
  "next_word old s =
     (let t = dropWhile is_space_char s in
      if t = [] then (old, []) else (takeWhile (\<lambda>c. \<not> is_space_char c) t, dropWhile (\<lambda>c. \<not> is_space_char c) t))"

definition config_entry :: "string \<Rightarrow> string \<Rightarrow> string \<Rightarrow> server" where
  "config_entry module mid entry =
     (case next_word [] entry of (uri, rest) \<Rightarrow>
      let w = fst (next_word mid rest);
          mid_tmp = (if w = [] then mid else w)
      in \<lparr>mname = module, mservices = fillServices module mid_tmp, muri = uri\<rparr>)"

definition setInitConfig :: "string \<Rightarrow> string list \<Rightarrow> string \<Rightarrow> annuary \<Rightarrow> annuary" where
  "setInitConfig module cfgInfo mid ann = ann @ map (config_entry module mid) cfgInfo"

text \<open>
  The start of the dispatcher (\<^verbatim>\<open>Dispatcher::configureAnnuary\<close>): every configured address is entered
  once for each module.
\<close>

definition add_configured :: "config_map \<Rightarrow> string \<Rightarrow> string \<Rightarrow> annuary \<Rightarrow> annuary" where
  "add_configured config module mid ann =
     (case getConfigValues config SED_URIADDR [] of
        (True, cfgInfo) \<Rightarrow> setInitConfig module cfgInfo mid ann
      | (False, _) \<Rightarrow> ann)"

definition configureAnnuary :: "config_map \<Rightarrow> annuary" where
  "configureAnnuary config =
     (let mid = snd (getConfigString config MACHINEID []) in
      add_configured config ''umssed'' mid
        (add_configured config ''tmssed'' mid (add_configured config ''fmssed'' mid [])))"

section \<open>What the workers rely on\<close>

text \<open>
  The contract of a registry: entries are removed by name and address, an entry is added unless one
  with that name and address is there, and a lookup by service keeps the order of registration.
\<close>

locale service_registry =
  fixes add :: "'r \<Rightarrow> string \<Rightarrow> string \<Rightarrow> string list \<Rightarrow> 'r"
    and remove :: "'r \<Rightarrow> string \<Rightarrow> string \<Rightarrow> 'r"
    and get :: "'r \<Rightarrow> string \<Rightarrow> server list"
  assumes get_service: "srv \<noteq> [] \<Longrightarrow> get r srv = filter (hasService srv) (get r [])"
    and get_remove: "get (remove r n u) [] = filter (\<lambda>s. \<not> is_server n u s) (get r [])"
    and get_add: "get (add r n u ss) [] =
      (if list_ex (is_server n u) (get r []) then get r []
       else get r [] @ [\<lparr>mname = n, mservices = ss, muri = u\<rparr>])"
begin

definition no_duplicates :: "'r \<Rightarrow> bool" where
  "no_duplicates r \<longleftrightarrow> distinct (map (\<lambda>s. (mname s, muri s)) (get r []))"

lemma no_duplicates_remove: "no_duplicates r \<Longrightarrow> no_duplicates (remove r n u)"
  by (simp add: no_duplicates_def get_remove distinct_map_filter)

lemma no_duplicates_add: "no_duplicates r \<Longrightarrow> no_duplicates (add r n u ss)"
  by (auto simp: no_duplicates_def get_add list_ex_iff is_server_def)

lemma get_removed: "srv \<noteq> [] \<Longrightarrow> get (remove r n u) srv = filter (\<lambda>s. \<not> is_server n u s) (get r srv)"
  by (simp add: get_service get_remove conj_commute)

text \<open>One round of a watch that removes the entries that do not answer.\<close>

definition sweep :: "(server \<Rightarrow> bool) \<Rightarrow> server list \<Rightarrow> 'r \<Rightarrow> 'r" where
  "sweep alive ss r = foldl (\<lambda>r s. if alive s then r else remove r (mname s) (muri s)) r ss"

lemma get_sweep_aux:
  "get (sweep alive ss r) [] =
   filter (\<lambda>s. \<not> list_ex (\<lambda>t. \<not> alive t \<and> is_server (mname t) (muri t) s) ss) (get r [])"
  unfolding sweep_def
proof (induction ss arbitrary: r)
  case Nil
  then show ?case by simp
next
  case (Cons t ss)
  show ?case
  proof (cases "alive t")
    case True
    then show ?thesis using Cons by simp
  next
    case False
    then show ?thesis using Cons by (simp add: get_remove conj_commute)
  qed
qed

lemma get_sweep:
  assumes "no_duplicates r"
  shows "get (sweep alive (get r []) r) [] = filter alive (get r [])"
proof -
  have "list_ex (\<lambda>t. \<not> alive t \<and> is_server (mname t) (muri t) s) (get r []) \<longleftrightarrow> \<not> alive s"
    if "s \<in> set (get r [])" for s
  proof -
    have "t = s" if "t \<in> set (get r [])" "mname t = mname s" "muri t = muri s" for t
      using assms that \<open>s \<in> set (get r [])\<close> unfolding no_duplicates_def
      by (auto simp: distinct_map dest: inj_onD)
    then show ?thesis using that by (auto simp: list_ex_iff is_server_def)
  qed
  then show ?thesis by (simp add: get_sweep_aux cong: filter_cong)
qed

end

interpretation annuary: service_registry annuary_add annuary_remove annuary_get
  by unfold_locales (auto simp: annuary_get_def annuary_add_def annuary_remove_def list_ex_iff)

section \<open>The wire format\<close>

definition wire_ok :: "server \<Rightarrow> bool" where
  "wire_ok s \<longleftrightarrow> mservices s \<noteq> [] \<and> list_all (\<lambda>x. x \<noteq> []) (mservices s) \<and>
     list_all (sep_free ''$$$'') (mname s # muri s # mservices s)"

lemma toString_concat:
  assumes "mservices s \<noteq> []"
  shows "toString s = Inr (concat (map (\<lambda>t. t @ ''$$$'') (mname s # muri s # mservices s)))"
proof -
  have "concat (map (\<lambda>t. t @ ''$$$'') (mservices s)) =
      concat (map (\<lambda>x. x @ ''$$$'') (butlast (mservices s))) @ last (mservices s) @ ''$$$''"
    using assms by (subst (1) append_butlast_last_id [symmetric]) (simp_all del: append_butlast_last_id)
  then show ?thesis using assms by (simp add: toString_def)
qed

lemma fromString_toString:
  assumes "wire_ok s"
  shows "res_bind (toString s) fromString = Inr s"
proof -
  have "split_str ''$$$'' (concat (map (\<lambda>t. t @ ''$$$'') (mname s # muri s # mservices s))) =
      (mname s # muri s # mservices s) @ [[]]"
    using assms by (intro split_str_terminated) (auto simp: wire_ok_def list_all_iff)
  moreover have "filter (\<lambda>x. x \<noteq> []) (mservices s) = mservices s"
    using assms by (auto simp: wire_ok_def list_all_iff filter_id_conv)
  ultimately show ?thesis using assms by (simp add: toString_concat wire_ok_def fromString_def)
qed

end
