(* ===== verification/Comm_Profile.thy ===== *)
theory Comm_Profile
  imports Comm_Server Util_Vishnu "HOL-Library.Countable"
begin

text \<open>
  The messages between clients, dispatcher and servers: the profile of a call and its operations
  (\<^verbatim>\<open>communication/DIET_client.cpp\<close>), its JSON form and that of jobs and options
  (\<^verbatim>\<open>communication/utils.cpp\<close>), addresses, and the list of servers a dispatcher answers. The JSON
  library is a parameter, a record of the functions the code calls.
\<close>

section \<open>Profiles\<close>

record diet_profile =
  p_name :: string
  param_count :: int
  params :: "string list"

definition diet_profile_alloc :: "string \<Rightarrow> nat \<Rightarrow> diet_profile" where
  "diet_profile_alloc name nbparams =
     \<lparr>p_name = name, param_count = int nbparams, params = replicate nbparams []\<rparr>"

definition diet_profile_reset :: "diet_profile \<Rightarrow> nat \<Rightarrow> diet_profile" where
  "diet_profile_reset prof nbparams =
     prof\<lparr>param_count := int nbparams, params := replicate nbparams []\<rparr>"

text \<open>\<^verbatim>\<open>at\<close> converts the position to an unsigned one, so a negative position is out of range too.\<close>

definition diet_string_set :: "diet_profile \<Rightarrow> int \<Rightarrow> string \<Rightarrow> diet_profile result" where
  "diet_string_set prof pos val =
     (if 0 \<le> pos \<and> nat pos < length (params prof)
      then Inr (prof\<lparr>params := (params prof)[nat pos := val]\<rparr>)
      else Inl (SystemException ERRCODE_SYSTEM ''Invalid index, unallocated parameter''))"

definition diet_string_get :: "diet_profile \<Rightarrow> int \<Rightarrow> string result" where
  "diet_string_get prof pos =
     (if 0 \<le> pos \<and> nat pos < length (params prof) then Inr (params prof ! nat pos)
      else Inl OutOfRange)"

text \<open>The profile is a pointer; \<open>None\<close> is the null pointer.\<close>

definition raiseExceptionOnErrorResult :: "diet_profile option \<Rightarrow> unit result" where
  "raiseExceptionOnErrorResult profile =
     (case profile of
        None \<Rightarrow> Inl (SystemException ERRCODE_INVDATA ''Bad result profile'')
      | Some p \<Rightarrow>
          if param_count p = 2 then
            res_bind (diet_string_get p 0) (\<lambda>status.
              if status \<noteq> ''success''
              then res_bind (diet_string_get p 1) (\<lambda>msg. Inl (SystemException ERRCODE_SYSTEM msg))
              else Inr ())
          else Inl (SystemException ERRCODE_INVDATA ''Bad result profile''))"

text \<open>The map from services to modules, filled with the lists of the three modules in turn.\<close>

definition get_module :: "string \<Rightarrow> string" where
  "get_module service =
     (let key = (case find_str service ''@'' of Some pos \<Rightarrow> take pos service | None \<Rightarrow> service) in
      if key \<in> set SERVICES_FMS then ''FMS''
      else if key \<in> set SERVICES_TMS then ''TMS''
      else if key \<in> set SERVICES_UMS then ''UMS''
      else [])"

abbreviation (input) DEFAULT_TIMEOUT :: int where "DEFAULT_TIMEOUT \<equiv> 120"
abbreviation (input) SHORT_TIMEOUT :: int where "SHORT_TIMEOUT \<equiv> 2"

definition getTimeout :: "config_map \<Rightarrow> int" where
  "getTimeout config =
     (let timeout = snd (getConfigInt config TIMEOUT DEFAULT_TIMEOUT) in
      if timeout \<le> 0 then DEFAULT_TIMEOUT else timeout)"

section \<open>Addresses\<close>

abbreviation (input) uri_error :: exn where
  "uri_error \<equiv> UserException ERRCODE_INVALID_PARAM
     ''The format of the uri is invalid or the uri contains unallowed characters''"

definition getPortFromUri :: "string \<Rightarrow> int result" where
  "getPortFromUri uri =
     (case rfind_char uri (CHR '':'') of
        None \<Rightarrow> Inl uri_error
      | Some pos \<Rightarrow>
          res_bind (substr uri (pos + 1) None) (\<lambda>s.
            if convertToInt s \<le> 0 then Inl uri_error else Inr (convertToInt s)))"

text \<open>
  When the last colon is the one of the scheme, the length \<^verbatim>\<open>pos2 - pos\<close> wraps to a huge number and
  the host is the rest of the string.
\<close>

definition getHostFromUri :: "string \<Rightarrow> string result" where
  "getHostFromUri uri =
     res_bind
       (case (find_str uri ''://'', rfind_char uri (CHR '':'')) of
          (Some pos1, Some pos2) \<Rightarrow>
            let pos = pos1 + 3 in
            substr uri pos (if pos \<le> pos2 then Some (pos2 - pos) else None)
        | _ \<Rightarrow> Inr [])
       (\<lambda>host. if host = [] \<or> find_first_of host ''*'' \<noteq> None then Inl uri_error else Inr host)"

definition validateUri :: "string \<Rightarrow> unit result" where
  "validateUri uri =
     res_bind (getPortFromUri uri) (\<lambda>port. res_bind (getHostFromUri uri) (\<lambda>host. Inr ()))"

section \<open>Lists of servers\<close>

abbreviation (input) VISHNU_COMM_SEPARATOR :: string where
  "VISHNU_COMM_SEPARATOR \<equiv> ''$$$$####$$$$''"

definition extractServersFromMessage :: "string \<Rightarrow> server list result" where
  "extractServersFromMessage msg =
     res_map fromString (filter (\<lambda>v. v \<noteq> []) (map c_str (split_str VISHNU_COMM_SEPARATOR msg)))"

definition extractServersFromLine :: "string list \<Rightarrow> string \<Rightarrow> server list" where
  "extractServersFromLine uriv module =
     map (\<lambda>uri. \<lparr>mname = module, mservices = [''heartbeat''], muri = uri\<rparr>)
       (concat (map (split_if (\<lambda>c. c = CHR '';'')) uriv))"

text \<open>
  The list of services starts with \<^verbatim>\<open>heartbeat\<close> but is cleared after each server, so only the first
  one has it.
\<close>

fun machine_servers :: "string \<Rightarrow> string list \<Rightarrow> string list \<Rightarrow> server list" where
  "machine_servers module tmp [] = []"
| "machine_servers module tmp (w # ws) =
     (let tokens2 = split_if is_space_char w;
          pos = (if tokens2 ! 0 = [] \<and> 1 < length tokens2 then 1 else 0);
          services = (if pos + 1 < length tokens2 \<and> tokens2 ! (pos + 1) \<noteq> []
                      then tmp @ [''heartbeatxmssed@'' @ tokens2 ! (pos + 1)] else tmp)
      in \<lparr>mname = module, mservices = services, muri = tokens2 ! pos\<rparr> # machine_servers module [] ws)"

definition extractMachineServersFromLine :: "string list \<Rightarrow> string \<Rightarrow> server list" where
  "extractMachineServersFromLine uriv module =
     machine_servers module [''heartbeat''] (concat (map (split_if (\<lambda>c. c = CHR '';'')) uriv))"

definition getServersListFromConfig :: "config_map \<Rightarrow> server list" where
  "getServersListFromConfig config =
     (let uriv = snd (getConfigValues config SED_URIADDR []) in
      if uriv = [] then [] else extractMachineServersFromLine uriv ''xmssed'')"

section \<open>JSON objects\<close>

text \<open>
  The functions of the JSON library that the code calls, with \<open>None\<close> for a null pointer or a failure:
  a value of type \<open>'j\<close> is a JSON value.
\<close>

record 'j jansson =
  js_object :: 'j
  js_string :: "string \<Rightarrow> 'j option"
  js_integer :: "int \<Rightarrow> 'j"
  js_array :: 'j
  js_set :: "'j \<Rightarrow> string \<Rightarrow> 'j option \<Rightarrow> 'j option"
  js_get :: "'j \<Rightarrow> string \<Rightarrow> 'j option"
  js_append :: "'j \<Rightarrow> 'j option \<Rightarrow> 'j option"
  js_items :: "'j \<Rightarrow> 'j list"
  js_string_value :: "'j \<Rightarrow> string option"
  js_integer_value :: "'j \<Rightarrow> int"
  js_dumps :: "'j \<Rightarrow> string"
  js_loads :: "string \<Rightarrow> 'j option"

definition to_int32 :: "int \<Rightarrow> int" where
  "to_int32 i = (i + 2 ^ 31) mod 2 ^ 32 - 2 ^ 31"

definition setStringProperty :: "'j jansson \<Rightarrow> string \<Rightarrow> string \<Rightarrow> 'j \<Rightarrow> 'j result" where
  "setStringProperty J key val obj =
     (case js_set J obj (c_str key) (js_string J (c_str val)) of
        None \<Rightarrow> Inl (SystemException ERRCODE_SYSTEM (''Can't set object property '' @ key))
      | Some o' \<Rightarrow> Inr o')"

definition setIntProperty :: "'j jansson \<Rightarrow> string \<Rightarrow> int \<Rightarrow> 'j \<Rightarrow> 'j result" where
  "setIntProperty J key val obj =
     (case js_set J obj (c_str key) (Some (js_integer J (to_int32 val))) of
        None \<Rightarrow> Inl (SystemException ERRCODE_SYSTEM (''Can't set object property '' @ key))
      | Some o' \<Rightarrow> Inr o')"

definition getRequiredProperty :: "'j jansson \<Rightarrow> string \<Rightarrow> 'j \<Rightarrow> 'j result" where
  "getRequiredProperty J key obj =
     (case js_get J obj (c_str key) of
        None \<Rightarrow> Inl (SystemException ERRCODE_SYSTEM ''Invalid profile received'')
      | Some v \<Rightarrow> Inr v)"

definition setArrayProperty :: "'j jansson \<Rightarrow> string \<Rightarrow> 'j \<Rightarrow> 'j result" where
  "setArrayProperty J key obj =
     (case js_set J obj (c_str key) (Some (js_array J)) of
        None \<Rightarrow> Inl (SystemException ERRCODE_SYSTEM (''Can't set the array propety + '' @ key))
      | Some o' \<Rightarrow> res_bind (getRequiredProperty J key o') (\<lambda>_. Inr o'))"

text \<open>
  \<^verbatim>\<open>m_lastArray\<close> points to the array inside the object, so an item appended to it is in the object:
  the pointer is the key of the array.
\<close>

definition addItemToLastArray :: "'j jansson \<Rightarrow> string \<Rightarrow> string \<Rightarrow> 'j \<Rightarrow> 'j result" where
  "addItemToLastArray J lastArray val obj =
     res_bind (getRequiredProperty J lastArray obj) (\<lambda>a.
       case js_append J a (js_string J (c_str val)) of
         None \<Rightarrow> Inl (SystemException ERRCODE_SYSTEM ''Can't add item into json array'')
       | Some a' \<Rightarrow>
           (case js_set J obj (c_str lastArray) (Some a') of
              None \<Rightarrow> Inl UndefinedBehaviour
            | Some o' \<Rightarrow> Inr o'))"

definition decode :: "'j jansson \<Rightarrow> string \<Rightarrow> 'j result" where
  "decode J data =
     (case js_loads J (c_str data) of
        None \<Rightarrow> Inl (SystemException ERRCODE_INVDATA
               (''error when parsing invalid json data ['' @ data @ '']''))
      | Some v \<Rightarrow> Inr v)"

definition getIntProperty :: "'j jansson \<Rightarrow> string \<Rightarrow> int \<Rightarrow> 'j \<Rightarrow> int" where
  "getIntProperty J key defaultValue obj =
     (case js_get J obj (c_str key) of
        None \<Rightarrow> defaultValue
      | Some v \<Rightarrow> to_int32 (js_integer_value J v))"

definition getStringProperty :: "'j jansson \<Rightarrow> string \<Rightarrow> 'j \<Rightarrow> string result" where
  "getStringProperty J key obj =
     (case js_get J obj (c_str key) of
        None \<Rightarrow> Inl (SystemException ERRCODE_INVDATA (''null or invalid property '' @ key))
      | Some v \<Rightarrow>
          (case js_string_value J v of
             None \<Rightarrow> Inl (SystemException ERRCODE_INVDATA (''null or invalid property '' @ key))
           | Some s \<Rightarrow> Inr s))"

fun array_strings :: "'j jansson \<Rightarrow> nat \<Rightarrow> 'j list \<Rightarrow> string list result" where
  "array_strings J index [] = Inr []"
| "array_strings J index (v # vs) =
     (case js_string_value J v of
        None \<Rightarrow> Inl (SystemException ERRCODE_INVDATA
               (''Array contains null or invalid string data at index '' @ show_nat index))
      | Some s \<Rightarrow> res_bind (array_strings J (Suc index) vs) (\<lambda>ss. Inr (s # ss)))"

definition getArrayProperty :: "'j jansson \<Rightarrow> string \<Rightarrow> 'j \<Rightarrow> string list result" where
  "getArrayProperty J key obj =
     res_bind (getRequiredProperty J key obj) (\<lambda>a. array_strings J 0 (js_items J a))"

section \<open>The wire form of a profile\<close>

fun add_items :: "'j jansson \<Rightarrow> string \<Rightarrow> string list \<Rightarrow> 'j \<Rightarrow> 'j result" where
  "add_items J lastArray [] obj = Inr obj"
| "add_items J lastArray (v # vs) obj =
     res_bind (addItemToLastArray J lastArray v obj) (add_items J lastArray vs)"

text \<open>
  The loop runs to \<^verbatim>\<open>param_count\<close> and reads \<^verbatim>\<open>params[i]\<close> unchecked.
\<close>

definition serialize :: "'j jansson \<Rightarrow> diet_profile option \<Rightarrow> string result" where
  "serialize J prof =
     (case prof of
        None \<Rightarrow> Inl (SystemException ERRCODE_SYSTEM ''Cannot serialize a null pointer profile'')
      | Some p \<Rightarrow>
          res_bind (setStringProperty J ''name'' (p_name p) (js_object J)) (\<lambda>o1.
          res_bind (setIntProperty J ''param_count'' (param_count p) o1) (\<lambda>o2.
          res_bind (setArrayProperty J ''params'' o2) (\<lambda>o3.
          res_bind (add_items J ''params'' (take (nat (param_count p)) (params p)) o3) (\<lambda>o4.
            if int (length (params p)) < param_count p then Inl UndefinedBehaviour
            else Inr (js_dumps J o4))))))"

definition deserialize :: "'j jansson \<Rightarrow> string \<Rightarrow> diet_profile result" where
  "deserialize J encodedJson =
     (if encodedJson = [] then
        Inl (SystemException ERRCODE_SYSTEM ''Cannot deserialize an empty string'')
      else
        res_bind (decode J encodedJson) (\<lambda>obj.
        res_bind (getStringProperty J ''name'' obj) (\<lambda>name.
        let count = getIntProperty J ''param_count'' 0 obj in
        res_bind (getArrayProperty J ''params'' obj) (\<lambda>ps.
          if int (length ps) \<noteq> count mod 2 ^ 64 then
            Inl (SystemException ERRCODE_INVDATA ''Incoherent profile, wrong number of parameters'')
          else Inr \<lparr>p_name = name, param_count = count, params = ps\<rparr>))))"

end
