(* ===== verification/Comm_Json.thy ===== *)
theory Comm_Json
  imports Comm_Profile
begin

text \<open>
  The JSON form of the data of a call: jobs, submission options, sessions, cancel and output options
  (\<^verbatim>\<open>communication/utils.cpp\<close>), and the laws of the JSON library under which what is written is read
  back. The data classes are generated; the fields the code passes on are the fields of the records
  here. Integers of 64 bits go through an \<^verbatim>\<open>int\<close> parameter and are cut to 32.
\<close>

section \<open>Properties of an object\<close>

datatype json_prop = PStr string | PInt int

fun setProperty :: "'j jansson \<Rightarrow> string \<times> json_prop \<Rightarrow> 'j \<Rightarrow> 'j result" where
  "setProperty J (key, PStr v) obj = setStringProperty J key v obj"
| "setProperty J (key, PInt i) obj = setIntProperty J key i obj"

fun setProperties :: "'j jansson \<Rightarrow> (string \<times> json_prop) list \<Rightarrow> 'j \<Rightarrow> 'j result" where
  "setProperties J [] obj = Inr obj"
| "setProperties J (p # ps) obj = res_bind (setProperty J p obj) (setProperties J ps)"

definition int_of_bool :: "bool \<Rightarrow> int" where
  "int_of_bool b = (if b then 1 else 0)"

section \<open>Jobs\<close>

record job =
  j_sessionId :: string
  j_submitMachineId :: string
  j_submitMachineName :: string
  j_jobId :: string
  j_workId :: int
  j_jobName :: string
  j_batchJobId :: string
  j_jobPath :: string
  j_outputPath :: string
  j_errorPath :: string
  j_outputDir :: string
  j_jobPrio :: int
  j_nbCpus :: int
  j_jobWorkingDir :: string
  j_status :: int
  j_submitDate :: int
  j_endDate :: int
  j_owner :: string
  j_jobQueue :: string
  j_wallClockLimit :: int
  j_groupName :: string
  j_jobDescription :: string
  j_memLimit :: int
  j_nbNodes :: int
  j_nbNodesAndCpuPerNode :: string
  j_userId :: string
  j_vmIp :: string
  j_vmId :: string

definition job_properties :: "job \<Rightarrow> (string \<times> json_prop) list" where
  "job_properties j =
     [(''vsession'', PStr (j_sessionId j)),
      (''submitmachineid'', PStr (j_submitMachineId j)),
      (''submitmachinename'', PStr (j_submitMachineName j)),
      (''jobid'', PStr (j_jobId j)),
      (''workid'', PInt (j_workId j)),
      (''jobname'', PStr (j_jobName j)),
      (''batchjobid'', PStr (j_batchJobId j)),
      (''jobpath'', PStr (j_jobPath j)),
      (''outputpath'', PStr (j_outputPath j)),
      (''errorpath'', PStr (j_errorPath j)),
      (''outputdir'', PStr (j_outputDir j)),
      (''jobprio'', PInt (j_jobPrio j)),
      (''nbcpus'', PInt (j_nbCpus j)),
      (''jobworkingdir'', PStr (j_jobWorkingDir j)),
      (''status'', PInt (j_status j)),
      (''submitdate'', PInt (j_submitDate j)),
      (''enddate'', PInt (j_endDate j)),
      (''owner'', PStr (j_owner j)),
      (''jobqueue'', PStr (j_jobQueue j)),
      (''wallclocklimit'', PInt (j_wallClockLimit j)),
      (''groupname'', PStr (j_groupName j)),
      (''jobdescription'', PStr (j_jobDescription j)),
      (''memlimit'', PInt (j_memLimit j)),
      (''nbnodes'', PInt (j_nbNodes j)),
      (''nbnodesandcpupernode'', PStr (j_nbNodesAndCpuPerNode j)),
      (''userid'', PStr (j_userId j)),
      (''vmip'', PStr (j_vmIp j)),
      (''vmid'', PStr (j_vmId j))]"

definition serialize_job :: "'j jansson \<Rightarrow> job \<Rightarrow> string result" where
  "serialize_job J j =
     res_bind (setProperties J (job_properties j) (js_object J)) (\<lambda>obj. Inr (js_dumps J obj))"

text \<open>
  The job starts with the defaults of its class; \<^verbatim>\<open>workid\<close> is not read, so it keeps its default 0.
\<close>

definition getJob :: "'j jansson \<Rightarrow> 'j \<Rightarrow> job result" where
  "getJob J obj =
     (let str = (\<lambda>key. getStringProperty J key obj); int = (\<lambda>key. getIntProperty J key (- 1) obj) in
      res_bind (str ''vsession'') (\<lambda>vsession.
      res_bind (str ''submitmachineid'') (\<lambda>submitmachineid.
      res_bind (str ''submitmachinename'') (\<lambda>submitmachinename.
      res_bind (str ''jobid'') (\<lambda>jobid.
      res_bind (str ''jobname'') (\<lambda>jobname.
      res_bind (str ''batchjobid'') (\<lambda>batchjobid.
      res_bind (str ''jobpath'') (\<lambda>jobpath.
      res_bind (str ''outputpath'') (\<lambda>outputpath.
      res_bind (str ''errorpath'') (\<lambda>errorpath.
      res_bind (str ''outputdir'') (\<lambda>outputdir.
      res_bind (str ''jobworkingdir'') (\<lambda>jobworkingdir.
      res_bind (str ''owner'') (\<lambda>owner.
      res_bind (str ''jobqueue'') (\<lambda>jobqueue.
      res_bind (str ''groupname'') (\<lambda>groupname.
      res_bind (str ''jobdescription'') (\<lambda>jobdescription.
      res_bind (str ''userid'') (\<lambda>userid.
      res_bind (str ''nbnodesandcpupernode'') (\<lambda>nbnodesandcpupernode.
      res_bind (str ''vmip'') (\<lambda>vmip.
      res_bind (str ''vmid'') (\<lambda>vmid.
      Inr \<lparr>j_sessionId = vsession, j_submitMachineId = submitmachineid,
           j_submitMachineName = submitmachinename, j_jobId = jobid, j_workId = 0,
           j_jobName = jobname, j_batchJobId = batchjobid, j_jobPath = jobpath,
           j_outputPath = outputpath, j_errorPath = errorpath, j_outputDir = outputdir,
           j_jobPrio = int ''jobprio'', j_nbCpus = int ''nbcpus'', j_jobWorkingDir = jobworkingdir,
           j_status = int ''status'', j_submitDate = int ''submitdate'',
           j_endDate = int ''enddate'', j_owner = owner, j_jobQueue = jobqueue,
           j_wallClockLimit = int ''wallclocklimit'', j_groupName = groupname,
           j_jobDescription = jobdescription, j_memLimit = int ''memlimit'',
           j_nbNodes = int ''nbnodes'', j_nbNodesAndCpuPerNode = nbnodesandcpupernode,
           j_userId = userid, j_vmIp = vmip, j_vmId = vmid\<rparr>))))))))))))))))))))"

section \<open>Options\<close>

record submit_options =
  so_name :: string
  so_queue :: string
  so_wallTime :: int
  so_memory :: int
  so_nbCpu :: int
  so_nbNodesAndCpuPerNode :: string
  so_outputPath :: string
  so_errorPath :: string
  so_mailNotification :: string
  so_mailNotifyUser :: string
  so_group :: string
  so_workingDir :: string
  so_cpuTime :: string
  so_selectQueueAutom :: bool
  so_fileParams :: string
  so_textParams :: string
  so_workId :: int
  so_specificParams :: string
  so_posix :: bool
  so_machine :: string
  so_loadType :: int

definition submit_properties :: "submit_options \<Rightarrow> (string \<times> json_prop) list" where
  "submit_properties s =
     [(''name'', PStr (so_name s)),
      (''queue'', PStr (so_queue s)),
      (''walltime'', PInt (so_wallTime s)),
      (''memory'', PInt (so_memory s)),
      (''nbcpu'', PInt (so_nbCpu s)),
      (''nbnodesandcpupernode'', PStr (so_nbNodesAndCpuPerNode s)),
      (''outputpath'', PStr (so_outputPath s)),
      (''errorpath'', PStr (so_errorPath s)),
      (''mailnotification'', PStr (so_mailNotification s)),
      (''mailnotifyuser'', PStr (so_mailNotifyUser s)),
      (''group'', PStr (so_group s)),
      (''workingdir'', PStr (so_workingDir s)),
      (''cputime'', PStr (so_cpuTime s)),
      (''selectqueueautom'', PInt (int_of_bool (so_selectQueueAutom s))),
      (''fileparams'', PStr (so_fileParams s)),
      (''textparams'', PStr (so_textParams s)),
      (''workid'', PInt (so_workId s)),
      (''specificparams'', PStr (so_specificParams s)),
      (''posix'', PInt (int_of_bool (so_posix s))),
      (''machine'', PStr (so_machine s)),
      (''criterion'', PInt (so_loadType s))]"

definition submit_object :: "'j jansson \<Rightarrow> submit_options \<Rightarrow> 'j result" where
  "submit_object J s = setProperties J (submit_properties s) (js_object J)"

definition getSubmitOptions :: "'j jansson \<Rightarrow> 'j \<Rightarrow> submit_options result" where
  "getSubmitOptions J obj =
     (let str = (\<lambda>key. getStringProperty J key obj); int = (\<lambda>key. getIntProperty J key (- 1) obj) in
      res_bind (str ''name'') (\<lambda>name.
      res_bind (str ''queue'') (\<lambda>queue.
      res_bind (str ''nbnodesandcpupernode'') (\<lambda>nbnodesandcpupernode.
      res_bind (str ''outputpath'') (\<lambda>outputpath.
      res_bind (str ''errorpath'') (\<lambda>errorpath.
      res_bind (str ''mailnotification'') (\<lambda>mailnotification.
      res_bind (str ''mailnotifyuser'') (\<lambda>mailnotifyuser.
      res_bind (str ''group'') (\<lambda>group.
      res_bind (str ''workingdir'') (\<lambda>workingdir.
      res_bind (str ''cputime'') (\<lambda>cputime.
      res_bind (str ''fileparams'') (\<lambda>fileparams.
      res_bind (str ''textparams'') (\<lambda>textparams.
      res_bind (str ''specificparams'') (\<lambda>specificparams.
      res_bind (str ''machine'') (\<lambda>machine.
      Inr \<lparr>so_name = name, so_queue = queue, so_wallTime = int ''walltime'',
           so_memory = int ''memory'', so_nbCpu = int ''nbcpu'',
           so_nbNodesAndCpuPerNode = nbnodesandcpupernode, so_outputPath = outputpath,
           so_errorPath = errorpath, so_mailNotification = mailnotification,
           so_mailNotifyUser = mailnotifyuser, so_group = group, so_workingDir = workingdir,
           so_cpuTime = cputime, so_selectQueueAutom = (int ''selectqueueautom'' \<noteq> 0),
           so_fileParams = fileparams, so_textParams = textparams, so_workId = int ''workid'',
           so_specificParams = specificparams, so_posix = (int ''posix'' \<noteq> 0),
           so_machine = machine, so_loadType = getIntProperty J ''criterion'' 1 obj\<rparr>)))))))))))))))"

record session_info =
  si_sessionId :: string
  si_userId :: string
  si_sessionKey :: string
  si_dateLastConnect :: int
  si_dateCreation :: int
  si_dateClosure :: int
  si_status :: int
  si_closePolicy :: int
  si_timeout :: int
  si_authenId :: string

definition session_object :: "'j jansson \<Rightarrow> session_info \<Rightarrow> 'j result" where
  "session_object J s = setProperties J
     [(''sessionid'', PStr (si_sessionId s)),
      (''userid'', PStr (si_userId s)),
      (''sessionkey'', PStr (si_sessionKey s)),
      (''lastconnect'', PInt (si_dateLastConnect s)),
      (''firstconnect'', PInt (si_dateCreation s)),
      (''expire'', PInt (si_dateClosure s)),
      (''status'', PInt (si_status s)),
      (''closepolicy'', PInt (si_closePolicy s)),
      (''timeout'', PInt (si_timeout s)),
      (''authenid'', PStr (si_authenId s))] (js_object J)"

definition cancel_object :: "'j jansson \<Rightarrow> string \<Rightarrow> string \<Rightarrow> string \<Rightarrow> 'j result" where
  "cancel_object J machineId user jobId = setProperties J
     [(''machineid'', PStr machineId), (''user'', PStr user), (''jobid'', PStr jobId)] (js_object J)"

definition joboutput_object :: "'j jansson \<Rightarrow> string \<Rightarrow> string \<Rightarrow> int \<Rightarrow> 'j result" where
  "joboutput_object J machineId outputDir days = setProperties J
     [(''machineid'', PStr machineId), (''outputdir'', PStr outputDir), (''days'', PInt days)]
     (js_object J)"

section \<open>Laws of the JSON library\<close>

text \<open>
  What the documentation of the library promises of the functions above: \<open>obj\<close> and \<open>arr\<close> are the
  tests of the kind of a value, \<open>utf8\<close> the valid UTF-8 strings, to which the ASCII ones belong.
\<close>

definition ascii :: "string \<Rightarrow> bool" where
  "ascii s \<longleftrightarrow> list_all (\<lambda>c. 0 < (of_char c :: nat) \<and> (of_char c :: nat) < 128) s"

definition json_laws :: "'j jansson \<Rightarrow> ('j \<Rightarrow> bool) \<Rightarrow> ('j \<Rightarrow> bool) \<Rightarrow> (string \<Rightarrow> bool) \<Rightarrow> bool" where
  "json_laws J obj arr utf8 \<longleftrightarrow>
     obj (js_object J) \<and>
     (\<forall>v k x. obj v \<and> utf8 k \<longrightarrow> (\<exists>w. js_set J v k (Some x) = Some w \<and> obj w \<and>
        (\<forall>k'. js_get J w k' = (if k' = k then Some x else js_get J v k')))) \<and>
     (\<forall>s. utf8 s \<longrightarrow> (\<exists>x. js_string J s = Some x \<and> js_string_value J x = Some s)) \<and>
     (\<forall>i. js_integer_value J (js_integer J i) = i) \<and>
     arr (js_array J) \<and> js_items J (js_array J) = [] \<and>
     (\<forall>a x. arr a \<longrightarrow> (\<exists>b. js_append J a (Some x) = Some b \<and> arr b \<and> js_items J b = js_items J a @ [x])) \<and>
     (\<forall>v. obj v \<longrightarrow> js_dumps J v \<noteq> [] \<and> CHR 0x00 \<notin> set (js_dumps J v) \<and> js_loads J (js_dumps J v) = Some v) \<and>
     (\<forall>s. ascii s \<longrightarrow> utf8 s)"

lemma json_set:
  assumes "json_laws J obj arr utf8" and "obj v" and "utf8 k"
  obtains w where "js_set J v k (Some x) = Some w" and "obj w"
    and "\<And>k'. js_get J w k' = (if k' = k then Some x else js_get J v k')"
  using assms unfolding json_laws_def by metis

lemma json_string:
  assumes "json_laws J obj arr utf8" and "utf8 s"
  obtains x where "js_string J s = Some x" and "js_string_value J x = Some s"
  using assms unfolding json_laws_def by metis

lemma json_append:
  assumes "json_laws J obj arr utf8" and "arr a"
  obtains b where "js_append J a (Some x) = Some b" and "arr b" and "js_items J b = js_items J a @ [x]"
  using assms unfolding json_laws_def by metis

lemma json_basic:
  assumes "json_laws J obj arr utf8"
  shows "obj (js_object J)" and "js_integer_value J (js_integer J i) = i" and "arr (js_array J)"
    and "js_items J (js_array J) = []" and "ascii s \<Longrightarrow> utf8 s"
  using assms unfolding json_laws_def by auto

lemma json_dumps:
  assumes "json_laws J obj arr utf8" and "obj v"
  shows "js_dumps J v \<noteq> []" and "CHR 0x00 \<notin> set (js_dumps J v)" and "js_loads J (js_dumps J v) = Some v"
  using assms unfolding json_laws_def by auto

lemma ascii_c_str [simp]: "ascii s \<Longrightarrow> c_str s = s"
  by (intro c_str_id) (auto simp: ascii_def list_all_iff)

lemma to_int32_id: "in_width 32 i \<Longrightarrow> to_int32 i = i"
  by (simp add: to_int32_def in_width_def)

lemma to_int32_width [simp]: "in_width 32 (to_int32 i)"
  by (simp add: to_int32_def in_width_def)

text \<open>A string that passes through the library unchanged.\<close>

definition clean :: "(string \<Rightarrow> bool) \<Rightarrow> string \<Rightarrow> bool" where
  "clean utf8 s \<longleftrightarrow> utf8 s \<and> CHR 0x00 \<notin> set s"

fun prop_ok :: "(string \<Rightarrow> bool) \<Rightarrow> string \<times> json_prop \<Rightarrow> bool" where
  "prop_ok utf8 (k, PStr s) \<longleftrightarrow> ascii k \<and> clean utf8 s"
| "prop_ok utf8 (k, PInt i) \<longleftrightarrow> ascii k"

text \<open>The property read back from an object.\<close>

fun reads :: "'j jansson \<Rightarrow> 'j \<Rightarrow> string \<times> json_prop \<Rightarrow> bool" where
  "reads J v (k, PStr s) \<longleftrightarrow> getStringProperty J k v = Inr s"
| "reads J v (k, PInt i) \<longleftrightarrow> (\<forall>d. getIntProperty J k d v = to_int32 i)"

lemma reads_get: "js_get J v (c_str (fst p)) = js_get J w (c_str (fst p)) \<Longrightarrow> reads J v p = reads J w p"
  by (cases p; cases "snd p") (auto simp: getStringProperty_def getIntProperty_def)

lemma setProperty_ok:
  assumes "json_laws J obj arr utf8" and "obj v" and "prop_ok utf8 p"
  shows "\<exists>w. setProperty J p v = Inr w \<and> obj w \<and> reads J w p \<and>
    (\<forall>k. k \<noteq> fst p \<longrightarrow> js_get J w k = js_get J v k)"
proof (cases p)
  case (Pair k q)
  then have k: "ascii k" using assms(3) by (cases q) auto
  then have "utf8 k" using json_basic(5) [OF assms(1)] by simp
  note set = json_set [OF assms(1,2) this]
  show ?thesis
  proof (cases q)
    case (PStr s)
    then have s: "clean utf8 s" using assms(3) Pair by simp
    then obtain x where x: "js_string J s = Some x" "js_string_value J x = Some s"
      using json_string [OF assms(1)] by (auto simp: clean_def)
    obtain w where w: "js_set J v k (Some x) = Some w" "obj w"
      "\<And>k'. js_get J w k' = (if k' = k then Some x else js_get J v k')" using set by blast
    then show ?thesis
      using Pair PStr k s x by (simp add: setStringProperty_def getStringProperty_def clean_def c_str_id)
  next
    case (PInt i)
    obtain w where w: "js_set J v k (Some (js_integer J (to_int32 i))) = Some w" "obj w"
      "\<And>k'. js_get J w k' = (if k' = k then Some (js_integer J (to_int32 i)) else js_get J v k')"
      using set by blast
    then show ?thesis
      using Pair PInt k json_basic(2) [OF assms(1)]
      by (simp add: setIntProperty_def getIntProperty_def to_int32_id)
  qed
qed

lemma setProperties_ok:
  assumes "json_laws J obj arr utf8"
  shows "obj v \<Longrightarrow> list_all (prop_ok utf8) ps \<Longrightarrow> distinct (map fst ps) \<Longrightarrow>
    \<exists>w. setProperties J ps v = Inr w \<and> obj w \<and> list_all (reads J w) ps \<and>
      (\<forall>k. k \<notin> fst ` set ps \<longrightarrow> js_get J w k = js_get J v k)"
proof (induction ps arbitrary: v)
  case Nil
  then show ?case by simp
next
  case (Cons p ps)
  from setProperty_ok [OF assms Cons.prems(1), of p] Cons.prems obtain u where
    u: "setProperty J p v = Inr u" "obj u" "reads J u p" "\<forall>k. k \<noteq> fst p \<longrightarrow> js_get J u k = js_get J v k"
    by auto
  from Cons.IH [OF u(2)] Cons.prems obtain w where
    w: "setProperties J ps u = Inr w" "obj w" "list_all (reads J w) ps"
       "\<forall>k. k \<notin> fst ` set ps \<longrightarrow> js_get J w k = js_get J u k" by auto
  have "ascii (fst p)" using Cons.prems(2) by (cases p; cases "snd p") auto
  then have "reads J w p" using u(3) w(4) Cons.prems(3) reads_get [of J w p u] by auto
  then show ?case using u w by auto
qed

definition fits :: "(string \<Rightarrow> bool) \<Rightarrow> string \<times> json_prop \<Rightarrow> bool" where
  "fits utf8 p \<longleftrightarrow> (case snd p of PStr s \<Rightarrow> clean utf8 s | PInt i \<Rightarrow> in_width 32 i)"

lemma prop_ok_fits: "ascii (fst p) \<Longrightarrow> fits utf8 p \<Longrightarrow> prop_ok utf8 p"
  by (cases p; cases "snd p") (auto simp: fits_def)

lemma reads_fits:
  "reads J w (k, PInt i) \<Longrightarrow> fits utf8 (k, PInt i) \<Longrightarrow> getIntProperty J k d w = i"
  by (simp add: fits_def to_int32_id)

lemma decode_dumps:
  "json_laws J obj arr utf8 \<Longrightarrow> obj v \<Longrightarrow> decode J (js_dumps J v) = Inr v"
  using json_dumps(2,3) [of J obj arr utf8 v] by (simp add: decode_def c_str_id)

lemma written_object:
  assumes "json_laws J obj arr utf8" and "list_all (\<lambda>p. ascii (fst p)) ps" and "distinct (map fst ps)"
    and "list_all (fits utf8) ps"
  shows "\<exists>w. setProperties J ps (js_object J) = Inr w \<and> obj w \<and> list_all (reads J w) ps"
proof -
  have "list_all (prop_ok utf8) ps" using assms(2,4) by (auto simp: list_all_iff prop_ok_fits)
  then show ?thesis
    using setProperties_ok [OF assms(1) json_basic(1) [OF assms(1)] _ assms(3)] by blast
qed

lemma job_keys:
  "list_all (\<lambda>p. ascii (fst p)) (job_properties j)" "distinct (map fst (job_properties j))"
  by (simp_all add: job_properties_def ascii_def)

lemma submit_keys:
  "list_all (\<lambda>p. ascii (fst p)) (submit_properties s)" "distinct (map fst (submit_properties s))"
  by (simp_all add: submit_properties_def ascii_def)

lemma getJob_reads:
  assumes "list_all (reads J w) (job_properties j)" and "list_all (fits utf8) (job_properties j)"
  shows "getJob J w = Inr (j\<lparr>j_workId := 0\<rparr>)"
  using assms by (simp add: job_properties_def getJob_def fits_def to_int32_id Let_def)

lemma getSubmitOptions_reads:
  assumes "list_all (reads J w) (submit_properties s)" and "list_all (fits utf8) (submit_properties s)"
  shows "getSubmitOptions J w = Inr s"
  using assms by (simp add: submit_properties_def getSubmitOptions_def fits_def to_int32_id Let_def
      int_of_bool_def split: if_splits)

lemma array_strings_values:
  "map (js_string_value J) xs = map Some ss \<Longrightarrow> array_strings J i xs = Inr ss"
proof (induction xs arbitrary: ss i)
  case Nil
  then show ?case by simp
next
  case (Cons x xs)
  then obtain s rest where "ss = s # rest" by (cases ss) auto
  with Cons show ?case by simp
qed

lemma add_items_ok:
  assumes laws: "json_laws J obj arr utf8" and key: "ascii k"
  shows "obj v \<Longrightarrow> js_get J v k = Some a \<Longrightarrow> arr a \<Longrightarrow> list_all (clean utf8) vs \<Longrightarrow>
    \<exists>w b. add_items J k vs v = Inr w \<and> obj w \<and> js_get J w k = Some b \<and>
      map (js_string_value J) (js_items J b) = map (js_string_value J) (js_items J a) @ map Some vs \<and>
      (\<forall>k'. k' \<noteq> k \<longrightarrow> js_get J w k' = js_get J v k')"
proof (induction vs arbitrary: v a)
  case Nil
  then show ?case by simp
next
  case (Cons s vs)
  have kt: "utf8 k" using json_basic(5) [OF laws key] .
  obtain x where x: "js_string J s = Some x" "js_string_value J x = Some s"
    using json_string [OF laws] Cons.prems(4) by (auto simp: clean_def)
  obtain b where b: "js_append J a (Some x) = Some b" "arr b" "js_items J b = js_items J a @ [x]"
    using json_append [OF laws Cons.prems(3)] by blast
  obtain u where u: "js_set J v k (Some b) = Some u" "obj u"
    "\<And>k'. js_get J u k' = (if k' = k then Some b else js_get J v k')"
    using json_set [OF laws Cons.prems(1) kt] by blast
  have "addItemToLastArray J k s v = Inr u"
    using Cons.prems(2,4) x b u(1) key
    by (simp add: addItemToLastArray_def getRequiredProperty_def clean_def c_str_id)
  with Cons.IH [of u b] Cons.prems(4) u b x show ?case by (auto simp: res_simps)
qed

lemma profile_written:
  assumes laws: "json_laws J obj arr utf8" and name: "clean utf8 (p_name p)"
    and ps: "list_all (clean utf8) (params p)" and count: "param_count p = int (length (params p))"
  shows "\<exists>w. serialize J (Some p) = Inr (js_dumps J w) \<and> obj w \<and>
    getStringProperty J ''name'' w = Inr (p_name p) \<and>
    getIntProperty J ''param_count'' 0 w = to_int32 (param_count p) \<and>
    getArrayProperty J ''params'' w = Inr (params p)"
proof -
  have k: "ascii ''name''" "ascii ''param_count''" "ascii ''params''" by (simp_all add: ascii_def)
  let ?q = "[(''name'', PStr (p_name p)), (''param_count'', PInt (param_count p))]"
  obtain v where v: "setProperties J ?q (js_object J) = Inr v" "obj v" "list_all (reads J v) ?q"
    using setProperties_ok [OF laws json_basic(1) [OF laws], of ?q] k name by auto
  obtain u where u: "js_set J v ''params'' (Some (js_array J)) = Some u" "obj u"
    "\<And>k'. js_get J u k' = (if k' = ''params'' then Some (js_array J) else js_get J v k')"
    using json_set [OF laws v(2) json_basic(5) [OF laws k(3)]] by blast
  then have arr: "setArrayProperty J ''params'' v = Inr u"
    using k by (simp add: setArrayProperty_def getRequiredProperty_def)
  from u(3) have "js_get J u ''params'' = Some (js_array J)" by simp
  from add_items_ok [OF laws k(3) u(2) this json_basic(3) [OF laws] ps] obtain w b where
    w: "add_items J ''params'' (params p) u = Inr w" "obj w" "js_get J w ''params'' = Some b"
      "map (js_string_value J) (js_items J b) = map Some (params p)"
      "\<forall>k'. k' \<noteq> ''params'' \<longrightarrow> js_get J w k' = js_get J u k'"
    using json_basic(4) [OF laws] by auto
  have same: "js_get J w k' = js_get J v k'" if "k' \<noteq> ''params''" for k' using that w(5) u(3) by simp
  have "list_all (reads J w) ?q"
    using v(3) reads_get [of J w "?q ! 0" v] reads_get [of J w "?q ! 1" v] same k by simp
  moreover have "getArrayProperty J ''params'' w = Inr (params p)"
    using w(3,4) k by (simp add: getArrayProperty_def getRequiredProperty_def array_strings_values)
  moreover have "serialize J (Some p) = Inr (js_dumps J w)"
    using v(1) arr w(1) count by (auto simp: serialize_def res_simps)
  ultimately show ?thesis using w(2) by auto
qed

section \<open>A model of the laws\<close>

text \<open>
  The laws can hold: values are trees, and the text of a value is the decimal form of its number in
  an enumeration of all trees.
\<close>

datatype jtree = JStr string | JInt int | JArr "jtree list" | JObj "(string \<times> jtree) list"

instance jtree :: countable
  by countable_datatype

definition tree_jansson :: "jtree jansson" where
  "tree_jansson =
     \<lparr>js_object = JObj [],
      js_string = (\<lambda>s. Some (JStr s)),
      js_integer = JInt,
      js_array = JArr [],
      js_set = (\<lambda>v k x. case (v, x) of (JObj l, Some y) \<Rightarrow> Some (JObj ((k, y) # l)) | _ \<Rightarrow> None),
      js_get = (\<lambda>v k. case v of JObj l \<Rightarrow> map_of l k | _ \<Rightarrow> None),
      js_append = (\<lambda>a x. case (a, x) of (JArr l, Some y) \<Rightarrow> Some (JArr (l @ [y])) | _ \<Rightarrow> None),
      js_items = (\<lambda>a. case a of JArr l \<Rightarrow> l | _ \<Rightarrow> []),
      js_string_value = (\<lambda>v. case v of JStr s \<Rightarrow> Some s | _ \<Rightarrow> None),
      js_integer_value = (\<lambda>v. case v of JInt i \<Rightarrow> i | _ \<Rightarrow> 0),
      js_dumps = (\<lambda>v. show_nat (to_nat v)),
      js_loads = (\<lambda>s. map_option from_nat (parse_nat s))\<rparr>"

fun is_jobj :: "jtree \<Rightarrow> bool" where
  "is_jobj (JObj l) = True"
| "is_jobj _ = False"

fun is_jarr :: "jtree \<Rightarrow> bool" where
  "is_jarr (JArr l) = True"
| "is_jarr _ = False"

lemma tree_laws: "json_laws tree_jansson is_jobj is_jarr (\<lambda>s. True)"
  unfolding json_laws_def
  by (auto simp: tree_jansson_def show_nat_no_char is_digit_def elim!: is_jobj.elims is_jarr.elims)

lemma deserialize_serialize:
  assumes "json_laws J obj arr utf8" and "clean utf8 (p_name p)" and "list_all (clean utf8) (params p)"
    and "param_count p = int (length (params p))" and "length (params p) < 2 ^ 31"
  shows "res_bind (serialize J (Some p)) (deserialize J) = Inr p"
proof -
  obtain w where w: "serialize J (Some p) = Inr (js_dumps J w)" "obj w"
    "getStringProperty J ''name'' w = Inr (p_name p)"
    "getIntProperty J ''param_count'' 0 w = to_int32 (param_count p)"
    "getArrayProperty J ''params'' w = Inr (params p)"
    using profile_written [OF assms(1-4)] by blast
  have "to_int32 (param_count p) = param_count p"
    using assms(4,5) by (intro to_int32_id) (simp add: in_width_def)
  then show ?thesis
    using w assms(4,5) decode_dumps [OF assms(1) w(2)] json_dumps(1) [OF assms(1) w(2)]
    by (simp add: deserialize_def)
qed

section \<open>Properties\<close>

text \<open>
  A well-formed profile survives the wire: what a client serializes, the server that deserializes
  it gets back.
\<close>

theorem profile_roundtrip:
  assumes "json_laws J obj arr utf8" and "clean utf8 (p_name p)" and "list_all (clean utf8) (params p)"
    and "param_count p = int (length (params p))" and "length (params p) < 2 ^ 31"
  shows "res_bind (serialize J (Some p)) (deserialize J) = Inr p"
  by (rule deserialize_serialize [OF assms])

theorem profile_roundtrip_witness:
  "res_bind (serialize tree_jansson (Some \<lparr>p_name = ''userCreate'', param_count = 2, params = [''key'', []]\<rparr>))
     (deserialize tree_jansson) = Inr \<lparr>p_name = ''userCreate'', param_count = 2, params = [''key'', []]\<rparr>"
  by (rule profile_roundtrip [OF tree_laws]) (simp_all add: clean_def)

text \<open>
  Whatever the text received, a profile that \<^verbatim>\<open>deserialize\<close> accepts has as many parameters as its
  count says (below 2 to the 31 of them); in particular its count is not -1, the value by which a server marks
  an unknown service and \<^verbatim>\<open>diet_call_gen\<close> tests for.
\<close>

theorem deserialize_count:
  assumes "deserialize J s = Inr p" and "length (params p) < 2 ^ 31"
  shows "param_count p = int (length (params p)) \<and> param_count p \<noteq> -1"
proof -
  let ?c = "param_count p"
  have w: "in_width 32 ?c"
    using assms(1) unfolding deserialize_def getIntProperty_def
    by (auto simp: res_simps Let_def in_width_def [of 32 0] split: if_splits option.splits)
  have eq: "int (length (params p)) = ?c mod 2 ^ 64"
    using assms(1) unfolding deserialize_def by (auto simp: res_simps Let_def split: if_splits)
  have "0 \<le> ?c"
  proof (rule ccontr)
    assume "\<not> 0 \<le> ?c"
    then have "?c mod 2 ^ 64 = ?c + 2 ^ 64"
      using w mod_add_self2 [of ?c "2 ^ 64 :: int"] mod_pos_pos_trivial [of "?c + 2 ^ 64" "2 ^ 64"]
      by (simp add: in_width_def)
    with eq w assms(2) show False by (simp add: in_width_def)
  qed
  then show ?thesis using eq w by (simp add: in_width_def)
qed

theorem deserialize_count_witness:
  "param_count (projr (deserialize tree_jansson (projr (serialize tree_jansson
     (Some \<lparr>p_name = ''heartbeat'', param_count = 1, params = [''x'']\<rparr>))))) \<noteq> -1"
proof -
  let ?p = "\<lparr>p_name = ''heartbeat'', param_count = 1, params = [''x'']\<rparr>"
  have "res_bind (serialize tree_jansson (Some ?p)) (deserialize tree_jansson) = Inr ?p"
    by (rule deserialize_serialize [OF tree_laws]) (simp_all add: clean_def)
  then obtain s where "serialize tree_jansson (Some ?p) = Inr s" "deserialize tree_jansson s = Inr ?p"
    by (auto simp: res_simps)
  then show ?thesis using deserialize_count [of tree_jansson s ?p] by simp
qed

text \<open>
  C38. A job keeps every field on the wire but its work identifier: \<^verbatim>\<open>serialize\<close> writes \<^verbatim>\<open>workid\<close> and
  \<^verbatim>\<open>getJob\<close> never reads it, so it comes back as 0.
\<close>

theorem job_roundtrip:
  assumes "json_laws J obj arr utf8" and "list_all (fits utf8) (job_properties j)"
  shows "res_bind (serialize_job J j) (\<lambda>s. res_bind (decode J s) (getJob J)) = Inr (j\<lparr>j_workId := 0\<rparr>)"
proof -
  obtain w where w: "setProperties J (job_properties j) (js_object J) = Inr w" "obj w"
    "list_all (reads J w) (job_properties j)"
    using written_object [OF assms(1) job_keys assms(2)] by blast
  then show ?thesis
    using decode_dumps [OF assms(1) w(2)] getJob_reads [OF w(3) assms(2)]
    by (simp add: serialize_job_def)
qed

theorem job_roundtrip_witness:
  "res_bind (serialize_job tree_jansson \<lparr>j_sessionId = ''1'', j_submitMachineId = ''m'',
      j_submitMachineName = ''n'', j_jobId = ''J_1'', j_workId = 7, j_jobName = ''a'', j_batchJobId = ''b'',
      j_jobPath = ''p'', j_outputPath = ''o'', j_errorPath = ''e'', j_outputDir = ''d'', j_jobPrio = 3,
      j_nbCpus = 1, j_jobWorkingDir = ''w'', j_status = 1, j_submitDate = -1, j_endDate = -1,
      j_owner = ''u'', j_jobQueue = ''q'', j_wallClockLimit = 60, j_groupName = ''g'',
      j_jobDescription = [], j_memLimit = 5, j_nbNodes = 1, j_nbNodesAndCpuPerNode = [],
      j_userId = ''u'', j_vmIp = [], j_vmId = []\<rparr>) (\<lambda>s. res_bind (decode tree_jansson s) (getJob tree_jansson)) =
   Inr \<lparr>j_sessionId = ''1'', j_submitMachineId = ''m'',
      j_submitMachineName = ''n'', j_jobId = ''J_1'', j_workId = 0, j_jobName = ''a'', j_batchJobId = ''b'',
      j_jobPath = ''p'', j_outputPath = ''o'', j_errorPath = ''e'', j_outputDir = ''d'', j_jobPrio = 3,
      j_nbCpus = 1, j_jobWorkingDir = ''w'', j_status = 1, j_submitDate = -1, j_endDate = -1,
      j_owner = ''u'', j_jobQueue = ''q'', j_wallClockLimit = 60, j_groupName = ''g'',
      j_jobDescription = [], j_memLimit = 5, j_nbNodes = 1, j_nbNodesAndCpuPerNode = [],
      j_userId = ''u'', j_vmIp = [], j_vmId = []\<rparr>"
  by (subst job_roundtrip [OF tree_laws]) (simp_all add: job_properties_def fits_def clean_def in_width_def)

text \<open>The options of a submission come back from the wire unchanged.\<close>

theorem submit_roundtrip:
  assumes "json_laws J obj arr utf8" and "list_all (fits utf8) (submit_properties s)"
  shows "res_bind (submit_object J s)
     (\<lambda>v. res_bind (decode J (js_dumps J v)) (getSubmitOptions J)) = Inr s"
proof -
  obtain w where w: "setProperties J (submit_properties s) (js_object J) = Inr w" "obj w"
    "list_all (reads J w) (submit_properties s)"
    using written_object [OF assms(1) submit_keys assms(2)] by blast
  then show ?thesis
    using decode_dumps [OF assms(1) w(2)] getSubmitOptions_reads [OF w(3) assms(2)]
    by (simp add: submit_object_def)
qed

theorem submit_roundtrip_witness:
  "res_bind (submit_object tree_jansson \<lparr>so_name = ''n'', so_queue = ''q'', so_wallTime = 60,
      so_memory = -1, so_nbCpu = 4, so_nbNodesAndCpuPerNode = ''2:4'', so_outputPath = ''o'',
      so_errorPath = ''e'', so_mailNotification = [], so_mailNotifyUser = [], so_group = ''g'',
      so_workingDir = ''w'', so_cpuTime = [], so_selectQueueAutom = True, so_fileParams = [],
      so_textParams = ''A=1'', so_workId = 5, so_specificParams = [], so_posix = False,
      so_machine = ''m'', so_loadType = 2\<rparr>)
     (\<lambda>v. res_bind (decode tree_jansson (js_dumps tree_jansson v)) (getSubmitOptions tree_jansson)) =
   Inr \<lparr>so_name = ''n'', so_queue = ''q'', so_wallTime = 60,
      so_memory = -1, so_nbCpu = 4, so_nbNodesAndCpuPerNode = ''2:4'', so_outputPath = ''o'',
      so_errorPath = ''e'', so_mailNotification = [], so_mailNotifyUser = [], so_group = ''g'',
      so_workingDir = ''w'', so_cpuTime = [], so_selectQueueAutom = True, so_fileParams = [],
      so_textParams = ''A=1'', so_workId = 5, so_specificParams = [], so_posix = False,
      so_machine = ''m'', so_loadType = 2\<rparr>"
  by (rule submit_roundtrip [OF tree_laws])
    (simp add: submit_properties_def fits_def clean_def in_width_def int_of_bool_def)

end
