(* ===== verification/Comm_Sed.thy ===== *)
theory Comm_Sed
  imports Comm_Json
begin

text \<open>
  The calls between processes: the client's request with its retries
  (\<^verbatim>\<open>communication/zhelpers.cpp\<close>, \<^verbatim>\<open>DIET_client.cpp\<close>), the server's dispatch to its callbacks
  (\<^verbatim>\<open>SeD.cpp\<close>, \<^verbatim>\<open>SeDWorker.hpp\<close>, \<^verbatim>\<open>Worker.hpp\<close>) and the dispatcher's workers and watch
  (\<^verbatim>\<open>dispatcher/AnnuaryWorker.hpp\<close>, \<^verbatim>\<open>dispatcher/Dispatcher.cpp\<close>). The transport is a parameter: what
  the polls of a connection give, and what a TLS exchange answers.
\<close>

section \<open>A request with retries\<close>

text \<open>What one \<^verbatim>\<open>zmq::poll\<close> gives: a message, or nothing before the timeout.\<close>

datatype poll = Answer string | Timeout

text \<open>
  \<^verbatim>\<open>LazyPirateClient::send\<close> on the polls of the connection: whether it succeeded, the message in its
  buffer and the number of requests sent; \<open>None\<close> while it still polls. \<^verbatim>\<open>Socket::get\<close> erases the NULs
  of a message.
\<close>

fun lpc_poll :: "int \<Rightarrow> int \<Rightarrow> nat \<Rightarrow> poll list \<Rightarrow> (bool \<times> string \<times> nat) option" where
  "lpc_poll retries verbosity sent [] = None"
| "lpc_poll retries verbosity sent (Answer m # ps) =
     (let buff = filter (\<lambda>c. c \<noteq> CHR 0x00) m in
      if buff \<noteq> [] then Some (True, buff, sent) else lpc_poll retries verbosity sent ps)"
| "lpc_poll retries verbosity sent (Timeout # ps) =
     (if retries - 1 = 0 \<or> verbosity = 0 then Some (False, [], sent)
      else lpc_poll (retries - 1) verbosity (sent + 1) ps)"

definition lpc_send :: "int \<Rightarrow> int \<Rightarrow> poll list \<Rightarrow> (bool \<times> string \<times> nat) option" where
  "lpc_send retries verbosity ps =
     (if retries = 0 then Some (False, [], 0) else lpc_poll retries verbosity 1 ps)"

section \<open>A call to one server\<close>

text \<open>
  The transport: connecting to an address fails or gives, for a request, what the polls return; a TLS
  exchange with a host and a port fails or gives the answer.
\<close>

record transport =
  zmq_connect :: "string \<Rightarrow> (string \<Rightarrow> poll list) result"
  tls_exchange :: "string \<Rightarrow> int \<Rightarrow> string \<Rightarrow> string option"

fun is_vishnu :: "exn \<Rightarrow> bool" where
  "is_vishnu (UMSVishnuException _ _) = True"
| "is_vishnu (TMSVishnuException _ _) = True"
| "is_vishnu (FMSVishnuException _ _) = True"
| "is_vishnu (UserException _ _) = True"
| "is_vishnu (SystemException _ _) = True"
| "is_vishnu _ = False"

text \<open>
  The return value and the profile after the call; the profile is changed only on success. A list of
  polls that ends before the request is decided counts as no answer.
\<close>

definition diet_call_gen :: "'j jansson \<Rightarrow> transport \<Rightarrow> diet_profile \<Rightarrow> string \<Rightarrow> int \<Rightarrow>
    (int \<times> diet_profile) result" where
  "diet_call_gen J net prof uri verbosity =
     res_bind (zmq_connect net uri) (\<lambda>exchange.
     res_bind (serialize J (Some prof)) (\<lambda>s1.
       case lpc_send 3 verbosity (exchange s1) of
         Some (True, response, _) \<Rightarrow>
           res_bind (deserialize J response) (\<lambda>result.
             if param_count result = -1 then Inr (1, prof)
             else Inr (0, prof\<lparr>param_count := param_count result, params := params result\<rparr>))
       | _ \<Rightarrow> Inr (-1, prof)))"

definition ssl_call_gen :: "'j jansson \<Rightarrow> transport \<Rightarrow> diet_profile \<Rightarrow> string \<Rightarrow> int \<Rightarrow>
    (int \<times> diet_profile) result" where
  "ssl_call_gen J net prof host port =
     res_bind (serialize J (Some prof)) (\<lambda>s1.
       case tls_exchange net host port s1 of
         None \<Rightarrow> Inr (-1, prof)
       | Some response \<Rightarrow>
           (case deserialize J response of
              Inr result \<Rightarrow> Inr (0, prof\<lparr>param_count := param_count result, params := params result\<rparr>)
            | Inl e \<Rightarrow> if is_vishnu e then Inr (-1, prof) else Inl e))"

definition abstract_call_gen :: "'j jansson \<Rightarrow> config_map \<Rightarrow> transport \<Rightarrow> diet_profile \<Rightarrow> string \<Rightarrow>
    (int \<times> diet_profile) result" where
  "abstract_call_gen J config net prof uri =
     (if getConfigBool config USE_SSL False = (True, True) then
        res_bind (getPortFromUri uri) (\<lambda>port.
        res_bind (getHostFromUri uri) (\<lambda>host. ssl_call_gen J net prof host port))
      else diet_call_gen J net prof uri 1)"

section \<open>A call to a service\<close>

text \<open>The answer ends the search unless it is the error of a server that has no such service.\<close>

definition final_answer :: "diet_profile \<Rightarrow> bool result" where
  "final_answer prof =
     (case params prof of
        [] \<Rightarrow> Inl UndefinedBehaviour
      | s # rest \<Rightarrow>
          if s = ''success'' then Inr True
          else if s = ''error'' then
            (case rest of
               [] \<Rightarrow> Inl UndefinedBehaviour
             | m # _ \<Rightarrow> Inr (find_str m ''Service call failed for the profile'' = None))
          else Inr False)"

text \<open>
  The servers are tried in turn, each from the saved profile; \<^verbatim>\<open>catch (...)\<close> goes on after any
  exception. The result is the profile and whether an answer ended the search.
\<close>

fun try_servers :: "'j jansson \<Rightarrow> config_map \<Rightarrow> transport \<Rightarrow> diet_profile \<Rightarrow> server list \<Rightarrow> diet_profile \<Rightarrow>
    (bool \<times> diet_profile) result" where
  "try_servers J config net save [] prof = Inr (False, prof)"
| "try_servers J config net save (s # ss) prof =
     (case abstract_call_gen J config net save (muri s) of
        Inl e \<Rightarrow> if e = UndefinedBehaviour then Inl e else try_servers J config net save ss save
      | Inr (tmp, prof') \<Rightarrow>
          if tmp = 0 then
            res_bind (final_answer prof') (\<lambda>done.
              if done then Inr (True, prof') else try_servers J config net save ss prof')
          else try_servers J config net save ss prof')"

text \<open>
  The braces of the last conditional are missing: without a dispatcher the profile is not restored,
  but the call is made, to the empty address.
\<close>

definition diet_call :: "'j jansson \<Rightarrow> config_map \<Rightarrow> transport \<Rightarrow> diet_profile \<Rightarrow>
    (int \<times> diet_profile) result" where
  "diet_call J config net prof =
     (if get_module (p_name prof) \<notin> {''UMS'', ''FMS'', ''TMS''} then Inr (1, prof)
      else
        let uriv = snd (getConfigValues config SED_URIADDR []);
            allServers = extractMachineServersFromLine uriv ''xmssed'';
            dispv = snd (getConfigValues config DISP_URIADDR []);
            disp = (case dispv of [] \<Rightarrow> [] | d # _ \<Rightarrow> d)
        in if allServers = [] \<and> disp = [] then Inr (1, prof)
           else
             res_bind (try_servers J config net prof allServers prof) (\<lambda>(found, prof1).
               if found then Inr (0, prof1)
               else
                 let prof2 = (if disp \<noteq> [] then prof else prof1) in
                 (case abstract_call_gen J config net prof2 disp of
                    Inl e \<Rightarrow> if e = UndefinedBehaviour then Inl e else Inr (1, prof2)
                  | Inr r \<Rightarrow> Inr r)))"

section \<open>The server\<close>

text \<open>What the build defines, and the text of a standard exception.\<close>

record build_info =
  VISHNU_VERSION :: string
  VISHNU_BATCH_SCHEDULER :: string
  VISHNU_BATCH_SCHEDULER_VERSION :: string
  std_what :: "exn \<Rightarrow> string"

type_synonym callback = "diet_profile \<Rightarrow> (int \<times> diet_profile) result"

type_synonym callback_map = "string \<rightharpoonup> callback"

definition heartbeat :: "build_info \<Rightarrow> callback" where
  "heartbeat B pb =
     (let batch = (if find_str (p_name pb) ''tms'' \<noteq> None
                   then CHR 0x0A # '' With batch scheduler '' @ VISHNU_BATCH_SCHEDULER B @ '' '' @
                     VISHNU_BATCH_SCHEDULER_VERSION B
                   else []);
          msg = VISHNU_VERSION B @ '' '' @ batch
      in res_bind (diet_string_set (diet_profile_reset pb 2) 1 msg) (\<lambda>p1.
         res_bind (diet_string_set p1 0 ''success'') (\<lambda>p2. Inr (0, p2))))"

definition exn_text :: "build_info \<Rightarrow> exn \<Rightarrow> string" where
  "exn_text B e = (if is_vishnu e then what e else std_what B e)"

definition sed_call :: "build_info \<Rightarrow> callback_map \<Rightarrow> callback" where
  "sed_call B mcb profile =
     (case mcb (p_name profile) of
        None \<Rightarrow> Inr (1, profile\<lparr>param_count := -1\<rparr>)
      | Some fn \<Rightarrow>
          (case fn profile of
             Inr r \<Rightarrow> Inr r
           | Inl e \<Rightarrow> if e = UndefinedBehaviour then Inl e
                      else Inl (SystemException ERRCODE_INVDATA (exn_text B e))))"

definition sed_doCall :: "'j jansson \<Rightarrow> build_info \<Rightarrow> callback_map \<Rightarrow> string \<Rightarrow> string result" where
  "sed_doCall J B mcb data =
     res_bind (deserialize J data) (\<lambda>profile.
     res_bind (sed_call B mcb profile) (\<lambda>(ret, profile').
       if ret \<noteq> 0
       then Inl (SystemException ERRCODE_SYSTEM
              (''Service call failed for the profile '' @ p_name profile' @ [CHR 0x0A]))
       else serialize J (Some profile')))"

text \<open>
  One round of a worker: the reply it sends, or the exception that leaves its thread. Only the
  exceptions of the program are caught.
\<close>

definition error_profile :: "string \<Rightarrow> string \<Rightarrow> diet_profile result" where
  "error_profile name msg =
     res_bind (diet_string_set (diet_profile_alloc name 2) 0 ''error'') (\<lambda>p.
     diet_string_set p 1 msg)"

definition worker_round :: "'j jansson \<Rightarrow> string result \<Rightarrow> string result" where
  "worker_round J outcome =
     (case outcome of
        Inr reply \<Rightarrow> Inr reply
      | Inl e \<Rightarrow> if is_vishnu e
                 then res_bind (error_profile ''docall'' (what e)) (\<lambda>p. serialize J (Some p))
                 else Inl e)"

section \<open>The dispatcher\<close>



definition removeServer :: "string \<Rightarrow> annuary \<Rightarrow> annuary result" where
  "removeServer data ann =
     res_bind (substr data 1 None) (\<lambda>s.
     res_bind (fromString s) (\<lambda>server. Inr (annuary_remove ann (mname server) (muri server))))"

definition addServer :: "string \<Rightarrow> annuary \<Rightarrow> annuary result" where
  "addServer data ann =
     res_bind (substr data 1 None) (\<lambda>s.
     res_bind (fromString s) (\<lambda>server.
       Inr (annuary_add ann (mname server) (muri server) (mservices server))))"

definition listServer :: "annuary \<Rightarrow> string result" where
  "listServer ann = res_bind (res_map toString (annuary_get ann [])) (\<lambda>ls. Inr (join VISHNU_COMM_SEPARATOR ls))"

definition subscription_doCall :: "build_info \<Rightarrow> string \<Rightarrow> annuary \<Rightarrow> (string \<times> annuary) result" where
  "subscription_doCall B data ann =
     res_bind (substr data 0 (Some 1)) (\<lambda>m.
     res_bind (lexical_cast 32 m) (\<lambda>mode.
       if mode = 0 then res_bind (removeServer data ann) (\<lambda>ann'. Inr (''OK'', ann'))
       else if mode = 1 then res_bind (addServer data ann) (\<lambda>ann'. Inr (''OK'', ann'))
       else if mode = 2 then res_bind (listServer ann) (\<lambda>l. Inr (l, ann))
       else if mode = 3 then Inr (VISHNU_VERSION B, ann)
       else Inr (''OK'', ann)))"

text \<open>One round of the watch; an exception ends its thread.\<close>

fun watch_servers :: "'j jansson \<Rightarrow> config_map \<Rightarrow> transport \<Rightarrow> server list \<Rightarrow> annuary \<Rightarrow> annuary result" where
  "watch_servers J config net [] ann = Inr ann"
| "watch_servers J config net (s # ss) ann =
     res_bind (abstract_call_gen J config net (diet_profile_alloc ''heartbeat'' 0) (muri s)) (\<lambda>(ret, p).
       watch_servers J config net ss (if ret \<noteq> 0 then annuary_remove ann (mname s) (muri s) else ann))"

definition bayWatch_round :: "'j jansson \<Rightarrow> config_map \<Rightarrow> transport \<Rightarrow> annuary \<Rightarrow> annuary result" where
  "bayWatch_round J config net ann = watch_servers J config net (annuary_get ann []) ann"

section \<open>Retries\<close>



section \<open>A call answered by a server\<close>

definition wf_profile :: "(string \<Rightarrow> bool) \<Rightarrow> diet_profile \<Rightarrow> bool" where
  "wf_profile utf8 p \<longleftrightarrow> clean utf8 (p_name p) \<and> list_all (clean utf8) (params p) \<and>
     param_count p = int (length (params p)) \<and> length (params p) < 2 ^ 31"

lemma wf_serialize:
  assumes "json_laws J obj arr utf8" and "wf_profile utf8 p"
  obtains s where "serialize J (Some p) = Inr s" and "s \<noteq> []" and "CHR 0x00 \<notin> set s"
    and "deserialize J s = Inr p"
proof -
  obtain w where w: "serialize J (Some p) = Inr (js_dumps J w)" "obj w"
    using profile_written [OF assms(1), of p] assms(2) by (auto simp: wf_profile_def)
  moreover have "res_bind (serialize J (Some p)) (deserialize J) = Inr p"
    using deserialize_serialize [OF assms(1)] assms(2) by (simp add: wf_profile_def)
  ultimately show ?thesis using that json_dumps [OF assms(1) w(2)] by simp
qed

text \<open>The address is served by a worker that answers every request.\<close>

definition served_by :: "transport \<Rightarrow> string \<Rightarrow> (string \<Rightarrow> string result) \<Rightarrow> bool" where
  "served_by net uri worker \<longleftrightarrow>
     (\<exists>ex. zmq_connect net uri = Inr ex \<and> (\<forall>req reply. worker req = Inr reply \<longrightarrow> ex req = [Answer reply]))"

lemma diet_call_gen_answer:
  assumes laws: "json_laws J obj arr utf8" and "wf_profile utf8 p" and "wf_profile utf8 q"
    and "served_by net uri worker"
    and "\<And>s. deserialize J s = Inr p \<Longrightarrow> worker s = serialize J (Some q)"
  shows "diet_call_gen J net p uri v = Inr (0, p\<lparr>param_count := param_count q, params := params q\<rparr>)"
proof -
  obtain s where s: "serialize J (Some p) = Inr s" "deserialize J s = Inr p"
    using wf_serialize [OF laws assms(2)] by blast
  obtain r where r: "serialize J (Some q) = Inr r" "r \<noteq> []" "CHR 0x00 \<notin> set r" "deserialize J r = Inr q"
    using wf_serialize [OF laws assms(3)] by blast
  obtain ex where ex: "zmq_connect net uri = Inr ex" "ex s = [Answer r]"
    using assms(4,5) s r by (auto simp: served_by_def)
  have "filter (\<lambda>c. c \<noteq> CHR 0x00) r = r" using r(3) by (auto simp: filter_id_conv)
  then have "lpc_send 3 v (ex s) = Some (True, r, 1)" using ex r by (simp add: lpc_send_def)
  then show ?thesis using assms(3) s r ex by (simp add: diet_call_gen_def wf_profile_def)
qed

definition unknown_service_text :: "string \<Rightarrow> string" where
  "unknown_service_text name =
     what (SystemException ERRCODE_SYSTEM (''Service call failed for the profile '' @ name @ [CHR 0x0A]))"

lemma error_profile_ok [simp]:
  "error_profile name msg = Inr \<lparr>p_name = name, param_count = 2, params = [''error'', msg]\<rparr>"
  by (simp add: error_profile_def diet_string_set_def diet_profile_alloc_def numeral_2_eq_2)

lemmas sed_worker_defs = sed_doCall_def sed_call_def worker_round_def unknown_service_text_def

lemma find_str_contained: "find_str (xs @ pat @ ys) pat \<noteq> None"
proof -
  have "find_str_from pat i (pat @ ys) \<noteq> None" for i
    using starts_with_append [of pat ys] by (cases "pat @ ys") auto
  then have "find_str_from pat i (xs @ pat @ ys) \<noteq> None" for i by (induction xs arbitrary: i) auto
  then show ?thesis by (simp add: find_str_def)
qed

lemma unknown_not_final:
  "final_answer \<lparr>p_name = n, param_count = c, params = [''error'', unknown_service_text name]\<rparr> = Inr False"
proof -
  let ?pat = "''Service call failed for the profile ''"
  have "\<exists>xs ys. unknown_service_text name = xs @ ''Service call failed for the profile'' @ ys"
    unfolding unknown_service_text_def what_def
    by (rule exI [of _ "''FAIL '' @ show_int (getMsgI (SystemException ERRCODE_SYSTEM (?pat @ name @ [CHR 0x0A]))) @ '': '' @
        getMsg (SystemException ERRCODE_SYSTEM (?pat @ name @ [CHR 0x0A])) @ '' [''"],
      rule exI [of _ "'' '' @ name @ [CHR 0x0A] @ '']''"]) simp
  then obtain xs ys where "unknown_service_text name = xs @ ''Service call failed for the profile'' @ ys" by blast
  then have "find_str (unknown_service_text name) ''Service call failed for the profile'' \<noteq> None"
    using find_str_contained [of xs "''Service call failed for the profile''" ys] by simp
  then show ?thesis by (simp add: final_answer_def)
qed

section \<open>The list of servers\<close>

lemma sep_free_hash:
  assumes "CHR ''#'' \<notin> set t"
  shows "sep_free VISHNU_COMM_SEPARATOR t"
  unfolding sep_free_def
proof (intro allI impI notI)
  fix i assume i: "i < length t" and st: "starts_with VISHNU_COMM_SEPARATOR (drop i (t @ VISHNU_COMM_SEPARATOR))"
  let ?u = "t @ VISHNU_COMM_SEPARATOR"
  have eq: "take (length VISHNU_COMM_SEPARATOR) (drop i ?u) = VISHNU_COMM_SEPARATOR"
    using st by (simp only: starts_with_def)
  have "take (length VISHNU_COMM_SEPARATOR) (drop i ?u) ! 4 = ?u ! (i + 4)"
    using i by (simp del: take_append drop_append)
  then have "?u ! (i + 4) = CHR ''#''" unfolding eq by simp
  moreover have "?u ! (i + 4) \<noteq> CHR ''#''"
  proof (cases "i + 4 < length t")
    case True
    then have "t ! (i + 4) \<in> set t" by (rule nth_mem)
    then have "t ! (i + 4) \<noteq> CHR ''#''" using assms by metis
    then show ?thesis using True by (simp add: nth_append)
  next
    case False
    then obtain d where "i + 4 = length t + d" "d < 4" using i
      by (metis add_less_cancel_right le_add_diff_inverse not_less add.commute nat_add_left_cancel_less)
    moreover have "d = 0 \<or> d = 1 \<or> d = 2 \<or> d = 3" using \<open>d < 4\<close> by linarith
    ultimately show ?thesis by (auto simp: nth_append)
  qed
  ultimately show False by simp
qed

lemma split_str_join:
  assumes "sep \<noteq> []" and "ts \<noteq> []" and "\<forall>t \<in> set ts. sep_free sep t" and "\<forall>t \<in> set ts. find_str t sep = None"
  shows "split_str sep (join sep ts) = ts"
proof -
  have "ts \<noteq> [] \<Longrightarrow> split_go sep [] (join sep ts) = ts"
    using assms(3,4)
  proof (induction ts rule: induct_list012)
    case (2 x)
    then show ?case by (simp add: split_go_last)
  next
    case (3 x y zs)
    then show ?case by (simp add: split_go_token [OF assms(1)])
  qed simp
  with assms(2) show ?thesis by (simp add: split_str_def)
qed

definition listable :: "server \<Rightarrow> bool" where
  "listable s \<longleftrightarrow> wire_ok s \<and>
     list_all (\<lambda>t. CHR ''#'' \<notin> set t \<and> CHR 0x00 \<notin> set t) (mname s # muri s # mservices s)"

lemma starts_with_set: "starts_with p s \<Longrightarrow> set p \<subseteq> set s"
  unfolding starts_with_def by (metis set_take_subset)

lemma find_str_no_hash: "CHR ''#'' \<notin> set t \<Longrightarrow> find_str_from VISHNU_COMM_SEPARATOR i t = None"
proof (induction t arbitrary: i)
  case Nil
  then show ?case by simp
next
  case (Cons c t)
  then have "\<not> starts_with VISHNU_COMM_SEPARATOR (c # t)"
    using starts_with_set [of VISHNU_COMM_SEPARATOR "c # t"] by auto
  with Cons show ?case by simp
qed

lemma listable_toString:
  assumes "listable s"
  obtains t where "toString s = Inr t" and "fromString t = Inr s" and "t \<noteq> []"
    and "CHR ''#'' \<notin> set t" and "CHR 0x00 \<notin> set t"
proof -
  have ne: "mservices s \<noteq> []" and w: "wire_ok s" using assms by (auto simp: listable_def wire_ok_def)
  let ?t = "concat (map (\<lambda>t. t @ ''$$$'') (mname s # muri s # mservices s))"
  have t: "toString s = Inr ?t" using toString_concat [OF ne] .
  moreover have "fromString ?t = Inr s" using fromString_toString [OF w] t by simp
  moreover have "CHR ''#'' \<notin> set ?t" "CHR 0x00 \<notin> set ?t"
    using assms by (auto simp: listable_def list_all_iff)
  ultimately show ?thesis using that [of ?t] by simp
qed

lemma list_roundtrip:
  assumes "list_all listable ann" and "ann \<noteq> []"
  shows "res_bind (listServer ann) extractServersFromMessage = Inr ann"
proof -
  define f where "f s = projr (toString s)" for s
  have f: "toString s = Inr (f s)" "fromString (f s) = Inr s" "f s \<noteq> []"
    "CHR ''#'' \<notin> set (f s)" "CHR 0x00 \<notin> set (f s)" if "s \<in> set ann" for s
  proof -
    have "listable s" using assms(1) that by (auto simp: list_all_iff)
    then show "toString s = Inr (f s)" "fromString (f s) = Inr s" "f s \<noteq> []"
      "CHR ''#'' \<notin> set (f s)" "CHR 0x00 \<notin> set (f s)"
      by (auto simp: f_def elim: listable_toString)
  qed
  have 1: "res_map toString ann = Inr (map f ann)" using f(1) by (rule res_map_Inr)
  have 2: "split_str VISHNU_COMM_SEPARATOR (join VISHNU_COMM_SEPARATOR (map f ann)) = map f ann"
    using assms(2) f(4) by (intro split_str_join) (auto simp: sep_free_hash find_str_def find_str_no_hash)
  have 3: "filter (\<lambda>v. v \<noteq> []) (map c_str (map f ann)) = map f ann"
    using f(3,5) by (simp add: filter_id_conv c_str_id)
  have 4: "res_map fromString (map f ann) = Inr ann"
    using f(2) by (induction ann) auto
  show ?thesis
    unfolding listServer_def annuary_get_def extractServersFromMessage_def
    by (simp add: 1 2 4 3 [simplified])
qed

section \<open>Properties\<close>



text \<open>
  C1. A call from a client to a server that has the service gives the parameters the service's
  callback gives: serialization, transport, deserialization and the worker's dispatch are transparent.
\<close>

theorem call_runs_service:
  assumes "json_laws J obj arr utf8" and "wf_profile utf8 p" and "wf_profile utf8 q"
    and "served_by net uri (\<lambda>req. worker_round J (sed_doCall J B mcb req))"
    and "mcb (p_name p) = Some fn" and "fn p = Inr (0, q)"
  shows "diet_call_gen J net p uri v = Inr (0, p\<lparr>param_count := param_count q, params := params q\<rparr>)"
proof (rule diet_call_gen_answer [OF assms(1-4)])
  fix s
  assume s: "deserialize J s = Inr p"
  obtain r where "serialize J (Some q) = Inr r" using wf_serialize [OF assms(1,3)] by blast
  then show "worker_round J (sed_doCall J B mcb s) = serialize J (Some q)"
    using s assms(5,6) by (simp add: sed_worker_defs)
qed

text \<open>
  A server without the service answers with an error that the client does not take as final, so
  \<^verbatim>\<open>diet_call\<close> goes on to the next server.
\<close>

theorem unknown_service_is_skipped:
  assumes "json_laws J obj arr utf8" and "wf_profile utf8 p"
    and "clean utf8 (unknown_service_text (p_name p))" and "clean utf8 ''docall''" and "clean utf8 ''error''"
    and "served_by net (muri s) (\<lambda>req. worker_round J (sed_doCall J B mcb req))"
    and "mcb (p_name p) = None" and "getConfigBool config USE_SSL False \<noteq> (True, True)"
  shows "\<exists>prof. try_servers J config net p (s # ss) p = try_servers J config net p ss prof \<and>
    params prof = [''error'', unknown_service_text (p_name p)]"
proof -
  let ?e = "\<lparr>p_name = ''docall'', param_count = 2, params = [''error'', unknown_service_text (p_name p)]\<rparr>"
  let ?p = "p\<lparr>param_count := param_count ?e, params := params ?e\<rparr>"
  have "wf_profile utf8 ?e" using assms(3-5) by (simp add: wf_profile_def)
  moreover have "worker_round J (sed_doCall J B mcb t) = serialize J (Some ?e)"
    if "deserialize J t = Inr p" for t
    using that assms(7) by (simp add: sed_worker_defs)
  ultimately have "diet_call_gen J net p (muri s) 1 = Inr (0, ?p)"
    using diet_call_gen_answer [OF assms(1,2) _ assms(6)] by blast
  then have "abstract_call_gen J config net p (muri s) = Inr (0, ?p)"
    using assms(8) by (simp add: abstract_call_gen_def)
  moreover have "final_answer ?p = Inr False"
    using unknown_not_final [of "p_name p" 2 "p_name p"] by (simp add: final_answer_def)
  ultimately show ?thesis by (intro exI [of _ ?p]) simp
qed


section \<open>The dispatcher's own commands\<close>

lemma watch_sweep:
  assumes "\<And>s. s \<in> set ss \<Longrightarrow>
    abstract_call_gen J config net (diet_profile_alloc ''heartbeat'' 0) (muri s) = Inr (ret s, prof s)"
  shows "watch_servers J config net ss ann = Inr (annuary.sweep (\<lambda>s. ret s = 0) ss ann)"
  using assms by (induction ss arbitrary: ann) (auto simp: annuary.sweep_def)

text \<open>
  After a round of the watch in which no call throws, the annuary holds exactly the servers that
  answered the heartbeat, in their order.
\<close>

theorem bayWatch_keeps_alive:
  assumes "distinct (map (\<lambda>s. (mname s, muri s)) ann)"
    and "\<And>s. s \<in> set ann \<Longrightarrow>
      abstract_call_gen J config net (diet_profile_alloc ''heartbeat'' 0) (muri s) = Inr (ret s, prof s)"
  shows "bayWatch_round J config net ann = Inr (filter (\<lambda>s. ret s = 0) ann)"
proof -
  have g: "annuary_get r [] = r" for r by (simp add: annuary_get_def)
  have "annuary.no_duplicates ann" using assms(1) by (simp add: annuary.no_duplicates_def g)
  then have "annuary.sweep (\<lambda>s. ret s = 0) ann ann = filter (\<lambda>s. ret s = 0) ann"
    using annuary.get_sweep [of ann "\<lambda>s. ret s = 0"] by (simp add: g)
  then show ?thesis using watch_sweep [of ann, OF assms(2)] by (simp add: bayWatch_round_def g)
qed

text \<open>
  The list of servers a dispatcher sends is read back by a client as the same servers, when each
  offers a service and no name, address or service holds a separator, a hash sign or a NUL.
\<close>

theorem listServer_roundtrip:
  assumes "list_all listable ann" and "ann \<noteq> []"
  shows "res_bind (subscription_doCall B ''2'' ann) (\<lambda>(l, ann'). extractServersFromMessage l) = Inr ann"
proof -
  obtain l where l: "listServer ann = Inr l" "extractServersFromMessage l = Inr ann"
    using list_roundtrip [OF assms] by (auto simp: res_simps)
  moreover have "lexical_cast 32 ''2'' = Inr 2"
    by (simp add: lexical_cast_def parse_nat_def is_digit_def digits_val_def digit_val_def in_width_def)
  ultimately show ?thesis by (simp add: subscription_doCall_def)
qed

theorem listServer_roundtrip_witness:
  "res_bind (subscription_doCall \<lparr>VISHNU_VERSION = [], VISHNU_BATCH_SCHEDULER = [],
      VISHNU_BATCH_SCHEDULER_VERSION = [], std_what = (\<lambda>e. [])\<rparr> ''2''
      [\<lparr>mname = ''umssed'', mservices = [''sessionConnect'', ''userCreate''], muri = ''tcp://h:1''\<rparr>,
       \<lparr>mname = ''fmssed'', mservices = [''FileCopy''], muri = ''tcp://h:2''\<rparr>])
     (\<lambda>(l, ann'). extractServersFromMessage l) =
   Inr [\<lparr>mname = ''umssed'', mservices = [''sessionConnect'', ''userCreate''], muri = ''tcp://h:1''\<rparr>,
        \<lparr>mname = ''fmssed'', mservices = [''FileCopy''], muri = ''tcp://h:2''\<rparr>]"
proof -
  have "CHR ''$'' \<notin> set t \<Longrightarrow> sep_free ''$$$'' t" for t by (rule sep_free_char) auto
  then show ?thesis by (intro listServer_roundtrip) (simp_all add: listable_def wire_ok_def)
qed

lemma res_map_toString_bad:
  "\<exists>s \<in> set ann. mservices s = [] \<Longrightarrow> res_map toString ann = Inl OutOfRange"
proof (induction ann)
  case Nil
  then show ?case by simp
next
  case (Cons s ann)
  show ?case
  proof (cases "mservices s = []")
    case True
    then show ?thesis by (simp add: toString_def)
  next
    case False
    then have "res_map toString ann = Inl OutOfRange" using Cons by simp
    then show ?thesis using toString_concat [OF False] by simp
  qed
qed

text \<open>
  A server may register without services; from then on the command that lists the servers throws
  \<^verbatim>\<open>std::out_of_range\<close>, which the worker's loop does not catch.
\<close>

theorem empty_registration_crashes_list:
  assumes "\<not> list_ex (is_server name uri) ann" and "CHR ''$'' \<notin> set name" and "CHR ''$'' \<notin> set uri"
  shows "\<exists>ann'. subscription_doCall B (''1'' @ name @ ''$$$'' @ uri @ ''$$$'') ann = Inr (''OK'', ann') \<and>
    worker_round J (res_bind (subscription_doCall B ''2'' ann') (\<lambda>(l, a). Inr l)) = Inl OutOfRange"
proof -
  let ?s = "\<lparr>mname = name, mservices = [], muri = uri\<rparr>"
  have "split_str ''$$$'' (concat (map (\<lambda>t. t @ ''$$$'') [name, uri])) = [name, uri] @ [[]]"
    using assms(2,3) by (intro split_str_terminated) (auto intro: sep_free_char)
  then have f: "fromString (name @ ''$$$'' @ uri @ ''$$$'') = Inr ?s" by (simp add: fromString_def)
  have d: "lexical_cast 32 ''1'' = Inr 1" "lexical_cast 32 ''2'' = Inr 2"
    by (simp_all add: lexical_cast_def parse_nat_def is_digit_def digits_val_def digit_val_def in_width_def)
  have "subscription_doCall B (''1'' @ name @ ''$$$'' @ uri @ ''$$$'') ann = Inr (''OK'', ann @ [?s])"
    using d f assms(1) by (simp add: subscription_doCall_def addServer_def annuary_add_def)
  moreover have "res_map toString (ann @ [?s]) = Inl OutOfRange" by (rule res_map_toString_bad) simp
  then have "subscription_doCall B ''2'' (ann @ [?s]) = Inl OutOfRange"
    using d by (simp add: subscription_doCall_def listServer_def annuary_get_def)
  ultimately show ?thesis by (simp add: worker_round_def)
qed

section \<open>Witnesses\<close>

text \<open>A transport wired to workers: each address with a worker answers with what the worker replies.\<close>

definition wired :: "(string \<Rightarrow> (string \<Rightarrow> string result) option) \<Rightarrow> transport" where
  "wired workers =
     \<lparr>zmq_connect = (\<lambda>uri. case workers uri of
          None \<Rightarrow> Inr (\<lambda>req. [Timeout, Timeout, Timeout])
        | Some w \<Rightarrow> Inr (\<lambda>req. case w req of Inr r \<Rightarrow> [Answer r] | Inl e \<Rightarrow> [Timeout, Timeout, Timeout])),
      tls_exchange = (\<lambda>host port req. None)\<rparr>"

lemma wired_served: "workers uri = Some w \<Longrightarrow> served_by (wired workers) uri w"
  by (simp add: served_by_def wired_def)

definition build0 :: build_info where
  "build0 = \<lparr>VISHNU_VERSION = ''3.0'', VISHNU_BATCH_SCHEDULER = ''SLURM'',
     VISHNU_BATCH_SCHEDULER_VERSION = ''2.4'', std_what = (\<lambda>e. [])\<rparr>"

definition sed0 :: "string \<Rightarrow> string result" where
  "sed0 req = worker_round tree_jansson (sed_doCall tree_jansson build0 [''heartbeat'' \<mapsto> heartbeat build0] req)"

definition ann0 :: annuary where
  "ann0 = [\<lparr>mname = ''xmssed'', mservices = [''heartbeat''], muri = ''s''\<rparr>]"

text \<open>The worker of a dispatcher whose servers are reached through \<open>net0\<close>.\<close>

definition net0 :: transport where
  "net0 = wired (\<lambda>uri. if uri = ''s'' then Some sed0 else None)"


lemma heartbeat0:
  "heartbeat build0 \<lparr>p_name = ''heartbeat'', param_count = 0, params = []\<rparr> =
   Inr (0, \<lparr>p_name = ''heartbeat'', param_count = 2, params = [''success'', ''3.0 '']\<rparr>)"
  by (simp add: heartbeat_def build0_def find_str_def starts_with_def diet_profile_reset_def
      diet_string_set_def numeral_2_eq_2)

theorem call_runs_service_witness:
  "diet_call_gen tree_jansson net0 \<lparr>p_name = ''heartbeat'', param_count = 0, params = []\<rparr> ''s'' 1 =
   Inr (0, \<lparr>p_name = ''heartbeat'', param_count = 2, params = [''success'', ''3.0 '']\<rparr>)"
proof -
  have "served_by net0 ''s'' (\<lambda>req. worker_round tree_jansson
      (sed_doCall tree_jansson build0 [''heartbeat'' \<mapsto> heartbeat build0] req))"
    unfolding net0_def by (rule wired_served) (simp add: sed0_def [abs_def])
  from call_runs_service [where fn = "heartbeat build0" and mcb = "[''heartbeat'' \<mapsto> heartbeat build0]"
      and B = build0, OF tree_laws _ _ this _ heartbeat0, of 1] show ?thesis
    by (simp add: wf_profile_def clean_def)
qed

theorem unknown_service_is_skipped_witness:
  "\<exists>prof. try_servers tree_jansson Map.empty net0 \<lparr>p_name = ''jobSubmit'', param_count = 0, params = []\<rparr> ann0
       \<lparr>p_name = ''jobSubmit'', param_count = 0, params = []\<rparr> = Inr (False, prof) \<and>
     params prof = [''error'', unknown_service_text ''jobSubmit'']"
proof -
  have s: "served_by net0 (muri (hd ann0)) (\<lambda>req. worker_round tree_jansson
      (sed_doCall tree_jansson build0 [''heartbeat'' \<mapsto> heartbeat build0] req))"
    unfolding net0_def by (rule wired_served) (simp add: sed0_def [abs_def] ann0_def)
  have c: "clean (\<lambda>s. True) (unknown_service_text ''jobSubmit'')"
    unfolding clean_def by code_simp
  have "ann0 = [hd ann0]" by (simp add: ann0_def)
  moreover have "\<exists>prof. try_servers tree_jansson Map.empty net0 \<lparr>p_name = ''jobSubmit'', param_count = 0, params = []\<rparr>
      [hd ann0] \<lparr>p_name = ''jobSubmit'', param_count = 0, params = []\<rparr> =
      try_servers tree_jansson Map.empty net0 \<lparr>p_name = ''jobSubmit'', param_count = 0, params = []\<rparr> [] prof \<and>
     params prof = [''error'', unknown_service_text (p_name \<lparr>p_name = ''jobSubmit'', param_count = 0, params = []\<rparr>)]"
    by (rule unknown_service_is_skipped [OF tree_laws _ _ _ _ s])
      (simp_all add: wf_profile_def clean_def c [unfolded clean_def] getConfigBool_def)
  ultimately show ?thesis by simp
qed



theorem bayWatch_keeps_alive_witness:
  "bayWatch_round tree_jansson Map.empty net0
     [\<lparr>mname = ''dead'', mservices = [], muri = ''x''\<rparr>] = Inr []"
proof -
  have "abstract_call_gen tree_jansson Map.empty net0 (diet_profile_alloc ''heartbeat'' 0) ''x'' =
      Inr (-1, diet_profile_alloc ''heartbeat'' 0)"
  proof -
    obtain r where "serialize tree_jansson (Some (diet_profile_alloc ''heartbeat'' 0)) = Inr r"
      using profile_written [OF tree_laws, of "diet_profile_alloc ''heartbeat'' 0"]
      by (auto simp: diet_profile_alloc_def clean_def)
    then show ?thesis
      by (simp add: abstract_call_gen_def getConfigBool_def diet_call_gen_def net0_def wired_def lpc_send_def)
  qed
  then show ?thesis
    using bayWatch_keeps_alive [of "[\<lparr>mname = ''dead'', mservices = [], muri = ''x''\<rparr>]" tree_jansson
      Map.empty net0 "\<lambda>s. -1" "\<lambda>s. diet_profile_alloc ''heartbeat'' 0"] by simp
qed

theorem empty_registration_crashes_list_witness:
  "\<exists>ann'. subscription_doCall build0 ''1evil$$$uri$$$'' ann0 = Inr (''OK'', ann') \<and>
    worker_round tree_jansson (res_bind (subscription_doCall build0 ''2'' ann') (\<lambda>(l, a). Inr l)) = Inl OutOfRange"
  using empty_registration_crashes_list [of "''evil''" "''uri''" ann0 build0 tree_jansson]
  by (simp add: ann0_def is_server_def)

end
