(* ===== verification/Registry.thy ===== *)
theory Registry
  imports Comm_Json
begin

text \<open>
  The construction of the command texts that the servers record
  (\<^verbatim>\<open>communication/registry/Mapper.cpp\<close>, \<^verbatim>\<open>MapperRegistry.cpp\<close> and the functions \<^verbatim>\<open>code\<close>,
  \<^verbatim>\<open>getKey\<close> and \<^verbatim>\<open>getCommand\<close> that the mappers of the three modules repeat). A mapper keeps a table
  of commands and the commands under construction, each under an integer key; its mutex is a flag of
  the state. A call that waits for the mutex for ever has the value \<open>None\<close>.
\<close>

section \<open>The registry of mappers\<close>

type_synonym 'm registry = "(string \<rightharpoonup> 'm) option"

text \<open>The singleton \<^verbatim>\<open>mreg\<close> is \<open>None\<close> until \<^verbatim>\<open>getInstance\<close> creates it.\<close>

definition getInstance :: "'m registry \<Rightarrow> 'm registry" where
  "getInstance reg = (case reg of None \<Rightarrow> Some Map.empty | Some m \<Rightarrow> Some m)"

definition registry_contains :: "(string \<rightharpoonup> 'm) \<Rightarrow> string \<Rightarrow> bool" where
  "registry_contains m s \<longleftrightarrow> m s \<noteq> None"

definition addMapper :: "string \<Rightarrow> 'm \<Rightarrow> 'm registry \<Rightarrow> 'm registry result" where
  "addMapper s mapper reg =
     (case reg of
        None \<Rightarrow> Inl (SystemException 6 ''Error null registry'')
      | Some m \<Rightarrow> Inr (Some (if registry_contains m s then m else m(s \<mapsto> mapper))))"

text \<open>
  The test is \<^verbatim>\<open>!mreg && contains(s)\<close>: it holds only without a registry, where \<^verbatim>\<open>contains\<close> reads a
  member of a null object.
\<close>

definition removeMapper :: "string \<Rightarrow> 'm registry \<Rightarrow> 'm registry result" where
  "removeMapper s reg = (case reg of None \<Rightarrow> Inl UndefinedBehaviour | Some m \<Rightarrow> Inr reg)"

definition getMapper :: "string \<Rightarrow> 'm registry \<Rightarrow> 'm result" where
  "getMapper s reg =
     (case reg of
        None \<Rightarrow> Inl UndefinedBehaviour
      | Some m \<Rightarrow>
          (case m s of
             Some mapper \<Rightarrow> Inr mapper
           | None \<Rightarrow> Inl (SystemException 6 ''Error invalid mapper'')))"

section \<open>A mapper\<close>

text \<open>
  \<open>m_table\<close> is the map from codes to command names in the order of its keys, \<open>m_cmd\<close> the commands
  under construction.
\<close>

record mapper =
  m_table :: "(int \<times> string) list"
  m_cmd :: "(int \<times> string) list"
  m_locked :: bool

text \<open>Without a match the output parameter keeps its value, and the return value is 0 all the same.\<close>

definition getCommand :: "mapper \<Rightarrow> int \<Rightarrow> string \<Rightarrow> string" where
  "getCommand m key command = (case map_of (m_table m) key of Some c \<Rightarrow> c | None \<Rightarrow> command)"

definition getKey :: "mapper \<Rightarrow> string \<Rightarrow> int option \<Rightarrow> int option" where
  "getKey m command key =
     (case List.find (\<lambda>(k, c). c = command) (m_table m) of Some (k, c) \<Rightarrow> Some k | None \<Rightarrow> key)"

text \<open>The search for a free key starts at the number of commands plus one.\<close>

function free_key :: "int list \<Rightarrow> int \<Rightarrow> int" where
  "free_key ks sz = (if sz \<in> set ks then free_key ks (sz + 1) else sz)"
  by auto
termination
proof (relation "measure (\<lambda>(ks, sz). card {k \<in> set ks. sz \<le> k})")
  fix ks :: "int list" and sz :: int
  assume "sz \<in> set ks"
  then have "sz \<in> {k \<in> set ks. sz \<le> k}" and "sz \<notin> {k \<in> set ks. sz + 1 \<le> k}" by auto
  moreover have "{k \<in> set ks. sz + 1 \<le> k} \<subseteq> {k \<in> set ks. sz \<le> k}" by auto
  ultimately have "{k \<in> set ks. sz + 1 \<le> k} \<subset> {k \<in> set ks. sz \<le> k}" by blast
  then show "((ks, sz + 1), ks, sz) \<in> measure (\<lambda>(ks, sz). card {k \<in> set ks. sz \<le> k})"
    by (simp add: psubset_card_mono)
qed simp

declare free_key.simps [simp del]

definition map_update :: "int \<Rightarrow> (string \<Rightarrow> string) \<Rightarrow> (int \<times> string) list \<Rightarrow> (int \<times> string) list" where
  "map_update k f = map (\<lambda>(k', s). if k' = k then (k', f s) else (k', s))"

text \<open>
  \<^verbatim>\<open>code(cmd, code)\<close>. An uninitialised key code is printed when the command is not in the table.
\<close>

definition mapper_code :: "mapper \<Rightarrow> string \<Rightarrow> int \<Rightarrow> (int result \<times> mapper) option" where
  "mapper_code m cmd code =
     (if code \<noteq> 0 then
        (case map_of (m_cmd m) code of
           None \<Rightarrow> Some (Inl (ThrownPointer (SystemException ERRCODE_SYSTEM
                     (''Error wrong code to build command: '' @ cmd))), m)
         | Some s \<Rightarrow>
             Some (Inr 0, m\<lparr>m_cmd := map_update code
               (\<lambda>s. s @ ''#'' @ (if cmd = [] then '' '' else cmd)) (m_cmd m)\<rparr>))
      else if m_locked m then None
      else
        let sz = free_key (map fst (m_cmd m)) (int (length (m_cmd m)) + 1) in
        (case getKey m cmd None of
           None \<Rightarrow> Some (Inl UndefinedBehaviour, m)
         | Some keycode \<Rightarrow>
             Some (Inr sz, m\<lparr>m_cmd := (sz, show_int keycode) # m_cmd m\<rparr>)))"

text \<open>The exception leaves the mutex locked.\<close>

definition finalize :: "mapper \<Rightarrow> int \<Rightarrow> (string result \<times> mapper) option" where
  "finalize m key =
     (if m_locked m then None
      else
        (case map_of (m_cmd m) key of
           None \<Rightarrow> Some (Inl (SystemException ERRCODE_SYSTEM ''Unknown key to finalize''),
                     m\<lparr>m_locked := True\<rparr>)
         | Some s \<Rightarrow> Some (Inr s, m\<lparr>m_cmd := filter (\<lambda>(k, s). k \<noteq> key) (m_cmd m)\<rparr>)))"

fun find_seps :: "nat \<Rightarrow> string \<Rightarrow> nat list" where
  "find_seps i [] = []"
| "find_seps i (c # cs) = (if c = CHR ''#'' then i # find_seps (Suc i) cs else find_seps (Suc i) cs)"

definition findSeparator :: "string \<Rightarrow> nat list" where
  "findSeparator s = find_seps 0 s"

section \<open>The contract of a mapper\<close>

text \<open>
  A command is begun, extended by its parameters and finalized; \<open>pending\<close> is what is under
  construction under each key. \<open>known\<close> relates a command to its code.
\<close>

locale command_builder =
  fixes begin_cmd :: "'s \<Rightarrow> string \<Rightarrow> (int result \<times> 's) option"
    and add_param :: "'s \<Rightarrow> string \<Rightarrow> int \<Rightarrow> (int result \<times> 's) option"
    and finish :: "'s \<Rightarrow> int \<Rightarrow> (string result \<times> 's) option"
    and pending :: "'s \<Rightarrow> int \<rightharpoonup> string"
    and ok :: "'s \<Rightarrow> bool"
    and known :: "'s \<Rightarrow> string \<rightharpoonup> string"
  assumes begin_law: "ok s \<Longrightarrow> known s c = Some t \<Longrightarrow> \<exists>k s'. begin_cmd s c = Some (Inr k, s') \<and> k \<noteq> 0 \<and>
      ok s' \<and> known s' = known s \<and> pending s k = None \<and> pending s' = (pending s)(k \<mapsto> t)"
    and add_law: "ok s \<Longrightarrow> k \<noteq> 0 \<Longrightarrow> pending s k = Some t \<Longrightarrow> \<exists>s'. add_param s p k = Some (Inr 0, s') \<and>
      ok s' \<and> known s' = known s \<and> pending s' = (pending s)(k \<mapsto> t @ ''#'' @ (if p = [] then '' '' else p))"
    and finish_law: "ok s \<Longrightarrow> pending s k = Some t \<Longrightarrow> \<exists>s'. finish s k = Some (Inr t, s') \<and>
      ok s' \<and> known s' = known s \<and> pending s' = (pending s)(k := None)"
begin

fun add_params :: "'s \<Rightarrow> int \<Rightarrow> string list \<Rightarrow> 's option" where
  "add_params s k [] = Some s"
| "add_params s k (p # ps) =
     (case add_param s p k of Some (Inr _, s') \<Rightarrow> add_params s' k ps | _ \<Rightarrow> None)"

definition command_text :: "string \<Rightarrow> string list \<Rightarrow> string" where
  "command_text t ps = t @ concat (map (\<lambda>p. ''#'' @ (if p = [] then '' '' else p)) ps)"

lemma add_params_ok:
  "ok s \<Longrightarrow> k \<noteq> 0 \<Longrightarrow> pending s k = Some t \<Longrightarrow> \<exists>s'. add_params s k ps = Some s' \<and>
   ok s' \<and> known s' = known s \<and> pending s' = (pending s)(k \<mapsto> command_text t ps)"
proof (induction ps arbitrary: s t)
  case Nil
  then show ?case by (auto simp: command_text_def)
next
  case (Cons p ps)
  from add_law [OF Cons.prems] obtain s1 where s1: "add_param s p k = Some (Inr 0, s1)" "ok s1"
    "known s1 = known s" "pending s1 = (pending s)(k \<mapsto> t @ ''#'' @ (if p = [] then '' '' else p))" by blast
  let ?t = "t @ ''#'' @ (if p = [] then '' '' else p)"
  have "pending s1 k = Some ?t" using s1(4) by simp
  from Cons.IH [OF s1(2) Cons.prems(2) this] obtain s2 where
    s2: "add_params s1 k ps = Some s2" "ok s2" "known s2 = known s1"
    "pending s2 = (pending s1)(k \<mapsto> command_text ?t ps)" by blast
  have "command_text ?t ps = command_text t (p # ps)" by (simp add: command_text_def)
  moreover have "pending s2 = (pending s)(k \<mapsto> command_text ?t ps)"
    unfolding s2(4) s1(4) by (rule fun_upd_upd)
  ultimately show ?case using s1(1,3) s2(1-3) by (auto simp: fun_eq_iff)
qed

text \<open>What a server does: the text is that of the command and its parameters, and nothing is left.\<close>

lemma build_ok:
  assumes "ok s" and "known s c = Some t"
  shows "\<exists>k s1 s2 s3. begin_cmd s c = Some (Inr k, s1) \<and> add_params s1 k ps = Some s2 \<and>
    finish s2 k = Some (Inr (command_text t ps), s3) \<and> ok s3 \<and> pending s k = None \<and> pending s3 = pending s"
proof -
  from begin_law [OF assms] obtain k s1 where s1: "begin_cmd s c = Some (Inr k, s1)" "k \<noteq> 0" "ok s1"
    "pending s k = None" "pending s1 = (pending s)(k \<mapsto> t)" by blast
  from add_params_ok [OF s1(3,2), of t ps] s1(5) obtain s2 where s2: "add_params s1 k ps = Some s2"
    "ok s2" "pending s2 = (pending s)(k \<mapsto> command_text t ps)" by auto
  from finish_law [OF s2(2), of k] s2(3) obtain s3 where
    "finish s2 k = Some (Inr (command_text t ps), s3)" "ok s3" "pending s3 = (pending s)(k := None)" by auto
  then show ?thesis using s1 s2 by (metis fun_upd_triv fun_upd_upd)
qed

end

section \<open>The mappers satisfy the contract\<close>

definition mapper_ok :: "mapper \<Rightarrow> bool" where
  "mapper_ok m \<longleftrightarrow> \<not> m_locked m \<and> distinct (map fst (m_cmd m))"

definition mapper_known :: "mapper \<Rightarrow> string \<rightharpoonup> string" where
  "mapper_known m c = map_option show_int (getKey m c None)"

lemma free_key_fresh: "free_key ks sz \<notin> set ks \<and> sz \<le> free_key ks sz"
proof (induction ks sz rule: free_key.induct)
  case (1 ks sz)
  then show ?case by (subst (1 2) free_key.simps) auto
qed

lemma map_update_of:
  "map_of (map_update k f xs) = (\<lambda>x. if x = k then map_option f (map_of xs x) else map_of xs x)"
  by (induction xs) (auto simp: map_update_def fun_eq_iff)

lemma map_update_keys [simp]: "map fst (map_update k f xs) = map fst xs"
  by (induction xs) (auto simp: map_update_def)

lemma filter_map_of: "map_of (filter (\<lambda>(k, s). k \<noteq> key) xs) = (map_of xs)(key := None)"
  by (induction xs) (auto simp: fun_eq_iff)

lemma filter_keys: "distinct (map fst xs) \<Longrightarrow> distinct (map fst (filter (\<lambda>(k, s). k \<noteq> key) xs))"
  by (induction xs) auto

lemma mapper_known_cmd [simp]: "mapper_known (m\<lparr>m_cmd := x\<rparr>) = mapper_known m"
  by (simp add: mapper_known_def getKey_def fun_eq_iff)

interpretation mapper: command_builder "\<lambda>m c. mapper_code m c 0" mapper_code finalize "\<lambda>m. map_of (m_cmd m)"
  mapper_ok mapper_known
proof unfold_locales
  fix s c t
  assume s: "mapper_ok s" "mapper_known s c = Some t"
  let ?k = "free_key (map fst (m_cmd s)) (int (length (m_cmd s)) + 1)"
  obtain kc where kc: "getKey s c None = Some kc" "t = show_int kc" using s(2) by (auto simp: mapper_known_def)
  have k: "?k \<notin> set (map fst (m_cmd s))" "?k \<noteq> 0"
    using free_key_fresh [of "map fst (m_cmd s)" "int (length (m_cmd s)) + 1"] by auto
  then have n: "map_of (m_cmd s) ?k = None" by (simp add: map_of_eq_None_iff)
  let ?s = "s\<lparr>m_cmd := (?k, t) # m_cmd s\<rparr>"
  have "mapper_code s c 0 = Some (Inr ?k, ?s)" using s kc by (simp add: mapper_code_def mapper_ok_def Let_def)
  moreover have "mapper_ok ?s" using s k by (simp add: mapper_ok_def)
  ultimately show "\<exists>k s'. mapper_code s c 0 = Some (Inr k, s') \<and> k \<noteq> 0 \<and> mapper_ok s' \<and>
      mapper_known s' = mapper_known s \<and> map_of (m_cmd s) k = None \<and>
      map_of (m_cmd s') = (map_of (m_cmd s))(k \<mapsto> t)"
    using k n by (intro exI [of _ ?k] exI [of _ ?s]) simp
next
  fix s k t p
  assume "mapper_ok s" "k \<noteq> (0::int)" "map_of (m_cmd s) k = Some t"
  then show "\<exists>s'. mapper_code s p k = Some (Inr 0, s') \<and> mapper_ok s' \<and> mapper_known s' = mapper_known s \<and>
      map_of (m_cmd s') = (map_of (m_cmd s))(k \<mapsto> t @ ''#'' @ (if p = [] then '' '' else p))"
    by (simp add: mapper_code_def mapper_ok_def map_update_of fun_eq_iff)
next
  fix s k t
  assume "mapper_ok s" "map_of (m_cmd s) k = Some t"
  then show "\<exists>s'. finalize s k = Some (Inr t, s') \<and> mapper_ok s' \<and> mapper_known s' = mapper_known s \<and>
      map_of (m_cmd s') = (map_of (m_cmd s))(k := None)"
    by (simp add: finalize_def mapper_ok_def filter_map_of filter_keys)
qed

section \<open>Properties\<close>

lemma removeMapper_keeps: "removeMapper s (Some m) = Inr reg \<Longrightarrow> getMapper x reg = getMapper x (Some m)"
  by (simp add: removeMapper_def)

text \<open>
  C32. Building a command gives the text made of its code and its parameters (a space for an empty one),
  under a key that no other pending command has, and leaves the other pending commands as they were.
\<close>

theorem command_built:
  assumes "mapper_ok m" and "mapper_known m c = Some t"
  shows "\<exists>k m1 m2 m3. mapper_code m c 0 = Some (Inr k, m1) \<and> mapper.add_params m1 k ps = Some m2 \<and>
    finalize m2 k = Some (Inr (t @ concat (map (\<lambda>p. ''#'' @ (if p = [] then '' '' else p)) ps)), m3) \<and>
    mapper_ok m3 \<and> k \<notin> set (map fst (m_cmd m)) \<and> map_of (m_cmd m3) = map_of (m_cmd m)"
  using mapper.build_ok [OF assms, of ps]
  by (auto simp: mapper.command_text_def map_of_eq_None_iff image_iff)

theorem command_built_witness:
  "\<exists>k m1 m2 m3. mapper_code \<lparr>m_table = [(7, ''vishnu_change_password'')], m_cmd = [(1, ''3'')], m_locked = False\<rparr>
      ''vishnu_change_password'' 0 = Some (Inr k, m1) \<and> mapper.add_params m1 k [''u'', ''new''] = Some m2 \<and>
    finalize m2 k = Some (Inr ''7#u#new'', m3)"
proof -
  let ?m = "\<lparr>m_table = [(7, ''vishnu_change_password'')], m_cmd = [(1, ''3'')], m_locked = False\<rparr>"
  have "mapper_ok ?m" by (simp add: mapper_ok_def)
  moreover have "mapper_known ?m ''vishnu_change_password'' = Some ''7''"
    by (simp add: mapper_known_def getKey_def show_int_def show_nat_small digit_char_def char_of_def
        bit_numeral_rec bit_0)
  ultimately show ?thesis using command_built [of ?m "''vishnu_change_password''" "''7''" "[''u'', ''new'']"]
    by auto
qed

text \<open>
  Finalizing an unknown key throws without releasing the mutex, so from then on every call that
  begins or finalizes a command of that mapper waits for ever.
\<close>

theorem finalize_unknown_deadlocks:
  assumes "\<not> m_locked m" and "map_of (m_cmd m) key = None"
  shows "\<exists>e m'. finalize m key = Some (Inl e, m') \<and> finalize m' k = None \<and> mapper_code m' cmd 0 = None"
  using assms by (simp add: finalize_def mapper_code_def)

theorem finalize_unknown_deadlocks_witness:
  "\<exists>e m'. finalize \<lparr>m_table = [], m_cmd = [], m_locked = False\<rparr> 1 = Some (Inl e, m') \<and>
    finalize m' 2 = None \<and> mapper_code m' ''c'' 0 = None"
  by (rule finalize_unknown_deadlocks) simp_all

end
