(* ===== verification/Ums_Data.thy ===== *)
theory Ums_Data
  imports Registry
begin

text \<open>
  The data objects of the user management module. Their classes are generated from
  \<^verbatim>\<open>core/model/UMS_Data.ecore\<close>; the fields here are the ones the code reads. The parser of their
  serialized form is a parameter, one function per class, with \<open>None\<close> for a text it rejects.
\<close>

record user =
  u_userId :: string
  u_password :: string
  u_firstname :: string
  u_lastname :: string
  u_privilege :: int
  u_email :: string
  u_status :: int

record machine =
  mc_machineId :: string
  mc_name :: string
  mc_site :: string
  mc_description :: string
  mc_language :: string
  mc_status :: int
  mc_sshPublicKey :: string

record local_account =
  la_userId :: string
  la_machineId :: string
  la_acLogin :: string
  la_sshKeyPath :: string
  la_homeDirectory :: string

record auth_system =
  as_authSystemId :: string
  as_name :: string
  as_URI :: string
  as_authLogin :: string
  as_authPassword :: string
  as_userPasswordEncryption :: int
  as_type :: int
  as_status :: int
  as_ldapBase :: string

record auth_account =
  aa_authSystemId :: string
  aa_userId :: string
  aa_acLogin :: string

record list_acc_options =
  lo_all :: bool
  lo_userId :: string
  lo_targetId :: string

record list_authsys_options =
  ls_all :: bool
  ls_fullInfo :: bool
  ls_userId :: string
  ls_authSystemId :: string

record list_cmd_options =
  lc_admin :: bool
  lc_userId :: string
  lc_sessionId :: string
  lc_startDate :: int
  lc_endDate :: int

record list_session_options =
  lss_status :: int
  lss_closePolicy :: int
  lss_inactivityDelay :: int
  lss_machineId :: string
  lss_admin :: bool
  lss_userId :: string
  lss_sessionId :: string
  lss_startDate :: int
  lss_endDate :: int

record list_user_options =
  lu_userId :: string
  lu_authSystemId :: string

record connect_options =
  co_closePolicy :: int
  co_inactivityDelay :: int
  co_substituteUserId :: string

record ums_parsers =
  parse_user :: "string \<Rightarrow> user option"
  parse_machine :: "string \<Rightarrow> machine option"
  parse_local_account :: "string \<Rightarrow> local_account option"
  parse_auth_system :: "string \<Rightarrow> auth_system option"
  parse_auth_account :: "string \<Rightarrow> auth_account option"
  parse_local_acc_options :: "string \<Rightarrow> list_acc_options option"
  parse_machine_options :: "string \<Rightarrow> list_acc_options option"
  parse_auth_acc_options :: "string \<Rightarrow> list_acc_options option"
  parse_authsys_options :: "string \<Rightarrow> list_authsys_options option"
  parse_cmd_options :: "string \<Rightarrow> list_cmd_options option"
  parse_session_options :: "string \<Rightarrow> list_session_options option"
  parse_user_options :: "string \<Rightarrow> list_user_options option"

section \<open>Arguments of a coded command\<close>

text \<open>
  \<^verbatim>\<open>separator.at(i)\<close>; the argument from one separator to the end of the text, and from one to the next
  where the code computes the length from a constant: a difference of unsigned numbers of 32 bits.
\<close>

definition sep_at :: "nat list \<Rightarrow> nat \<Rightarrow> nat result" where
  "sep_at seps i = (if i < length seps then Inr (seps ! i) else Inl OutOfRange)"

definition uminus32 :: "nat \<Rightarrow> nat \<Rightarrow> nat" where
  "uminus32 a b = nat ((int a - int b) mod 2 ^ 32)"

definition last_arg :: "nat list \<Rightarrow> string \<Rightarrow> nat \<Rightarrow> string result" where
  "last_arg seps msg i = res_bind (sep_at seps i) (\<lambda>p. substr msg (p + 1) (Some (length msg - p)))"

definition first_arg :: "nat list \<Rightarrow> string \<Rightarrow> nat \<Rightarrow> string result" where
  "first_arg seps msg d =
     res_bind (sep_at seps 0) (\<lambda>p. res_bind (sep_at seps 1) (\<lambda>q. substr msg (p + 1) (Some (uminus32 q d))))"

definition mid_arg :: "nat list \<Rightarrow> string \<Rightarrow> nat \<Rightarrow> string result" where
  "mid_arg seps msg i =
     res_bind (sep_at seps i) (\<lambda>p. res_bind (sep_at seps (i + 1)) (\<lambda>q.
       substr msg (p + 1) (Some (uminus32 (uminus32 q p) 1))))"

definition opt_arg :: "string \<Rightarrow> string \<Rightarrow> string" where
  "opt_arg flag a = (if a \<noteq> [] then flag @ a else [])"

definition parse_or :: "exn \<Rightarrow> (string \<Rightarrow> 'a option) \<Rightarrow> string \<Rightarrow> 'a result" where
  "parse_or e p s = (case p s of None \<Rightarrow> Inl e | Some x \<Rightarrow> Inr x)"

lemma find_seps_none: "CHR ''#'' \<notin> set s \<Longrightarrow> find_seps i s = []"
  by (induction s arbitrary: i) auto

lemma find_seps_app:
  "CHR ''#'' \<notin> set xs \<Longrightarrow> find_seps i (xs @ CHR ''#'' # ys) = (i + length xs) # find_seps (Suc (i + length xs)) ys"
  by (induction xs arbitrary: i) auto

lemma findSeparator_one:
  "CHR ''#'' \<notin> set c \<Longrightarrow> CHR ''#'' \<notin> set a \<Longrightarrow> findSeparator (c @ CHR ''#'' # a) = [length c]"
  by (simp add: findSeparator_def find_seps_app find_seps_none)

lemma findSeparator_two:
  "CHR ''#'' \<notin> set c \<Longrightarrow> CHR ''#'' \<notin> set a \<Longrightarrow> CHR ''#'' \<notin> set b \<Longrightarrow>
   findSeparator (c @ CHR ''#'' # a @ CHR ''#'' # b) = [length c, length c + 1 + length a]"
  by (simp add: findSeparator_def find_seps_app find_seps_none)

lemma uminus32_le: "b \<le> a \<Longrightarrow> a < 2 ^ 32 \<Longrightarrow> uminus32 a b = a - b"
  by (simp add: uminus32_def mod_pos_pos_trivial flip: of_nat_diff)

lemma last_arg_one:
  "last_arg [length c] (c @ CHR ''#'' # a) 0 = Inr a"
  by (simp add: last_arg_def sep_at_def)

lemma last_arg_two:
  "last_arg [length c, length c + 1 + length a] (c @ CHR ''#'' # a @ CHR ''#'' # b) (Suc 0) = Inr b"
  by (simp add: last_arg_def sep_at_def)

text \<open>The constant is right when it is one more than the length of the code.\<close>

lemma first_arg_two:
  assumes "length c + 1 + length a < 2 ^ 32" and "d \<le> length c + 1 + length a"
  shows "first_arg [length c, length c + 1 + length a] (c @ CHR ''#'' # a @ CHR ''#'' # b) d =
    Inr (take (length c + 1 + length a - d) (a @ CHR ''#'' # b))"
  using assms by (simp add: first_arg_def sep_at_def uminus32_le)

lemma mid_arg_two:
  assumes "length c + 1 + length a < 2 ^ 32"
  shows "mid_arg [length c, length c + 1 + length a] (c @ CHR ''#'' # a @ CHR ''#'' # b) 0 = Inr a"
  using assms by (simp add: mid_arg_def sep_at_def uminus32_le)

end
