(* ===== verification/Ums_Mapper.thy ===== *)
theory Ums_Mapper
  imports Ums_Data
begin

text \<open>
  The decoder of recorded user management commands into command lines
  (\<^verbatim>\<open>communication/registry/UMSMapper.cpp\<close>). The parser of serialized objects and the printing of a date
  are parameters.
\<close>

section \<open>The table\<close>

abbreviation (input) VISHNU_CONNECT :: int where "VISHNU_CONNECT \<equiv> 1"
abbreviation (input) VISHNU_RECONNECT :: int where "VISHNU_RECONNECT \<equiv> 2"
abbreviation (input) VISHNU_CLOSE :: int where "VISHNU_CLOSE \<equiv> 3"
abbreviation (input) VISHNU_ADD_VISHNU_USER :: int where "VISHNU_ADD_VISHNU_USER \<equiv> 4"
abbreviation (input) VISHNU_UPDATE_VISHNU_USER :: int where "VISHNU_UPDATE_VISHNU_USER \<equiv> 5"
abbreviation (input) VISHNU_DELETE_VISHNU_USER :: int where "VISHNU_DELETE_VISHNU_USER \<equiv> 6"
abbreviation (input) VISHNU_CHANGE_PASSWORD :: int where "VISHNU_CHANGE_PASSWORD \<equiv> 7"
abbreviation (input) VISHNU_RESET_PASSWORD :: int where "VISHNU_RESET_PASSWORD \<equiv> 8"
abbreviation (input) VISHNU_ADD_LOCAL_ACCOUNT :: int where "VISHNU_ADD_LOCAL_ACCOUNT \<equiv> 9"
abbreviation (input) VISHNU_UPDATE_LOCAL_ACCOUNT :: int where "VISHNU_UPDATE_LOCAL_ACCOUNT \<equiv> 10"
abbreviation (input) VISHNU_DELETE_LOCAL_ACCOUNT :: int where "VISHNU_DELETE_LOCAL_ACCOUNT \<equiv> 11"
abbreviation (input) VISHNU_ADD_MACHINE :: int where "VISHNU_ADD_MACHINE \<equiv> 12"
abbreviation (input) VISHNU_UPDATE_MACHINE :: int where "VISHNU_UPDATE_MACHINE \<equiv> 13"
abbreviation (input) VISHNU_DELETE_MACHINE :: int where "VISHNU_DELETE_MACHINE \<equiv> 14"
abbreviation (input) VISHNU_LIST_LOCAL_ACCOUNT :: int where "VISHNU_LIST_LOCAL_ACCOUNT \<equiv> 15"
abbreviation (input) VISHNU_LIST_MACHINE :: int where "VISHNU_LIST_MACHINE \<equiv> 16"
abbreviation (input) VISHNU_LIST_HISTORY_CMD :: int where "VISHNU_LIST_HISTORY_CMD \<equiv> 17"
abbreviation (input) VISHNU_LIST_USERS :: int where "VISHNU_LIST_USERS \<equiv> 18"
abbreviation (input) VISHNU_LIST_SESSIONS :: int where "VISHNU_LIST_SESSIONS \<equiv> 19"
abbreviation (input) VISHNU_ADD_AUTHSYS :: int where "VISHNU_ADD_AUTHSYS \<equiv> 20"
abbreviation (input) VISHNU_UPDATE_AUTHSYS :: int where "VISHNU_UPDATE_AUTHSYS \<equiv> 21"
abbreviation (input) VISHNU_DELETE_AUTHSYS :: int where "VISHNU_DELETE_AUTHSYS \<equiv> 22"
abbreviation (input) VISHNU_LIST_AUTHSYS :: int where "VISHNU_LIST_AUTHSYS \<equiv> 23"
abbreviation (input) VISHNU_ADD_AUTHACC :: int where "VISHNU_ADD_AUTHACC \<equiv> 24"
abbreviation (input) VISHNU_UPDATE_AUTHACC :: int where "VISHNU_UPDATE_AUTHACC \<equiv> 25"
abbreviation (input) VISHNU_DELETE_AUTHACC :: int where "VISHNU_DELETE_AUTHACC \<equiv> 26"
abbreviation (input) VISHNU_LIST_AUTHACC :: int where "VISHNU_LIST_AUTHACC \<equiv> 27"
abbreviation (input) VISHNU_DEFINE_UID :: int where "VISHNU_DEFINE_UID \<equiv> 28"
abbreviation (input) VISHNU_DEFINE_MID :: int where "VISHNU_DEFINE_MID \<equiv> 29"
abbreviation (input) VISHNU_DEFINE_TID :: int where "VISHNU_DEFINE_TID \<equiv> 30"
abbreviation (input) VISHNU_DEFINE_FID :: int where "VISHNU_DEFINE_FID \<equiv> 31"
abbreviation (input) VISHNU_DEFINE_AID :: int where "VISHNU_DEFINE_AID \<equiv> 32"
abbreviation (input) VISHNU_DEFINE_WID :: int where "VISHNU_DEFINE_WID \<equiv> 33"
abbreviation (input) VISHNU_EXPORT :: int where "VISHNU_EXPORT \<equiv> 34"

definition ums_table :: "(int \<times> string) list" where
  "ums_table =
     [(VISHNU_CONNECT, ''vishnu_connect''),
      (VISHNU_RECONNECT, ''vishnu_reconnect''),
      (VISHNU_CLOSE, ''vishnu_close''),
      (VISHNU_ADD_VISHNU_USER, ''vishnu_add_user''),
      (VISHNU_UPDATE_VISHNU_USER, ''vishnu_update_user''),
      (VISHNU_DELETE_VISHNU_USER, ''vishnu_delete_user''),
      (VISHNU_CHANGE_PASSWORD, ''vishnu_change_password''),
      (VISHNU_RESET_PASSWORD, ''vishnu_reset_password''),
      (VISHNU_ADD_LOCAL_ACCOUNT, ''vishnu_add_local_account''),
      (VISHNU_UPDATE_LOCAL_ACCOUNT, ''vishnu_update_local_account''),
      (VISHNU_DELETE_LOCAL_ACCOUNT, ''vishnu_delete_local_account''),
      (VISHNU_ADD_MACHINE, ''vishnu_add_machine''),
      (VISHNU_UPDATE_MACHINE, ''vishnu_update_machine''),
      (VISHNU_DELETE_MACHINE, ''vishnu_delete_machine''),
      (VISHNU_LIST_LOCAL_ACCOUNT, ''vishnu_list_local_accounts''),
      (VISHNU_LIST_MACHINE, ''vishnu_list_machines''),
      (VISHNU_LIST_HISTORY_CMD, ''vishnu_list_history_cmd''),
      (VISHNU_LIST_USERS, ''vishnu_list_users''),
      (VISHNU_LIST_SESSIONS, ''vishnu_list_sessions''),
      (VISHNU_ADD_AUTHSYS, ''vishnu_add_auth_system''),
      (VISHNU_UPDATE_AUTHSYS, ''vishnu_update_auth_system''),
      (VISHNU_DELETE_AUTHSYS, ''vishnu_delete_auth_system''),
      (VISHNU_LIST_AUTHSYS, ''vishnu_list_auth_systems''),
      (VISHNU_ADD_AUTHACC, ''vishnu_add_auth_account''),
      (VISHNU_UPDATE_AUTHACC, ''vishnu_update_auth_account''),
      (VISHNU_DELETE_AUTHACC, ''vishnu_delete_auth_account''),
      (VISHNU_LIST_AUTHACC, ''vishnu_list_auth_accounts''),
      (VISHNU_DEFINE_UID, ''vishnu_define_user_identifier''),
      (VISHNU_DEFINE_MID, ''vishnu_define_machine_identifier''),
      (VISHNU_DEFINE_TID, ''vishnu_define_job_identifier''),
      (VISHNU_DEFINE_FID, ''vishnu_define_transfer_identifier''),
      (VISHNU_DEFINE_AID, ''vishnu_define_auth_identifier''),
      (VISHNU_DEFINE_WID, ''vishnu_define_work_identifier''),
      (VISHNU_EXPORT, ''vishnu_export_commands'')]"

definition ums_name :: "int \<Rightarrow> string" where
  "ums_name key = (case map_of ums_table key of Some c \<Rightarrow> c | None \<Rightarrow> [])"

definition ums_mapper :: mapper where
  "ums_mapper = \<lparr>m_table = ums_table, m_cmd = [], m_locked = False\<rparr>"

section \<open>Commands with plain arguments\<close>

definition decodeClose :: "nat list \<Rightarrow> string \<Rightarrow> string result" where
  "decodeClose seps msg = Inr (ums_name VISHNU_CLOSE)"

definition decodeDelUser :: "nat list \<Rightarrow> string \<Rightarrow> string result" where
  "decodeDelUser seps msg =
     (if seps = [] then Inr (ums_name VISHNU_DELETE_VISHNU_USER)
      else res_bind (last_arg seps msg 0) (\<lambda>a. Inr (ums_name VISHNU_DELETE_VISHNU_USER @ '' '' @ a)))"

definition decodeChangePwd :: "nat list \<Rightarrow> string \<Rightarrow> string result" where
  "decodeChangePwd seps msg =
     res_bind (first_arg seps msg 2) (\<lambda>a. res_bind (last_arg seps msg 1) (\<lambda>b.
       Inr (ums_name VISHNU_CHANGE_PASSWORD @ '' '' @ a @ '' '' @ b)))"

definition decodeResetPwd :: "nat list \<Rightarrow> string \<Rightarrow> string result" where
  "decodeResetPwd seps msg =
     res_bind (last_arg seps msg 0) (\<lambda>a. Inr (ums_name VISHNU_RESET_PASSWORD @ '' '' @ a))"

definition decodeDelAcc :: "nat list \<Rightarrow> string \<Rightarrow> string result" where
  "decodeDelAcc seps msg =
     res_bind (first_arg seps msg 3) (\<lambda>a. res_bind (last_arg seps msg 1) (\<lambda>b.
       Inr (ums_name VISHNU_DELETE_LOCAL_ACCOUNT @ '' '' @ a @ '' '' @ b)))"

definition decodeDelAuthSys :: "nat list \<Rightarrow> string \<Rightarrow> string result" where
  "decodeDelAuthSys seps msg =
     res_bind (last_arg seps msg 0) (\<lambda>a. Inr (ums_name VISHNU_DELETE_AUTHSYS @ '' '' @ a))"

text \<open>The name printed is that of the deletion of a local account.\<close>

definition decodeDelAuthAcc :: "nat list \<Rightarrow> string \<Rightarrow> string result" where
  "decodeDelAuthAcc seps msg =
     res_bind (first_arg seps msg 3) (\<lambda>a. res_bind (last_arg seps msg 1) (\<lambda>b.
       Inr (ums_name VISHNU_DELETE_LOCAL_ACCOUNT @ '' '' @ a @ '' '' @ opt_arg '' -u '' b)))"

definition decodeDelM :: "nat list \<Rightarrow> string \<Rightarrow> string result" where
  "decodeDelM seps msg =
     res_bind (last_arg seps msg 0) (\<lambda>a. Inr (ums_name VISHNU_DELETE_MACHINE @ '' '' @ a))"

definition decodeFid :: "nat list \<Rightarrow> string \<Rightarrow> string result" where
  "decodeFid seps msg =
     res_bind (last_arg seps msg 0) (\<lambda>a. Inr (ums_name VISHNU_DEFINE_FID @ '' '' @ a))"

definition decodeMid :: "nat list \<Rightarrow> string \<Rightarrow> string result" where
  "decodeMid seps msg =
     res_bind (last_arg seps msg 0) (\<lambda>a. Inr (ums_name VISHNU_DEFINE_MID @ '' '' @ a))"

definition decodeAid :: "nat list \<Rightarrow> string \<Rightarrow> string result" where
  "decodeAid seps msg =
     res_bind (last_arg seps msg 0) (\<lambda>a. Inr (ums_name VISHNU_DEFINE_AID @ '' '' @ a))"

definition decodeUid :: "nat list \<Rightarrow> string \<Rightarrow> string result" where
  "decodeUid seps msg =
     res_bind (last_arg seps msg 0) (\<lambda>a. Inr (ums_name VISHNU_DEFINE_UID @ '' '' @ a))"

definition decodeTid :: "nat list \<Rightarrow> string \<Rightarrow> string result" where
  "decodeTid seps msg =
     res_bind (last_arg seps msg 0) (\<lambda>a. Inr (ums_name VISHNU_DEFINE_TID @ '' '' @ a))"

definition decodeWid :: "nat list \<Rightarrow> string \<Rightarrow> string result" where
  "decodeWid seps msg =
     res_bind (last_arg seps msg 0) (\<lambda>a. Inr (ums_name VISHNU_DEFINE_WID @ '' '' @ a))"

definition decodeExp :: "nat list \<Rightarrow> string \<Rightarrow> string result" where
  "decodeExp seps msg =
     res_bind (first_arg seps msg 2) (\<lambda>a. res_bind (last_arg seps msg 1) (\<lambda>b.
       Inr (ums_name VISHNU_EXPORT @ '' '' @ a @ '' '' @ b)))"

section \<open>Commands with a serialized object\<close>

abbreviation (input) invalid_param :: exn where
  "invalid_param \<equiv> UMSVishnuException ERRCODE_INVALID_PARAM []"

definition getU :: "ums_parsers \<Rightarrow> string \<Rightarrow> string result" where
  "getU P serial =
     res_bind (parse_or invalid_param (parse_user P) serial) (\<lambda>user.
       Inr (opt_arg '' '' (u_firstname user) @
            opt_arg '' '' (u_lastname user) @
            (if u_privilege user > 0 then '' '' @ show_int (u_privilege user) else '' 0'') @
            opt_arg '' '' (u_email user)))"

definition getUupdate :: "ums_parsers \<Rightarrow> string \<Rightarrow> string result" where
  "getUupdate P serial =
     res_bind (parse_or invalid_param (parse_user P) serial) (\<lambda>user.
       Inr ('' '' @ u_userId user @
            opt_arg '' -f '' (u_firstname user) @
            opt_arg '' -l '' (u_lastname user) @
            (if u_privilege user > 0 then '' -p  '' @ show_int (u_privilege user) else '' -p  0'') @
            opt_arg '' -m '' (u_email user)))"

definition decodeAddUser :: "ums_parsers \<Rightarrow> nat list \<Rightarrow> string \<Rightarrow> string result" where
  "decodeAddUser P seps msg =
     res_bind (last_arg seps msg 0) (\<lambda>u. res_bind (getU P u) (\<lambda>s.
       Inr (ums_name VISHNU_ADD_VISHNU_USER @ s)))"

definition decodeUpUser :: "ums_parsers \<Rightarrow> nat list \<Rightarrow> string \<Rightarrow> string result" where
  "decodeUpUser P seps msg =
     res_bind (last_arg seps msg 0) (\<lambda>u. res_bind (getUupdate P u) (\<lambda>s.
       Inr (ums_name VISHNU_UPDATE_VISHNU_USER @ s)))"

definition decodeAddAcc :: "ums_parsers \<Rightarrow> nat list \<Rightarrow> string \<Rightarrow> string result" where
  "decodeAddAcc P seps msg =
     res_bind (last_arg seps msg 0) (\<lambda>a.
     res_bind (parse_or invalid_param (parse_local_account P) a) (\<lambda>ac.
       Inr (ums_name VISHNU_ADD_LOCAL_ACCOUNT @ '' '' @ la_userId ac @ '' '' @ la_machineId ac @
            '' '' @ la_acLogin ac @ '' '' @ la_homeDirectory ac)))"

definition decodeUpAcc :: "ums_parsers \<Rightarrow> nat list \<Rightarrow> string \<Rightarrow> string result" where
  "decodeUpAcc P seps msg =
     res_bind (last_arg seps msg 0) (\<lambda>a.
     res_bind (parse_or invalid_param (parse_local_account P) a) (\<lambda>ac.
       Inr (ums_name VISHNU_UPDATE_LOCAL_ACCOUNT @
            opt_arg '' -l '' (la_acLogin ac) @
            opt_arg '' -d '' (la_homeDirectory ac) @
            '' '' @ la_userId ac @ '' '' @ la_machineId ac)))"

definition decodeAddAuthAcc :: "ums_parsers \<Rightarrow> nat list \<Rightarrow> string \<Rightarrow> string result" where
  "decodeAddAuthAcc P seps msg =
     res_bind (last_arg seps msg 0) (\<lambda>a.
     res_bind (parse_or invalid_param (parse_auth_account P) a) (\<lambda>ac.
       Inr (ums_name VISHNU_ADD_AUTHACC @ '' '' @ aa_authSystemId ac @ '' '' @ aa_acLogin ac @
            opt_arg '' -u '' (aa_userId ac))))"

definition decodeUpAuthAcc :: "ums_parsers \<Rightarrow> nat list \<Rightarrow> string \<Rightarrow> string result" where
  "decodeUpAuthAcc P seps msg =
     res_bind (last_arg seps msg 0) (\<lambda>a.
     res_bind (parse_or invalid_param (parse_auth_account P) a) (\<lambda>ac.
       Inr (ums_name VISHNU_UPDATE_AUTHACC @ '' '' @ aa_authSystemId ac @
            opt_arg '' -l '' (aa_acLogin ac) @
            opt_arg '' -u '' (aa_userId ac))))"

definition decodeAddAuthSys :: "ums_parsers \<Rightarrow> nat list \<Rightarrow> string \<Rightarrow> string result" where
  "decodeAddAuthSys P seps msg =
     res_bind (last_arg seps msg 0) (\<lambda>a.
     res_bind (parse_or invalid_param (parse_auth_system P) a) (\<lambda>ac.
       Inr (ums_name VISHNU_ADD_AUTHSYS @ '' '' @ as_name ac @ '' '' @ as_URI ac @
            '' '' @ as_authLogin ac @ '' '' @ as_authPassword ac @
            '' '' @ show_int (as_userPasswordEncryption ac) @ '' '' @ show_int (as_type ac) @
            opt_arg '' -b '' (as_ldapBase ac))))"

definition decodeUpAuthSys :: "ums_parsers \<Rightarrow> nat list \<Rightarrow> string \<Rightarrow> string result" where
  "decodeUpAuthSys P seps msg =
     res_bind (last_arg seps msg 0) (\<lambda>a.
     res_bind (parse_or invalid_param (parse_auth_system P) a) (\<lambda>ac.
       Inr (ums_name VISHNU_UPDATE_AUTHSYS @ '' '' @ as_authSystemId ac @
            opt_arg '' -n '' (as_name ac) @
            opt_arg '' -i '' (as_URI ac) @
            opt_arg '' -u '' (as_authLogin ac) @
            opt_arg '' -w '' (as_authPassword ac) @
            opt_arg '' -e '' (show_int (as_userPasswordEncryption ac)) @
            opt_arg '' -t '' (show_int (as_type ac)) @
            opt_arg '' -b '' (as_ldapBase ac))))"

definition decodeListAuthAcc :: "ums_parsers \<Rightarrow> nat list \<Rightarrow> string \<Rightarrow> string result" where
  "decodeListAuthAcc P seps msg =
     res_bind (last_arg seps msg 0) (\<lambda>a.
     res_bind (parse_or invalid_param (parse_auth_acc_options P) a) (\<lambda>ac.
       Inr (ums_name VISHNU_LIST_AUTHACC @
            (if lo_all ac then '' -a '' else []) @
            opt_arg '' -u '' (lo_userId ac) @
            opt_arg '' -i '' (lo_targetId ac))))"

definition decodeListAuthSys :: "ums_parsers \<Rightarrow> nat list \<Rightarrow> string \<Rightarrow> string result" where
  "decodeListAuthSys P seps msg =
     res_bind (last_arg seps msg 0) (\<lambda>a.
     res_bind (parse_or invalid_param (parse_authsys_options P) a) (\<lambda>ac.
       Inr (ums_name VISHNU_LIST_AUTHSYS @
            (if ls_all ac then '' -a '' else []) @
            (if ls_fullInfo ac then '' -a '' else []) @
            opt_arg '' -u '' (ls_userId ac) @
            opt_arg '' -i '' (ls_authSystemId ac))))"

definition decodeAddM :: "ums_parsers \<Rightarrow> nat list \<Rightarrow> string \<Rightarrow> string result" where
  "decodeAddM P seps msg =
     res_bind (last_arg seps msg 0) (\<lambda>a.
     res_bind (parse_or invalid_param (parse_machine P) a) (\<lambda>ac.
       Inr (ums_name VISHNU_ADD_MACHINE @ '' '' @ mc_name ac @ '' '' @ mc_site ac @ '' '' @ mc_language ac)))"

definition decodeUpM :: "ums_parsers \<Rightarrow> nat list \<Rightarrow> string \<Rightarrow> string result" where
  "decodeUpM P seps msg =
     res_bind (last_arg seps msg 0) (\<lambda>a.
     res_bind (parse_or invalid_param (parse_machine P) a) (\<lambda>ac.
       Inr (ums_name VISHNU_UPDATE_MACHINE @ '' '' @ mc_machineId ac @ '' '' @
            opt_arg '' -n '' (mc_name ac) @
            opt_arg '' -s '' (mc_site ac) @
            opt_arg '' -d '' (mc_description ac) @
            opt_arg '' -t '' (show_int (mc_status ac)) @
            opt_arg '' -l '' (mc_language ac))))"

definition decodeListAcc :: "ums_parsers \<Rightarrow> nat list \<Rightarrow> string \<Rightarrow> string result" where
  "decodeListAcc P seps msg =
     res_bind (last_arg seps msg 0) (\<lambda>a.
     res_bind (parse_or invalid_param (parse_local_acc_options P) a) (\<lambda>ac.
       Inr (ums_name VISHNU_LIST_LOCAL_ACCOUNT @
            (if lo_all ac then '' -a '' else []) @
            opt_arg '' -u '' (lo_userId ac) @
            opt_arg '' -i '' (lo_targetId ac))))"

definition decodeListM :: "ums_parsers \<Rightarrow> nat list \<Rightarrow> string \<Rightarrow> string result" where
  "decodeListM P seps msg =
     res_bind (last_arg seps msg 0) (\<lambda>a.
     res_bind (parse_or invalid_param (parse_machine_options P) a) (\<lambda>ac.
       Inr (ums_name VISHNU_LIST_MACHINE @
            opt_arg '' -u '' (lo_userId ac) @
            (if lo_all ac then '' -a '' else []) @
            opt_arg '' -m '' (lo_targetId ac))))"

definition opt_date :: "(int \<Rightarrow> string) \<Rightarrow> string \<Rightarrow> int \<Rightarrow> string" where
  "opt_date date_string flag date =
     (if date > 0 then flag @ date_string date @ [CHR 0x27] else [])"

definition decodeListH :: "ums_parsers \<Rightarrow> (int \<Rightarrow> string) \<Rightarrow> nat list \<Rightarrow> string \<Rightarrow> string result" where
  "decodeListH P date_string seps msg =
     res_bind (last_arg seps msg 0) (\<lambda>a.
     res_bind (parse_or invalid_param (parse_cmd_options P) a) (\<lambda>ac.
       Inr (ums_name VISHNU_LIST_HISTORY_CMD @
            (if lc_admin ac then '' -a '' else []) @
            opt_arg '' -u '' (lc_userId ac) @
            opt_arg '' -i '' (lc_sessionId ac) @
            opt_date date_string ('' -s '' @ [CHR 0x27]) (lc_startDate ac) @
            opt_date date_string ('' -e '' @ [CHR 0x27]) (lc_endDate ac))))"

definition decodeListUser :: "ums_parsers \<Rightarrow> nat list \<Rightarrow> string \<Rightarrow> string result" where
  "decodeListUser P seps msg =
     res_bind (last_arg seps msg 0) (\<lambda>a.
     res_bind (parse_or invalid_param (parse_user_options P) a) (\<lambda>ac.
       Inr (ums_name VISHNU_LIST_USERS @
            opt_arg '' -u '' (lu_userId ac) @
            opt_arg '' -i '' (lu_authSystemId ac))))"

definition decodeListSession :: "ums_parsers \<Rightarrow> (int \<Rightarrow> string) \<Rightarrow> nat list \<Rightarrow> string \<Rightarrow> string result" where
  "decodeListSession P date_string seps msg =
     res_bind (last_arg seps msg 0) (\<lambda>a.
     res_bind (parse_or invalid_param (parse_session_options P) a) (\<lambda>ac.
       Inr (ums_name VISHNU_LIST_SESSIONS @ '' -t '' @ show_int (lss_status ac) @
            (if lss_closePolicy ac > 0 then '' -p '' @ show_int (lss_closePolicy ac) else []) @
            (if lss_inactivityDelay ac > 0 then '' -d '' @ show_int (lss_inactivityDelay ac) else []) @
            opt_arg '' -m '' (lss_machineId ac) @
            (if lss_admin ac then '' -a '' else []) @
            opt_arg '' -u '' (lss_userId ac) @
            opt_arg '' -m '' (lss_machineId ac) @
            opt_arg '' -i '' (lss_sessionId ac) @
            opt_date date_string ('' -s '' @ [CHR 0x27]) (lss_startDate ac) @
            opt_date date_string ('' -e '' @ [CHR 0x27]) (lss_endDate ac))))"

section \<open>The decoder\<close>

definition ums_dispatch :: "ums_parsers \<Rightarrow> (int \<Rightarrow> string) \<Rightarrow> int \<Rightarrow> nat list \<Rightarrow> string \<Rightarrow> string result" where
  "ums_dispatch P date_string funcCode seps msg =
     (if funcCode = VISHNU_CLOSE then decodeClose seps msg
      else if funcCode = VISHNU_ADD_VISHNU_USER then decodeAddUser P seps msg
      else if funcCode = VISHNU_UPDATE_VISHNU_USER then decodeUpUser P seps msg
      else if funcCode = VISHNU_DELETE_VISHNU_USER then decodeDelUser seps msg
      else if funcCode = VISHNU_CHANGE_PASSWORD then decodeChangePwd seps msg
      else if funcCode = VISHNU_RESET_PASSWORD then decodeResetPwd seps msg
      else if funcCode = VISHNU_ADD_LOCAL_ACCOUNT then decodeAddAcc P seps msg
      else if funcCode = VISHNU_UPDATE_LOCAL_ACCOUNT then decodeUpAcc P seps msg
      else if funcCode = VISHNU_DELETE_LOCAL_ACCOUNT then decodeDelAcc seps msg
      else if funcCode = VISHNU_ADD_MACHINE then decodeAddM P seps msg
      else if funcCode = VISHNU_UPDATE_MACHINE then decodeUpM P seps msg
      else if funcCode = VISHNU_DELETE_MACHINE then decodeDelM seps msg
      else if funcCode = VISHNU_LIST_LOCAL_ACCOUNT then decodeListAcc P seps msg
      else if funcCode = VISHNU_LIST_MACHINE then decodeListM P seps msg
      else if funcCode = VISHNU_LIST_HISTORY_CMD then decodeListH P date_string seps msg
      else if funcCode = VISHNU_LIST_USERS then decodeListUser P seps msg
      else if funcCode = VISHNU_LIST_SESSIONS then decodeListSession P date_string seps msg
      else if funcCode = VISHNU_ADD_AUTHSYS then decodeAddAuthSys P seps msg
      else if funcCode = VISHNU_UPDATE_AUTHSYS then decodeUpAuthSys P seps msg
      else if funcCode = VISHNU_DELETE_AUTHSYS then decodeDelAuthSys seps msg
      else if funcCode = VISHNU_ADD_AUTHACC then decodeAddAuthAcc P seps msg
      else if funcCode = VISHNU_UPDATE_AUTHACC then decodeUpAuthAcc P seps msg
      else if funcCode = VISHNU_DELETE_AUTHACC then decodeDelAuthAcc seps msg
      else if funcCode = VISHNU_LIST_AUTHSYS then decodeListAuthSys P seps msg
      else if funcCode = VISHNU_LIST_AUTHACC then decodeListAuthAcc P seps msg
      else if funcCode = VISHNU_DEFINE_FID then decodeFid seps msg
      else if funcCode = VISHNU_DEFINE_TID then decodeTid seps msg
      else if funcCode = VISHNU_DEFINE_MID then decodeMid seps msg
      else if funcCode = VISHNU_DEFINE_UID then decodeUid seps msg
      else if funcCode = VISHNU_DEFINE_AID then decodeAid seps msg
      else if funcCode = VISHNU_DEFINE_WID then decodeAid seps msg
      else if funcCode = VISHNU_EXPORT then decodeExp seps msg
      else Inr [])"

definition ums_decode :: "ums_parsers \<Rightarrow> (int \<Rightarrow> string) \<Rightarrow> string \<Rightarrow> string result" where
  "ums_decode P date_string msg =
     (let seps = findSeparator msg;
          func = (case seps of [] \<Rightarrow> msg | p # _ \<Rightarrow> take p msg)
      in ums_dispatch P date_string (convertToInt func) seps msg)"

section \<open>Commands come back as they were recorded\<close>

lemmas eval_code = convertToInt_def lexical_cast_def parse_nat_def is_digit_def digits_val_def digit_val_def
  in_width_def

lemma eval_codes [simp]:
  "convertToInt ''6'' = 6" "convertToInt ''7'' = 7" "convertToInt ''8'' = 8" "convertToInt ''11'' = 11"
  "convertToInt ''14'' = 14" "convertToInt ''22'' = 22" "convertToInt ''26'' = 26" "convertToInt ''34'' = 34"
  by (simp_all add: eval_code)

lemma decode_one_arg:
  assumes "CHR ''#'' \<notin> set c" and "CHR ''#'' \<notin> set a"
  shows "ums_decode P ds (c @ ''#'' @ a) = ums_dispatch P ds (convertToInt c) [length c] (c @ CHR ''#'' # a)"
  using assms by (simp add: ums_decode_def findSeparator_one)

lemma decode_two_args:
  assumes "CHR ''#'' \<notin> set c" and "CHR ''#'' \<notin> set a" and "CHR ''#'' \<notin> set b"
  shows "ums_decode P ds (c @ ''#'' @ a @ ''#'' @ b) =
    ums_dispatch P ds (convertToInt c) [length c, length c + 1 + length a] (c @ CHR ''#'' # a @ CHR ''#'' # b)"
  using assms by (simp add: ums_decode_def findSeparator_two)

text \<open>
  A recorded command with one plain argument is decoded into its command line: deleting a user, a
  machine or an authentication system, and resetting a password.
\<close>

theorem ums_one_argument:
  assumes "CHR ''#'' \<notin> set a"
  shows "ums_decode P ds (''6#'' @ a) = Inr (''vishnu_delete_user '' @ a) \<and>
    ums_decode P ds (''8#'' @ a) = Inr (''vishnu_reset_password '' @ a) \<and>
    ums_decode P ds (''14#'' @ a) = Inr (''vishnu_delete_machine '' @ a) \<and>
    ums_decode P ds (''22#'' @ a) = Inr (''vishnu_delete_auth_system '' @ a)"
  using decode_one_arg [of "''6''" a P ds] decode_one_arg [of "''8''" a P ds]
    decode_one_arg [of "''14''" a P ds] decode_one_arg [of "''22''" a P ds]
    last_arg_one [of "''6''" a] last_arg_one [of "''8''" a] last_arg_one [of "''14''" a]
    last_arg_one [of "''22''" a] assms
  by (simp add: ums_dispatch_def decodeDelUser_def decodeResetPwd_def decodeDelM_def
      decodeDelAuthSys_def ums_name_def ums_table_def)

text \<open>
  A recorded command with two plain arguments: a change of password and the deletion of a local
  account are decoded into their command lines; the deletion of an authentication account is printed
  as the deletion of a local account; the export, whose code has two digits but whose first argument
  is cut as if it had one, prints the separator after that argument.
\<close>

theorem ums_two_arguments:
  assumes "CHR ''#'' \<notin> set a" and "CHR ''#'' \<notin> set b" and "b \<noteq> []" and "length a < 2 ^ 31"
  shows "ums_decode P ds (''7#'' @ a @ ''#'' @ b) = Inr (''vishnu_change_password '' @ a @ '' '' @ b) \<and>
    ums_decode P ds (''11#'' @ a @ ''#'' @ b) = Inr (''vishnu_delete_local_account '' @ a @ '' '' @ b) \<and>
    ums_decode P ds (''26#'' @ a @ ''#'' @ b) = Inr (''vishnu_delete_local_account '' @ a @ ''  -u '' @ b) \<and>
    ums_decode P ds (''34#'' @ a @ ''#'' @ b) = Inr (''vishnu_export_commands '' @ a @ ''# '' @ b)"
  using decode_two_args [of "''7''" a b P ds] decode_two_args [of "''11''" a b P ds]
    decode_two_args [of "''26''" a b P ds] decode_two_args [of "''34''" a b P ds]
    first_arg_two [of "''7''" a 2 b] first_arg_two [of "''11''" a 3 b] first_arg_two [of "''26''" a 3 b]
    first_arg_two [of "''34''" a 2 b] last_arg_two [of "''7''" a b] last_arg_two [of "''11''" a b]
    last_arg_two [of "''26''" a b] last_arg_two [of "''34''" a b] assms
  by (simp add: ums_dispatch_def decodeChangePwd_def decodeDelAcc_def decodeDelAuthAcc_def decodeExp_def
      opt_arg_def ums_name_def ums_table_def)

definition no_parsers :: ums_parsers where
  "no_parsers = \<lparr>parse_user = Map.empty, parse_machine = Map.empty, parse_local_account = Map.empty,
     parse_auth_system = Map.empty, parse_auth_account = Map.empty, parse_local_acc_options = Map.empty,
     parse_machine_options = Map.empty, parse_auth_acc_options = Map.empty,
     parse_authsys_options = Map.empty, parse_cmd_options = Map.empty,
     parse_session_options = Map.empty, parse_user_options = Map.empty\<rparr>"

theorem ums_one_argument_witness:
  "ums_decode no_parsers show_int ''14#machine_1'' = Inr ''vishnu_delete_machine machine_1''"
  using ums_one_argument [of "''machine_1''" no_parsers show_int] by simp

theorem ums_two_arguments_witness:
  "ums_decode no_parsers show_int ''11#user_1#machine_1'' = Inr ''vishnu_delete_local_account user_1 machine_1'' \<and>
   ums_decode no_parsers show_int ''34#S1#0'' = Inr ''vishnu_export_commands S1# 0''"
  using ums_two_arguments [of "''user_1''" "''machine_1''" no_parsers show_int]
    ums_two_arguments [of "''S1''" "''0''" no_parsers show_int] by simp

end
