(* ===== verification/Fms_Mapper.thy ===== *)
theory Fms_Mapper
  imports Ums_Data
begin

text \<open>
  The decoder of recorded file management commands (\<^verbatim>\<open>communication/registry/FMSMapper.cpp\<close>). The
  option objects are parsed by parameters.
\<close>

section \<open>The table\<close>

abbreviation (input) VISHNU_CREATE_FILE :: int where "VISHNU_CREATE_FILE \<equiv> 1"
abbreviation (input) VISHNU_CREATE_DIR :: int where "VISHNU_CREATE_DIR \<equiv> 2"
abbreviation (input) VISHNU_REMOVE_FILE :: int where "VISHNU_REMOVE_FILE \<equiv> 3"
abbreviation (input) VISHNU_REMOVE_DIR :: int where "VISHNU_REMOVE_DIR \<equiv> 4"
abbreviation (input) VISHNU_CH_GRP :: int where "VISHNU_CH_GRP \<equiv> 5"
abbreviation (input) VISHNU_CH_MOD :: int where "VISHNU_CH_MOD \<equiv> 6"
abbreviation (input) VISHNU_HEAD_OF_FILE :: int where "VISHNU_HEAD_OF_FILE \<equiv> 7"
abbreviation (input) VISHNU_TAIL_OF_FILE :: int where "VISHNU_TAIL_OF_FILE \<equiv> 8"
abbreviation (input) VISHNU_CONTENT_OF_FILE :: int where "VISHNU_CONTENT_OF_FILE \<equiv> 9"
abbreviation (input) VISHNU_LIST_DIR :: int where "VISHNU_LIST_DIR \<equiv> 10"
abbreviation (input) VISHNU_COPY_FILE :: int where "VISHNU_COPY_FILE \<equiv> 11"
abbreviation (input) VISHNU_COPY_ASYNC_FILE :: int where "VISHNU_COPY_ASYNC_FILE \<equiv> 12"
abbreviation (input) VISHNU_MOVE_FILE :: int where "VISHNU_MOVE_FILE \<equiv> 13"
abbreviation (input) VISHNU_MOVE_ASYNC_FILE :: int where "VISHNU_MOVE_ASYNC_FILE \<equiv> 14"
abbreviation (input) VISHNU_STOP_FILE_TRANSFER :: int where "VISHNU_STOP_FILE_TRANSFER \<equiv> 15"
abbreviation (input) VISHNU_LIST_FILE_TRANSFERS :: int where "VISHNU_LIST_FILE_TRANSFERS \<equiv> 16"
abbreviation (input) VISHNU_GET_FILE_INFO :: int where "VISHNU_GET_FILE_INFO \<equiv> 17"

definition fms_table :: "(int \<times> string) list" where
  "fms_table =
     [(VISHNU_CREATE_FILE, ''vishnu_touch''),
      (VISHNU_CREATE_DIR, ''vishnu_mkdir''),
      (VISHNU_REMOVE_FILE, ''vishnu_rm''),
      (VISHNU_REMOVE_DIR, ''vishnu_rmdir''),
      (VISHNU_CH_GRP, ''vishnu_chgrp''),
      (VISHNU_CH_MOD, ''vishnu_chmod''),
      (VISHNU_HEAD_OF_FILE, ''vishnu_head''),
      (VISHNU_TAIL_OF_FILE, ''vishnu_tail''),
      (VISHNU_CONTENT_OF_FILE, ''vishnu_more''),
      (VISHNU_LIST_DIR, ''vishnu_ls''),
      (VISHNU_COPY_FILE, ''vishnu_cp''),
      (VISHNU_COPY_ASYNC_FILE, ''vishnu_acp''),
      (VISHNU_MOVE_FILE, ''vishnu_mv''),
      (VISHNU_MOVE_ASYNC_FILE, ''vishnu_amv''),
      (VISHNU_STOP_FILE_TRANSFER, ''vishnu_stop_file_transfer''),
      (VISHNU_LIST_FILE_TRANSFERS, ''vishnu_list_file_transfers''),
      (VISHNU_GET_FILE_INFO, ''vishnu_stat'')]"

definition fms_name :: "int \<Rightarrow> string" where
  "fms_name key = (case map_of fms_table key of Some c \<Rightarrow> c | None \<Rightarrow> [])"

record cp_options =
  cp_recursive :: bool
  cp_trCommand :: int

record ls_dir_options =
  ld_longFormat :: bool
  ld_allFiles :: bool

record transfer_options =
  to_transferId :: string
  to_fromMachineId :: string
  to_userId :: string
  to_status :: int

record fms_parsers =
  parse_create_dir :: "string \<Rightarrow> bool option"
  parse_rm_file :: "string \<Rightarrow> bool option"
  parse_head :: "string \<Rightarrow> int option"
  parse_tail :: "string \<Rightarrow> int option"
  parse_ls_dir :: "string \<Rightarrow> ls_dir_options option"
  parse_cp :: "string \<Rightarrow> cp_options option"
  parse_stop :: "string \<Rightarrow> transfer_options option"
  parse_ls_transfer :: "string \<Rightarrow> transfer_options option"

section \<open>The commands\<close>

definition rest_arg :: "nat list \<Rightarrow> string \<Rightarrow> nat \<Rightarrow> string result" where
  "rest_arg seps msg i = res_bind (sep_at seps i) (\<lambda>p. substr msg (p + 1) None)"

definition fms_option :: "(string \<Rightarrow> 'a option) \<Rightarrow> string \<Rightarrow> 'a result" where
  "fms_option p u = parse_or (SystemException ERRCODE_INVMAPPER (''option: '' @ u)) p u"

definition decodeCreateFile :: "nat list \<Rightarrow> string \<Rightarrow> string result" where
  "decodeCreateFile seps msg =
     res_bind (rest_arg seps msg 0) (\<lambda>u. Inr (fms_name VISHNU_CREATE_FILE @ '' '' @ u))"

definition decodeRemoveDir :: "nat list \<Rightarrow> string \<Rightarrow> string result" where
  "decodeRemoveDir seps msg =
     res_bind (rest_arg seps msg 0) (\<lambda>u. Inr (fms_name VISHNU_REMOVE_DIR @ '' '' @ u))"

definition decodeContentOfFile :: "nat list \<Rightarrow> string \<Rightarrow> string result" where
  "decodeContentOfFile seps msg =
     res_bind (rest_arg seps msg 0) (\<lambda>u. Inr (fms_name VISHNU_CONTENT_OF_FILE @ '' '' @ u))"

definition decodeGetFileInfo :: "nat list \<Rightarrow> string \<Rightarrow> string result" where
  "decodeGetFileInfo seps msg =
     res_bind (rest_arg seps msg 0) (\<lambda>u. Inr (fms_name VISHNU_GET_FILE_INFO @ '' '' @ u))"

definition decodeCreateDir :: "fms_parsers \<Rightarrow> nat list \<Rightarrow> string \<Rightarrow> string result" where
  "decodeCreateDir P seps msg =
     res_bind (mid_arg seps msg 0) (\<lambda>a. res_bind (rest_arg seps msg 1) (\<lambda>u.
     res_bind (fms_option (parse_create_dir P) u) (\<lambda>recursive.
       Inr (fms_name VISHNU_CREATE_DIR @ '' '' @ a @ '' '' @ (if recursive then '' -p '' else [])))))"

definition decodeRemoveFile :: "fms_parsers \<Rightarrow> nat list \<Rightarrow> string \<Rightarrow> string result" where
  "decodeRemoveFile P seps msg =
     res_bind (mid_arg seps msg 0) (\<lambda>a. res_bind (last_arg seps msg 1) (\<lambda>u.
     res_bind (fms_option (parse_rm_file P) u) (\<lambda>recursive.
       Inr (fms_name VISHNU_REMOVE_FILE @ '' '' @ a @ '' '' @ (if recursive then '' -r '' else [])))))"

definition decodeChGrp :: "nat list \<Rightarrow> string \<Rightarrow> string result" where
  "decodeChGrp seps msg =
     res_bind (mid_arg seps msg 0) (\<lambda>a. res_bind (rest_arg seps msg 1) (\<lambda>b.
       Inr (fms_name VISHNU_CH_GRP @ '' '' @ a @ '' '' @ b)))"

definition decodeChMod :: "nat list \<Rightarrow> string \<Rightarrow> string result" where
  "decodeChMod seps msg =
     res_bind (mid_arg seps msg 0) (\<lambda>a. res_bind (rest_arg seps msg 1) (\<lambda>b.
       Inr (fms_name VISHNU_CH_MOD @ '' '' @ a @ '' '' @ b)))"

definition decodeHeadOfFile :: "fms_parsers \<Rightarrow> nat list \<Rightarrow> string \<Rightarrow> string result" where
  "decodeHeadOfFile P seps msg =
     res_bind (mid_arg seps msg 0) (\<lambda>a. res_bind (rest_arg seps msg 1) (\<lambda>u.
     res_bind (fms_option (parse_head P) u) (\<lambda>nline.
       Inr (fms_name VISHNU_HEAD_OF_FILE @ '' '' @ a @ '' '' @ '' -n '' @ show_int nline))))"

definition decodeTailOfFile :: "fms_parsers \<Rightarrow> nat list \<Rightarrow> string \<Rightarrow> string result" where
  "decodeTailOfFile P seps msg =
     res_bind (mid_arg seps msg 0) (\<lambda>a. res_bind (rest_arg seps msg 1) (\<lambda>u.
     res_bind (fms_option (parse_tail P) u) (\<lambda>nline.
       Inr (fms_name VISHNU_TAIL_OF_FILE @ '' '' @ a @ '' '' @ '' -n '' @ show_int nline))))"

definition decodeListDir :: "fms_parsers \<Rightarrow> nat list \<Rightarrow> string \<Rightarrow> string result" where
  "decodeListDir P seps msg =
     res_bind (mid_arg seps msg 0) (\<lambda>a. res_bind (rest_arg seps msg 1) (\<lambda>u.
     res_bind (fms_option (parse_ls_dir P) u) (\<lambda>ac.
       Inr (fms_name VISHNU_LIST_DIR @ '' '' @ a @ '' '' @
            (if ld_longFormat ac then '' -l '' else []) @
            (if ld_allFiles ac then '' -a '' else [])))))"

definition transfer_flag :: "cp_options \<Rightarrow> string" where
  "transfer_flag ac = (if cp_trCommand ac \<noteq> -1 then '' -t '' @ show_int (cp_trCommand ac) else [])"

definition decodeCopyFile :: "fms_parsers \<Rightarrow> nat list \<Rightarrow> string \<Rightarrow> string result" where
  "decodeCopyFile P seps msg =
     res_bind (mid_arg seps msg 0) (\<lambda>a. res_bind (mid_arg seps msg 1) (\<lambda>b.
     res_bind (rest_arg seps msg 2) (\<lambda>u. res_bind (fms_option (parse_cp P) u) (\<lambda>ac.
       Inr (fms_name VISHNU_COPY_FILE @ '' '' @ a @ '' '' @ b @ '' '' @
            (if cp_recursive ac then '' -r '' else []) @ transfer_flag ac)))))"

definition decodeCopyAsyncFile :: "fms_parsers \<Rightarrow> nat list \<Rightarrow> string \<Rightarrow> string result" where
  "decodeCopyAsyncFile P seps msg =
     res_bind (mid_arg seps msg 0) (\<lambda>a. res_bind (mid_arg seps msg 1) (\<lambda>b.
     res_bind (rest_arg seps msg 2) (\<lambda>u. res_bind (fms_option (parse_cp P) u) (\<lambda>ac.
       Inr (fms_name VISHNU_COPY_ASYNC_FILE @ '' '' @ a @ '' '' @ b @ '' '' @
            (if cp_recursive ac then '' -r '' else []) @ transfer_flag ac)))))"

definition decodeMoveFile :: "fms_parsers \<Rightarrow> nat list \<Rightarrow> string \<Rightarrow> string result" where
  "decodeMoveFile P seps msg =
     res_bind (mid_arg seps msg 0) (\<lambda>a. res_bind (mid_arg seps msg 1) (\<lambda>b.
     res_bind (rest_arg seps msg 2) (\<lambda>u. res_bind (fms_option (parse_cp P) u) (\<lambda>ac.
       Inr (fms_name VISHNU_MOVE_FILE @ '' '' @ a @ '' '' @ b @ '' '' @ transfer_flag ac)))))"

definition decodeMoveAsyncFile :: "fms_parsers \<Rightarrow> nat list \<Rightarrow> string \<Rightarrow> string result" where
  "decodeMoveAsyncFile P seps msg =
     res_bind (mid_arg seps msg 0) (\<lambda>a. res_bind (mid_arg seps msg 1) (\<lambda>b.
     res_bind (rest_arg seps msg 2) (\<lambda>u. res_bind (fms_option (parse_cp P) u) (\<lambda>ac.
       Inr (fms_name VISHNU_MOVE_ASYNC_FILE @ '' '' @ a @ '' '' @ b @ '' '' @ transfer_flag ac)))))"

definition decodeStopFileTransfer :: "fms_parsers \<Rightarrow> nat list \<Rightarrow> string \<Rightarrow> string result" where
  "decodeStopFileTransfer P seps msg =
     res_bind (rest_arg seps msg 0) (\<lambda>u. res_bind (fms_option (parse_stop P) u) (\<lambda>ac.
       Inr (fms_name VISHNU_STOP_FILE_TRANSFER @ '' '' @
            opt_arg '' -i '' (to_transferId ac) @
            opt_arg '' -m '' (to_fromMachineId ac) @
            opt_arg '' -u '' (to_userId ac))))"

definition decodeListFileTransfers :: "fms_parsers \<Rightarrow> nat list \<Rightarrow> string \<Rightarrow> string result" where
  "decodeListFileTransfers P seps msg =
     res_bind (rest_arg seps msg 0) (\<lambda>u. res_bind (fms_option (parse_ls_transfer P) u) (\<lambda>ac.
       Inr (fms_name VISHNU_LIST_FILE_TRANSFERS @ '' '' @
            opt_arg '' -t '' (to_transferId ac) @
            opt_arg '' -m '' (to_fromMachineId ac) @
            opt_arg '' -u '' (to_userId ac) @
            (if to_status ac \<noteq> -1 then '' -s '' @ show_int (to_status ac) else []))))"

definition fms_dispatch :: "fms_parsers \<Rightarrow> int \<Rightarrow> nat list \<Rightarrow> string \<Rightarrow> string result" where
  "fms_dispatch P funcCode seps msg =
     (if funcCode = VISHNU_CREATE_FILE then decodeCreateFile seps msg
      else if funcCode = VISHNU_CREATE_DIR then decodeCreateDir P seps msg
      else if funcCode = VISHNU_REMOVE_FILE then decodeRemoveFile P seps msg
      else if funcCode = VISHNU_REMOVE_DIR then decodeRemoveDir seps msg
      else if funcCode = VISHNU_CH_GRP then decodeChGrp seps msg
      else if funcCode = VISHNU_CH_MOD then decodeChMod seps msg
      else if funcCode = VISHNU_HEAD_OF_FILE then decodeHeadOfFile P seps msg
      else if funcCode = VISHNU_TAIL_OF_FILE then decodeTailOfFile P seps msg
      else if funcCode = VISHNU_CONTENT_OF_FILE then decodeContentOfFile seps msg
      else if funcCode = VISHNU_LIST_DIR then decodeListDir P seps msg
      else if funcCode = VISHNU_COPY_FILE then decodeCopyFile P seps msg
      else if funcCode = VISHNU_COPY_ASYNC_FILE then decodeCopyAsyncFile P seps msg
      else if funcCode = VISHNU_MOVE_FILE then decodeMoveFile P seps msg
      else if funcCode = VISHNU_MOVE_ASYNC_FILE then decodeMoveAsyncFile P seps msg
      else if funcCode = VISHNU_STOP_FILE_TRANSFER then decodeStopFileTransfer P seps msg
      else if funcCode = VISHNU_LIST_FILE_TRANSFERS then decodeListFileTransfers P seps msg
      else if funcCode = VISHNU_GET_FILE_INFO then decodeGetFileInfo seps msg
      else Inr [])"

definition fms_decode :: "fms_parsers \<Rightarrow> string \<Rightarrow> string result" where
  "fms_decode P msg =
     (let seps = findSeparator msg;
          func = (case seps of [] \<Rightarrow> msg | p # _ \<Rightarrow> take p msg)
      in fms_dispatch P (convertToInt func) seps msg)"

section \<open>Transfers come back as they were recorded\<close>

lemma findSeparator_three:
  assumes "CHR ''#'' \<notin> set c" and "CHR ''#'' \<notin> set a" and "CHR ''#'' \<notin> set b" and "CHR ''#'' \<notin> set u"
  shows "findSeparator (c @ CHR ''#'' # a @ CHR ''#'' # b @ CHR ''#'' # u) =
    [length c, length c + 1 + length a, length c + 2 + length a + length b]"
  using assms by (simp add: findSeparator_def find_seps_app find_seps_none)

lemma args_three:
  assumes "length c + 2 + length a + length b < 2 ^ 32"
  shows "mid_arg [length c, length c + 1 + length a, length c + 2 + length a + length b]
      (c @ CHR ''#'' # a @ CHR ''#'' # b @ CHR ''#'' # u) 0 = Inr a"
    and "mid_arg [length c, length c + 1 + length a, length c + 2 + length a + length b]
      (c @ CHR ''#'' # a @ CHR ''#'' # b @ CHR ''#'' # u) (Suc 0) = Inr b"
    and "rest_arg [length c, length c + 1 + length a, length c + 2 + length a + length b]
      (c @ CHR ''#'' # a @ CHR ''#'' # b @ CHR ''#'' # u) 2 = Inr u"
proof -
  have "drop (3 + (length a + length b)) (CHR ''#'' # a @ CHR ''#'' # b @ CHR ''#'' # u) = u"
    by (simp add: numeral_3_eq_3)
  then show "rest_arg [length c, length c + 1 + length a, length c + 2 + length a + length b]
      (c @ CHR ''#'' # a @ CHR ''#'' # b @ CHR ''#'' # u) 2 = Inr u"
    by (simp add: rest_arg_def sep_at_def)
qed (use assms in \<open>simp_all add: mid_arg_def sep_at_def uminus32_le\<close>)

lemma fms_decode_three:
  assumes "CHR ''#'' \<notin> set c" and "CHR ''#'' \<notin> set a" and "CHR ''#'' \<notin> set b" and "CHR ''#'' \<notin> set u"
  shows "fms_decode P (c @ CHR ''#'' # a @ CHR ''#'' # b @ CHR ''#'' # u) =
    fms_dispatch P (convertToInt c) [length c, length c + 1 + length a, length c + 2 + length a + length b]
      (c @ CHR ''#'' # a @ CHR ''#'' # b @ CHR ''#'' # u)"
  using assms findSeparator_three [OF assms] by (simp add: fms_decode_def)

lemmas fms_transfer_defs = fms_dispatch_def decodeCopyFile_def decodeCopyAsyncFile_def decodeMoveFile_def
  decodeMoveAsyncFile_def fms_option_def parse_or_def fms_name_def fms_table_def

lemma fms_codes:
  "convertToInt ''11'' = 11" "convertToInt ''12'' = 12" "convertToInt ''13'' = 13" "convertToInt ''14'' = 14"
  by (simp_all add: convertToInt_def lexical_cast_def parse_nat_def is_digit_def digits_val_def digit_val_def
      in_width_def)

text \<open>
  A recorded copy or move, synchronous or not, is decoded into its command line with the source, the
  destination and the options it was recorded with, when neither they nor the options' text hold the
  separator.
\<close>

theorem fms_transfer_decoded:
  assumes "CHR ''#'' \<notin> set a" and "CHR ''#'' \<notin> set b" and "CHR ''#'' \<notin> set u"
    and "length a + length b < 2 ^ 31" and "parse_cp P u = Some ac"
  shows "fms_decode P (''11#'' @ a @ ''#'' @ b @ ''#'' @ u) =
      Inr (''vishnu_cp '' @ a @ '' '' @ b @ '' '' @ (if cp_recursive ac then '' -r '' else []) @ transfer_flag ac) \<and>
    fms_decode P (''12#'' @ a @ ''#'' @ b @ ''#'' @ u) =
      Inr (''vishnu_acp '' @ a @ '' '' @ b @ '' '' @ (if cp_recursive ac then '' -r '' else []) @ transfer_flag ac) \<and>
    fms_decode P (''13#'' @ a @ ''#'' @ b @ ''#'' @ u) =
      Inr (''vishnu_mv '' @ a @ '' '' @ b @ '' '' @ transfer_flag ac) \<and>
    fms_decode P (''14#'' @ a @ ''#'' @ b @ ''#'' @ u) =
      Inr (''vishnu_amv '' @ a @ '' '' @ b @ '' '' @ transfer_flag ac)"
  using fms_decode_three [of "''11''" a b u P] fms_decode_three [of "''12''" a b u P]
    fms_decode_three [of "''13''" a b u P] fms_decode_three [of "''14''" a b u P]
    args_three [of "''11''" a b u] args_three [of "''12''" a b u] args_three [of "''13''" a b u]
    args_three [of "''14''" a b u] assms
  by (simp add: fms_codes fms_transfer_defs)

definition cp_parser :: fms_parsers where
  "cp_parser = \<lparr>parse_create_dir = Map.empty, parse_rm_file = Map.empty, parse_head = Map.empty,
     parse_tail = Map.empty, parse_ls_dir = Map.empty,
     parse_cp = [''opt'' \<mapsto> \<lparr>cp_recursive = True, cp_trCommand = -1\<rparr>],
     parse_stop = Map.empty, parse_ls_transfer = Map.empty\<rparr>"

theorem fms_transfer_decoded_witness:
  "fms_decode cp_parser ''11#m1:/a#m2:/b#opt'' = Inr ''vishnu_cp m1:/a m2:/b  -r ''"
  using fms_transfer_decoded [of "''m1:/a''" "''m2:/b''" "''opt''" cp_parser
    "\<lparr>cp_recursive = True, cp_trCommand = -1\<rparr>"]
  by (simp add: cp_parser_def transfer_flag_def)

end
