(* ===== verification/Tms_Mapper.thy ===== *)
theory Tms_Mapper
  imports Ums_Data Util_Tms
begin

text \<open>
  The decoder of recorded job management commands (\<^verbatim>\<open>communication/registry/TMSMapper.cpp\<close>). Options
  come as JSON text or as serialized objects; both parsers are parameters, as is the printing of a date.
\<close>

section \<open>The table\<close>

abbreviation (input) VISHNU_SUBMITJOB :: int where "VISHNU_SUBMITJOB \<equiv> 1"
abbreviation (input) VISHNU_GETJOBINFO :: int where "VISHNU_GETJOBINFO \<equiv> 2"
abbreviation (input) VISHNU_GETJOBPROG :: int where "VISHNU_GETJOBPROG \<equiv> 3"
abbreviation (input) VISHNU_LISTQUEUES :: int where "VISHNU_LISTQUEUES \<equiv> 4"
abbreviation (input) VISHNU_LISTJOBS :: int where "VISHNU_LISTJOBS \<equiv> 5"
abbreviation (input) VISHNU_GETJOBOUTPUT :: int where "VISHNU_GETJOBOUTPUT \<equiv> 6"
abbreviation (input) VISHNU_GETCOMPLETEDJOB :: int where "VISHNU_GETCOMPLETEDJOB \<equiv> 7"
abbreviation (input) VISHNU_CANCEL :: int where "VISHNU_CANCEL \<equiv> 8"
abbreviation (input) VISHNU_ADD_WORK :: int where "VISHNU_ADD_WORK \<equiv> 9"

definition tms_table :: "(int \<times> string) list" where
  "tms_table =
     [(VISHNU_SUBMITJOB, ''vishnu_submit_job''),
      (VISHNU_GETJOBINFO, ''vishnu_get_job_info''),
      (VISHNU_GETJOBPROG, ''vishnu_get_job_progress''),
      (VISHNU_LISTQUEUES, ''vishnu_list_queues''),
      (VISHNU_LISTJOBS, ''vishnu_list_jobs''),
      (VISHNU_GETJOBOUTPUT, ''vishnu_get_job_output''),
      (VISHNU_GETCOMPLETEDJOB, ''vishnu_get_completed_jobs_output''),
      (VISHNU_CANCEL, ''vishnu_cancel_job''),
      (VISHNU_ADD_WORK, ''vishnu_add_work'')]"

definition tms_name :: "int \<Rightarrow> string" where
  "tms_name key = (case map_of tms_table key of Some c \<Rightarrow> c | None \<Rightarrow> [])"

record progress_options =
  po_user :: string
  po_jobId :: string
  po_machineId :: string

record list_jobs_options =
  lj_machineId :: string
  lj_jobId :: string
  lj_nbCpu :: int
  lj_fromSubmitDate :: int
  lj_toSubmitDate :: int
  lj_owner :: string
  lj_status :: int
  lj_priority :: int
  lj_queue :: string
  lj_multipleStatus :: string
  lj_batchJob :: bool
  lj_listAll :: bool
  lj_workId :: int

record add_work_options =
  aw_applicationId :: string
  aw_subject :: string
  aw_priority :: int
  aw_owner :: string
  aw_estimatedHour :: int
  aw_description :: string
  aw_projectId :: string
  aw_machineId :: string
  aw_nbCPU :: int

record tms_parsers =
  parse_progress :: "string \<Rightarrow> progress_options option"
  parse_list_jobs :: "string \<Rightarrow> list_jobs_options option"
  parse_add_work :: "string \<Rightarrow> add_work_options option"

section \<open>The commands\<close>

definition tms_option :: "(string \<Rightarrow> 'a option) \<Rightarrow> string \<Rightarrow> 'a result" where
  "tms_option p u = parse_or (SystemException ERRCODE_INVMAPPER (''option: '' @ u)) p u"

definition opt_pos :: "string \<Rightarrow> int \<Rightarrow> string" where
  "opt_pos flag i = (if i > 0 then flag @ show_int i else [])"

definition opt_nonzero :: "string \<Rightarrow> int \<Rightarrow> string" where
  "opt_nonzero flag i = (if i \<noteq> 0 then flag @ show_int i else [])"

text \<open>The flag before each word of the parameters, which are separated by single spaces.\<close>

definition each_word :: "string \<Rightarrow> string \<Rightarrow> string" where
  "each_word flag u =
     (if u = [] then [] else concat (map (\<lambda>w. flag @ w) (split_if (\<lambda>c. c = CHR '' '') u)))"

definition decodeSubmit :: "'j jansson \<Rightarrow> nat list \<Rightarrow> string \<Rightarrow> string result" where
  "decodeSubmit J seps msg =
     res_bind (first_arg seps msg 2) (\<lambda>a. res_bind (last_arg seps msg 1) (\<lambda>u.
     res_bind (decode J u) (\<lambda>options. res_bind (getSubmitOptions J options) (\<lambda>ac.
       Inr (tms_name VISHNU_SUBMITJOB @ '' '' @ a @ '' '' @
            (if so_posix ac then '' -p '' else []) @
            opt_arg '' -n '' (so_name ac) @
            opt_arg '' -q '' (so_queue ac) @
            (if so_wallTime ac > 0 then '' -t '' @ convertWallTimeToString (so_wallTime ac) else []) @
            opt_pos '' -m '' (so_memory ac) @
            opt_pos '' -P '' (so_nbCpu ac) @
            opt_arg '' -N '' (so_nbNodesAndCpuPerNode ac) @
            opt_arg '' -o '' (so_outputPath ac) @
            opt_arg '' -e '' (so_errorPath ac) @
            opt_arg '' -M '' (so_mailNotification ac) @
            opt_arg '' -u '' (so_mailNotifyUser ac) @
            opt_arg '' -g '' (so_group ac) @
            opt_arg '' -D '' (so_workingDir ac) @
            (if so_selectQueueAutom ac then '' -Q  '' else []) @
            opt_arg '' -D '' (so_workingDir ac) @
            '' -L '' @ show_int (so_loadType ac) @
            opt_nonzero '' -w '' (so_workId ac) @
            each_word '' -v '' (so_textParams ac) @
            each_word '' -f '' (so_fileParams ac) @
            (if so_specificParams ac \<noteq> [] then '' -S '' @ [CHR 0x27] @ so_specificParams ac @ [CHR 0x27]
             else []))))))"

definition decodeProg :: "tms_parsers \<Rightarrow> nat list \<Rightarrow> string \<Rightarrow> string result" where
  "decodeProg P seps msg =
     res_bind (last_arg seps msg 0) (\<lambda>property.
     res_bind (tms_option (parse_progress P) property) (\<lambda>job.
       Inr (tms_name VISHNU_GETJOBPROG @ '' '' @
            opt_arg '' -u '' (po_user job) @
            opt_arg '' -i '' (po_jobId job) @
            opt_arg '' -m '' (po_machineId job))))"

text \<open>The queue is left out when its text is one character long, as the space of an empty one is.\<close>

definition decodeQueue :: "nat list \<Rightarrow> string \<Rightarrow> string result" where
  "decodeQueue seps msg =
     res_bind (first_arg seps msg 2) (\<lambda>a.
     res_bind (sep_at seps 1) (\<lambda>q.
       if int q \<noteq> (int (length msg) - 2) mod 2 ^ 64 then
         res_bind (last_arg seps msg 1) (\<lambda>b.
           Inr (tms_name VISHNU_LISTQUEUES @ '' '' @ a @ '' -q '' @ b))
       else Inr (tms_name VISHNU_LISTQUEUES @ '' '' @ a)))"

definition tms_date :: "(int \<Rightarrow> string) \<Rightarrow> string \<Rightarrow> int \<Rightarrow> string" where
  "tms_date date_string flag date = (if date > 0 then flag @ date_string date @ [CHR 0x27] else [])"

definition decodeListJob :: "tms_parsers \<Rightarrow> (int \<Rightarrow> string) \<Rightarrow> nat list \<Rightarrow> string \<Rightarrow> string result" where
  "decodeListJob P date_string seps msg =
     res_bind (last_arg seps msg 0) (\<lambda>u.
     res_bind (tms_option (parse_list_jobs P) u) (\<lambda>j.
       Inr (tms_name VISHNU_LISTJOBS @ '' '' @
            opt_arg '' -m '' (lj_machineId j) @
            opt_arg '' -i '' (lj_jobId j) @
            opt_pos '' -P '' (lj_nbCpu j) @
            tms_date date_string ('' -d '' @ [CHR 0x27]) (lj_fromSubmitDate j) @
            tms_date date_string ('' -D '' @ [CHR 0x27]) (lj_toSubmitDate j) @
            opt_arg '' -u '' (lj_owner j) @
            opt_pos '' -s '' (lj_status j) @
            opt_pos '' -p '' (lj_priority j) @
            opt_arg '' -q '' (lj_queue j) @
            opt_arg '' -S '' (lj_multipleStatus j) @
            (if lj_batchJob j then '' -b '' else []) @
            (if lj_listAll j then '' -l '' else []))))"

definition decodeOutput :: "'j jansson \<Rightarrow> nat list \<Rightarrow> string \<Rightarrow> string result" where
  "decodeOutput J seps msg =
     res_bind (first_arg seps msg 2) (\<lambda>a. res_bind (mid_arg seps msg 1) (\<lambda>u.
     res_bind (decode J u) (\<lambda>options. res_bind (getStringProperty J ''outputdir'' options) (\<lambda>output.
     res_bind (last_arg seps msg 2) (\<lambda>b.
       Inr (tms_name VISHNU_GETJOBOUTPUT @ '' -m '' @ a @ '' '' @ '' '' @
            opt_arg '' -o '' output @ b @ '' ''))))))"

text \<open>\<^verbatim>\<open>res += days\<close> appends the character whose code is the number, not its digits.\<close>

definition char_of_int :: "int \<Rightarrow> char" where
  "char_of_int i = char_of (nat (i mod 256))"

definition decodeCompletedJob :: "'j jansson \<Rightarrow> nat list \<Rightarrow> string \<Rightarrow> string result" where
  "decodeCompletedJob J seps msg =
     res_bind (first_arg seps msg 2) (\<lambda>a. res_bind (last_arg seps msg 1) (\<lambda>u.
     res_bind (decode J u) (\<lambda>options. res_bind (getStringProperty J ''outputdir'' options) (\<lambda>output.
       let days = getIntProperty J ''days'' (- 1) options in
       Inr (tms_name VISHNU_GETCOMPLETEDJOB @ '' -m '' @ a @ '' '' @ '' '' @
            opt_arg '' -o '' output @ '' '' @
            (if days \<noteq> -1 then '' -d '' @ [char_of_int days] else []))))))"

definition decodeCancel :: "'j jansson \<Rightarrow> nat list \<Rightarrow> string \<Rightarrow> string result" where
  "decodeCancel J seps msg =
     res_bind (last_arg seps msg 0) (\<lambda>u. res_bind (decode J u) (\<lambda>options.
     res_bind (getStringProperty J ''jobid'' options) (\<lambda>jobId.
     res_bind (getStringProperty J ''user'' options) (\<lambda>userId.
     res_bind (getStringProperty J ''machineid'' options) (\<lambda>machineId.
       Inr (tms_name VISHNU_CANCEL @ '' '' @
            opt_arg '' -j '' jobId @
            opt_arg '' -m '' machineId @
            opt_arg '' -u '' userId))))))"

definition decodeJobInfo :: "nat list \<Rightarrow> string \<Rightarrow> string result" where
  "decodeJobInfo seps msg =
     res_bind (first_arg seps msg 2) (\<lambda>a. res_bind (last_arg seps msg 1) (\<lambda>b.
       Inr (tms_name VISHNU_GETJOBINFO @ '' '' @ '' -m '' @ a @ '' '' @ b)))"

text \<open>The length leaves out the last character of the options.\<close>

definition decodeAddWork :: "tms_parsers \<Rightarrow> nat list \<Rightarrow> string \<Rightarrow> string result" where
  "decodeAddWork P seps msg =
     res_bind (sep_at seps 0) (\<lambda>p.
     res_bind (substr msg (p + 1) (Some (nat ((int (length msg) - int p - 2) mod 2 ^ 64)))) (\<lambda>a.
     res_bind (tms_option (parse_add_work P) a) (\<lambda>ac.
       Inr (tms_name VISHNU_ADD_WORK @ '' '' @
            opt_arg '' -a '' (aw_applicationId ac) @
            opt_arg '' -s '' (aw_subject ac) @
            opt_nonzero '' -l '' (aw_priority ac) @
            opt_arg '' -u '' (aw_owner ac) @
            opt_nonzero '' -p '' (aw_estimatedHour ac) @
            opt_arg '' -d '' (aw_description ac) @
            opt_arg '' -p '' (aw_projectId ac) @
            opt_arg '' -m '' (aw_machineId ac) @
            opt_nonzero '' -n '' (aw_nbCPU ac)))))"

definition tms_dispatch :: "'j jansson \<Rightarrow> tms_parsers \<Rightarrow> (int \<Rightarrow> string) \<Rightarrow> int \<Rightarrow> nat list \<Rightarrow> string \<Rightarrow>
    string result" where
  "tms_dispatch J P date_string funcCode seps msg =
     (if funcCode = VISHNU_SUBMITJOB then decodeSubmit J seps msg
      else if funcCode = VISHNU_GETJOBPROG then decodeProg P seps msg
      else if funcCode = VISHNU_LISTQUEUES then decodeQueue seps msg
      else if funcCode = VISHNU_LISTJOBS then decodeListJob P date_string seps msg
      else if funcCode = VISHNU_GETJOBOUTPUT then decodeOutput J seps msg
      else if funcCode = VISHNU_GETCOMPLETEDJOB then decodeCompletedJob J seps msg
      else if funcCode = VISHNU_CANCEL then decodeCancel J seps msg
      else if funcCode = VISHNU_GETJOBINFO then decodeJobInfo seps msg
      else if funcCode = VISHNU_ADD_WORK then decodeAddWork P seps msg
      else Inr [])"

definition tms_decode :: "'j jansson \<Rightarrow> tms_parsers \<Rightarrow> (int \<Rightarrow> string) \<Rightarrow> string \<Rightarrow> string result" where
  "tms_decode J P date_string msg =
     (let seps = findSeparator msg;
          func = (case seps of [] \<Rightarrow> msg | p # _ \<Rightarrow> take p msg)
      in tms_dispatch J P date_string (convertToInt func) seps msg)"

section \<open>Plain commands\<close>

lemma tms_decode_two:
  assumes "CHR ''#'' \<notin> set c" and "CHR ''#'' \<notin> set a" and "CHR ''#'' \<notin> set b"
  shows "tms_decode J P ds (c @ ''#'' @ a @ ''#'' @ b) =
    tms_dispatch J P ds (convertToInt c) [length c, length c + 1 + length a] (c @ CHR ''#'' # a @ CHR ''#'' # b)"
  using assms by (simp add: tms_decode_def findSeparator_two)

lemma tms_codes: "convertToInt ''2'' = 2" "convertToInt ''4'' = 4"
  by (simp_all add: convertToInt_def lexical_cast_def parse_nat_def is_digit_def digits_val_def digit_val_def
      in_width_def)

text \<open>
  A recorded request for a job's information is decoded into its command line. For the list of
  queues the test that the queue was left out compares lengths, so a queue whose name is one character
  long is left out of the command line too.
\<close>

theorem tms_plain_commands:
  assumes "CHR ''#'' \<notin> set a" and "CHR ''#'' \<notin> set b" and "length a + length b < 2 ^ 31"
  shows "tms_decode J P ds (''2#'' @ a @ ''#'' @ b) = Inr (''vishnu_get_job_info  -m '' @ a @ '' '' @ b) \<and>
    tms_decode J P ds (''4#'' @ a @ ''#'' @ b) =
      Inr (if length b = 1 then ''vishnu_list_queues '' @ a else ''vishnu_list_queues '' @ a @ '' -q '' @ b)"
proof -
  have m: "(int (length a) + int (length b) + 1) mod 2 ^ 64 = int (length a) + int (length b) + 1"
    using assms(3) by (intro mod_pos_pos_trivial) auto
  show ?thesis
    using tms_decode_two [of "''2''" a b J P ds] tms_decode_two [of "''4''" a b J P ds]
      first_arg_two [of "''2''" a 2 b] first_arg_two [of "''4''" a 2 b]
      last_arg_two [of "''2''" a b] last_arg_two [of "''4''" a b] assms m
    by (auto simp: tms_codes tms_dispatch_def decodeJobInfo_def decodeQueue_def sep_at_def tms_name_def
        tms_table_def)
qed

definition no_tms_parsers :: tms_parsers where
  "no_tms_parsers = \<lparr>parse_progress = Map.empty, parse_list_jobs = Map.empty, parse_add_work = Map.empty\<rparr>"

theorem tms_plain_commands_witness:
  "tms_decode tree_jansson no_tms_parsers show_int ''4#m1#long'' = Inr ''vishnu_list_queues m1 -q long'' \<and>
   tms_decode tree_jansson no_tms_parsers show_int ''4#m1#q'' = Inr ''vishnu_list_queues m1''"
  using tms_plain_commands [of "''m1''" "''long''" tree_jansson no_tms_parsers show_int]
    tms_plain_commands [of "''m1''" "''q''" tree_jansson no_tms_parsers show_int] by simp

end
