(* ===== verification/Ums_Tables.thy ===== *)
theory Ums_Tables
  imports Object_Id Ums_Data
begin

text \<open>
  The tables of the user management module (\<^verbatim>\<open>core/database/postgre_create.sql\<close>) with the columns the
  servers read or write, the queries they make of them, and the operations of the servers as functions
  from a database to a result and a database. A column that may be null is an option. A query without
  an order takes the rows in the order they were inserted. The text of every value goes through
  \<^verbatim>\<open>escapeData\<close>, so a text compares as it is; where the code puts a number that is the empty string
  into a statement the server refuses it (\<^verbatim>\<open>ERRCODE_DBERR\<close>). The times are seconds.
\<close>

section \<open>Constants of the program\<close>

abbreviation (input) STATUS_UNDEFINED :: int where "STATUS_UNDEFINED \<equiv> (- 1)"
abbreviation (input) STATUS_LOCKED :: int where "STATUS_LOCKED \<equiv> 0"
abbreviation (input) STATUS_ACTIVE :: int where "STATUS_ACTIVE \<equiv> 1"
abbreviation (input) STATUS_DELETED :: int where "STATUS_DELETED \<equiv> 2"
abbreviation (input) SESSION_CLOSED :: int where "SESSION_CLOSED \<equiv> 0"
abbreviation (input) SESSION_ACTIVE :: int where "SESSION_ACTIVE \<equiv> 1"
abbreviation (input) PRIVILEGE_UNDEFINED :: int where "PRIVILEGE_UNDEFINED \<equiv> (- 1)"
abbreviation (input) DEFAULT_CLOSE_POLICY :: int where "DEFAULT_CLOSE_POLICY \<equiv> 0"
abbreviation (input) CLOSE_ON_TIMEOUT :: int where "CLOSE_ON_TIMEOUT \<equiv> 1"
abbreviation (input) CLOSE_ON_DISCONNECT :: int where "CLOSE_ON_DISCONNECT \<equiv> 2"
abbreviation (input) DEFAULT_CONNECTION_TIMEOUT :: int where "DEFAULT_CONNECTION_TIMEOUT \<equiv> 3600"
abbreviation (input) LDAPTYPE :: int where "LDAPTYPE \<equiv> 0"
abbreviation (input) SSHA_METHOD :: int where "SSHA_METHOD \<equiv> 0"

section \<open>Rows\<close>

record users_row =
  us_num :: int
  us_userid :: string
  us_pwd :: string
  us_firstname :: "string option"
  us_lastname :: "string option"
  us_email :: "string option"
  us_privilege :: "int option"
  us_passwordstate :: "int option"
  us_status :: "int option"

record vsession_row =
  vs_num :: int
  vs_sessionid :: "string option"
  vs_clmachine :: int
  vs_user :: int
  vs_lastconnect :: "int option"
  vs_creation :: "int option"
  vs_closure :: "int option"
  vs_key :: "string option"
  vs_state :: "int option"
  vs_closepolicy :: "int option"
  vs_timeout :: "int option"
  vs_authid :: "string option"

record command_row =
  cm_num :: int
  cm_session :: int
  cm_starttime :: "int option"
  cm_endtime :: "int option"
  cm_description :: "string option"
  cm_ctype :: "int option"
  cm_status :: "int option"
  cm_objectid :: "string option"

record clmachine_row =
  cl_num :: int
  cl_sshkey :: "string option"
  cl_name :: "string option"

record machine_row =
  ma_num :: int
  ma_machineid :: "string option"
  ma_name :: "string option"
  ma_site :: "string option"
  ma_status :: "int option"

record description_row =
  de_machine :: int
  de_lang :: "string option"
  de_text :: "string option"

record account_row =
  ac_num :: int
  ac_machine :: int
  ac_user :: int
  ac_login :: "string option"
  ac_home :: "string option"
  ac_status :: "int option"

record authsystem_row =
  ay_num :: int
  ay_authsystemid :: "string option"
  ay_name :: "string option"
  ay_uri :: "string option"
  ay_authlogin :: "string option"
  ay_authpassword :: "string option"
  ay_userpwdencryption :: "int option"
  ay_authtype :: "int option"
  ay_status :: "int option"

record ldapauthsystem_row =
  ld_authsystem :: int
  ld_ldapbase :: "string option"

record authaccount_row =
  au_num :: int
  au_authsystem :: int
  au_user :: int
  au_login :: "string option"
  au_status :: "int option"

text \<open>The tables, each with the sequence its next key comes from.\<close>

record db =
  t_users :: "users_row list"
  t_vsession :: "vsession_row list"
  t_command :: "command_row list"
  t_clmachine :: "clmachine_row list"
  t_machine :: "machine_row list"
  t_description :: "description_row list"
  t_account :: "account_row list"
  t_authsystem :: "authsystem_row list"
  t_ldapauthsystem :: "ldapauthsystem_row list"
  t_authaccount :: "authaccount_row list"
  q_users :: int
  q_vsession :: int
  q_command :: int
  q_clmachine :: int
  q_machine :: int
  q_account :: int
  q_authsystem :: int
  q_authaccount :: int

section \<open>Queries\<close>

text \<open>A comparison with null is not true, whether for equality or for inequality.\<close>

definition sql_ne :: "'a option \<Rightarrow> 'a \<Rightarrow> bool" where
  "sql_ne c v \<longleftrightarrow> c \<noteq> None \<and> c \<noteq> Some v"

text \<open>
  \<^verbatim>\<open>DatabaseResult::getFirstElement\<close>: the first column of the first row, and the empty string when there
  is no row or the column is null, here \<open>None\<close>. \<open>text_of\<close> gives the string itself, \<open>int_of\<close> the value
  \<^verbatim>\<open>convertToInt\<close> reads from it.
\<close>

definition first_element :: "('r \<Rightarrow> 'a option) \<Rightarrow> ('r \<Rightarrow> bool) \<Rightarrow> 'r list \<Rightarrow> 'a option" where
  "first_element attr cond rs = (case filter cond rs of [] \<Rightarrow> None | r # _ \<Rightarrow> attr r)"

definition text_of :: "string option \<Rightarrow> string" where
  "text_of v = (case v of None \<Rightarrow> [] | Some s \<Rightarrow> s)"

definition int_of :: "int option \<Rightarrow> int" where
  "int_of v = convertToInt (case v of None \<Rightarrow> [] | Some n \<Rightarrow> show_int n)"

definition sql_update :: "('r \<Rightarrow> bool) \<Rightarrow> ('r \<Rightarrow> 'r) \<Rightarrow> 'r list \<Rightarrow> 'r list" where
  "sql_update cond f rs = map (\<lambda>r. if cond r then f r else r) rs"

section \<open>Operations\<close>

text \<open>A step on a state of any type; \<open>'a op\<close> is a step on the tables of this module.\<close>

type_synonym ('s, 'a) step = "'s \<Rightarrow> 'a result \<times> 's"

type_synonym 'a op = "(db, 'a) step"

definition op_ret :: "'a \<Rightarrow> ('s, 'a) step" where
  "op_ret x d = (Inr x, d)"

definition op_throw :: "exn \<Rightarrow> ('s, 'a) step" where
  "op_throw e d = (Inl e, d)"

definition op_bind :: "('s, 'a) step \<Rightarrow> ('a \<Rightarrow> ('s, 'b) step) \<Rightarrow> ('s, 'b) step" where
  "op_bind m f d = (case m d of (Inl e, d') \<Rightarrow> (Inl e, d') | (Inr x, d') \<Rightarrow> f x d')"

definition op_read :: "('s \<Rightarrow> 'a result) \<Rightarrow> ('s, 'a) step" where
  "op_read f d = (f d, d)"

definition op_write :: "('s \<Rightarrow> 's) \<Rightarrow> ('s, unit) step" where
  "op_write f d = (Inr (), f d)"

text \<open>Steps that may not end.\<close>

type_synonym ('s, 'a) late_step = "'s \<Rightarrow> ('a result \<times> 's) option"

definition late :: "('s, 'a) step \<Rightarrow> ('s, 'a) late_step" where
  "late m s = Some (m s)"

definition late_bind :: "('s, 'a) late_step \<Rightarrow> ('a \<Rightarrow> ('s, 'b) late_step) \<Rightarrow> ('s, 'b) late_step" where
  "late_bind m f s =
     (case m s of
        None \<Rightarrow> None
      | Some (Inl e, s') \<Rightarrow> Some (Inl e, s')
      | Some (Inr x, s') \<Rightarrow> f x s')"

text \<open>A number that goes into a statement, unquoted or quoted.\<close>

definition sql_num :: "int option \<Rightarrow> int result" where
  "sql_num v = (case v of None \<Rightarrow> Inl (SystemException ERRCODE_DBERR ''syntax error'') | Some n \<Rightarrow> Inr n)"

named_theorems op_simps "unfolding of operations"

lemmas op_core_simps = op_ret_def op_throw_def op_read_def op_write_def

declare op_core_simps [op_simps] sql_num_def [op_simps]

lemma op_bind_Inl [op_simps]: "m d = (Inl e, d') \<Longrightarrow> op_bind m f d = (Inl e, d')"
  by (simp add: op_bind_def)

lemma op_bind_Inr [op_simps]: "m d = (Inr x, d') \<Longrightarrow> op_bind m f d = f x d'"
  by (simp add: op_bind_def)

lemma op_bind_assoc: "op_bind (op_bind m f) g = op_bind m (\<lambda>x. op_bind (f x) g)"
  by (rule ext) (auto simp: op_bind_def split: prod.splits sum.splits)

lemma int_of_None [simp]: "int_of None = - 1"
  by (simp add: int_of_def convertToInt_def lexical_cast_def parse_nat_def)

lemma int_of_Some [simp]: "in_width 32 n \<Longrightarrow> int_of (Some n) = n"
  by (simp add: int_of_def)

lemma first_element_None: "first_element attr cond rs = None \<longleftrightarrow>
    filter cond rs = [] \<or> attr (hd (filter cond rs)) = None"
  by (auto simp: first_element_def split: list.splits)

lemma first_element_key:
  "first_element (\<lambda>r. Some (f r)) cond rs = None \<longleftrightarrow> \<not> list_ex cond rs"
  by (induction rs) (auto simp: first_element_def)

lemma first_element_Some:
  "first_element attr cond rs = Some v \<Longrightarrow> \<exists>r \<in> set rs. cond r \<and> attr r = Some v"
  by (induction rs) (auto simp: first_element_def split: if_splits)

lemma first_element_unique:
  assumes "r \<in> set rs" and "cond r" and "\<And>r'. r' \<in> set rs \<Longrightarrow> cond r' \<Longrightarrow> r' = r"
  shows "first_element attr cond rs = attr r"
proof -
  have "r \<in> set (filter cond rs)" using assms(1,2) by simp
  then obtain x xs where x: "filter cond rs = x # xs" by (cases "filter cond rs") auto
  then have "x \<in> set (filter cond rs)" by simp
  then have "x = r" using assms(3) by simp
  with x show ?thesis by (simp add: first_element_def)
qed

end
