(* ===== verification/Fms_File.thy ===== *)
theory Fms_File
  imports Util_Tms Config Ums_Tables Fms_Mapper
begin

text \<open>
  Files of remote machines: \<^verbatim>\<open>FMS/src/server/File.cpp\<close>, \<^verbatim>\<open>SSHFile.cpp\<close> and \<^verbatim>\<open>StringToDirEntry.hh\<close>. An
  operation builds a command, has the shell run it through ssh and reads what it prints. The state is
  the list of the commands the shell was given, oldest first; what a command prints, after those, is a
  parameter. \<^verbatim>\<open>SSHFile::cp\<close> and \<^verbatim>\<open>SSHFile::mv\<close> are not modelled: nothing calls them.
\<close>

section \<open>Commands\<close>

text \<open>
  What the file management server takes from outside: the output of a command (\<open>None\<close> when no
  process can be made for it), whether a process exists, whether a signal reaches it (the text is that of the
  error), what a variable holds that was not set, and the clock.
\<close>

record fms_env =
  fe_run :: "string list \<Rightarrow> string \<Rightarrow> string option"
  fe_alive :: "string \<Rightarrow> bool"
  fe_kill :: "int \<Rightarrow> string option"
  fe_junk :: int
  fe_now :: int
  fe_date :: date

type_synonym 'a shell_op = "(string list, 'a) step"

text \<open>
  \<^verbatim>\<open>execSystemCommand\<close>: without a process the code goes on with a null pointer; the status of the command is
  not looked at, so the outcome is always \<open>True\<close>.
\<close>

definition execSystemCommand :: "fms_env \<Rightarrow> string \<Rightarrow> (bool \<times> string) shell_op" where
  "execSystemCommand env command log =
     (case fe_run env log command of
        None \<Rightarrow> (Inl UndefinedBehaviour, log)
      | Some msg \<Rightarrow> (Inr (True, msg), log @ [command]))"

section \<open>A file\<close>

datatype file_type = Block | Character | Directory | SymbolicLink | Sckt | Fifo | Regular

record ssh_file =
  sf_path :: string
  sf_sshHost :: string
  sf_sshUser :: string
  sf_sshPort :: int
  sf_sshCommand :: string
  sf_upToDate :: bool
  sf_exist :: bool
  sf_error :: string
  sf_owner :: string
  sf_group :: string
  sf_perms :: int
  sf_uid :: int
  sf_gid :: int
  sf_size :: int
  sf_atime :: int
  sf_mtime :: int
  sf_ctime :: int
  sf_type :: file_type

text \<open>
  The constructor of \<^verbatim>\<open>File\<close>: what is before a colon is taken for a host, unless a slash or a tilde comes first;
  the constructor of \<^verbatim>\<open>SSHFile\<close> then sets the host to \<^verbatim>\<open>localhost\<close> again.
\<close>

definition file_path :: "string \<Rightarrow> string \<times> string" where
  "file_path path =
     (case find_str path '':'' of
        None \<Rightarrow> (''localhost'', path)
      | Some pos \<Rightarrow>
          (case find_first_of path ''/~'' of
             Some da \<Rightarrow> if da < pos then (''localhost'', path) else (take pos path, drop (pos + 1) path)
           | None \<Rightarrow> (take pos path, drop (pos + 1) path)))"

definition extHost :: "string \<Rightarrow> string" where
  "extHost path = (case find_first_of path '':'' of None \<Rightarrow> ''localhost'' | Some pos \<Rightarrow> take pos path)"

definition extName :: "string \<Rightarrow> string" where
  "extName path = (case find_first_of path '':'' of None \<Rightarrow> path | Some pos \<Rightarrow> drop (pos + 1) path)"

definition getFileServer :: "string \<Rightarrow> string \<Rightarrow> string \<Rightarrow> ssh_file" where
  "getFileServer sshServer path user =
     \<lparr>sf_path = snd (file_path path), sf_sshHost = sshServer, sf_sshUser = user, sf_sshPort = 22,
      sf_sshCommand = ''/usr/bin/ssh'', sf_upToDate = False, sf_exist = False, sf_error = [],
      sf_owner = [], sf_group = [], sf_perms = -1, sf_uid = -1, sf_gid = -1, sf_size = -1,
      sf_atime = -1, sf_mtime = -1, sf_ctime = -1, sf_type = Regular\<rparr>"

section \<open>Execution through ssh\<close>

abbreviation (input) BEGIN_MARKER :: string where "BEGIN_MARKER \<equiv> ''beginVishnuCommand''"

definition ssh_command :: "ssh_file \<Rightarrow> string \<Rightarrow> string" where
  "ssh_command f cmd =
     sf_sshCommand f @ '' -l '' @ sf_sshUser f @ '' -C -o BatchMode=yes  -o StrictHostKeyChecking=no'' @
     '' -o ForwardAgent=yes -p '' @ show_int (sf_sshPort f) @ '' '' @ sf_sshHost f @ '' '' @ [CHR 0x27] @
     '' echo '' @ BEGIN_MARKER @ '' && '' @ cmd @ '' 2>&1 '' @ [CHR 0x27]"

text \<open>The output of the remote command, and the text of an error.\<close>

definition ssh_exec :: "fms_env \<Rightarrow> ssh_file \<Rightarrow> string \<Rightarrow> (string \<times> string) shell_op" where
  "ssh_exec env f cmd =
     op_bind (execSystemCommand env (ssh_command f cmd)) (\<lambda>(ok, output).
       if \<not> ok then op_ret ([], output)
       else (case find_str output BEGIN_MARKER of
               None \<Rightarrow> op_ret ([], [])
             | Some pos \<Rightarrow>
                 op_bind (op_read (\<lambda>_. substr output (pos + length BEGIN_MARKER + 1) None)) (\<lambda>first.
                   op_ret (first, []))))"

section \<open>Reading from a stream\<close>

definition skip_space :: "stream \<Rightarrow> stream" where
  "skip_space st =
     (if \<not> stream_ok st then st\<lparr>st_fail := True\<rparr>
      else let rest = dropWhile is_space_char (st_rest st)
           in if rest = [] then st\<lparr>st_rest := [], st_eof := True, st_fail := True\<rparr> else st\<lparr>st_rest := rest\<rparr>)"

text \<open>A word; a variable that cannot be read keeps its value, here the empty one.\<close>

definition read_word :: "stream \<Rightarrow> string \<times> stream" where
  "read_word st0 =
     (let st = skip_space st0 in
      if st_fail st then ([], st)
      else let rest = dropWhile (\<lambda>c. \<not> is_space_char c) (st_rest st)
           in (takeWhile (\<lambda>c. \<not> is_space_char c) (st_rest st), st\<lparr>st_rest := rest, st_eof := (rest = [])\<rparr>))"

text \<open>
  A number in a base, of \<open>w\<close> bits, signed or not: without digits it is zero, and out of range the nearest
  number, and reading fails; on a stream that failed before, the variable keeps its value \<open>old\<close>.
\<close>

definition base_digit :: "nat \<Rightarrow> char \<Rightarrow> bool" where
  "base_digit base c \<longleftrightarrow> is_digit c \<and> digit_val c < base"

definition base_value :: "nat \<Rightarrow> string \<Rightarrow> int" where
  "base_value base ds = foldl (\<lambda>a c. a * int base + int (digit_val c)) 0 ds"

definition read_number :: "nat \<Rightarrow> nat \<Rightarrow> bool \<Rightarrow> int \<Rightarrow> stream \<Rightarrow> int \<times> stream" where
  "read_number base w is_signed old st0 =
     (let st = skip_space st0 in
      if st_fail st then (old, st)
      else
        let neg = (hd (st_rest st) = CHR ''-'');
            text = (if hd (st_rest st) \<in> {CHR ''-'', CHR ''+''} then tl (st_rest st) else st_rest st);
            ds = takeWhile (base_digit base) text;
            rest = dropWhile (base_digit base) text;
            st' = st\<lparr>st_rest := rest, st_eof := (rest = [])\<rparr>;
            v = base_value base ds; sv = (if neg then - v else v)
        in if ds = [] then (0, st'\<lparr>st_fail := True\<rparr>)
           else if is_signed then
             (if in_width w sv then (sv, st')
              else (if neg then - (2 ^ (w - 1)) else 2 ^ (w - 1) - 1, st'\<lparr>st_fail := True\<rparr>))
           else
             (if v < 2 ^ w then (sv mod 2 ^ w, st') else (2 ^ w - 1, st'\<lparr>st_fail := True\<rparr>)))"

definition string_stream :: "string \<Rightarrow> stream" where
  "string_stream s = \<lparr>st_rest = s, st_eof = False, st_fail = False\<rparr>"

section \<open>What a file is\<close>

definition quoted :: "string \<Rightarrow> string" where
  "quoted s = [CHR 34] @ s @ [CHR 34]"

definition STATCMD_DEFAULT :: string where
  "STATCMD_DEFAULT = ''LANG=C stat --format '' @ quoted ''%U %G %a %u %g %s %X %Y %Z %F'' @ '' ''"

definition STATCMD_BSD :: string where
  "STATCMD_BSD = ''LANG=C stat -f '' @ quoted ''%Su %Sg %Lp %u %g %z %a %m %c %HT'' @ '' ''"

definition type_of_name :: "string \<Rightarrow> file_type option" where
  "type_of_name t = map_of
     [(''block'', Block), (''character'', Character), (''directory'', Directory), (''symbolic'', SymbolicLink),
      (''socket'', Sckt), (''fifo'', Fifo), (''regular'', Regular)] t"

definition lower_char :: "char \<Rightarrow> char" where
  "lower_char c = (let n = (of_char c :: nat) in if 65 \<le> n \<and> n \<le> 90 then char_of (n + 32) else c)"

definition set_stat :: "int \<Rightarrow> string \<Rightarrow> ssh_file \<Rightarrow> ssh_file" where
  "set_stat junk text f =
     (case read_word (string_stream text) of (owner, st1) \<Rightarrow>
      case read_word st1 of (grp, st2) \<Rightarrow>
      case read_number 8 32 False junk st2 of (perms, st3) \<Rightarrow>
      case read_number 10 32 False junk st3 of (uid, st4) \<Rightarrow>
      case read_number 10 32 False junk st4 of (gid, st5) \<Rightarrow>
      case read_number 10 64 True junk st5 of (sz, st6) \<Rightarrow>
      case read_number 10 64 True junk st6 of (atime, st7) \<Rightarrow>
      case read_number 10 64 True junk st7 of (mtime, st8) \<Rightarrow>
      case read_number 10 64 True junk st8 of (ctime, st9) \<Rightarrow>
      case read_word st9 of (fileType, st10) \<Rightarrow>
        f\<lparr>sf_owner := owner, sf_group := grp, sf_perms := perms, sf_uid := uid, sf_gid := gid,
          sf_size := sz, sf_atime := atime, sf_mtime := mtime, sf_ctime := ctime,
          sf_type := (case type_of_name (map lower_char fileType) of None \<Rightarrow> sf_type f | Some t \<Rightarrow> t),
          sf_exist := True, sf_upToDate := True\<rparr>)"

text \<open>
  The status of the command is what follows the last at sign and a space. Without an at sign the position
  wraps around and is 1.
\<close>

definition status_position :: "string \<Rightarrow> nat" where
  "status_position output = (case rfind_char output (CHR ''@'') of None \<Rightarrow> 1 | Some p \<Rightarrow> p + 2)"

definition stat_command :: "fms_env \<Rightarrow> ssh_file \<Rightarrow> (string \<times> string) shell_op" where
  "stat_command env f =
     op_bind (ssh_exec env f (STATCMD_DEFAULT @ sf_path f @ ''; echo -n @ $?'')) (\<lambda>st.
       if contains_str (snd st) ''Warning'' then
         ssh_exec env f (STATCMD_DEFAULT @ sf_path f @ '';echo -n @ $?'')
       else if contains_str (snd st) ''illegal option'' then
         op_bind (ssh_exec env f (STATCMD_BSD @ sf_path f)) (\<lambda>st'.
           if contains_str (snd st') ''Warning'' then ssh_exec env f (STATCMD_BSD @ sf_path f @ '';echo -n @ $?'')
           else op_ret st')
       else op_ret st)"

definition getInfos :: "fms_env \<Rightarrow> ssh_file \<Rightarrow> ssh_file shell_op" where
  "getInfos env f =
     op_bind (stat_command env f) (\<lambda>fileStat.
     op_bind (op_read (\<lambda>_. res_bind (substr (fst fileStat) (status_position (fst fileStat)) None) (lexical_cast 32))) (\<lambda>status_code.
       op_ret (if status_code \<noteq> 0
               then f\<lparr>sf_exist := False, sf_upToDate := True, sf_error := parseErrorMessage (snd fileStat)\<rparr>
               else set_stat (fe_junk env) (fst fileStat) f)))"

definition up_to_date :: "fms_env \<Rightarrow> ssh_file \<Rightarrow> ssh_file shell_op" where
  "up_to_date env f = (if sf_upToDate f then op_ret f else getInfos env f)"

section \<open>Operations on a file\<close>

text \<open>Most operations ask whether the file exists first, which reads its information once.\<close>

definition if_exists :: "fms_env \<Rightarrow> (ssh_file \<Rightarrow> 'a shell_op) \<Rightarrow> ssh_file \<Rightarrow> 'a shell_op" where
  "if_exists env action f0 =
     op_bind (up_to_date env f0) (\<lambda>f.
       if \<not> sf_exist f then op_throw (FMSVishnuException ERRCODE_INVALID_PATH (sf_error f)) else action f)"

definition chgrp :: "fms_env \<Rightarrow> string \<Rightarrow> ssh_file \<Rightarrow> ssh_file shell_op" where
  "chgrp env grp = if_exists env (\<lambda>f.
     op_bind (ssh_exec env f (''chgrp '' @ grp @ '' '' @ sf_path f)) (\<lambda>chgrpResult.
       if snd chgrpResult \<noteq> [] then
         op_throw (FMSVishnuException ERRCODE_INVALID_PATH (''Error changing file group: '' @ snd chgrpResult))
       else if contains_str (fst chgrpResult) ''chgrp'' then
         op_throw (FMSVishnuException ERRCODE_RUNTIME_ERROR (''Error changing file group: '' @ fst chgrpResult))
       else op_ret (f\<lparr>sf_group := grp\<rparr>)))"

definition chmod :: "fms_env \<Rightarrow> int \<Rightarrow> ssh_file \<Rightarrow> ssh_file shell_op" where
  "chmod env mode = if_exists env (\<lambda>f.
     op_bind (ssh_exec env f (''chmod '' @ show_int mode @ '' '' @ sf_path f)) (\<lambda>chmodResult.
       if snd chmodResult \<noteq> [] then
         op_throw (FMSVishnuException ERRCODE_INVALID_PATH (''Error changing file mode: '' @ snd chmodResult))
       else if contains_str (fst chmodResult) ''help'' then
         op_throw (FMSVishnuException ERRCODE_RUNTIME_ERROR (''Error changing file mode: '' @ fst chmodResult))
       else op_ret (f\<lparr>sf_perms := mode\<rparr>)))"

text \<open>Text of the file: the command's output is the answer.\<close>

definition file_text :: "fms_env \<Rightarrow> string \<Rightarrow> string \<Rightarrow> ssh_file \<Rightarrow> string shell_op" where
  "file_text env cmd failure = if_exists env (\<lambda>f.
     op_bind (ssh_exec env f (cmd @ sf_path f)) (\<lambda>result.
       if snd result \<noteq> [] then op_throw (FMSVishnuException ERRCODE_RUNTIME_ERROR (failure @ snd result))
       else op_ret (fst result)))"

definition head_of :: "fms_env \<Rightarrow> int \<Rightarrow> ssh_file \<Rightarrow> string shell_op" where
  "head_of env nline = file_text env (''head -'' @ show_int nline @ '' '') ''Error obtaining the head of the file: ''"

definition tail_of :: "fms_env \<Rightarrow> int \<Rightarrow> ssh_file \<Rightarrow> string shell_op" where
  "tail_of env nline = file_text env (''tail -'' @ show_int nline @ '' '') ''Error obtaining the head of the file: ''"

definition getContent :: "fms_env \<Rightarrow> ssh_file \<Rightarrow> string shell_op" where
  "getContent env = file_text env ''cat '' ''Error obtaining the content of the file: ''"

definition create_with :: "fms_env \<Rightarrow> string \<Rightarrow> ssh_file \<Rightarrow> ssh_file shell_op" where
  "create_with env cmd f =
     op_bind (ssh_exec env f (cmd @ sf_path f)) (\<lambda>result.
       if snd result \<noteq> [] then
         op_throw (FMSVishnuException ERRCODE_RUNTIME_ERROR (''Error creating '' @ sf_path f @ '': '' @ snd result))
       else op_ret (f\<lparr>sf_exist := True\<rparr>))"

definition mkfile :: "fms_env \<Rightarrow> ssh_file \<Rightarrow> ssh_file shell_op" where
  "mkfile env f0 =
     op_bind (up_to_date env f0) (\<lambda>f.
       if sf_exist f then op_throw (FMSVishnuException ERRCODE_INVALID_PATH (sf_path f @ '' already exists''))
       else create_with env ''touch '' f)"

definition mkdir :: "fms_env \<Rightarrow> bool \<Rightarrow> ssh_file \<Rightarrow> ssh_file shell_op" where
  "mkdir env isRecursive f0 =
     op_bind (up_to_date env f0) (\<lambda>f.
       if sf_exist f \<and> \<not> isRecursive
       then op_throw (FMSVishnuException ERRCODE_INVALID_PATH (sf_path f @ '' already exists''))
       else create_with env (''mkdir '' @ (if isRecursive then '' -p '' else []) @ '' '') f)"

definition remove_with :: "fms_env \<Rightarrow> string \<Rightarrow> ssh_file \<Rightarrow> ssh_file shell_op" where
  "remove_with env cmd = if_exists env (\<lambda>f.
     op_bind (ssh_exec env f (cmd @ sf_path f)) (\<lambda>result.
       if snd result \<noteq> [] then
         op_throw (FMSVishnuException ERRCODE_RUNTIME_ERROR (''Error removing '' @ sf_path f @ '': '' @ snd result))
       else op_ret (f\<lparr>sf_exist := False, sf_upToDate := False\<rparr>)))"

definition rm :: "fms_env \<Rightarrow> bool \<Rightarrow> ssh_file \<Rightarrow> ssh_file shell_op" where
  "rm env isRecursive = remove_with env (if isRecursive then ''rm -rf '' else ''rm -f '')"

definition rmdir :: "fms_env \<Rightarrow> ssh_file \<Rightarrow> ssh_file shell_op" where
  "rmdir env = remove_with env ''rmdir ''"

section \<open>Directories\<close>

record dir_entry =
  en_path :: string
  en_perms :: int
  en_owner :: string
  en_group :: string
  en_size :: int
  en_ctime :: string
  en_type :: file_type

definition inOct :: "char \<Rightarrow> int" where
  "inOct right = (if right = CHR ''r'' then 4 else if right = CHR ''w'' then 2 else if right = CHR ''x'' then 1 else 0)"

definition convertPerms :: "string \<Rightarrow> string result" where
  "convertPerms perms =
     (if length perms \<noteq> 3 then Inl (FMSVishnuException ERRCODE_RUNTIME_ERROR ''Can not get file permissions '')
      else Inr (show_int (sum_list (map inOct perms))))"

definition getPermissions :: "int \<Rightarrow> string \<Rightarrow> int result" where
  "getPermissions junk rawPerms =
     (if length rawPerms < 9
      then Inl (FMSVishnuException ERRCODE_RUNTIME_ERROR ''Can not get file permissions '')
      else
        res_bind (convertPerms (take 3 rawPerms)) (\<lambda>u.
        res_bind (convertPerms (take 3 (drop 3 rawPerms))) (\<lambda>g.
        res_bind (convertPerms (take 3 (drop 6 rawPerms))) (\<lambda>o'.
          Inr (fst (read_number 8 32 False junk (string_stream (u @ g @ o'))))))))"

definition entry_type :: "char \<Rightarrow> file_type" where
  "entry_type c =
     (if c = CHR ''-'' then Regular else if c = CHR ''b'' then Block else if c = CHR ''p'' then Fifo
      else if c = CHR ''d'' then Directory else if c = CHR ''l'' then SymbolicLink
      else if c = CHR ''s'' then Sckt else Regular)"

text \<open>
  The fields of a line of \<^verbatim>\<open>ls\<close>: \<^verbatim>\<open>getline\<close> takes the rest of a stream that is still good for the name,
  with the space before it, which is cut.
\<close>

definition getDirEntryFrom :: "int \<Rightarrow> string \<Rightarrow> dir_entry result" where
  "getDirEntryFrom junk rawDirEntry =
     (case read_word (string_stream rawDirEntry) of (perms, st1) \<Rightarrow>
      case read_number 10 64 False junk st1 of (nbLink, st2) \<Rightarrow>
      case read_word st2 of (owner, st3) \<Rightarrow>
      case read_word st3 of (grp, st4) \<Rightarrow>
      case read_number 10 64 True 0 st4 of (sz, st5) \<Rightarrow>
      case read_word st5 of (date, st6) \<Rightarrow>
      case read_word st6 of (time, st7) \<Rightarrow>
      case read_word st7 of (utcOffset, st8) \<Rightarrow>
        res_bind (substr (if stream_ok st8 then takeWhile (\<lambda>c. c \<noteq> CHR 0x0A) (st_rest st8) else []) 1 None) (\<lambda>path.
        res_bind (substr perms 1 None) (\<lambda>rawPerms.
        res_bind (getPermissions junk rawPerms) (\<lambda>mode.
          Inr \<lparr>en_path = path, en_perms = mode, en_owner = owner, en_group = grp, en_size = sz,
               en_ctime = date @ '' '' @ time @ '' '' @ utcOffset, en_type = entry_type (hd rawDirEntry)\<rparr>))))"

definition add_entry :: "int \<Rightarrow> string \<Rightarrow> dir_entry list \<Rightarrow> dir_entry list result" where
  "add_entry junk buffer entries =
     (let line = c_str buffer in
      if starts_with ''total '' line \<or> line = [] then Inr entries
      else res_bind (getDirEntryFrom junk line) (\<lambda>e. Inr (entries @ [e])))"

text \<open>The entries of the listing, or \<open>None\<close> when the loop does not end.\<close>

definition list_entries :: "int \<Rightarrow> string \<Rightarrow> dir_entry list result option" where
  "list_entries junk text = read_lines 1024 (add_entry junk) (string_stream text) []"

definition LSCMD_DEFAULT :: string where
  "LSCMD_DEFAULT = '' LANG=C ls -l --time-style='' @ quoted ''+%Y-%m-%d %H:%M:%S %:::z'' @ ''  ''"

definition LSCMD_BSD :: string where
  "LSCMD_BSD = '' LANG=C ls -lT  -D'' @ quoted ''%Y-%m-%d %H:%M:%S %z''"

definition ls_output :: "fms_env \<Rightarrow> bool \<Rightarrow> ssh_file \<Rightarrow> string shell_op" where
  "ls_output env allFiles = if_exists env (\<lambda>f.
     let opts = (if allFiles then ''-a '' else []) in
     op_bind (ssh_exec env f (LSCMD_DEFAULT @ opts @ sf_path f)) (\<lambda>r1.
     op_bind (if contains_str (snd r1) ''illegal option''
              then ssh_exec env f (LSCMD_BSD @ opts @ sf_path f) else op_ret r1) (\<lambda>lsResult.
       if snd lsResult \<noteq> []
       then op_throw (FMSVishnuException ERRCODE_RUNTIME_ERROR (''Error listing directory: '' @ snd lsResult))
       else op_ret (fst lsResult))))"

definition ls :: "fms_env \<Rightarrow> bool \<Rightarrow> ssh_file \<Rightarrow> string list \<Rightarrow> (dir_entry list result \<times> string list) option" where
  "ls env allFiles f log =
     (case ls_output env allFiles f log of
        (Inl e, log') \<Rightarrow> Some (Inl e, log')
      | (Inr text, log') \<Rightarrow> map_option (\<lambda>r. (r, log')) (list_entries (fe_junk env) text))"

section \<open>What an operation runs\<close>

text \<open>The commands an operation of the shell appends all satisfy \<open>C\<close>.\<close>

definition runs :: "(string \<Rightarrow> bool) \<Rightarrow> 'a shell_op \<Rightarrow> bool" where
  "runs C m \<longleftrightarrow> (\<forall>log. \<exists>cs. snd (m log) = log @ cs \<and> list_all C cs)"

named_theorems runs_intros "what an operation of the shell runs"

lemma runs_ret [runs_intros]: "runs C (op_ret x)"
  by (simp add: runs_def op_simps)

lemma runs_throw [runs_intros]: "runs C (op_throw e)"
  by (simp add: runs_def op_simps)

lemma runs_read [runs_intros]: "runs C (op_read f)"
  by (simp add: runs_def op_simps)

lemma runs_bind_keep:
  assumes "runs C m" and "\<And>x log log'. m log = (Inr x, log') \<Longrightarrow> runs C (f x)"
  shows "runs C (op_bind m f)"
  unfolding runs_def
proof
  fix log
  obtain r log1 where m: "m log = (r, log1)" by (cases "m log")
  from assms(1) obtain cs where cs: "log1 = log @ cs" "list_all C cs"
    unfolding runs_def using m by (metis snd_conv)
  show "\<exists>cs. snd (op_bind m f log) = log @ cs \<and> list_all C cs"
  proof (cases r)
    case (Inl e)
    with m cs show ?thesis by (auto simp: op_bind_def)
  next
    case (Inr x)
    from assms(2) [of log x log1] m Inr have "runs C (f x)" by simp
    then obtain cs' where "snd (f x log1) = log1 @ cs'" "list_all C cs'" unfolding runs_def by blast
    with m Inr cs show ?thesis by (intro exI [of _ "cs @ cs'"]) (simp add: op_bind_def)
  qed
qed

lemma runs_bind [runs_intros]: "runs C m \<Longrightarrow> (\<And>x. runs C (f x)) \<Longrightarrow> runs C (op_bind m f)"
  by (rule runs_bind_keep)

lemma runs_if [runs_intros]: "(b \<Longrightarrow> runs C m) \<Longrightarrow> (\<not> b \<Longrightarrow> runs C m') \<Longrightarrow> runs C (if b then m else m')"
  by simp

lemma runs_system: "C command \<Longrightarrow> runs C (execSystemCommand env command)"
  by (auto simp: runs_def execSystemCommand_def split: option.splits)

lemma runs_ssh: "C (ssh_command f cmd) \<Longrightarrow> runs C (ssh_exec env f cmd)"
  unfolding ssh_exec_def by (auto intro!: runs_intros runs_system split: option.splits)

text \<open>The commands for a file all begin like this.\<close>

definition ssh_prefix :: "string \<Rightarrow> string" where
  "ssh_prefix user = ''/usr/bin/ssh -l '' @ user @ '' -C''"

definition file_of :: "string \<Rightarrow> ssh_file \<Rightarrow> bool" where
  "file_of user f \<longleftrightarrow> sf_sshCommand f = ''/usr/bin/ssh'' \<and> sf_sshUser f = user"

lemma file_of_server [simp, intro]: "file_of user (getFileServer server path user)"
  by (simp add: file_of_def getFileServer_def)

lemma starts_with_iff: "starts_with s t \<longleftrightarrow> (\<exists>u. t = s @ u)"
  by (metis append_take_drop_id starts_with_append starts_with_def)

lemma ssh_command_prefix: "file_of user f \<Longrightarrow> starts_with (ssh_prefix user) (ssh_command f cmd)"
  by (simp add: file_of_def ssh_command_def ssh_prefix_def starts_with_head starts_with_def)

lemma set_stat_fields:
  "sf_sshCommand (set_stat junk text f) = sf_sshCommand f \<and> sf_sshUser (set_stat junk text f) = sf_sshUser f \<and>
   sf_sshHost (set_stat junk text f) = sf_sshHost f \<and> sf_sshPort (set_stat junk text f) = sf_sshPort f \<and>
   sf_path (set_stat junk text f) = sf_path f \<and> sf_exist (set_stat junk text f) \<and> sf_error (set_stat junk text f) = sf_error f"
  by (simp add: set_stat_def split_beta)

lemma op_bind_result:
  "op_bind m f log = (Inr y, log') \<Longrightarrow> \<exists>x log1. m log = (Inr x, log1) \<and> f x log1 = (Inr y, log')"
  by (auto simp: op_bind_def split: prod.splits sum.splits)

lemma getInfos_file: "getInfos env f log = (Inr g, log') \<Longrightarrow> file_of user f \<Longrightarrow> file_of user g"
  unfolding getInfos_def
  by (auto dest!: op_bind_result simp: op_simps file_of_def set_stat_fields)

lemma up_to_date_file: "up_to_date env f log = (Inr g, log') \<Longrightarrow> file_of user f \<Longrightarrow> file_of user g"
  by (auto simp: up_to_date_def op_simps getInfos_file split: if_splits)

locale file_commands =
  fixes C :: "string \<Rightarrow> bool" and user :: string
  assumes commands: "file_of user g \<Longrightarrow> C (ssh_command g cmd)"
begin

lemma runs_stat: "file_of user f \<Longrightarrow> runs C (stat_command env f)"
  unfolding stat_command_def by (intro runs_intros runs_ssh commands)

lemma runs_infos: "file_of user f \<Longrightarrow> runs C (getInfos env f)"
  unfolding getInfos_def by (intro runs_intros runs_stat)

lemma runs_up_to_date: "file_of user f \<Longrightarrow> runs C (up_to_date env f)"
  unfolding up_to_date_def by (intro runs_intros runs_infos)

lemma runs_if_exists: "file_of user f \<Longrightarrow> (\<And>g. file_of user g \<Longrightarrow> runs C (action g)) \<Longrightarrow> runs C (if_exists env action f)"
  unfolding if_exists_def
  by (rule runs_bind_keep [OF runs_up_to_date]) (auto intro!: runs_intros dest: up_to_date_file)

lemma runs_create: "file_of user f \<Longrightarrow> runs C (create_with env cmd f)"
  unfolding create_with_def by (intro runs_intros runs_ssh commands)

lemma runs_chgrp: "file_of user f \<Longrightarrow> runs C (chgrp env grp f)"
  unfolding chgrp_def by (intro runs_if_exists runs_intros runs_ssh commands)

lemma runs_chmod: "file_of user f \<Longrightarrow> runs C (chmod env mode f)"
  unfolding chmod_def by (intro runs_if_exists runs_intros runs_ssh commands)

lemma runs_text: "file_of user f \<Longrightarrow> runs C (file_text env cmd failure f)"
  unfolding file_text_def by (intro runs_if_exists runs_intros runs_ssh commands)

lemma runs_remove: "file_of user f \<Longrightarrow> runs C (remove_with env cmd f)"
  unfolding remove_with_def by (intro runs_if_exists runs_intros runs_ssh commands)

lemma runs_mkfile: "file_of user f \<Longrightarrow> runs C (mkfile env f)"
  unfolding mkfile_def
  by (rule runs_bind_keep [OF runs_up_to_date]) (auto intro!: runs_intros runs_create dest: up_to_date_file)

lemma runs_mkdir: "file_of user f \<Longrightarrow> runs C (mkdir env rec f)"
  unfolding mkdir_def
  by (rule runs_bind_keep [OF runs_up_to_date]) (auto intro!: runs_intros runs_create dest: up_to_date_file)

lemma runs_ls_output: "file_of user f \<Longrightarrow> runs C (ls_output env allFiles f)"
  unfolding ls_output_def Let_def by (intro runs_if_exists runs_intros runs_ssh commands)

lemma runs_ls:
  assumes "file_of user f" and "ls env allFiles f log = Some (r, log')"
  shows "\<exists>cs. log' = log @ cs \<and> list_all C cs"
proof -
  obtain cs where "snd (ls_output env allFiles f log) = log @ cs" "list_all C cs"
    using runs_ls_output [OF assms(1)] unfolding runs_def by blast
  with assms(2) show ?thesis by (auto simp: ls_def split: prod.splits sum.splits)
qed

lemmas runs_operations = runs_up_to_date runs_chgrp runs_chmod runs_text runs_remove runs_mkfile runs_mkdir

end

interpretation account_commands: file_commands "starts_with (ssh_prefix user)" user
  by unfold_locales (rule ssh_command_prefix)

end
