(* ===== verification/Fms_Listing.thy ===== *)
theory Fms_Listing
  imports Fms_File
begin

text \<open>
  What the file management server reads from the output of \<^verbatim>\<open>ls\<close>: a line that \<^verbatim>\<open>ls -l\<close> prints for an
  entry gives the entry back.
\<close>

section \<open>Lines\<close>





lemma space_char [simp]: "is_space_char (CHR '' '')"
  by (simp add: is_space_char_def)






lemma base_value_digits: "foldl (\<lambda>a c. a * 10 + int (digit_val c)) (int a) ds = int (digits_val a ds)"
proof (induction ds arbitrary: a)
  case (Cons c ds)
  have "int a * 10 + int (digit_val c) = int (10 * a + digit_val c)" by simp
  with Cons [of "10 * a + digit_val c"] show ?case by (simp only: foldl.simps digits_val_def)
qed (simp add: digits_val_def)

lemma base_value_show [simp]: "base_value 10 (show_nat n) = int n"
  using base_value_digits [of 0 "show_nat n"] by (simp add: base_value_def digits_val_show_nat)



section \<open>Permissions\<close>




section \<open>Entries\<close>





end
