(* ===== verification/Ums_User.thy ===== *)
theory Ums_User
  imports Ums_Tables
begin

text \<open>
  The users: \<^verbatim>\<open>UMS/src/server/UserServer.cpp\<close> and the authenticators of \<^verbatim>\<open>core/src/authenticator\<close>. A
  \<^verbatim>\<open>UserServer\<close> object is its user data and the key of the session it was made from, \<open>None\<close> for the null
  pointer of the constructors without a session. (The constructor with a session keeps the address of
  its own by-value parameter; the model reads the session the caller gave.)
\<close>

section \<open>What the servers take from outside\<close>

text \<open>
  The password hash, the clock (as seconds, as a date and as the texts boost prints of it), the two
  numbers \<^verbatim>\<open>generateNumbers\<close> gives, whether \<^verbatim>\<open>fork\<close> works, the path of the mail script and the
  authenticator the server was configured with.
\<close>

record ums_env =
  ev_crypt :: crypt_fn
  ev_now :: int
  ev_date :: date
  ev_now_text :: string
  ev_day_text :: string
  ev_clock_text :: string
  ev_random1 :: int
  ev_random2 :: int
  ev_fork :: bool
  ev_sendmail :: string
  ev_auth :: "user \<Rightarrow> db \<Rightarrow> (bool \<times> user) result"

section \<open>Look-ups\<close>

definition users_getAttribut :: "(users_row \<Rightarrow> bool) \<Rightarrow> (users_row \<Rightarrow> 'a option) \<Rightarrow> db \<Rightarrow> 'a option" where
  "users_getAttribut cond attr d = first_element attr cond (t_users d)"

definition vsession_getAttribut :: "(vsession_row \<Rightarrow> bool) \<Rightarrow> (vsession_row \<Rightarrow> 'a option) \<Rightarrow> db \<Rightarrow> 'a option" where
  "vsession_getAttribut cond attr d = first_element attr cond (t_vsession d)"

definition machine_getAttribut :: "(machine_row \<Rightarrow> bool) \<Rightarrow> (machine_row \<Rightarrow> 'a option) \<Rightarrow> db \<Rightarrow> 'a option" where
  "machine_getAttribut cond attr d = first_element attr cond (t_machine d)"

definition account_getAttribut :: "(account_row \<Rightarrow> bool) \<Rightarrow> (account_row \<Rightarrow> 'a option) \<Rightarrow> db \<Rightarrow> 'a option" where
  "account_getAttribut cond attr d = first_element attr cond (t_account d)"

abbreviation numuserid :: "users_row \<Rightarrow> int option" where "numuserid r \<equiv> Some (us_num r)"

definition has_credentials :: "user \<Rightarrow> users_row \<Rightarrow> bool" where
  "has_credentials u r \<longleftrightarrow> us_userid r = u_userId u \<and> us_pwd r = u_password u"

definition isAttributOk :: "(users_row \<Rightarrow> int option) \<Rightarrow> int \<Rightarrow> user \<Rightarrow> db \<Rightarrow> bool" where
  "isAttributOk attributName valueOk u d \<longleftrightarrow>
     int_of (users_getAttribut (\<lambda>r. has_credentials u r \<and> sql_ne (us_status r) STATUS_DELETED)
       attributName d) = valueOk"

definition CheckUserState :: "bool \<Rightarrow> user \<Rightarrow> db \<Rightarrow> unit result" where
  "CheckUserState flagForChangePwd u d =
     (if isAttributOk us_status 1 u d
      then (if \<not> flagForChangePwd \<and> \<not> isAttributOk us_passwordstate 1 u d
            then Inl (UMSVishnuException ERRCODE_TEMPORARY_PASSWORD [])
            else Inr ())
      else Inl (UMSVishnuException ERRCODE_USER_LOCKED []))"

definition user_exist :: "bool \<Rightarrow> user \<Rightarrow> db \<Rightarrow> bool result" where
  "user_exist flagForChangePwd u d =
     (if users_getAttribut (\<lambda>r. has_credentials u r \<and> sql_ne (us_status r) STATUS_DELETED) numuserid d \<noteq> None
      then res_bind (CheckUserState flagForChangePwd u d) (\<lambda>_. Inr True)
      else Inr False)"

text \<open>An empty answer converts to -1, which is not 0.\<close>

definition isAdmin :: "user \<Rightarrow> db \<Rightarrow> bool" where
  "isAdmin u d \<longleftrightarrow> int_of (users_getAttribut (has_credentials u) us_privilege d) \<noteq> 0"

definition getNumUserId :: "string \<Rightarrow> db \<Rightarrow> int option" where
  "getNumUserId userId d =
     users_getAttribut (\<lambda>r. us_userid r = userId \<and> sql_ne (us_status r) STATUS_DELETED) numuserid d"

definition user_init :: "string option \<Rightarrow> user \<Rightarrow> db \<Rightarrow> user result" where
  "user_init session u d =
     (if u_userId u = [] \<and> u_password u = [] then
        (case session of
           None \<Rightarrow> Inl UndefinedBehaviour
         | Some key \<Rightarrow>
             (case vsession_getAttribut (\<lambda>s. vs_key s = Some key) (\<lambda>s. Some (vs_user s)) d of
                None \<Rightarrow> Inl (UMSVishnuException ERRCODE_SESSIONKEY_NOT_FOUND [])
              | Some num \<Rightarrow>
                  if int_of (vsession_getAttribut (\<lambda>s. vs_key s = Some key) vs_state d) = STATUS_ACTIVE
                  then Inr (u\<lparr>
                    u_userId := text_of (users_getAttribut (\<lambda>r. us_num r = num) (\<lambda>r. Some (us_userid r)) d),
                    u_password := text_of (users_getAttribut (\<lambda>r. us_num r = num) (\<lambda>r. Some (us_pwd r)) d)\<rparr>)
                  else Inl (UMSVishnuException ERRCODE_SESSIONKEY_EXPIRED [])))
      else Inr u)"

section \<open>Authenticators\<close>

definition ums_authenticate :: "crypt_fn \<Rightarrow> user \<Rightarrow> db \<Rightarrow> (bool \<times> user) result" where
  "ums_authenticate crypt u d =
     res_bind (cryptPassword crypt (u_userId u) (u_password u) True) (\<lambda>p.
       let u' = u\<lparr>u_password := p\<rparr> in
       Inr (users_getAttribut (\<lambda>r. has_credentials u' r \<and> sql_ne (us_status r) STATUS_DELETED)
              numuserid d \<noteq> None, u'))"

text \<open>
  The directory is a parameter: whether a user with a password can bind to a base at an address. The
  query does not look at the status of the authentication account.
\<close>

type_synonym ldap = "string \<Rightarrow> string \<Rightarrow> string \<Rightarrow> string \<Rightarrow> unit result"

definition ldap_accounts :: "string \<Rightarrow> db \<Rightarrow> (authsystem_row \<times> ldapauthsystem_row \<times> users_row) list" where
  "ldap_accounts login d =
     concat (map (\<lambda>l. concat (map (\<lambda>y. concat (map (\<lambda>a. concat (map (\<lambda>r.
       if au_login a = Some login \<and> ay_authtype y = Some LDAPTYPE \<and> au_authsystem a = ay_num y \<and>
          ld_authsystem l = ay_num y \<and> au_user a = us_num r \<and>
          sql_ne (ay_status y) STATUS_DELETED \<and> sql_ne (us_status r) STATUS_DELETED
       then [(y, l, r)] else [])
       (t_users d))) (t_authaccount d))) (t_authsystem d))) (t_ldapauthsystem d))"

fun ldap_loop :: "ldap \<Rightarrow> user \<Rightarrow> (authsystem_row \<times> ldapauthsystem_row \<times> users_row) list \<Rightarrow>
    (bool \<times> user) result" where
  "ldap_loop connect u [] = Inr (False, u)"
| "ldap_loop connect u ((y, l, r) # rest) =
     (if int_of (ay_status y) \<noteq> STATUS_ACTIVE
      then Inl (UMSVishnuException ERRCODE_UNKNOWN_AUTH_SYSTEM ''It is locked'')
      else (case connect (text_of (ay_uri y)) (u_userId u) (u_password u) (text_of (ld_ldapbase l)) of
              Inr _ \<Rightarrow> Inr (True, u\<lparr>u_userId := us_userid r, u_password := us_pwd r\<rparr>)
            | Inl e \<Rightarrow>
                (case e of
                   UMSVishnuException c m \<Rightarrow>
                     if c \<noteq> ERRCODE_UNKNOWN_USER then Inl e else ldap_loop connect u rest
                 | SystemException c m \<Rightarrow>
                     if c = ERRCODE_AUTHENTERR \<and> rest = [] then Inl e else ldap_loop connect u rest
                 | _ \<Rightarrow> Inl e)))"

definition ldap_authenticate :: "ldap \<Rightarrow> user \<Rightarrow> db \<Rightarrow> (bool \<times> user) result" where
  "ldap_authenticate connect u d =
     (case ldap_accounts (u_userId u) d of
        [] \<Rightarrow> Inl (UMSVishnuException ERRCODE_UNKNOWN_USER
                ''There is no user-authentication account declared in VISHNU with this identifier'')
      | rs \<Rightarrow> ldap_loop connect u rs)"

text \<open>
  The chained authenticators: an exception of the first is kept and thrown when the second does not
  authenticate the user; when it was kept from both classes the system exception goes first.
\<close>

fun chained_exn :: "exn \<Rightarrow> bool" where
  "chained_exn (UMSVishnuException c m) = True"
| "chained_exn (SystemException c m) = True"
| "chained_exn _ = False"

definition umsldap_authenticate :: "crypt_fn \<Rightarrow> ldap \<Rightarrow> user \<Rightarrow> db \<Rightarrow> (bool \<times> user) result" where
  "umsldap_authenticate crypt connect u d =
     (case ums_authenticate crypt u d of
        Inr (True, u') \<Rightarrow> Inr (True, u')
      | Inr (False, u') \<Rightarrow> ldap_authenticate connect (u'\<lparr>u_password := u_password u\<rparr>) d
      | Inl e \<Rightarrow>
          if chained_exn e
          then res_bind (ldap_authenticate connect u d) (\<lambda>(ok, u'). if ok then Inr (True, u') else Inl e)
          else Inl e)"

definition ldapums_authenticate :: "crypt_fn \<Rightarrow> ldap \<Rightarrow> user \<Rightarrow> db \<Rightarrow> (bool \<times> user) result" where
  "ldapums_authenticate crypt connect u d =
     (case ldap_authenticate connect u d of
        Inr (True, u') \<Rightarrow> Inr (True, u')
      | Inr (False, u') \<Rightarrow> ums_authenticate crypt u' d
      | Inl e \<Rightarrow>
          if chained_exn e
          then res_bind (ums_authenticate crypt u d) (\<lambda>(ok, u'). if ok then Inr (True, u') else Inl e)
          else Inl e)"

definition isAuthenticate :: "ums_env \<Rightarrow> bool \<Rightarrow> user \<Rightarrow> db \<Rightarrow> (bool \<times> user) result" where
  "isAuthenticate env flagForChangePwd u d =
     res_bind (ev_auth env u d) (\<lambda>(existUser, u').
       if existUser then res_bind (CheckUserState flagForChangePwd u' d) (\<lambda>_. Inr (True, u'))
       else Inr (False, u'))"

section \<open>Passwords and mail\<close>

definition generatePassword :: "ums_env \<Rightarrow> string \<Rightarrow> string \<Rightarrow> string result" where
  "generatePassword env value1 value2 =
     (let salt = show_int (ev_random1 env); clef = value2 @ show_int (ev_random2 env) in
      case ev_crypt env clef salt of
        None \<Rightarrow> Inl UndefinedBehaviour
      | Some c \<Rightarrow> Inr (c @ show_nat (length salt)))"

definition PASSWORD_MAX_SIZE :: nat where
  "PASSWORD_MAX_SIZE = 128"

definition getMailContent :: "user \<Rightarrow> bool \<Rightarrow> string" where
  "getMailContent u flagAdduser =
     (if flagAdduser
      then ''Dear '' @ u_firstname u @ '' '' @ u_lastname u @ '','' @ [CHR 0x0A] @
           ''This is respectively your userId and your password generated by vishnu:'' @ [CHR 0x0A] @
           ''userId:'' @ u_userId u @ '','' @ [CHR 0x0A] @ ''password:'' @ u_password u
      else ''Dear '' @ u_userId u @ '','' @ [CHR 0x0A] @ ''This is your new password: '' @ u_password u)"

text \<open>The mail itself is sent by a script in a child process; the server sees whether it could start it.\<close>

definition sendMailToUser :: "ums_env \<Rightarrow> user \<Rightarrow> string \<Rightarrow> unit result" where
  "sendMailToUser env u content =
     (if u_email u = [] then Inl (UMSVishnuException ERRCODE_INVALID_MAIL_ADRESS ''Empty email address'')
      else if ev_sendmail env = [] then Inl (SystemException ERRCODE_SYSTEM ''Invalid server configuration'')
      else if \<not> ev_fork env then Inl (SystemException ERRCODE_SYSTEM
         (''Error during the creation of the process for sending mail to '' @ u_firstname u @
          '' with userId:'' @ u_userId u))
      else Inr ())"

section \<open>Operations\<close>

text \<open>
  \<^verbatim>\<open>getObjectId\<close> on the table of users: the reserved row has an empty password and nulls, and gets its
  identifier from the update.
\<close>

definition users_ids :: "db \<Rightarrow> id_table" where
  "users_ids d = \<lparr>rows = map (\<lambda>r. \<lparr>row_key = us_num r, row_ident = Some (us_userid r)\<rparr>) (t_users d),
                  next_key = q_users d\<rparr>"

definition ident_at :: "int \<Rightarrow> id_table \<Rightarrow> string \<Rightarrow> string" where
  "ident_at key t old =
     (case filter (\<lambda>r. row_key r = key) (rows t) of
        [] \<Rightarrow> old
      | r # _ \<Rightarrow> (case row_ident r of None \<Rightarrow> old | Some s \<Rightarrow> s))"

definition blank_user :: "int \<Rightarrow> users_row" where
  "blank_user key = \<lparr>us_num = key, us_userid = [], us_pwd = [], us_firstname = None, us_lastname = None,
     us_email = None, us_privilege = None, us_passwordstate = None, us_status = None\<rparr>"

definition users_getObjectId :: "ums_env \<Rightarrow> string \<Rightarrow> string op" where
  "users_getObjectId env name d =
     (case getObjectId (ev_date env) USER name (users_ids d) of (r, t) \<Rightarrow>
        (r, d\<lparr>t_users := map (\<lambda>u. u\<lparr>us_userid := ident_at (us_num u) t (us_userid u)\<rparr>)
                   (t_users d @ [blank_user (q_users d)]),
              q_users := next_key t\<rparr>))"

definition new_user_fields :: "user \<Rightarrow> string \<Rightarrow> users_row \<Rightarrow> users_row" where
  "new_user_fields u passwordCrypted r =
     r\<lparr>us_pwd := passwordCrypted, us_firstname := Some (u_firstname u), us_lastname := Some (u_lastname u),
       us_privilege := Some (u_privilege u), us_email := Some (u_email u), us_passwordstate := Some 0,
       us_status := Some STATUS_ACTIVE\<rparr>"

definition user_add :: "ums_env \<Rightarrow> user \<Rightarrow> user \<Rightarrow> user op" where
  "user_add env me u =
     op_bind (op_read (user_exist False me)) (\<lambda>ex.
       if \<not> ex then op_throw (UMSVishnuException ERRCODE_UNKNOWN_USER []) else
     op_bind (op_read (\<lambda>d. Inr (isAdmin me d))) (\<lambda>adm.
       if \<not> adm then op_throw (UMSVishnuException ERRCODE_NO_ADMIN []) else
     op_bind (op_read (\<lambda>_. generatePassword env (u_lastname u) (u_firstname u))) (\<lambda>pwd.
     let u1 = u\<lparr>u_password := take PASSWORD_MAX_SIZE pwd\<rparr> in
     op_bind (users_getObjectId env (u_lastname u1)) (\<lambda>idUserGenerated.
     let u2 = u1\<lparr>u_userId := idUserGenerated\<rparr> in
     op_bind (op_read (\<lambda>_. cryptPassword (ev_crypt env) (u_userId u2) (u_password u2) True)) (\<lambda>passwordCrypted.
     op_bind (op_read (\<lambda>d. Inr (length (filter
         (\<lambda>r. us_userid r = u_userId u2 \<and> sql_ne (us_status r) STATUS_DELETED) (t_users d))))) (\<lambda>n.
       if n = 0 then
         let u3 = u2\<lparr>u_status := STATUS_ACTIVE\<rparr> in
         op_bind (op_write (\<lambda>d. d\<lparr>t_users := sql_update (\<lambda>r. us_userid r = u_userId u3)
                    (new_user_fields u3 passwordCrypted) (t_users d)\<rparr>)) (\<lambda>_.
         op_bind (op_read (\<lambda>_. sendMailToUser env u3 (getMailContent u3 True))) (\<lambda>_.
           op_ret u3))
       else op_throw (UMSVishnuException ERRCODE_USERID_EXISTING []))))))) "

text \<open>
  The fields of the update that were given, and the statement that closes the sessions of a locked user.
  In that statement the subquery selects \<^verbatim>\<open>sessionkey\<close> from \<^verbatim>\<open>sessioninfo\<close> and \<^verbatim>\<open>users\<close>, neither of
  which has such a column, so it is the \<^verbatim>\<open>sessionkey\<close> of the row being updated.
\<close>

definition update_user_fields :: "user \<Rightarrow> users_row \<Rightarrow> users_row" where
  "update_user_fields u r =
     r\<lparr>us_firstname := (if u_firstname u \<noteq> [] then Some (u_firstname u) else us_firstname r),
       us_lastname := (if u_lastname u \<noteq> [] then Some (u_lastname u) else us_lastname r),
       us_email := (if u_email u \<noteq> [] then Some (u_email u) else us_email r),
       us_status := (if u_status u \<noteq> STATUS_UNDEFINED then Some (u_status u) else us_status r),
       us_privilege := (if u_privilege u \<noteq> PRIVILEGE_UNDEFINED then Some (u_privilege u) else us_privilege r)\<rparr>"

definition close_sessions_of :: "string \<Rightarrow> db \<Rightarrow> db" where
  "close_sessions_of userId d =
     d\<lparr>t_vsession := sql_update
         (\<lambda>s. vs_key s \<noteq> None \<and>
            list_ex (\<lambda>si. vs_state si = Some SESSION_ACTIVE \<and>
              list_ex (\<lambda>r. vs_user si = us_num r \<and> us_userid r = userId) (t_users d)) (t_vsession d))
         (\<lambda>s. s\<lparr>vs_state := Some SESSION_CLOSED\<rparr>) (t_vsession d)\<rparr>"

definition user_update :: "user \<Rightarrow> user \<Rightarrow> unit op" where
  "user_update me u =
     op_bind (op_read (user_exist False me)) (\<lambda>ex.
       if \<not> ex then op_throw (UMSVishnuException ERRCODE_UNKNOWN_USER []) else
     op_bind (op_read (\<lambda>d. Inr (isAdmin me d))) (\<lambda>adm.
       if \<not> adm then op_throw (UMSVishnuException ERRCODE_NO_ADMIN []) else
     op_bind (op_read (\<lambda>d. Inr (getNumUserId (u_userId u) d))) (\<lambda>num.
       if num = None then op_throw (UMSVishnuException ERRCODE_UNKNOWN_USERID []) else
       if u_firstname u = [] \<and> u_lastname u = [] \<and> u_email u = [] \<and> u_status u = STATUS_UNDEFINED \<and>
          u_privilege u = PRIVILEGE_UNDEFINED
       then op_ret ()
       else op_bind (op_write (\<lambda>d. d\<lparr>t_users := sql_update
                (\<lambda>r. us_userid r = u_userId u \<and> sql_ne (us_status r) STATUS_DELETED)
                (update_user_fields u) (t_users d)\<rparr>)) (\<lambda>_.
              if u_status u = STATUS_LOCKED then op_write (close_sessions_of (u_userId u))
              else op_ret ()))))"

definition user_delete :: "user \<Rightarrow> user \<Rightarrow> unit op" where
  "user_delete me u =
     op_bind (user_update me (u\<lparr>u_status := STATUS_DELETED\<rparr>)) (\<lambda>_.
       op_write (\<lambda>d. d\<lparr>t_account := sql_update
         (\<lambda>a. list_ex (\<lambda>r. us_num r = ac_user a \<and> us_userid r = u_userId u) (t_users d))
         (\<lambda>a. a\<lparr>ac_status := Some STATUS_DELETED\<rparr>) (t_account d)\<rparr>))"

definition set_password :: "user \<Rightarrow> string \<Rightarrow> db \<Rightarrow> db" where
  "set_password u pwd d =
     d\<lparr>t_users := sql_update (\<lambda>r. us_userid r = u_userId u \<and> us_pwd r = pwd \<and> sql_ne (us_status r) STATUS_DELETED)
         (\<lambda>r. r\<lparr>us_passwordstate := Some STATUS_ACTIVE\<rparr>)
         (sql_update (\<lambda>r. has_credentials u r \<and> sql_ne (us_status r) STATUS_DELETED)
            (\<lambda>r. r\<lparr>us_pwd := pwd\<rparr>) (t_users d))\<rparr>"

definition changePassword :: "ums_env \<Rightarrow> user \<Rightarrow> string \<Rightarrow> user op" where
  "changePassword env u newPassword =
     op_bind (op_read (isAuthenticate env True u)) (\<lambda>(ok, u1).
       if \<not> ok then op_throw (UMSVishnuException ERRCODE_UNKNOWN_USER []) else
     op_bind (op_read (\<lambda>d. Inr (users_getAttribut (\<lambda>r. us_userid r = u_userId u1) numuserid d))) (\<lambda>num.
       if num = None then op_throw (UMSVishnuException ERRCODE_READONLY_ACCOUNT []) else
     op_bind (op_read (\<lambda>_. cryptPassword (ev_crypt env) (u_userId u1) newPassword True)) (\<lambda>pwd.
     op_bind (op_write (set_password u1 pwd)) (\<lambda>_.
       op_ret (u1\<lparr>u_password := newPassword\<rparr>)))))"

definition reset_password :: "string \<Rightarrow> string \<Rightarrow> db \<Rightarrow> db" where
  "reset_password userId pwd d =
     d\<lparr>t_users := sql_update (\<lambda>r. us_userid r = userId \<and> us_pwd r = pwd \<and> sql_ne (us_status r) STATUS_DELETED)
         (\<lambda>r. r\<lparr>us_passwordstate := Some STATUS_LOCKED\<rparr>)
         (sql_update (\<lambda>r. us_userid r = userId \<and> sql_ne (us_status r) STATUS_DELETED)
            (\<lambda>r. r\<lparr>us_pwd := pwd\<rparr>) (t_users d))\<rparr>"

definition resetPassword :: "ums_env \<Rightarrow> user \<Rightarrow> user \<Rightarrow> user op" where
  "resetPassword env me u =
     op_bind (op_read (user_exist False me)) (\<lambda>ex.
       if \<not> ex then op_throw (UMSVishnuException ERRCODE_UNKNOWN_USER []) else
     op_bind (op_read (\<lambda>d. Inr (isAdmin me d))) (\<lambda>adm.
       if \<not> adm then op_throw (UMSVishnuException ERRCODE_NO_ADMIN []) else
     op_bind (op_read (\<lambda>d. Inr (getNumUserId (u_userId u) d))) (\<lambda>numUser.
       if numUser = None then op_throw (UMSVishnuException ERRCODE_UNKNOWN_USERID (u_userId u)) else
     op_bind (op_read (\<lambda>_. generatePassword env (u_userId u) (u_userId u))) (\<lambda>pwd.
     let u1 = u\<lparr>u_password := take PASSWORD_MAX_SIZE pwd\<rparr> in
     op_bind (op_read (\<lambda>_. cryptPassword (ev_crypt env) (u_userId u1) (u_password u1) True)) (\<lambda>passwordCrypted.
     op_bind (op_write (reset_password (u_userId u1) passwordCrypted)) (\<lambda>_.
     op_bind (op_read (\<lambda>d. Inr (text_of (users_getAttribut
         (\<lambda>r. us_userid r = u_userId u1 \<and> sql_ne (us_status r) STATUS_DELETED) us_email d)))) (\<lambda>email.
     let u2 = u1\<lparr>u_email := email\<rparr> in
     op_bind (op_read (\<lambda>_. sendMailToUser env u2 (getMailContent u2 False))) (\<lambda>_.
       op_ret u2))))))))"

section \<open>The user's account on a machine\<close>

definition getUserAccountLogin :: "string option \<Rightarrow> user \<Rightarrow> string \<Rightarrow> db \<Rightarrow> (user \<times> string) result" where
  "getUserAccountLogin session u machineId d =
     res_bind (user_init session u d) (\<lambda>me.
       let numMachine = machine_getAttribut
             (\<lambda>m. ma_machineid m = Some machineId \<and> ma_status m = Some STATUS_ACTIVE) (\<lambda>m. Some (ma_num m)) d;
           numUser = users_getAttribut
             (\<lambda>r. us_userid r = u_userId me \<and> us_status r = Some STATUS_ACTIVE) numuserid d;
           acLogin = (case (numMachine, numUser) of
               (Some nm, Some nu) \<Rightarrow> text_of (account_getAttribut
                 (\<lambda>a. ac_machine a = nm \<and> ac_user a = nu \<and> ac_status a = Some STATUS_ACTIVE) ac_login d)
             | _ \<Rightarrow> [])
       in if acLogin = []
          then Inl (UMSVishnuException ERRCODE_UNKNOWN_LOCAL_ACCOUNT
                  ''You do not have a local account on this machine'')
          else Inr (me, acLogin))"

definition getUserAccountProperty :: "string option \<Rightarrow> user \<Rightarrow> string \<Rightarrow> (account_row \<Rightarrow> string option) \<Rightarrow> db \<Rightarrow>
    (user \<times> string) result" where
  "getUserAccountProperty session u machineId property d =
     res_bind (user_init session u d) (\<lambda>me.
       let numMachine = machine_getAttribut (\<lambda>m. ma_machineid m = Some machineId) (\<lambda>m. Some (ma_num m)) d;
           numUser = users_getAttribut (\<lambda>r. us_userid r = u_userId me) numuserid d;
           val = (case (numMachine, numUser) of
               (Some nm, Some nu) \<Rightarrow>
                 text_of (account_getAttribut (\<lambda>a. ac_machine a = nm \<and> ac_user a = nu) property d)
             | _ \<Rightarrow> [])
       in if val = []
          then Inl (UMSVishnuException ERRCODE_UNKNOWN_LOCAL_ACCOUNT
                  ''You do not have a local account on this machine'')
          else Inr (me, val))"

end
