(* ===== verification/Ums_Session.thy ===== *)
theory Ums_Session
  imports Ums_User
begin

text \<open>
  The sessions: \<^verbatim>\<open>SessionServer.cpp\<close>, the recording of commands (\<^verbatim>\<open>CommandServer.cpp\<close>), the client
  machines (\<^verbatim>\<open>MachineClientServer.cpp\<close>) and the monitor that closes idle sessions
  (\<^verbatim>\<open>MonitorXMS::checkSession\<close>).
\<close>

record session =
  se_sessionId :: string
  se_userId :: string
  se_sessionKey :: string
  se_status :: int
  se_closePolicy :: int
  se_timeout :: int
  se_authenId :: string

record session_server =
  msession :: session
  mtimeout :: int

definition session0 :: session where
  "session0 = \<lparr>se_sessionId = [], se_userId = [], se_sessionKey = [], se_status = 1, se_closePolicy = 0,
     se_timeout = 0, se_authenId = []\<rparr>"

definition session_of_key :: "string \<Rightarrow> session_server" where
  "session_of_key key = \<lparr>msession = session0\<lparr>se_sessionKey := key\<rparr>, mtimeout = DEFAULT_CONNECTION_TIMEOUT\<rparr>"

abbreviation session_key :: "session_server \<Rightarrow> string" where
  "session_key ss \<equiv> se_sessionKey (msession ss)"

definition has_key :: "string \<Rightarrow> vsession_row \<Rightarrow> bool" where
  "has_key key s \<longleftrightarrow> vs_key s = Some key"

definition has_sessionid :: "string \<Rightarrow> vsession_row \<Rightarrow> bool" where
  "has_sessionid sid s \<longleftrightarrow> vs_sessionid s = Some sid"

abbreviation numsessionid :: "vsession_row \<Rightarrow> int option" where "numsessionid s \<equiv> Some (vs_num s)"

section \<open>Client machines\<close>

record machine_client =
  mmachineSSHKey :: string
  mhostname :: string

definition machine_client_getId :: "machine_client \<Rightarrow> db \<Rightarrow> int option" where
  "machine_client_getId h d =
     first_element (\<lambda>c. Some (cl_num c))
       (\<lambda>c. cl_sshkey c = Some (mmachineSSHKey h) \<and> cl_name c = Some (mhostname h)) (t_clmachine d)"

definition recordMachineClient :: "machine_client \<Rightarrow> db \<Rightarrow> db" where
  "recordMachineClient h d =
     (if machine_client_getId h d = None
      then d\<lparr>t_clmachine := t_clmachine d @
               [\<lparr>cl_num = q_clmachine d, cl_sshkey = Some (mmachineSSHKey h), cl_name = Some (mhostname h)\<rparr>],
             q_clmachine := q_clmachine d + 1\<rparr>
      else d)"

section \<open>Commands\<close>

definition command_record :: "ums_env \<Rightarrow> string \<Rightarrow> string \<Rightarrow> int \<Rightarrow> int \<Rightarrow> string \<Rightarrow> unit op" where
  "command_record env key mcommand cmdType cmdStatus newVishnuObjectID =
     op_bind (op_read (\<lambda>d. sql_num (vsession_getAttribut (has_key key) numsessionid d))) (\<lambda>numsess.
       op_write (\<lambda>d. d\<lparr>t_command := t_command d @
           [\<lparr>cm_num = q_command d, cm_session = numsess, cm_starttime = Some (ev_now env),
             cm_endtime = Some (ev_now env), cm_description = Some mcommand, cm_ctype = Some cmdType,
             cm_status = Some cmdStatus, cm_objectid = Some newVishnuObjectID\<rparr>],
         q_command := q_command d + 1\<rparr>))"

definition isRunning :: "string \<Rightarrow> db \<Rightarrow> bool result" where
  "isRunning key d =
     res_bind (sql_num (vsession_getAttribut (has_key key) numsessionid d)) (\<lambda>num.
       Inr (list_ex (\<lambda>c. cm_endtime c = None \<and> cm_session c = num) (t_command d)))"

section \<open>Parts of a session\<close>

definition generateSessionKey :: "ums_env \<Rightarrow> string \<Rightarrow> string result" where
  "generateSessionKey env salt =
     (let tmpSalt = ''$1$'' @ salt @ ''$'' in
      case ev_crypt env salt tmpSalt of
        None \<Rightarrow> Inl UndefinedBehaviour
      | Some m \<Rightarrow> res_bind (substr m (length tmpSalt) None) (\<lambda>h.
          let globalSalt = ''$6$'' @ h @ ''$'' in
          case ev_crypt env (ev_now_text env) globalSalt of
            None \<Rightarrow> Inl UndefinedBehaviour
          | Some k \<Rightarrow> substr (k @ show_int (ev_random1 env)) (length globalSalt) None))"

definition generateSessionId :: "ums_env \<Rightarrow> string \<Rightarrow> string" where
  "generateSessionId env userId =
     userId @ ''-'' @ ev_day_text env @ ''-'' @ ev_clock_text env @ '':'' @ show_int (ev_random2 env)"

definition solveConnectionMode :: "connect_options \<Rightarrow> session_server \<Rightarrow> session_server result" where
  "solveConnectionMode opt ss =
     (let se = msession ss in
      if co_closePolicy opt = DEFAULT_CLOSE_POLICY then
        Inr (ss\<lparr>msession := se\<lparr>se_closePolicy := DEFAULT_CLOSE_POLICY,
                              se_timeout := DEFAULT_CONNECTION_TIMEOUT\<rparr>\<rparr>)
      else if co_closePolicy opt = CLOSE_ON_TIMEOUT then
        Inr (ss\<lparr>msession := se\<lparr>se_closePolicy := CLOSE_ON_TIMEOUT,
            se_timeout := (if co_inactivityDelay opt \<noteq> 0 then co_inactivityDelay opt else mtimeout ss)\<rparr>\<rparr>)
      else if co_closePolicy opt = CLOSE_ON_DISCONNECT then
        Inr (ss\<lparr>msession := se\<lparr>se_closePolicy := CLOSE_ON_DISCONNECT\<rparr>\<rparr>)
      else Inl (SystemException ERRCODE_SYSTEM
             ''Invalid close policy value in SessionServer::solveConnectionMode''))"

definition recordSessionServer :: "ums_env \<Rightarrow> session \<Rightarrow> int option \<Rightarrow> int option \<Rightarrow> unit op" where
  "recordSessionServer env se idmachine iduser =
     op_bind (op_read (\<lambda>_. sql_num idmachine)) (\<lambda>m.
     op_bind (op_read (\<lambda>_. sql_num iduser)) (\<lambda>u.
       op_write (\<lambda>d. d\<lparr>t_vsession := t_vsession d @
           [\<lparr>vs_num = q_vsession d, vs_sessionid = Some (se_sessionId se), vs_clmachine = m, vs_user = u,
             vs_lastconnect = Some (ev_now env), vs_creation = Some (ev_now env), vs_closure = None,
             vs_key = Some (se_sessionKey se), vs_state = Some (se_status se),
             vs_closepolicy = Some (se_closePolicy se), vs_timeout = Some (se_timeout se),
             vs_authid = Some (se_authenId se)\<rparr>],
         q_vsession := q_vsession d + 1\<rparr>)))"

text \<open>\<^verbatim>\<open>getState\<close>: the state of the first session with the identifier or the key, and -1 for none.\<close>

definition getState :: "bool \<Rightarrow> session \<Rightarrow> db \<Rightarrow> int" where
  "getState flagSessionId se d =
     (case vsession_getAttribut
             (if flagSessionId then has_sessionid (se_sessionId se) else has_key (se_sessionKey se)) vs_state d of
        None \<Rightarrow> -1
      | Some n \<Rightarrow> int_of (Some n))"

definition session_exist :: "bool \<Rightarrow> session \<Rightarrow> db \<Rightarrow> bool" where
  "session_exist flagSessionId se d \<longleftrightarrow> getState flagSessionId se d \<noteq> -1"

definition getSessionkey :: "(int option \<times> int option) option \<Rightarrow> session \<Rightarrow> db \<Rightarrow> session option result" where
  "getSessionkey owner se d =
     res_bind (case owner of
         None \<Rightarrow> Inr (has_sessionid (se_sessionId se))
       | Some (idmachine, iduser) \<Rightarrow>
           res_bind (sql_num idmachine) (\<lambda>m. res_bind (sql_num iduser) (\<lambda>u.
             Inr (\<lambda>s. has_sessionid (se_sessionId se) s \<and> vs_clmachine s = m \<and> vs_user s = u)))) (\<lambda>cond.
       let key = text_of (vsession_getAttribut cond vs_key d) in
       if key \<noteq> []
       then Inr (Some (se\<lparr>se_sessionKey := key,
              se_closePolicy := int_of (vsession_getAttribut (has_sessionid (se_sessionId se)) vs_closepolicy d)\<rparr>))
       else Inr None)"

section \<open>Operations\<close>

text \<open>Which user a connection is for: the substituted one, for an administrator, or the caller.\<close>

definition connect_user :: "user \<Rightarrow> connect_options \<Rightarrow> db \<Rightarrow> (int option \<times> string) result" where
  "connect_user u opt d =
     (let own = (users_getAttribut (has_credentials u) numuserid d, u_userId u) in
      if co_substituteUserId opt \<noteq> [] then
        if isAdmin u d then
          (let numSubstituteUserId =
             users_getAttribut (\<lambda>r. us_userid r = co_substituteUserId opt) numuserid d in
           if getNumUserId (co_substituteUserId opt) d \<noteq> None
           then (if numSubstituteUserId = None then Inr own
                 else Inr (numSubstituteUserId, co_substituteUserId opt))
           else Inl (UMSVishnuException ERRCODE_UNKNOWN_USERID []))
        else Inl (UMSVishnuException ERRCODE_NO_ADMIN [])
      else Inr own)"

definition connectSession :: "ums_env \<Rightarrow> user \<Rightarrow> machine_client \<Rightarrow> connect_options \<Rightarrow> session_server \<Rightarrow>
    session_server op" where
  "connectSession env u host opt ss =
     op_bind (op_read (isAuthenticate env False u)) (\<lambda>(ok, u1).
       if \<not> ok then op_throw (UMSVishnuException ERRCODE_UNKNOWN_USER []) else
     op_bind (op_read (connect_user u1 opt)) (\<lambda>(numUser, userId).
     op_bind (op_read (\<lambda>_. generateSessionKey env (u_userId u1))) (\<lambda>key.
     let ss1 = ss\<lparr>msession := (msession ss)\<lparr>se_authenId := u_userId u, se_userId := userId,
                 se_sessionKey := key, se_sessionId := generateSessionId env (u_userId u1)\<rparr>\<rparr> in
     op_bind (op_read (\<lambda>_. solveConnectionMode opt ss1)) (\<lambda>ss2.
     op_bind (op_write (recordMachineClient host)) (\<lambda>_.
     op_bind (op_read (\<lambda>d. Inr (machine_client_getId host d))) (\<lambda>idmachine.
     op_bind (recordSessionServer env (msession ss2) idmachine numUser) (\<lambda>_.
       op_ret ss2)))))))"

definition reconnect :: "ums_env \<Rightarrow> user \<Rightarrow> machine_client \<Rightarrow> string \<Rightarrow> session_server \<Rightarrow> db \<Rightarrow>
    session_server result" where
  "reconnect env u host sessionId ss d =
     (let se = (msession ss)\<lparr>se_sessionId := sessionId\<rparr> in
      res_bind (isAuthenticate env False u d) (\<lambda>(ok, u1).
        if \<not> ok then Inl (UMSVishnuException ERRCODE_UNKNOWN_USER []) else
        let state = getState True se d in
        if state = -1 then Inl (UMSVishnuException ERRCODE_UNKNOWN_SESSION_ID [])
        else if state \<noteq> SESSION_ACTIVE then Inl (UMSVishnuException ERRCODE_SESSIONKEY_EXPIRED [])
        else
          res_bind (getSessionkey
              (if isAdmin u1 d then None
               else Some (machine_client_getId host d, users_getAttribut (has_credentials u1) numuserid d)) se d)
            (\<lambda>found. case found of
               None \<Rightarrow> Inl (UMSVishnuException ERRCODE_SESSIONKEY_NOT_FOUND [])
             | Some se' \<Rightarrow> Inr (ss\<lparr>msession := se'\<rparr>))))"

text \<open>
  \<^verbatim>\<open>disconnetToTimeout\<close>: the second statement, too, sets the close policy, to the number of the timeout.
\<close>

definition disconnetToTimeout :: "session_server \<Rightarrow> db \<Rightarrow> db" where
  "disconnetToTimeout ss d =
     d\<lparr>t_vsession := sql_update (has_key (session_key ss)) (\<lambda>s. s\<lparr>vs_closepolicy := Some (mtimeout ss)\<rparr>)
        (sql_update (has_key (session_key ss)) (\<lambda>s. s\<lparr>vs_closepolicy := Some CLOSE_ON_TIMEOUT\<rparr>)
          (t_vsession d))\<rparr>"

definition session_closed :: "ums_env \<Rightarrow> string \<Rightarrow> db \<Rightarrow> db" where
  "session_closed env key d =
     d\<lparr>t_vsession := sql_update (has_key key) (\<lambda>s. s\<lparr>vs_closure := Some (ev_now env)\<rparr>)
        (sql_update (has_key key) (\<lambda>s. s\<lparr>vs_state := Some SESSION_CLOSED\<rparr>) (t_vsession d))\<rparr>"

definition empty_user :: user where
  "empty_user = \<lparr>u_userId = [], u_password = [], u_firstname = [], u_lastname = [], u_privilege = -1,
     u_email = [], u_status = -1\<rparr>"

definition session_close :: "ums_env \<Rightarrow> session_server \<Rightarrow> unit op" where
  "session_close env ss =
     op_bind (op_read (user_init (Some (session_key ss)) empty_user)) (\<lambda>u.
     op_bind (op_read (user_exist False u)) (\<lambda>ex.
       if \<not> ex then op_ret () else
     op_bind (op_read (\<lambda>d. Inr (getState False (msession ss) d))) (\<lambda>state.
       if state = SESSION_CLOSED then op_throw (UMSVishnuException ERRCODE_SESSIONKEY_EXPIRED []) else
     op_bind (op_read (isRunning (session_key ss))) (\<lambda>running.
       if \<not> running then op_write (session_closed env (session_key ss)) else
     op_bind (op_read (\<lambda>d. Inr (int_of (vsession_getAttribut (has_key (session_key ss)) vs_closepolicy d))))
       (\<lambda>closePolicy.
       if closePolicy = CLOSE_ON_DISCONNECT then op_write (disconnetToTimeout ss)
       else op_throw (UMSVishnuException ERRCODE_COMMAND_RUNNING []))))))"

definition saveConnection :: "ums_env \<Rightarrow> session_server \<Rightarrow> db \<Rightarrow> db" where
  "saveConnection env ss d =
     d\<lparr>t_vsession := sql_update (has_key (session_key ss)) (\<lambda>s. s\<lparr>vs_lastconnect := Some (ev_now env)\<rparr>)
        (t_vsession d)\<rparr>"

definition idle :: "int \<Rightarrow> vsession_row \<Rightarrow> bool" where
  "idle now s \<longleftrightarrow>
     (case (vs_lastconnect s, vs_timeout s) of
        (Some t, Some timeout) \<Rightarrow> now - t > timeout
      | _ \<Rightarrow> False) \<and> vs_state s = Some 1 \<and> vs_closepolicy s = Some 1"

definition getSessionToclosebyTimeout :: "ums_env \<Rightarrow> db \<Rightarrow> string list" where
  "getSessionToclosebyTimeout env d = map (\<lambda>s. text_of (vs_key s)) (filter (idle (ev_now env)) (t_vsession d))"

text \<open>The check a service makes of its session key: a join of the session with its user.\<close>

definition session_check :: "session_server \<Rightarrow> db \<Rightarrow> unit result" where
  "session_check ss d =
     (case concat (map (\<lambda>r. map (\<lambda>s. (vs_state s, us_status r, us_passwordstate r))
               (filter (\<lambda>s. us_num r = vs_user s \<and> has_key (session_key ss) s \<and>
                            sql_ne (vs_state s) STATUS_DELETED) (t_vsession d))) (t_users d)) of
        [] \<Rightarrow> Inl (UMSVishnuException ERRCODE_SESSIONKEY_NOT_FOUND [])
      | (state, status, passwordstate) # _ \<Rightarrow>
          if int_of state = SESSION_ACTIVE then
            if int_of status = STATUS_ACTIVE then
              if int_of passwordstate = STATUS_ACTIVE then Inr ()
              else Inl (UMSVishnuException ERRCODE_TEMPORARY_PASSWORD [])
            else Inl (UMSVishnuException ERRCODE_USER_LOCKED [])
          else Inl (UMSVishnuException ERRCODE_SESSIONKEY_EXPIRED []))"

definition session_finish :: "ums_env \<Rightarrow> session_server \<Rightarrow> string \<Rightarrow> int \<Rightarrow> int \<Rightarrow> string \<Rightarrow> bool \<Rightarrow> unit op" where
  "session_finish env ss cmd cmdType cmdStatus newVishnuObjectID checkSession =
     op_bind (if checkSession then op_read (session_check ss) else op_ret ()) (\<lambda>_.
     op_bind (op_write (saveConnection env ss)) (\<lambda>_.
       command_record env (session_key ss) cmd cmdType cmdStatus newVishnuObjectID))"

section \<open>The monitor\<close>

text \<open>
  One round: each idle session is closed; an exception of the program is printed and the round goes on,
  but with \<^verbatim>\<open>ERRCODE_AUTHENTERR\<close> the process exits (the result is then \<open>None\<close>). Another exception leaves
  the round.
\<close>

fun exn_code :: "exn \<Rightarrow> int option" where
  "exn_code (UMSVishnuException c m) = Some c"
| "exn_code (TMSVishnuException c m) = Some c"
| "exn_code (FMSVishnuException c m) = Some c"
| "exn_code (UserException c m) = Some c"
| "exn_code (SystemException c m) = Some c"
| "exn_code _ = None"

fun monitor_close :: "ums_env \<Rightarrow> string list \<Rightarrow> unit option op" where
  "monitor_close env [] = op_ret (Some ())"
| "monitor_close env (key # keys) = (\<lambda>d.
     (case session_close env (session_of_key key) d of
        (Inr _, d') \<Rightarrow> monitor_close env keys d'
      | (Inl e, d') \<Rightarrow>
          (case exn_code e of
             None \<Rightarrow> (Inl e, d')
           | Some c \<Rightarrow> if c = ERRCODE_AUTHENTERR then (Inr None, d') else monitor_close env keys d')))"

definition monitor_checkSession :: "ums_env \<Rightarrow> unit option op" where
  "monitor_checkSession env d = monitor_close env (getSessionToclosebyTimeout env d) d"

end
