(* ===== verification/Ums_Machine.thy ===== *)
theory Ums_Machine
  imports Ums_Session
begin

text \<open>
  The machines and the local accounts: \<^verbatim>\<open>MachineServer.cpp\<close> and \<^verbatim>\<open>LocalAccountServer.cpp\<close>. The caller
  is the user of the session the server object was made with.
\<close>

section \<open>The caller\<close>

text \<open>
  \<^verbatim>\<open>UserServer(msessionServer)\<close>, \<^verbatim>\<open>init\<close> and \<^verbatim>\<open>exist\<close>: the user of the session, or an exception.
\<close>

definition caller :: "string \<Rightarrow> db \<Rightarrow> user result" where
  "caller key d =
     res_bind (user_init (Some key) empty_user d) (\<lambda>me.
     res_bind (user_exist False me d) (\<lambda>ex.
       if ex then Inr me else Inl (UMSVishnuException ERRCODE_UNKNOWN_USER [])))"

definition admin_caller :: "string \<Rightarrow> db \<Rightarrow> user result" where
  "admin_caller key d =
     res_bind (caller key d) (\<lambda>me.
       if isAdmin me d then Inr me else Inl (UMSVishnuException ERRCODE_NO_ADMIN []))"

section \<open>Machines\<close>

abbreviation nummachineid :: "machine_row \<Rightarrow> int option" where "nummachineid m \<equiv> Some (ma_num m)"

definition has_machineid :: "string \<Rightarrow> machine_row \<Rightarrow> bool" where
  "has_machineid i m \<longleftrightarrow> ma_machineid m = Some i"

definition machine_ids :: "db \<Rightarrow> id_table" where
  "machine_ids d = \<lparr>rows = map (\<lambda>m. \<lparr>row_key = ma_num m, row_ident = ma_machineid m\<rparr>) (t_machine d),
                    next_key = q_machine d\<rparr>"

definition machine_getObjectId :: "ums_env \<Rightarrow> string \<Rightarrow> string op" where
  "machine_getObjectId env name d =
     (case getObjectId (ev_date env) MACHINE name (machine_ids d) of (r, t) \<Rightarrow>
        (r, d\<lparr>t_machine :=
                map2 (\<lambda>m i. m\<lparr>ma_machineid := row_ident i\<rparr>)
                  (t_machine d @ [\<lparr>ma_num = q_machine d, ma_machineid = None, ma_name = None, ma_site = None,
                                    ma_status = Some 0\<rparr>]) (rows t),
              q_machine := next_key t\<rparr>))"

definition machine_add :: "ums_env \<Rightarrow> string \<Rightarrow> machine \<Rightarrow> machine op" where
  "machine_add env key mc =
     op_bind (op_read (admin_caller key)) (\<lambda>me.
     op_bind (machine_getObjectId env (mc_name mc)) (\<lambda>idMachineGenerated.
       if idMachineGenerated = []
       then op_throw (SystemException ERRCODE_SYSTEM ''The formatidmachine is not defined'') else
     let mc1 = mc\<lparr>mc_machineId := idMachineGenerated\<rparr> in
     op_bind (op_read (\<lambda>d. Inr (length (filter (has_machineid (mc_machineId mc1)) (t_machine d))))) (\<lambda>n.
       if n \<noteq> 1
       then op_throw (SystemException ERRCODE_SYSTEM ''There is a problem to parse the formatidmachine'') else
     let mc2 = mc1\<lparr>mc_status := STATUS_ACTIVE\<rparr> in
     op_bind (op_write (\<lambda>d. d\<lparr>t_machine := sql_update (has_machineid (mc_machineId mc2))
         (\<lambda>m. m\<lparr>ma_name := Some (mc_name mc2), ma_site := Some (mc_site mc2), ma_status := Some (mc_status mc2)\<rparr>)
         (t_machine d)\<rparr>)) (\<lambda>_.
     op_bind (op_read (\<lambda>d. sql_num (machine_getAttribut (has_machineid (mc_machineId mc2)) nummachineid d))) (\<lambda>num.
     op_bind (op_write (\<lambda>d. d\<lparr>t_description := t_description d @
         [\<lparr>de_machine = num, de_lang = Some (mc_language mc2), de_text = Some (mc_description mc2)\<rparr>]\<rparr>)) (\<lambda>_.
       op_ret mc2))))))"

definition machine_fields :: "machine \<Rightarrow> machine_row \<Rightarrow> machine_row" where
  "machine_fields mc m =
     m\<lparr>ma_name := (if mc_name mc \<noteq> [] then Some (mc_name mc) else ma_name m),
       ma_site := (if mc_site mc \<noteq> [] then Some (mc_site mc) else ma_site m),
       ma_status := (if mc_status mc \<noteq> STATUS_UNDEFINED then Some (mc_status mc) else ma_status m)\<rparr>"

definition description_fields :: "machine \<Rightarrow> description_row \<Rightarrow> description_row" where
  "description_fields mc e =
     e\<lparr>de_lang := (if mc_language mc \<noteq> [] then Some (mc_language mc) else de_lang e),
       de_text := (if mc_description mc \<noteq> [] then Some (mc_description mc) else de_text e)\<rparr>"

text \<open>
  The statements of an update run as one command; those on the description find the machine by the
  number read before.
\<close>

definition machine_update :: "string \<Rightarrow> machine \<Rightarrow> unit op" where
  "machine_update key mc =
     op_bind (op_read (admin_caller key)) (\<lambda>me.
     op_bind (op_read (\<lambda>d. Inr (machine_getAttribut
         (\<lambda>m. has_machineid (mc_machineId mc) m \<and> sql_ne (ma_status m) STATUS_DELETED) nummachineid d))) (\<lambda>found.
       if found = None then op_throw (UMSVishnuException ERRCODE_UNKNOWN_MACHINE []) else
     op_bind (op_read (\<lambda>d. sql_num (machine_getAttribut (has_machineid (mc_machineId mc)) nummachineid d))) (\<lambda>num.
       op_write (\<lambda>d. d\<lparr>
         t_machine := sql_update (has_machineid (mc_machineId mc)) (machine_fields mc) (t_machine d),
         t_description := sql_update (\<lambda>e. de_machine e = num) (description_fields mc) (t_description d)\<rparr>))))"

definition machine_delete :: "string \<Rightarrow> machine \<Rightarrow> unit op" where
  "machine_delete key mc =
     op_bind (machine_update key (mc\<lparr>mc_status := STATUS_DELETED\<rparr>)) (\<lambda>_.
       op_write (\<lambda>d. d\<lparr>t_account := sql_update
         (\<lambda>a. list_ex (\<lambda>m. ma_num m = ac_machine a \<and> has_machineid (mc_machineId mc) m) (t_machine d))
         (\<lambda>a. a\<lparr>ac_status := Some STATUS_DELETED\<rparr>) (t_account d)\<rparr>))"

definition getMachineName :: "string \<Rightarrow> db \<Rightarrow> string" where
  "getMachineName machineId d = text_of (machine_getAttribut (has_machineid machineId) ma_name d)"

definition checkMachine :: "string \<Rightarrow> db \<Rightarrow> unit result" where
  "checkMachine machineId d =
     (if machine_getAttribut (\<lambda>m. has_machineid machineId m \<and> sql_ne (ma_status m) STATUS_DELETED)
           nummachineid d = None
      then Inl (UMSVishnuException ERRCODE_UNKNOWN_MACHINE (''No machine with this id ('' @ machineId @ '')''))
      else if machine_getAttribut (\<lambda>m. has_machineid machineId m \<and> ma_status m = Some STATUS_LOCKED)
           nummachineid d \<noteq> None
      then Inl (UMSVishnuException ERRCODE_MACHINE_LOCKED [])
      else Inr ())"

section \<open>Local accounts\<close>

definition account_of :: "int \<Rightarrow> int \<Rightarrow> account_row \<Rightarrow> bool" where
  "account_of m u a \<longleftrightarrow> ac_machine a = m \<and> ac_user a = u"

definition account_exist :: "int option \<Rightarrow> int option \<Rightarrow> db \<Rightarrow> bool" where
  "account_exist idmachine iduser d =
     (case (idmachine, iduser) of
        (Some m, Some u) \<Rightarrow>
          account_getAttribut (\<lambda>a. account_of m u a \<and> sql_ne (ac_status a) STATUS_DELETED)
            (\<lambda>a. Some (ac_num a)) d \<noteq> None
      | _ \<Rightarrow> False)"

definition isLoginUsed :: "int option \<Rightarrow> string \<Rightarrow> db \<Rightarrow> bool" where
  "isLoginUsed numMachine acLogin d =
     (case numMachine of
        None \<Rightarrow> False
      | Some m \<Rightarrow> acLogin \<noteq> [] \<and>
          account_getAttribut (\<lambda>a. ac_machine a = m \<and> ac_login a = Some acLogin \<and>
            ac_status a = Some STATUS_ACTIVE) (\<lambda>a. Some (ac_num a)) d \<noteq> None)"

text \<open>
  The caller owns the account or is an administrator, and the machine is active; otherwise an exception,
  with a code that differs between the operations.
\<close>

definition account_access :: "string \<Rightarrow> local_account \<Rightarrow> int \<Rightarrow> db \<Rightarrow> user result" where
  "account_access key la denied d =
     res_bind (caller key d) (\<lambda>me.
       if u_userId me = la_userId la \<or> isAdmin me d then
         if machine_getAttribut (\<lambda>m. has_machineid (la_machineId la) m \<and> ma_status m = Some STATUS_ACTIVE)
              nummachineid d \<noteq> None
         then Inr me else Inl (UMSVishnuException ERRCODE_UNUSABLE_MACHINE [])
       else Inl (UMSVishnuException denied []))"

definition account_add :: "string \<Rightarrow> local_account \<Rightarrow> unit op" where
  "account_add key la =
     op_bind (op_read (account_access key la ERRCODE_NO_ADMIN)) (\<lambda>me.
     op_bind (op_read (\<lambda>d. Inr (machine_getAttribut (has_machineid (la_machineId la)) nummachineid d))) (\<lambda>numMachine.
     op_bind (op_read (\<lambda>d. Inr (getNumUserId (la_userId la) d))) (\<lambda>numUser.
       if numUser = None
       then op_throw (UMSVishnuException ERRCODE_UNKNOWN_USERID
              (''User '' @ [CHR 0x27] @ la_userId la @ [CHR 0x27] @ '' does not exist'')) else
     op_bind (op_read (\<lambda>d. Inr (account_exist numMachine numUser d))) (\<lambda>ex.
       if ex then op_throw (UMSVishnuException ERRCODE_LOCAL_ACCOUNT_EXIST []) else
     op_bind (op_read (\<lambda>d. Inr (isLoginUsed numMachine (la_acLogin la) d))) (\<lambda>used.
       if used then op_throw (UMSVishnuException ERRCODE_LOGIN_ALREADY_USED []) else
     op_bind (op_read (\<lambda>_. sql_num numMachine)) (\<lambda>m. op_bind (op_read (\<lambda>_. sql_num numUser)) (\<lambda>u.
       op_write (\<lambda>d. d\<lparr>t_account := t_account d @
         [\<lparr>ac_num = q_account d, ac_machine = m, ac_user = u, ac_login = Some (la_acLogin la),
           ac_home = Some (la_homeDirectory la), ac_status = Some STATUS_ACTIVE\<rparr>],
         q_account := q_account d + 1\<rparr>))))))))"

definition account_fields :: "local_account \<Rightarrow> account_row \<Rightarrow> account_row" where
  "account_fields la a =
     a\<lparr>ac_login := (if la_acLogin la \<noteq> [] then Some (la_acLogin la) else ac_login a),
       ac_home := (if la_homeDirectory la \<noteq> [] then Some (la_homeDirectory la) else ac_home a)\<rparr>"

text \<open>An update does not look whether the new login is used, nor at the status of the user or account row.\<close>

definition account_update :: "string \<Rightarrow> local_account \<Rightarrow> unit op" where
  "account_update key la =
     op_bind (op_read (account_access key la ERRCODE_SESSIONKEY_NOT_FOUND)) (\<lambda>me.
     op_bind (op_read (\<lambda>d. Inr (machine_getAttribut (has_machineid (la_machineId la)) nummachineid d))) (\<lambda>numMachine.
     op_bind (op_read (\<lambda>d. Inr (users_getAttribut (\<lambda>r. us_userid r = la_userId la) numuserid d))) (\<lambda>numUser.
     op_bind (op_read (\<lambda>d. Inr (account_exist numMachine numUser d))) (\<lambda>ex.
       if \<not> ex then op_throw (UMSVishnuException ERRCODE_UNKNOWN_LOCAL_ACCOUNT []) else
       if la_acLogin la = [] \<and> la_homeDirectory la = [] then op_ret () else
     op_bind (op_read (\<lambda>_. sql_num numMachine)) (\<lambda>m. op_bind (op_read (\<lambda>_. sql_num numUser)) (\<lambda>u.
       op_write (\<lambda>d. d\<lparr>t_account := sql_update (account_of m u) (account_fields la) (t_account d)\<rparr>)))))))"

definition account_delete :: "string \<Rightarrow> local_account \<Rightarrow> unit op" where
  "account_delete key la =
     op_bind (op_read (account_access key la ERRCODE_NO_ADMIN)) (\<lambda>me.
     op_bind (op_read (\<lambda>d. Inr (machine_getAttribut (has_machineid (la_machineId la)) nummachineid d))) (\<lambda>numMachine.
     op_bind (op_read (\<lambda>d. Inr (users_getAttribut (\<lambda>r. us_userid r = la_userId la) numuserid d))) (\<lambda>numUser.
     op_bind (op_read (\<lambda>d. Inr (account_exist numMachine numUser d))) (\<lambda>ex.
       if \<not> ex then op_throw (UMSVishnuException ERRCODE_UNKNOWN_LOCAL_ACCOUNT []) else
     op_bind (op_read (\<lambda>_. sql_num numMachine)) (\<lambda>m. op_bind (op_read (\<lambda>_. sql_num numUser)) (\<lambda>u.
       op_write (\<lambda>d. d\<lparr>t_account := sql_update (account_of m u)
         (\<lambda>a. a\<lparr>ac_status := Some STATUS_DELETED\<rparr>) (t_account d)\<rparr>)))))))"

end
