(* ===== verification/Fms_Transfer.thy ===== *)
theory Fms_Transfer
  imports Fms_File Ums_Session Ums_Machine Comm_Sed
begin

text \<open>
  The transfers of files: their table, \<^verbatim>\<open>FMS/src/server/FileTransferServer.cpp\<close> with
  \<^verbatim>\<open>FileTransferCommand.cpp\<close>, and the file monitor (\<^verbatim>\<open>MonitorXMS::checkFile\<close>). A synchronous
  transfer runs its thread at once; that of an asynchronous one waits in the state until it is
  run. The conventions for the tables are those of theory Ums_Tables.
\<close>

section \<open>State\<close>

record transfer_row =
  tr_num :: int
  tr_session :: int
  tr_transferid :: "string option"
  tr_userId :: "string option"
  tr_clientMachineId :: "string option"
  tr_sourceMachineId :: "string option"
  tr_destinationMachineId :: "string option"
  tr_sourceFilePath :: "string option"
  tr_destinationFilePath :: "string option"
  tr_status :: "int option"
  tr_fileSize :: "int option"
  tr_trCommand :: "int option"
  tr_processid :: "int option"
  tr_errorMsg :: "string option"
  tr_startTime :: "int option"

text \<open>The object of a transfer, with the defaults of the generated class.\<close>

record file_transfer =
  ft_transferId :: string
  ft_userId :: string
  ft_clientMachineId :: string
  ft_sourceMachineId :: string
  ft_destinationMachineId :: string
  ft_sourceFilePath :: string
  ft_destinationFilePath :: string
  ft_status :: int
  ft_size :: int
  ft_startTime :: int
  ft_trCommand :: int
  ft_errorMsg :: string

definition new_transfer :: "string \<Rightarrow> string \<Rightarrow> string \<Rightarrow> string \<Rightarrow> file_transfer" where
  "new_transfer srcHost destHost srcFilePath destFilePath =
     \<lparr>ft_transferId = [], ft_userId = [], ft_clientMachineId = [], ft_sourceMachineId = srcHost,
      ft_destinationMachineId = destHost, ft_sourceFilePath = srcFilePath, ft_destinationFilePath = destFilePath,
      ft_status = 4, ft_size = -1, ft_startTime = 0, ft_trCommand = 2, ft_errorMsg = []\<rparr>"

datatype transfer_type = Copy | Move

text \<open>What a thread is made with.\<close>

record transfer_exec =
  te_type :: transfer_type
  te_command :: string
  te_srcUser :: string
  te_srcMachineName :: string
  te_srcPath :: string
  te_destUser :: string
  te_destMachineName :: string
  te_destPath :: string
  te_transferId :: string

record fms =
  fm_ums :: db
  t_transfer :: "transfer_row list"
  q_transfer :: int
  fm_log :: "string list"
  fm_threads :: "transfer_exec list"

type_synonym 'a fms_op = "(fms, 'a) step"

text \<open>An operation on the tables of the user management module, and one of the shell, here.\<close>

definition on_users :: "'a op \<Rightarrow> 'a fms_op" where
  "on_users m s = (case m (fm_ums s) of (r, d) \<Rightarrow> (r, s\<lparr>fm_ums := d\<rparr>))"

definition on_shell :: "'a shell_op \<Rightarrow> 'a fms_op" where
  "on_shell m s = (case m (fm_log s) of (r, l) \<Rightarrow> (r, s\<lparr>fm_log := l\<rparr>))"

abbreviation (input) TRANSFER_INPROGRESS :: int where "TRANSFER_INPROGRESS \<equiv> 0"
abbreviation (input) TRANSFER_COMPLETED :: int where "TRANSFER_COMPLETED \<equiv> 1"
abbreviation (input) TRANSFER_CANCELLED :: int where "TRANSFER_CANCELLED \<equiv> 2"
abbreviation (input) TRANSFER_FAILED :: int where "TRANSFER_FAILED \<equiv> 3"
abbreviation (input) TRANSFER_WAITING_CLIENT_RESPONSE :: int where "TRANSFER_WAITING_CLIENT_RESPONSE \<equiv> 4"

section \<open>Statements\<close>

definition has_transferid :: "string \<Rightarrow> transfer_row \<Rightarrow> bool" where
  "has_transferid transferId r \<longleftrightarrow> tr_transferid r = Some transferId"

definition set_transfers :: "(transfer_row \<Rightarrow> bool) \<Rightarrow> (transfer_row \<Rightarrow> transfer_row) \<Rightarrow> fms \<Rightarrow> fms" where
  "set_transfers cond f s = s\<lparr>t_transfer := sql_update cond f (t_transfer s)\<rparr>"

definition blank_transfer :: "int \<Rightarrow> int \<Rightarrow> transfer_row" where
  "blank_transfer key sess =
     \<lparr>tr_num = key, tr_session = sess, tr_transferid = None, tr_userId = None, tr_clientMachineId = None,
      tr_sourceMachineId = None, tr_destinationMachineId = None, tr_sourceFilePath = None,
      tr_destinationFilePath = None, tr_status = None, tr_fileSize = None, tr_trCommand = None,
      tr_processid = None, tr_errorMsg = None, tr_startTime = None\<rparr>"

text \<open>
  \<^verbatim>\<open>getObjectId\<close> for a transfer: the row belongs to the newest session until it is updated; that
  column may not be null.
\<close>

definition transfer_ids :: "fms \<Rightarrow> id_table" where
  "transfer_ids s = \<lparr>rows = map (\<lambda>r. \<lparr>row_key = tr_num r, row_ident = tr_transferid r\<rparr>) (t_transfer s),
     next_key = q_transfer s\<rparr>"

definition newest_session :: "db \<Rightarrow> int option" where
  "newest_session d = (case map vs_num (t_vsession d) of [] \<Rightarrow> None | n # ns \<Rightarrow> Some (foldl max n ns))"

definition transfer_getObjectId :: "date \<Rightarrow> string \<Rightarrow> string fms_op" where
  "transfer_getObjectId now clientMachineName s =
     (case newest_session (fm_ums s) of
        None \<Rightarrow> (Inl (SystemException ERRCODE_DBERR ''null value''), s)
      | Some sess \<Rightarrow>
          (case getObjectId now FILETRANSFERT clientMachineName (transfer_ids s) of (r, t) \<Rightarrow>
            (r, s\<lparr>t_transfer := map2 (\<lambda>j i. j\<lparr>tr_transferid := row_ident i\<rparr>)
                   (t_transfer s @ [blank_transfer (q_transfer s) sess]) (rows t),
                  q_transfer := next_key t\<rparr>)))"

text \<open>The client machine and the user of the session that has the key; the last row counts.\<close>

definition getUserInfo :: "string \<Rightarrow> db \<Rightarrow> string \<times> string" where
  "getUserInfo key d =
     (let sessionId = text_of (vsession_getAttribut (has_key key) vs_sessionid d);
          found = [(text_of (cl_name c), us_userid u). c \<leftarrow> t_clmachine d, u \<leftarrow> t_users d, v \<leftarrow> t_vsession d,
            vs_clmachine v = cl_num c, vs_user v = us_num u, vs_sessionid v = Some sessionId]
      in if found = [] then ([], []) else last found)"

definition transfer_columns :: "int \<Rightarrow> int \<Rightarrow> file_transfer \<Rightarrow> transfer_row \<Rightarrow> transfer_row" where
  "transfer_columns numsession now ft r =
     r\<lparr>tr_session := numsession, tr_userId := Some (ft_userId ft),
       tr_clientMachineId := Some (ft_clientMachineId ft), tr_sourceMachineId := Some (ft_sourceMachineId ft),
       tr_destinationMachineId := Some (ft_destinationMachineId ft),
       tr_sourceFilePath := Some (ft_sourceFilePath ft),
       tr_destinationFilePath := Some (ft_destinationFilePath ft), tr_status := Some (ft_status ft),
       tr_fileSize := Some (ft_size ft), tr_trCommand := Some (ft_trCommand ft), tr_processid := Some (- 1),
       tr_errorMsg := Some (ft_errorMsg ft), tr_startTime := Some now\<rparr>"

definition updateDatabaseRecord :: "fms_env \<Rightarrow> string \<Rightarrow> file_transfer \<Rightarrow> unit fms_op" where
  "updateDatabaseRecord env key ft =
     op_bind (op_read (\<lambda>s. sql_num (vsession_getAttribut (has_key key) numsessionid (fm_ums s)))) (\<lambda>n.
       op_write (set_transfers (has_transferid (ft_transferId ft)) (transfer_columns n (fe_now env) ft)))"

definition updateStatus :: "int \<Rightarrow> string \<Rightarrow> string \<Rightarrow> unit fms_op" where
  "updateStatus status transferId errorMsg =
     op_write (set_transfers (\<lambda>r. has_transferid transferId r \<and> sql_ne (tr_status r) TRANSFER_CANCELLED)
       (\<lambda>r. r\<lparr>tr_status := Some status, tr_errorMsg := Some errorMsg\<rparr>))"

definition updateData :: "fms_env \<Rightarrow> string \<Rightarrow> file_transfer \<Rightarrow> file_transfer fms_op" where
  "updateData env key ft s =
     (let info = getUserInfo key (fm_ums s) in
      op_bind (transfer_getObjectId (fe_date env) (fst info)) (\<lambda>transferId.
        op_ret (ft\<lparr>ft_transferId := transferId, ft_clientMachineId := fst info, ft_userId := snd info\<rparr>)) s)"

section \<open>A transfer\<close>

text \<open>
  \<^verbatim>\<open>getTransferManager\<close>: the command is always that of \<^verbatim>\<open>scp\<close>, whatever the options ask for; compression is on
  when the second argument, a number of seconds at the only call, is not zero.
\<close>

definition transfer_command :: "cp_options \<Rightarrow> bool \<Rightarrow> string" where
  "transfer_command options compress = buildTransferBaseCommand 0 (cp_recursive options) compress 0"

definition transfer_run :: "fms_env \<Rightarrow> transfer_exec \<Rightarrow> string \<Rightarrow> (string \<times> string) shell_op" where
  "transfer_run env te cmd =
     op_bind (execSystemCommand env
       (''/usr/bin/ssh -l '' @ te_srcUser te @ '' -C -o BatchMode=yes  -o StrictHostKeyChecking=no'' @
        '' -o ForwardAgent=yes -p 22 '' @ te_srcMachineName te @ '' '' @ cmd)) (\<lambda>(ok, output).
       op_ret (if \<not> ok then ([], output) else (output, [])))"

definition cleanOutputMsg :: "string \<Rightarrow> string" where
  "cleanOutputMsg allOutputMsg =
     (if starts_with ''Pseudo-terminal'' allOutputMsg
      then (case find_first_of allOutputMsg [CHR 0x0A] of None \<Rightarrow> allOutputMsg | Some pos \<Rightarrow> drop (pos + 1) allOutputMsg)
      else allOutputMsg)"

definition copy_command :: "transfer_exec \<Rightarrow> string" where
  "copy_command te = te_command te @ '' '' @ te_srcPath te @ '' '' @
     te_destUser te @ ''@'' @ te_destMachineName te @ '':'' @ te_destPath te"

definition thread_copy :: "fms_env \<Rightarrow> transfer_exec \<Rightarrow> unit fms_op" where
  "thread_copy env te =
     op_bind (on_shell (transfer_run env te (copy_command te))) (\<lambda>r1.
     op_bind (if contains_str (snd r1) ''Warning'' \<or> contains_str (fst r1) ''Warning''
              then on_shell (transfer_run env te (copy_command te)) else op_ret r1) (\<lambda>trResult.
       let allOutputMsg = cleanOutputMsg (fst trResult @ snd trResult) in
       if allOutputMsg \<noteq> [] then updateStatus TRANSFER_FAILED (te_transferId te) allOutputMsg
       else updateStatus TRANSFER_COMPLETED (te_transferId te) []))"

text \<open>
  The status that \<^verbatim>\<open>move\<close> tests after the copy is the one the constructor gave, 0: nothing else sets it. An
  exception that is none of the program's leaves the thread.
\<close>

definition lastExecStatus :: "transfer_exec \<Rightarrow> int" where
  "lastExecStatus te = 0"

definition thread_move :: "fms_env \<Rightarrow> transfer_exec \<Rightarrow> unit fms_op" where
  "thread_move env te =
     op_bind (thread_copy env te) (\<lambda>_.
       if lastExecStatus te = 0 then
         (\<lambda>s. case on_shell (rm env True (getFileServer (te_srcMachineName te) (te_srcPath te) (te_srcUser te))) s of
                (Inr _, s') \<Rightarrow> (Inr (), s')
              | (Inl e, s') \<Rightarrow>
                  if is_vishnu e then updateStatus TRANSFER_FAILED (te_transferId te) (what e) s' else (Inl e, s'))
       else op_ret ())"

definition run_thread :: "fms_env \<Rightarrow> transfer_exec \<Rightarrow> unit fms_op" where
  "run_thread env te = (case te_type te of Copy \<Rightarrow> thread_copy env te | Move \<Rightarrow> thread_move env te)"

text \<open>
  \<^verbatim>\<open>addTransferThread\<close>: the object of the transfer and the thread that was started, if any. A transfer from or
  to \<^verbatim>\<open>localhost\<close> is left to the client.
\<close>

definition local_transfer :: "string \<Rightarrow> string \<Rightarrow> string \<Rightarrow> string \<Rightarrow> file_transfer \<Rightarrow> file_transfer" where
  "local_transfer srcUser srcMachineName destUser destMachineName ft =
     (if destUser = []
      then ft\<lparr>ft_sourceFilePath := srcUser @ ''@'' @ srcMachineName @ '':'' @ ft_sourceFilePath ft\<rparr>
      else ft\<lparr>ft_destinationFilePath := destUser @ ''@'' @ destMachineName @ '':'' @ ft_destinationFilePath ft\<rparr>)"

definition failed_transfer :: "string \<Rightarrow> file_transfer \<Rightarrow> file_transfer" where
  "failed_transfer errorMsg ft = ft\<lparr>ft_status := TRANSFER_FAILED, ft_errorMsg := errorMsg\<rparr>"

definition start_transfer :: "fms_env \<Rightarrow> string \<Rightarrow> transfer_type \<Rightarrow> string \<Rightarrow> string \<Rightarrow> string \<Rightarrow> string \<Rightarrow> cp_options \<Rightarrow>
    file_transfer \<Rightarrow> (file_transfer \<times> transfer_exec option) fms_op" where
  "start_transfer env key type srcUser srcMachineName destUser destMachineName options ft0 =
     op_bind (on_shell (up_to_date env (getFileServer srcMachineName (ft_sourceFilePath ft0) srcUser))) (\<lambda>f.
       let ft = ft0\<lparr>ft_trCommand := cp_trCommand options, ft_status := TRANSFER_INPROGRESS\<rparr> in
       if \<not> sf_exist f \<or> sf_error f \<noteq> [] then
         op_bind (updateDatabaseRecord env key (failed_transfer (sf_error f) (ft\<lparr>ft_size := 0, ft_startTime := 0\<rparr>))) (\<lambda>_.
           op_throw (FMSVishnuException ERRCODE_RUNTIME_ERROR (sf_error f)))
       else
         let ft1 = ft\<lparr>ft_size := sf_size f, ft_startTime := 0\<rparr> in
         if srcUser = destUser \<and> srcMachineName = destMachineName \<and> ft_sourceFilePath ft1 = ft_destinationFilePath ft1 then
           op_bind (updateDatabaseRecord env key (failed_transfer ''same source and destination'' ft1)) (\<lambda>_.
             op_throw (FMSVishnuException ERRCODE_RUNTIME_ERROR ''same source and destination ''))
         else
           op_bind (updateDatabaseRecord env key ft1) (\<lambda>_.
             op_ret (ft1, Some \<lparr>te_type = type, te_command = transfer_command options False,
               te_srcUser = srcUser, te_srcMachineName = srcMachineName, te_srcPath = ft_sourceFilePath ft1,
               te_destUser = destUser, te_destMachineName = destMachineName,
               te_destPath = ft_destinationFilePath ft1, te_transferId = ft_transferId ft1\<rparr>)))"

definition addTransferThread :: "fms_env \<Rightarrow> string \<Rightarrow> transfer_type \<Rightarrow> string \<Rightarrow> string \<Rightarrow> string \<Rightarrow> string \<Rightarrow> cp_options \<Rightarrow>
    file_transfer \<Rightarrow> (file_transfer \<times> transfer_exec option) fms_op" where
  "addTransferThread env key type srcUser srcMachineName destUser destMachineName options ft0 =
     op_bind (updateData env key ft0) (\<lambda>ft.
       if fst (ifLocalTransferInvolved srcMachineName destMachineName 0) then
         let ft1 = ft\<lparr>ft_status := TRANSFER_WAITING_CLIENT_RESPONSE\<rparr> in
         op_bind (updateDatabaseRecord env key ft1) (\<lambda>_.
           op_ret (local_transfer srcUser srcMachineName destUser destMachineName ft1, None))
       else start_transfer env key type srcUser srcMachineName destUser destMachineName options ft)"

definition getErrorFromDatabase :: "string \<Rightarrow> fms \<Rightarrow> string" where
  "getErrorFromDatabase transferId s = text_of (first_element tr_errorMsg (has_transferid transferId) (t_transfer s))"

text \<open>
  The four ways to add a thread; a move is always recursive. A synchronous one waits for the thread and throws what
  the thread wrote into the row.
\<close>

definition thread_options :: "transfer_type \<Rightarrow> cp_options \<Rightarrow> cp_options" where
  "thread_options type options = (case type of Copy \<Rightarrow> options | Move \<Rightarrow> options\<lparr>cp_recursive := True\<rparr>)"

definition waitThread :: "fms_env \<Rightarrow> transfer_exec option \<Rightarrow> unit fms_op" where
  "waitThread env t = (case t of None \<Rightarrow> op_ret () | Some te \<Rightarrow> run_thread env te)"

definition add_sync :: "fms_env \<Rightarrow> string \<Rightarrow> transfer_type \<Rightarrow> string \<Rightarrow> string \<Rightarrow> string \<Rightarrow> string \<Rightarrow> cp_options \<Rightarrow>
    file_transfer \<Rightarrow> file_transfer fms_op" where
  "add_sync env key type srcUser srcMachineName destUser destMachineName options ft0 =
     op_bind (addTransferThread env key type srcUser srcMachineName destUser destMachineName (thread_options type options) ft0) (\<lambda>(ft, t).
     op_bind (waitThread env t) (\<lambda>_.
     op_bind (op_read (\<lambda>s. Inr (getErrorFromDatabase (ft_transferId ft) s))) (\<lambda>errorMsg.
       if errorMsg \<noteq> [] then op_throw (FMSVishnuException ERRCODE_RUNTIME_ERROR errorMsg) else op_ret ft)))"

definition add_async :: "fms_env \<Rightarrow> string \<Rightarrow> transfer_type \<Rightarrow> string \<Rightarrow> string \<Rightarrow> string \<Rightarrow> string \<Rightarrow> cp_options \<Rightarrow>
    file_transfer \<Rightarrow> file_transfer fms_op" where
  "add_async env key type srcUser srcMachineName destUser destMachineName options ft0 =
     op_bind (addTransferThread env key type srcUser srcMachineName destUser destMachineName (thread_options type options) ft0) (\<lambda>(ft, t).
     op_bind (op_write (\<lambda>s. s\<lparr>fm_threads := fm_threads s @ (case t of None \<Rightarrow> [] | Some te \<Rightarrow> [te])\<rparr>)) (\<lambda>_.
       op_ret ft))"

section \<open>Stopping transfers\<close>

definition checkTransferId :: "string \<Rightarrow> fms \<Rightarrow> unit result" where
  "checkTransferId transferId s =
     (if list_ex (has_transferid transferId) (t_transfer s) then Inr ()
      else Inl (UserException ERRCODE_INVALID_PARAM ''Invalid transfer identifier''))"

definition checkUserId :: "string \<Rightarrow> db \<Rightarrow> unit result" where
  "checkUserId userId d =
     (if list_ex (\<lambda>u. us_userid u = userId) (t_users d) then Inr ()
      else Inl (UMSVishnuException ERRCODE_UNKNOWN_USERID []))"

abbreviation (input) all_name :: "string \<Rightarrow> bool" where
  "all_name v \<equiv> v = ''all'' \<or> v = ''ALL''"

text \<open>The rows that the options select, besides their being in progress.\<close>

definition processOptions :: "string \<Rightarrow> transfer_options \<Rightarrow> fms \<Rightarrow> (transfer_row \<Rightarrow> bool) result" where
  "processOptions key options s =
     (let byId = to_transferId options \<noteq> [] \<and> \<not> all_name (to_transferId options) in
      res_bind (if byId then checkTransferId (to_transferId options) s else Inr ()) (\<lambda>_.
      res_bind (user_init (Some key) empty_user (fm_ums s)) (\<lambda>me.
      res_bind (if to_userId options = [] then Inr (Some (u_userId me))
                else if \<not> isAdmin me (fm_ums s) then Inl (UMSVishnuException ERRCODE_NO_ADMIN [])
                else if all_name (to_userId options) then Inr None
                else res_bind (checkUserId (to_userId options) (fm_ums s)) (\<lambda>_. Inr (Some (to_userId options)))) (\<lambda>user.
        Inr (\<lambda>r. (byId \<longrightarrow> has_transferid (to_transferId options) r) \<and>
                 (to_fromMachineId options \<noteq> [] \<longrightarrow>
                    tr_sourceMachineId r = Some (to_fromMachineId options) \<or>
                    tr_destinationMachineId r = Some (to_fromMachineId options)) \<and>
                 (case user of None \<Rightarrow> True | Some u \<Rightarrow> tr_userId r = Some u))))))"

definition in_progress :: "fms \<Rightarrow> transfer_row \<Rightarrow> bool" where
  "in_progress s r \<longleftrightarrow> list_ex (\<lambda>v. vs_num v = tr_session r) (t_vsession (fm_ums s)) \<and> tr_status r = Some TRANSFER_INPROGRESS"

text \<open>The user who asked, as the first row of the query gives him.\<close>

definition stopping_user :: "string \<Rightarrow> db \<Rightarrow> string" where
  "stopping_user key d =
     (let sessionId = text_of (vsession_getAttribut (has_key key) vs_sessionid d) in
      case [us_userid u. u \<leftarrow> t_users d, v \<leftarrow> t_vsession d, vs_user v = us_num u, vs_sessionid v = Some sessionId] of
        [] \<Rightarrow> [] | u # _ \<Rightarrow> u)"

definition stop_one :: "fms_env \<Rightarrow> string \<Rightarrow> string \<Rightarrow> int \<Rightarrow> unit fms_op" where
  "stop_one env key transferid pid =
     (if pid \<noteq> -1 then
        (case fe_kill env pid of
           Some msg \<Rightarrow> op_bind (updateStatus TRANSFER_FAILED transferid msg) (\<lambda>_.
             op_throw (FMSVishnuException ERRCODE_RUNTIME_ERROR msg))
         | None \<Rightarrow> op_bind (op_read (\<lambda>s. Inr (stopping_user key (fm_ums s)))) (\<lambda>u.
             updateStatus TRANSFER_CANCELLED transferid (''by: '' @ u)))
      else op_ret ())"

fun stop_loop :: "fms_env \<Rightarrow> string \<Rightarrow> transfer_row list \<Rightarrow> unit fms_op" where
  "stop_loop env key [] = op_ret ()"
| "stop_loop env key (r # rs) =
     op_bind (stop_one env key (text_of (tr_transferid r)) (int_of (tr_processid r))) (\<lambda>_. stop_loop env key rs)"

definition stopThread :: "fms_env \<Rightarrow> string \<Rightarrow> transfer_options \<Rightarrow> unit fms_op" where
  "stopThread env key options =
     (if to_transferId options \<noteq> [] \<or> to_userId options \<noteq> [] \<or> to_fromMachineId options \<noteq> [] then
        op_bind (op_read (\<lambda>s. session_check (session_of_key key) (fm_ums s))) (\<lambda>_.
        op_bind (op_read (processOptions key options)) (\<lambda>cond.
        op_bind (op_read (\<lambda>s. Inr (filter (\<lambda>r. in_progress s r \<and> cond r) (t_transfer s)))) (\<lambda>rs.
          if rs = [] then op_throw (FMSVishnuException ERRCODE_RUNTIME_ERROR ''There is no file transfer in progress '')
          else stop_loop env key rs)))
      else op_ret ())"

section \<open>The monitor\<close>

text \<open>A number as the text the database gives for it.\<close>

definition num_text :: "int option \<Rightarrow> string" where
  "num_text v = (case v of None \<Rightarrow> [] | Some n \<Rightarrow> show_int n)"

definition transfer_lost :: "fms_env \<Rightarrow> transfer_row \<Rightarrow> fms \<Rightarrow> fms" where
  "transfer_lost env r s =
     (if fe_alive env (num_text (tr_processid r)) then s
      else set_transfers (has_transferid (text_of (tr_transferid r))) (\<lambda>q. q\<lparr>tr_status := Some TRANSFER_FAILED\<rparr>) s)"

definition checkFile :: "fms_env \<Rightarrow> fms \<Rightarrow> fms" where
  "checkFile env s = fold (transfer_lost env) (filter (in_progress s) (t_transfer s)) s"

end
