(* ===== verification/Ums_Auth.thy ===== *)
theory Ums_Auth
  imports Ums_Machine
begin

text \<open>
  The user-authentication systems and the accounts on them: \<^verbatim>\<open>AuthSystemServer.cpp\<close>,
  \<^verbatim>\<open>AuthAccountServer.cpp\<close> and the requests of \<^verbatim>\<open>core/src/database/RequestFactory.cpp\<close> they use.
\<close>

section \<open>Authentication systems\<close>

abbreviation numauthsystemid :: "authsystem_row \<Rightarrow> int option" where "numauthsystemid y \<equiv> Some (ay_num y)"

definition has_authsystemid :: "string \<Rightarrow> authsystem_row \<Rightarrow> bool" where
  "has_authsystemid i y \<longleftrightarrow> ay_authsystemid y = Some i"

definition authsystem_getAttribut :: "(authsystem_row \<Rightarrow> bool) \<Rightarrow> (authsystem_row \<Rightarrow> 'a option) \<Rightarrow> db \<Rightarrow>
    'a option" where
  "authsystem_getAttribut cond attr d = first_element attr cond (t_authsystem d)"

definition checkLdapBase :: "auth_system \<Rightarrow> unit result" where
  "checkLdapBase a =
     (if find_str (as_ldapBase a) ''$USERNAME'' = None
      then Inl (UserException ERRCODE_INVALID_PARAM ''No $USERNAME string found in the ldapBase'')
      else Inr ())"

definition checkValues :: "auth_system \<Rightarrow> unit result" where
  "checkValues a =
     (if as_type a \<noteq> LDAPTYPE then Inl (UMSVishnuException ERRCODE_UNKNOWN_AUTH_SYSTEM_TYPE ''Invalid type'')
      else if as_ldapBase a = []
      then Inl (UMSVishnuException ERRCODE_UNKNOWN_AUTH_SYSTEM_TYPE ''Missing ldap base'')
      else res_bind (checkLdapBase a) (\<lambda>_.
        if as_userPasswordEncryption a \<noteq> SSHA_METHOD
        then Inl (UMSVishnuException ERRCODE_UNKNOWN_ENCRYPTION_METHOD ''Invalid encryption method'')
        else Inr ()))"

definition authsystem_exist :: "auth_system \<Rightarrow> db \<Rightarrow> bool" where
  "authsystem_exist a d \<longleftrightarrow>
     authsystem_getAttribut (\<lambda>y. has_authsystemid (as_authSystemId a) y \<and> sql_ne (ay_status y) STATUS_DELETED)
       numauthsystemid d \<noteq> None"

definition authsystem_ids :: "db \<Rightarrow> id_table" where
  "authsystem_ids d =
     \<lparr>rows = map (\<lambda>y. \<lparr>row_key = ay_num y, row_ident = ay_authsystemid y\<rparr>) (t_authsystem d),
      next_key = q_authsystem d\<rparr>"

definition authsystem_getObjectId :: "ums_env \<Rightarrow> string \<Rightarrow> string op" where
  "authsystem_getObjectId env name d =
     (case getObjectId (ev_date env) AUTH name (authsystem_ids d) of (r, t) \<Rightarrow>
        (r, d\<lparr>t_authsystem :=
                map2 (\<lambda>y i. y\<lparr>ay_authsystemid := row_ident i\<rparr>)
                  (t_authsystem d @ [\<lparr>ay_num = q_authsystem d, ay_authsystemid = None, ay_name = None,
                     ay_uri = None, ay_authlogin = None, ay_authpassword = None, ay_userpwdencryption = None,
                     ay_authtype = None, ay_status = Some STATUS_UNDEFINED\<rparr>]) (rows t),
              q_authsystem := next_key t\<rparr>))"

definition new_authsystem_fields :: "auth_system \<Rightarrow> authsystem_row \<Rightarrow> authsystem_row" where
  "new_authsystem_fields a y =
     y\<lparr>ay_name := Some (as_name a), ay_uri := Some (as_URI a), ay_authlogin := Some (as_authLogin a),
       ay_authpassword := Some (as_authPassword a),
       ay_userpwdencryption := Some (as_userPasswordEncryption a), ay_authtype := Some (as_type a),
       ay_status := Some (as_status a)\<rparr>"

definition authsystem_add :: "ums_env \<Rightarrow> string \<Rightarrow> auth_system \<Rightarrow> auth_system op" where
  "authsystem_add env key a =
     op_bind (op_read (admin_caller key)) (\<lambda>me.
     op_bind (op_read (\<lambda>_. checkValues a)) (\<lambda>_.
     op_bind (authsystem_getObjectId env (as_name a)) (\<lambda>i.
     let a1 = a\<lparr>as_authSystemId := i\<rparr> in
     op_bind (op_read (\<lambda>d. Inr (length (filter
         (\<lambda>y. has_authsystemid (as_authSystemId a1) y \<and> ay_status y = Some STATUS_UNDEFINED)
         (t_authsystem d))))) (\<lambda>n.
       if n \<noteq> 1 then op_throw (UMSVishnuException ERRCODE_AUTH_SYSTEM_ALREADY_EXIST []) else
     let a2 = a1\<lparr>as_status := STATUS_ACTIVE\<rparr> in
     op_bind (op_write (\<lambda>d. d\<lparr>t_authsystem := sql_update (has_authsystemid (as_authSystemId a2))
         (new_authsystem_fields a2) (t_authsystem d)\<rparr>)) (\<lambda>_.
       if as_type a2 = LDAPTYPE then
         op_bind (op_read (\<lambda>d. sql_num
           (authsystem_getAttribut (has_authsystemid (as_authSystemId a2)) numauthsystemid d))) (\<lambda>num.
         op_bind (op_write (\<lambda>d. d\<lparr>t_ldapauthsystem := t_ldapauthsystem d @
             [\<lparr>ld_authsystem = num, ld_ldapbase = Some (as_ldapBase a2)\<rparr>]\<rparr>)) (\<lambda>_. op_ret a2))
       else op_ret a2)))))"

text \<open>The columns an update sets, and the checks that come while its statements are put together.\<close>

definition authsystem_fields :: "auth_system \<Rightarrow> authsystem_row \<Rightarrow> authsystem_row" where
  "authsystem_fields a y =
     y\<lparr>ay_name := (if as_name a \<noteq> [] then Some (as_name a) else ay_name y),
       ay_uri := (if as_URI a \<noteq> [] then Some (as_URI a) else ay_uri y),
       ay_authlogin := (if as_authLogin a \<noteq> [] then Some (as_authLogin a) else ay_authlogin y),
       ay_authpassword := (if as_authPassword a \<noteq> [] then Some (as_authPassword a) else ay_authpassword y),
       ay_userpwdencryption := (if as_userPasswordEncryption a \<noteq> STATUS_UNDEFINED
                                then Some (as_userPasswordEncryption a) else ay_userpwdencryption y),
       ay_authtype := (if as_type a \<noteq> STATUS_UNDEFINED then Some (as_type a) else ay_authtype y),
       ay_status := (if as_status a \<noteq> STATUS_UNDEFINED then Some (as_status a) else ay_status y)\<rparr>"

definition authsystem_update_checks :: "auth_system \<Rightarrow> db \<Rightarrow> unit result" where
  "authsystem_update_checks a d =
     res_bind (if as_ldapBase a \<noteq> [] then
         res_bind (checkLdapBase a) (\<lambda>_.
           if int_of (authsystem_getAttribut (has_authsystemid (as_authSystemId a)) ay_authtype d) \<noteq> LDAPTYPE
           then Inl (UMSVishnuException ERRCODE_INVALID_PARAM
             ''The ldap base option is incompatible with the user authentication system type'')
           else Inr ())
       else Inr ()) (\<lambda>_.
     if as_status a = 0 \<and>
        int_of (authsystem_getAttribut (has_authsystemid (as_authSystemId a)) ay_status d) = 0
     then Inl (UMSVishnuException ERRCODE_AUTH_SYSTEM_ALREADY_LOCKED []) else Inr ())"

definition authsystem_update :: "string \<Rightarrow> auth_system \<Rightarrow> unit op" where
  "authsystem_update key a =
     op_bind (op_read (admin_caller key)) (\<lambda>me.
     op_bind (op_read (\<lambda>d. Inr (authsystem_exist a d))) (\<lambda>ex.
       if \<not> ex then op_throw (UMSVishnuException ERRCODE_UNKNOWN_AUTH_SYSTEM []) else
     op_bind (op_read (authsystem_update_checks a)) (\<lambda>_.
       op_write (\<lambda>d. d\<lparr>
         t_authsystem := sql_update (has_authsystemid (as_authSystemId a)) (authsystem_fields a) (t_authsystem d),
         t_ldapauthsystem := sql_update
           (\<lambda>l. as_ldapBase a \<noteq> [] \<and>
              list_ex (\<lambda>y. ay_num y = ld_authsystem l \<and> has_authsystemid (as_authSystemId a) y) (t_authsystem d))
           (\<lambda>l. l\<lparr>ld_ldapbase := Some (as_ldapBase a)\<rparr>) (t_ldapauthsystem d)\<rparr>))))"

definition authsystem_delete :: "string \<Rightarrow> auth_system \<Rightarrow> unit op" where
  "authsystem_delete key a =
     op_bind (op_read (admin_caller key)) (\<lambda>me.
     op_bind (op_read (\<lambda>d. Inr (authsystem_exist a d))) (\<lambda>ex.
       if \<not> ex then op_throw (UMSVishnuException ERRCODE_UNKNOWN_AUTH_SYSTEM []) else
     op_bind (op_write (\<lambda>d. d\<lparr>t_authsystem := sql_update (has_authsystemid (as_authSystemId a))
         (\<lambda>y. y\<lparr>ay_status := Some STATUS_DELETED\<rparr>) (t_authsystem d)\<rparr>)) (\<lambda>_.
       op_write (\<lambda>d. d\<lparr>t_authaccount := sql_update
         (\<lambda>u. list_ex (\<lambda>y. ay_num y = au_authsystem u \<and> has_authsystemid (as_authSystemId a) y) (t_authsystem d))
         (\<lambda>u. u\<lparr>au_status := Some STATUS_DELETED\<rparr>) (t_authaccount d)\<rparr>))))"

section \<open>Authentication accounts\<close>

definition authaccount_getAttribut :: "(authaccount_row \<Rightarrow> bool) \<Rightarrow> (authaccount_row \<Rightarrow> 'a option) \<Rightarrow> db \<Rightarrow>
    'a option" where
  "authaccount_getAttribut cond attr d = first_element attr cond (t_authaccount d)"

definition authaccount_of :: "int \<Rightarrow> int \<Rightarrow> authaccount_row \<Rightarrow> bool" where
  "authaccount_of y u a \<longleftrightarrow> au_authsystem a = y \<and> au_user a = u"

definition authaccount_exist :: "int option \<Rightarrow> int option \<Rightarrow> db \<Rightarrow> bool" where
  "authaccount_exist idAuthSystem idUser d =
     (case (idAuthSystem, idUser) of
        (Some y, Some u) \<Rightarrow>
          authaccount_getAttribut (\<lambda>a. authaccount_of y u a \<and> sql_ne (au_status a) STATUS_DELETED)
            (\<lambda>a. Some (au_num a)) d \<noteq> None
      | _ \<Rightarrow> False)"

definition auth_isLoginUsed :: "int option \<Rightarrow> string \<Rightarrow> db \<Rightarrow> bool" where
  "auth_isLoginUsed numAuthSystem acLogin d =
     (case numAuthSystem of
        None \<Rightarrow> False
      | Some y \<Rightarrow> acLogin \<noteq> [] \<and>
          authaccount_getAttribut (\<lambda>a. au_authsystem a = y \<and> au_login a = Some acLogin \<and>
            au_status a = Some STATUS_ACTIVE) (\<lambda>a. Some (au_user a)) d \<noteq> None)"

definition checkAuthAccountUserId :: "user \<Rightarrow> auth_account \<Rightarrow> db \<Rightarrow> auth_account result" where
  "checkAuthAccountUserId me aa d =
     (if aa_userId aa \<noteq> [] then
        (if isAdmin me d then Inr aa else Inl (UMSVishnuException ERRCODE_NO_ADMIN []))
      else Inr (aa\<lparr>aa_userId := u_userId me\<rparr>))"

definition authaccount_target :: "string \<Rightarrow> auth_account \<Rightarrow> db \<Rightarrow>
    (auth_account \<times> int option \<times> int option) result" where
  "authaccount_target key aa d =
     res_bind (caller key d) (\<lambda>me.
     res_bind (checkAuthAccountUserId me aa d) (\<lambda>aa1.
       if authsystem_getAttribut (\<lambda>y. has_authsystemid (aa_authSystemId aa1) y \<and> ay_status y = Some STATUS_ACTIVE)
            numauthsystemid d = None
       then Inl (UMSVishnuException ERRCODE_UNKNOWN_AUTH_SYSTEM [])
       else Inr (aa1, authsystem_getAttribut (has_authsystemid (aa_authSystemId aa1)) numauthsystemid d,
                 users_getAttribut (\<lambda>r. us_userid r = aa_userId aa1) numuserid d)))"

text \<open>
  An addition with an empty login makes no statement: an empty command is what the server then gets,
  and that is an error.
\<close>

definition addOrUpdate :: "bool \<Rightarrow> string \<Rightarrow> auth_account \<Rightarrow> unit op" where
  "addOrUpdate update key aa =
     op_bind (op_read (authaccount_target key aa)) (\<lambda>(aa1, numAuthSystem, numUser).
     op_bind (op_read (\<lambda>d. Inr (authaccount_exist numAuthSystem numUser d))) (\<lambda>ex.
       if ex \<noteq> update then op_throw (UMSVishnuException ERRCODE_UNKNOWN_AUTH_ACCOUNT []) else
     op_bind (op_read (\<lambda>d. Inr (auth_isLoginUsed numAuthSystem (aa_acLogin aa1) d))) (\<lambda>used.
       if used then op_throw (UMSVishnuException ERRCODE_LOGIN_ALREADY_USED []) else
       if \<not> update \<and> aa_acLogin aa1 = [] then op_throw (SystemException ERRCODE_DBERR ''empty query'') else
     op_bind (op_read (\<lambda>_. sql_num numAuthSystem)) (\<lambda>y. op_bind (op_read (\<lambda>_. sql_num numUser)) (\<lambda>u.
       if update then
         op_write (\<lambda>d. d\<lparr>t_authaccount := sql_update (authaccount_of y u)
           (\<lambda>a. a\<lparr>au_login := Some (aa_acLogin aa1)\<rparr>) (t_authaccount d)\<rparr>)
       else
         op_write (\<lambda>d. d\<lparr>t_authaccount := t_authaccount d @
           [\<lparr>au_num = q_authaccount d, au_authsystem = y, au_user = u, au_login = Some (aa_acLogin aa1),
             au_status = Some STATUS_ACTIVE\<rparr>],
           q_authaccount := q_authaccount d + 1\<rparr>))))))"

definition authaccount_delete :: "string \<Rightarrow> auth_account \<Rightarrow> unit op" where
  "authaccount_delete key aa =
     op_bind (op_read (authaccount_target key aa)) (\<lambda>(aa1, numAuthSystem, numUser).
     op_bind (op_read (\<lambda>d. Inr (authaccount_exist numAuthSystem numUser d))) (\<lambda>ex.
       if \<not> ex then op_throw (UMSVishnuException ERRCODE_UNKNOWN_AUTH_ACCOUNT []) else
     op_bind (op_read (\<lambda>_. sql_num numAuthSystem)) (\<lambda>y. op_bind (op_read (\<lambda>_. sql_num numUser)) (\<lambda>u.
       op_write (\<lambda>d. d\<lparr>t_authaccount := sql_update (authaccount_of y u)
         (\<lambda>a. a\<lparr>au_status := Some STATUS_DELETED\<rparr>) (t_authaccount d)\<rparr>)))))"

end
