(* ===== verification/Ums_Service.thy ===== *)
theory Ums_Service
  imports Ums_Auth Ums_Mapper Comm_Sed
begin

text \<open>
  The services of the user management module (\<^verbatim>\<open>XMS/src/internalApiUMS.cpp\<close>): each takes its
  parameters from the profile, runs an operation of a server object, records the command with
  \<^verbatim>\<open>SessionServer::finish\<close> and answers with a status and a value. The serializers of the objects and the
  version of the server are parameters, like the parsers. The queries of the list services are not
  modelled, nor \<^verbatim>\<open>solveRestore\<close>, which runs the SQL text a client sends, without a session.
\<close>

section \<open>What the services share\<close>

record ums_serializers =
  ser_session :: "session \<Rightarrow> string"
  ser_user :: "user \<Rightarrow> string"
  ser_machine :: "machine \<Rightarrow> string"
  ser_auth_system :: "auth_system \<Rightarrow> string"
  parse_version :: "string \<Rightarrow> version option"
  parse_connect_options :: "string \<Rightarrow> connect_options option"
  server_version :: string

abbreviation (input) CMDFAILED :: int where "CMDFAILED \<equiv> 0"
abbreviation (input) CMDSUCCESS :: int where "CMDSUCCESS \<equiv> 1"
abbreviation (input) UMS :: int where "UMS \<equiv> 0"

text \<open>
  The text of a command, which the mapper builds from its code and its parameters (theory Registry): the
  mapper is in the same state afterwards.
\<close>

definition ums_coded :: "string \<Rightarrow> string list \<Rightarrow> string" where
  "ums_coded name args =
     (case filter (\<lambda>(k, n). n = name) ums_table of
        [] \<Rightarrow> []
      | (k, n) # _ \<Rightarrow> mapper.command_text (show_int k) args)"

definition reply :: "diet_profile \<Rightarrow> string \<Rightarrow> string \<Rightarrow> diet_profile" where
  "reply pb status val = pb\<lparr>param_count := 2, params := [status, val]\<rparr>"

text \<open>
  The common body: the operation gives the value of the answer and the identifier of the object it
  made; the flags say whether \<^verbatim>\<open>finish\<close> checks the session after success and after failure.
\<close>

definition session_service :: "ums_env \<Rightarrow> diet_profile \<Rightarrow> string \<Rightarrow> string \<Rightarrow> bool \<Rightarrow> bool \<Rightarrow> (string \<times> string) op \<Rightarrow>
    diet_profile op" where
  "session_service env pb key cmd okCheck failCheck body d =
     (let ss = session_of_key key;
          failed = (\<lambda>e d1.
            if is_vishnu e then
              (case session_finish env ss cmd UMS CMDFAILED [] failCheck d1 of
                 (Inr _, d2) \<Rightarrow> (Inr (reply pb ''error'' (what e)), d2)
               | (Inl fe, d2) \<Rightarrow>
                   if is_vishnu fe then (Inr (reply pb ''error'' (what (appendMsgComp e (what fe)))), d2)
                   else (Inl fe, d2))
            else (Inl e, d1))
      in case body d of
           (Inr (out, newId), d1) \<Rightarrow>
             (case session_finish env ss cmd UMS CMDSUCCESS newId okCheck d1 of
                (Inr _, d2) \<Rightarrow> (Inr (reply pb ''success'' out), d2)
              | (Inl e, d2) \<Rightarrow> failed e d2)
         | (Inl e, d1) \<Rightarrow> failed e d1)"

definition done_with :: "unit op \<Rightarrow> (string \<times> string) op" where
  "done_with f = op_bind f (\<lambda>_. op_ret ([], []))"

abbreviation bad_param :: exn where
  "bad_param \<equiv> UMSVishnuException ERRCODE_INVALID_PARAM []"

text \<open>
  \<^verbatim>\<open>VersionManager::isCompatible\<close> and the checks of a client's version.
\<close>

definition version_error :: "version \<Rightarrow> version \<Rightarrow> string" where
  "version_error mclient mserver =
     (if v_major mclient \<noteq> v_major mserver then
        ''Compatibility problem: the major of the server version (v'' @ v_string mserver @
        '') is different of the client'' @ [CHR 0x27] @ ''s major version (v'' @ v_string mclient @ '')''
      else if v_minor mclient > v_minor mserver then
        ''Compatibility problem: The minor of the server version (v'' @ v_string mserver @
        '') is lower than the client'' @ [CHR 0x27] @ ''s minor version (v'' @ v_string mclient @ '')''
      else [])"

definition check_version :: "ums_serializers \<Rightarrow> string \<Rightarrow> string \<Rightarrow> unit result" where
  "check_version S malformed v =
     res_bind (parse_or bad_param (parse_version S) v) (\<lambda>versionClient.
       (case parseVersion (server_version S) of
          None \<Rightarrow> Inl (UMSVishnuException ERRCODE_INVALID_PARAM malformed)
        | Some versionServer \<Rightarrow>
            if version_error versionClient versionServer \<noteq> []
            then Inl (UMSVishnuException ERRCODE_INVALID_PARAM (version_error versionClient versionServer))
            else Inr ()))"

text \<open>A service without a session: the outcome is the answer and nothing is recorded.\<close>

definition plain_service :: "diet_profile \<Rightarrow> string op \<Rightarrow> diet_profile op" where
  "plain_service pb body d =
     (case body d of
        (Inr out, d1) \<Rightarrow> (Inr (reply pb ''success'' out), d1)
      | (Inl e, d1) \<Rightarrow> if is_vishnu e then (Inr (reply pb ''error'' (what e)), d1) else (Inl e, d1))"

definition with_args :: "nat \<Rightarrow> diet_profile \<Rightarrow> (string list \<Rightarrow> diet_profile op) \<Rightarrow> diet_profile op" where
  "with_args n pb f = op_bind (op_read (\<lambda>_. res_map (\<lambda>i. diet_string_get pb (int i)) [0..<n])) f"

section \<open>Sessions and passwords\<close>

definition solveSessionConnect :: "ums_env \<Rightarrow> ums_serializers \<Rightarrow> diet_profile \<Rightarrow> diet_profile op" where
  "solveSessionConnect env S pb = with_args 6 pb (\<lambda>a.
     plain_service pb (
       op_bind (op_read (\<lambda>_. check_version S
         ''The format of the VISHNU VERSION of the server is incorrect'' (a ! 5))) (\<lambda>_.
       op_bind (op_read (\<lambda>_. parse_or bad_param (parse_connect_options S) (a ! 4))) (\<lambda>opt.
       op_bind (connectSession env (empty_user\<lparr>u_userId := a ! 0, u_password := a ! 1\<rparr>)
           \<lparr>mmachineSSHKey = a ! 2, mhostname = a ! 3\<rparr> opt (session_of_key [])) (\<lambda>ss.
         op_ret (ser_session S (msession ss)))))))"

definition solveSessionReconnect :: "ums_env \<Rightarrow> ums_serializers \<Rightarrow> diet_profile \<Rightarrow> diet_profile op" where
  "solveSessionReconnect env S pb = with_args 6 pb (\<lambda>a.
     plain_service pb (
       op_bind (op_read (\<lambda>_. check_version S ''The parameter version of the server is mal formed'' (a ! 5))) (\<lambda>_.
       op_bind (op_read (reconnect env (empty_user\<lparr>u_userId := a ! 0, u_password := a ! 1\<rparr>)
           \<lparr>mmachineSSHKey = a ! 2, mhostname = a ! 3\<rparr> (a ! 4) (session_of_key []))) (\<lambda>ss.
         op_ret (ser_session S (msession ss))))))"

definition solveSessionClose :: "ums_env \<Rightarrow> diet_profile \<Rightarrow> diet_profile op" where
  "solveSessionClose env pb = with_args 1 pb (\<lambda>a.
     session_service env pb (a ! 0) (ums_coded ''vishnu_close'' []) False True
       (done_with (session_close env (session_of_key (a ! 0)))))"

definition solveUserPasswordChange :: "ums_env \<Rightarrow> ums_serializers \<Rightarrow> diet_profile \<Rightarrow> diet_profile op" where
  "solveUserPasswordChange env S pb = with_args 4 pb (\<lambda>a.
     plain_service pb (
       op_bind (op_read (\<lambda>_. check_version S
         ''The format of the VISHNU VERSION of the server is incorrect'' (a ! 3))) (\<lambda>_.
       op_bind (changePassword env (empty_user\<lparr>u_userId := a ! 0, u_password := a ! 1\<rparr>) (a ! 2)) (\<lambda>_.
         op_ret []))))"

section \<open>Users\<close>

definition solveUserCreate :: "ums_env \<Rightarrow> ums_parsers \<Rightarrow> ums_serializers \<Rightarrow> diet_profile \<Rightarrow> diet_profile op" where
  "solveUserCreate env P S pb = with_args 2 pb (\<lambda>a.
     session_service env pb (a ! 0) (ums_coded ''vishnu_add_user'' [a ! 1]) True True (
       op_bind (op_read (\<lambda>_. parse_or bad_param (parse_user P) (a ! 1))) (\<lambda>u.
       op_bind (op_read (user_init (Some (a ! 0)) empty_user)) (\<lambda>me.
       op_bind (user_add env me u) (\<lambda>u'. op_ret (ser_user S u', u_userId u'))))))"

definition solveUserUpdate :: "ums_env \<Rightarrow> ums_parsers \<Rightarrow> diet_profile \<Rightarrow> diet_profile op" where
  "solveUserUpdate env P pb = with_args 2 pb (\<lambda>a.
     session_service env pb (a ! 0) (ums_coded ''vishnu_update_user'' [a ! 1]) True True (
       op_bind (op_read (\<lambda>_. parse_or bad_param (parse_user P) (a ! 1))) (\<lambda>u.
       op_bind (op_read (user_init (Some (a ! 0)) empty_user)) (\<lambda>me. done_with (user_update me u)))))"

definition solveUserDelete :: "ums_env \<Rightarrow> diet_profile \<Rightarrow> diet_profile op" where
  "solveUserDelete env pb = with_args 2 pb (\<lambda>a.
     session_service env pb (a ! 0) (ums_coded ''vishnu_delete_user'' [a ! 1]) True True (
       op_bind (op_read (user_init (Some (a ! 0)) empty_user)) (\<lambda>me.
         done_with (user_delete me (empty_user\<lparr>u_userId := a ! 1\<rparr>)))))"

definition solveUserPasswordReset :: "ums_env \<Rightarrow> diet_profile \<Rightarrow> diet_profile op" where
  "solveUserPasswordReset env pb = with_args 2 pb (\<lambda>a.
     session_service env pb (a ! 0) (ums_coded ''vishnu_reset_password'' [a ! 1]) False False (
       op_bind (op_read (user_init (Some (a ! 0)) empty_user)) (\<lambda>me.
       op_bind (resetPassword env me (empty_user\<lparr>u_userId := a ! 1\<rparr>)) (\<lambda>u. op_ret (u_password u, [])))))"

section \<open>Machines and accounts\<close>

definition empty_machine :: machine where
  "empty_machine = \<lparr>mc_machineId = [], mc_name = [], mc_site = [], mc_description = [], mc_language = [],
     mc_status = -1, mc_sshPublicKey = []\<rparr>"

definition empty_account :: local_account where
  "empty_account = \<lparr>la_userId = [], la_machineId = [], la_acLogin = [], la_sshKeyPath = [],
     la_homeDirectory = []\<rparr>"

definition empty_auth_system :: auth_system where
  "empty_auth_system = \<lparr>as_authSystemId = [], as_name = [], as_URI = [], as_authLogin = [],
     as_authPassword = [], as_userPasswordEncryption = -1, as_type = -1, as_status = -1, as_ldapBase = []\<rparr>"

definition solveMachineCreate :: "ums_env \<Rightarrow> ums_parsers \<Rightarrow> ums_serializers \<Rightarrow> diet_profile \<Rightarrow>
    diet_profile op" where
  "solveMachineCreate env P S pb = with_args 2 pb (\<lambda>a.
     session_service env pb (a ! 0) (ums_coded ''vishnu_add_machine'' [a ! 1]) True True (
       op_bind (op_read (\<lambda>_. parse_or (UMSVishnuException ERRCODE_INVALID_PARAM
           ''The ssh public key file content is invalid'') (parse_machine P) (a ! 1))) (\<lambda>m.
       op_bind (machine_add env (a ! 0) m) (\<lambda>m'. op_ret (ser_machine S m', mc_machineId m')))))"

definition solveMachineUpdate :: "ums_env \<Rightarrow> ums_parsers \<Rightarrow> diet_profile \<Rightarrow> diet_profile op" where
  "solveMachineUpdate env P pb = with_args 2 pb (\<lambda>a.
     session_service env pb (a ! 0) (ums_coded ''vishnu_update_machine'' [a ! 1]) True True (
       op_bind (op_read (\<lambda>_. parse_or bad_param (parse_machine P) (a ! 1))) (\<lambda>m.
         done_with (machine_update (a ! 0) m))))"

definition solveMachineDelete :: "ums_env \<Rightarrow> diet_profile \<Rightarrow> diet_profile op" where
  "solveMachineDelete env pb = with_args 2 pb (\<lambda>a.
     session_service env pb (a ! 0) (ums_coded ''vishnu_delete_machine'' [a ! 1]) True True
       (done_with (machine_delete (a ! 0) (empty_machine\<lparr>mc_machineId := a ! 1\<rparr>))))"

definition solveLocalAccountCreate :: "ums_env \<Rightarrow> ums_parsers \<Rightarrow> diet_profile \<Rightarrow> diet_profile op" where
  "solveLocalAccountCreate env P pb = with_args 2 pb (\<lambda>a.
     session_service env pb (a ! 0) (ums_coded ''vishnu_add_local_account'' [a ! 1]) True True (
       op_bind (op_read (\<lambda>_. parse_or bad_param (parse_local_account P) (a ! 1))) (\<lambda>la.
         done_with (account_add (a ! 0) la))))"

definition solveLocalAccountUpdate :: "ums_env \<Rightarrow> ums_parsers \<Rightarrow> diet_profile \<Rightarrow> diet_profile op" where
  "solveLocalAccountUpdate env P pb = with_args 2 pb (\<lambda>a.
     session_service env pb (a ! 0) (ums_coded ''vishnu_update_local_account'' [a ! 1]) True True (
       op_bind (op_read (\<lambda>_. parse_or bad_param (parse_local_account P) (a ! 1))) (\<lambda>la.
         done_with (account_update (a ! 0) la))))"

definition solveLocalAccountDelete :: "ums_env \<Rightarrow> diet_profile \<Rightarrow> diet_profile op" where
  "solveLocalAccountDelete env pb = with_args 3 pb (\<lambda>a.
     session_service env pb (a ! 0) (ums_coded ''vishnu_delete_local_account'' [a ! 1, a ! 2]) True True
       (done_with (account_delete (a ! 0)
         (empty_account\<lparr>la_userId := a ! 1, la_machineId := a ! 2\<rparr>))))"

section \<open>Authentication systems and accounts\<close>

definition solveSystemAuthCreate :: "ums_env \<Rightarrow> ums_parsers \<Rightarrow> ums_serializers \<Rightarrow> diet_profile \<Rightarrow>
    diet_profile op" where
  "solveSystemAuthCreate env P S pb = with_args 2 pb (\<lambda>a.
     session_service env pb (a ! 0) (ums_coded ''vishnu_add_auth_system'' [a ! 1]) True True (
       op_bind (op_read (\<lambda>_. parse_or bad_param (parse_auth_system P) (a ! 1))) (\<lambda>y.
       op_bind (authsystem_add env (a ! 0) y) (\<lambda>y'. op_ret (ser_auth_system S y', [])))))"

definition solveSystemAuthUpdate :: "ums_env \<Rightarrow> ums_parsers \<Rightarrow> diet_profile \<Rightarrow> diet_profile op" where
  "solveSystemAuthUpdate env P pb = with_args 2 pb (\<lambda>a.
     session_service env pb (a ! 0) (ums_coded ''vishnu_update_auth_system'' [a ! 1]) True True (
       op_bind (op_read (\<lambda>_. parse_or bad_param (parse_auth_system P) (a ! 1))) (\<lambda>y.
         done_with (authsystem_update (a ! 0) y))))"

definition solveSystemAuthDelete :: "ums_env \<Rightarrow> diet_profile \<Rightarrow> diet_profile op" where
  "solveSystemAuthDelete env pb = with_args 2 pb (\<lambda>a.
     session_service env pb (a ! 0) (ums_coded ''vishnu_delete_auth_system'' [a ! 1]) True True
       (done_with (authsystem_delete (a ! 0) (empty_auth_system\<lparr>as_authSystemId := a ! 1\<rparr>))))"

definition solveAccountAuthCreate :: "ums_env \<Rightarrow> ums_parsers \<Rightarrow> diet_profile \<Rightarrow> diet_profile op" where
  "solveAccountAuthCreate env P pb = with_args 2 pb (\<lambda>a.
     session_service env pb (a ! 0) (ums_coded ''vishnu_add_auth_account'' [a ! 1]) True True (
       op_bind (op_read (\<lambda>_. parse_or bad_param (parse_auth_account P) (a ! 1))) (\<lambda>aa.
         done_with (addOrUpdate False (a ! 0) aa))))"

definition solveAccountAuthUpdate :: "ums_env \<Rightarrow> ums_parsers \<Rightarrow> diet_profile \<Rightarrow> diet_profile op" where
  "solveAccountAuthUpdate env P pb = with_args 2 pb (\<lambda>a.
     session_service env pb (a ! 0) (ums_coded ''vishnu_update_auth_account'' [a ! 1]) True True (
       op_bind (op_read (\<lambda>_. parse_or bad_param (parse_auth_account P) (a ! 1))) (\<lambda>aa.
         done_with (addOrUpdate True (a ! 0) aa))))"

definition solveAccountAuthDelete :: "ums_env \<Rightarrow> diet_profile \<Rightarrow> diet_profile op" where
  "solveAccountAuthDelete env pb = with_args 3 pb (\<lambda>a.
     session_service env pb (a ! 0) (ums_coded ''vishnu_delete_auth_account'' [a ! 2, a ! 1]) True True
       (done_with (authaccount_delete (a ! 0)
         \<lparr>aa_authSystemId = a ! 1, aa_userId = a ! 2, aa_acLogin = []\<rparr>)))"

section \<open>The table of services\<close>

text \<open>What \<^verbatim>\<open>ServerXMS::initMap\<close> registers, for the services modelled here.\<close>

definition ums_mcb :: "ums_env \<Rightarrow> ums_parsers \<Rightarrow> ums_serializers \<Rightarrow> string \<Rightarrow>
    (diet_profile \<Rightarrow> diet_profile op) option" where
  "ums_mcb env P S = map_of
     [(''sessionConnect'', solveSessionConnect env S),
      (''sessionReconnect'', solveSessionReconnect env S),
      (''sessionClose'', solveSessionClose env),
      (''userCreate'', solveUserCreate env P S),
      (''userUpdate'', solveUserUpdate env P),
      (''userDelete'', solveUserDelete env),
      (''userPasswordChange'', solveUserPasswordChange env S),
      (''userPasswordReset'', solveUserPasswordReset env),
      (''machineCreate'', solveMachineCreate env P S),
      (''machineUpdate'', solveMachineUpdate env P),
      (''machineDelete'', solveMachineDelete env),
      (''localAccountCreate'', solveLocalAccountCreate env P),
      (''localAccountUpdate'', solveLocalAccountUpdate env P),
      (''localAccountDelete'', solveLocalAccountDelete env),
      (''authSystemCreate'', solveSystemAuthCreate env P S),
      (''authSystemUpdate'', solveSystemAuthUpdate env P),
      (''authSystemDelete'', solveSystemAuthDelete env),
      (''authAccountCreate'', solveAccountAuthCreate env P),
      (''authAccountUpdate'', solveAccountAuthUpdate env P),
      (''authAccountDelete'', solveAccountAuthDelete env)]"

end
