(* ===== verification/Fms_Service.thy ===== *)
theory Fms_Service
  imports Fms_Transfer Ums_Service
begin

text \<open>
  The services of the file management module (\<^verbatim>\<open>XMS/src/internalApiFMS.cpp\<close> and \<^verbatim>\<open>internalApiFMS.hpp\<close>): each checks
  the session, the machine and the account of the caller, runs an operation on a file or a transfer and
  records the command. The parsers and serializers of the objects are parameters. The list of the
  transfers is a query and not modelled.
\<close>

section \<open>What the services share\<close>

type_synonym 'a fms_late = "(fms, 'a) late_step"

abbreviation (input) FMS :: int where "FMS \<equiv> 2"

text \<open>
  The number of a command; a name the mapper does not know leaves the variable for it unset. Six of the services use
  such a name.
\<close>

definition fms_coded :: "fms_env \<Rightarrow> string \<Rightarrow> string list \<Rightarrow> string" where
  "fms_coded F name args =
     mapper.command_text (show_int (case filter (\<lambda>(k, n). n = name) fms_table of [] \<Rightarrow> fe_junk F | (k, n) # _ \<Rightarrow> k)) args"

text \<open>
  Serializers, the parser of a transfer, and what the serializer makes of a transfer that was deleted
  before.
\<close>

record fms_serializers =
  ser_stat :: "ssh_file \<Rightarrow> string"
  ser_entries :: "dir_entry list \<Rightarrow> string"
  ser_transfer :: "file_transfer \<Rightarrow> string"
  ser_deleted :: "file_transfer \<Rightarrow> string"
  parse_transfer :: "string \<Rightarrow> file_transfer option"

definition fms_finish :: "ums_env \<Rightarrow> string \<Rightarrow> string \<Rightarrow> int \<Rightarrow> unit fms_op" where
  "fms_finish E key cmd status = on_users (session_finish E (session_of_key key) cmd FMS status [] True)"

text \<open>The text of a failure, with the one of the recording when that fails too.\<close>

definition file_error :: "exn \<Rightarrow> exn option \<Rightarrow> string" where
  "file_error e fe = what (case fe of None \<Rightarrow> e | Some f \<Rightarrow> appendMsgComp e (what f))"

definition transfer_error :: "exn \<Rightarrow> exn option \<Rightarrow> string" where
  "transfer_error e fe =
     buildExceptionString (appendMsgComp e (case fe of None \<Rightarrow> [] | Some f \<Rightarrow> what f @ [CHR 0x0A]))"

text \<open>
  The body of a service, after the part \<open>pre\<close> that it runs before it makes the text of its command; until then the text
  is empty.
\<close>

definition fms_service :: "ums_env \<Rightarrow> (exn \<Rightarrow> exn option \<Rightarrow> string) \<Rightarrow> diet_profile \<Rightarrow> string \<Rightarrow> unit fms_op \<Rightarrow>
    string \<Rightarrow> string fms_late \<Rightarrow> diet_profile fms_late" where
  "fms_service E errText pb key pre cmd body s =
     (let failed = (\<lambda>text e s1.
            if is_vishnu e then
              (case fms_finish E key text CMDFAILED s1 of
                 (Inr _, s2) \<Rightarrow> (Inr (reply pb ''error'' (errText e None)), s2)
               | (Inl fe, s2) \<Rightarrow>
                   if is_vishnu fe then (Inr (reply pb ''error'' (errText e (Some fe))), s2) else (Inl fe, s2))
            else (Inl e, s1))
      in (case pre s of
            (Inl e, s0) \<Rightarrow> Some (failed [] e s0)
          | (Inr _, s0) \<Rightarrow> map_option (\<lambda>r. case r of
                (Inr out, s1) \<Rightarrow>
                  (case fms_finish E key cmd CMDSUCCESS s1 of
                     (Inr _, s2) \<Rightarrow> (Inr (reply pb ''success'' out), s2)
                   | (Inl e, s2) \<Rightarrow> failed cmd e s2)
              | (Inl e, s1) \<Rightarrow> failed cmd e s1) (body s0)))"

definition fms_args :: "nat \<Rightarrow> diet_profile \<Rightarrow> (string list \<Rightarrow> diet_profile fms_late) \<Rightarrow> diet_profile fms_late" where
  "fms_args n pb f = late_bind (late (op_read (\<lambda>_. res_map (\<lambda>i. diet_string_get pb (int i)) [0..<n]))) f"

abbreviation users_read :: "(db \<Rightarrow> 'a result) \<Rightarrow> 'a fms_op" where
  "users_read f \<equiv> op_read (\<lambda>s. f (fm_ums s))"

text \<open>The file of a request: the session, the machine and the account are checked.\<close>

definition file_server :: "string \<Rightarrow> string \<Rightarrow> string \<Rightarrow> ssh_file fms_op" where
  "file_server key path host =
     op_bind (users_read (session_check (session_of_key key))) (\<lambda>_.
     op_bind (users_read (checkMachine host)) (\<lambda>_.
     op_bind (users_read (\<lambda>d. Inr (getMachineName host d))) (\<lambda>machineName.
     op_bind (users_read (getUserAccountLogin (Some key) empty_user host)) (\<lambda>(me, acLogin).
       op_ret (getFileServer machineName path acLogin)))))"

text \<open>
  A service on a file: the command is recorded with the file as \<^verbatim>\<open>host:path\<close> among its arguments, and the
  operation gives the value of the answer.
\<close>

definition file_service :: "ums_env \<Rightarrow> diet_profile \<Rightarrow> string \<Rightarrow> string \<Rightarrow> string \<Rightarrow> string \<Rightarrow>
    (ssh_file \<Rightarrow> string fms_late) \<Rightarrow> diet_profile fms_late" where
  "file_service E pb key path host cmd action =
     fms_service E file_error pb key (op_ret ()) cmd (late_bind (late (file_server key path host)) action)"

definition file_name :: "string \<Rightarrow> string \<Rightarrow> string" where
  "file_name host path = host @ '':'' @ path"

abbreviation no_text :: "'a shell_op \<Rightarrow> string fms_late" where
  "no_text m \<equiv> late (op_bind (on_shell m) (\<lambda>_. op_ret []))"

definition option_or :: "string \<Rightarrow> (string \<Rightarrow> 'a option) \<Rightarrow> string \<Rightarrow> ('a \<Rightarrow> string fms_late) \<Rightarrow> string fms_late" where
  "option_or msg p text action =
     late_bind (late (op_read (\<lambda>_. parse_or (SystemException ERRCODE_INVDATA msg) p text))) action"

section \<open>Files\<close>

definition solveChangeGroup :: "ums_env \<Rightarrow> fms_env \<Rightarrow> diet_profile \<Rightarrow> diet_profile fms_late" where
  "solveChangeGroup E F pb = fms_args 4 pb (\<lambda>a.
     file_service E pb (a ! 0) (a ! 1) (a ! 2) (fms_coded F ''vishnu_chgrp'' [a ! 3, file_name (a ! 2) (a ! 1)])
       (\<lambda>f. no_text (chgrp F (a ! 3) f)))"

definition solveChangeMode :: "ums_env \<Rightarrow> fms_env \<Rightarrow> diet_profile \<Rightarrow> diet_profile fms_late" where
  "solveChangeMode E F pb = fms_args 4 pb (\<lambda>a.
     let mode = fst (read_number 10 32 False (fe_junk F) (string_stream (a ! 3))) in
     file_service E pb (a ! 0) (a ! 1) (a ! 2) (fms_coded F ''vishnu_chmod'' [show_int mode, file_name (a ! 2) (a ! 1)])
       (\<lambda>f. no_text (chmod F mode f)))"

definition solveGetFileContent :: "ums_env \<Rightarrow> fms_env \<Rightarrow> diet_profile \<Rightarrow> diet_profile fms_late" where
  "solveGetFileContent E F pb = fms_args 3 pb (\<lambda>a.
     file_service E pb (a ! 0) (a ! 1) (a ! 2) (fms_coded F ''vishnu_content_of_file'' [file_name (a ! 2) (a ! 1)])
       (\<lambda>f. late (on_shell (getContent F f))))"

definition solveGetInfos :: "ums_env \<Rightarrow> fms_env \<Rightarrow> fms_serializers \<Rightarrow> diet_profile \<Rightarrow> diet_profile fms_late" where
  "solveGetInfos E F S pb = fms_args 3 pb (\<lambda>a.
     file_service E pb (a ! 0) (a ! 1) (a ! 2) (fms_coded F ''vishnu_stat'' [file_name (a ! 2) (a ! 1)])
       (\<lambda>f. late (op_bind (on_shell (up_to_date F f)) (\<lambda>g.
          if sf_exist g then op_ret (ser_stat S g)
          else op_throw (FMSVishnuException ERRCODE_RUNTIME_ERROR (sf_error g))))))"

definition solveHeadFile :: "ums_env \<Rightarrow> fms_env \<Rightarrow> fms_parsers \<Rightarrow> diet_profile \<Rightarrow> diet_profile fms_late" where
  "solveHeadFile E F P pb = fms_args 4 pb (\<lambda>a.
     file_service E pb (a ! 0) (a ! 1) (a ! 2) (fms_coded F ''vishnu_head_of_file'' [file_name (a ! 2) (a ! 1), a ! 3])
       (\<lambda>f. option_or ''solve_Head: HeadOfFileOptions object is not well built'' (parse_head P) (a ! 3) (\<lambda>nline.
          late (on_shell (head_of F nline f)))))"

definition solveListDir :: "ums_env \<Rightarrow> fms_env \<Rightarrow> fms_parsers \<Rightarrow> fms_serializers \<Rightarrow> diet_profile \<Rightarrow> diet_profile fms_late" where
  "solveListDir E F P S pb = fms_args 4 pb (\<lambda>a.
     file_service E pb (a ! 0) (a ! 1) (a ! 2) (fms_coded F ''vishnu_ls'' [file_name (a ! 2) (a ! 1), a ! 3])
       (\<lambda>f. option_or ''solve_LsDir: LsDirOptions object is not well built'' (parse_ls_dir P) (a ! 3) (\<lambda>opts.
          late_bind (\<lambda>s. map_option (\<lambda>(r, l). (r, s\<lparr>fm_log := l\<rparr>)) (ls F (ld_allFiles opts) f (fm_log s))) (\<lambda>es.
            late (op_ret (ser_entries S es))))))"

definition solveCreateDir :: "ums_env \<Rightarrow> fms_env \<Rightarrow> fms_parsers \<Rightarrow> diet_profile \<Rightarrow> diet_profile fms_late" where
  "solveCreateDir E F P pb = fms_args 4 pb (\<lambda>a.
     file_service E pb (a ! 0) (a ! 1) (a ! 2) (fms_coded F ''vishnu_create_dir'' [file_name (a ! 2) (a ! 1), a ! 3])
       (\<lambda>f. option_or ''solve_create_dir: CreateDirOptions object is not well built'' (parse_create_dir P) (a ! 3) (\<lambda>rec.
          no_text (mkdir F rec f))))"

definition solveCreateFile :: "ums_env \<Rightarrow> fms_env \<Rightarrow> diet_profile \<Rightarrow> diet_profile fms_late" where
  "solveCreateFile E F pb = fms_args 3 pb (\<lambda>a.
     file_service E pb (a ! 0) (a ! 1) (a ! 2) (fms_coded F ''vishnu_touch'' [file_name (a ! 2) (a ! 1)])
       (\<lambda>f. no_text (mkfile F f)))"

definition solveRemoveDir :: "ums_env \<Rightarrow> fms_env \<Rightarrow> diet_profile \<Rightarrow> diet_profile fms_late" where
  "solveRemoveDir E F pb = fms_args 3 pb (\<lambda>a.
     file_service E pb (a ! 0) (a ! 1) (a ! 2) (fms_coded F ''vishnu_remove_dir'' [file_name (a ! 2) (a ! 1)])
       (\<lambda>f. no_text (rmdir F f)))"

definition solveRemoveFile :: "ums_env \<Rightarrow> fms_env \<Rightarrow> fms_parsers \<Rightarrow> diet_profile \<Rightarrow> diet_profile fms_late" where
  "solveRemoveFile E F P pb = fms_args 4 pb (\<lambda>a.
     file_service E pb (a ! 0) (a ! 1) (a ! 2) (fms_coded F ''vishnu_remove_file'' [file_name (a ! 2) (a ! 1), a ! 3])
       (\<lambda>f. option_or ''solve_remove_file: RmFileOptions object is not well built'' (parse_rm_file P) (a ! 3) (\<lambda>rec.
          no_text (rm F rec f))))"

text \<open>This service checks the session before it makes the text of its command.\<close>

definition solveTailFile :: "ums_env \<Rightarrow> fms_env \<Rightarrow> fms_parsers \<Rightarrow> diet_profile \<Rightarrow> diet_profile fms_late" where
  "solveTailFile E F P pb = fms_args 4 pb (\<lambda>a.
     fms_service E file_error pb (a ! 0) (users_read (session_check (session_of_key (a ! 0))))
       (fms_coded F ''vishnu_tail_of_file'' [file_name (a ! 2) (a ! 1), a ! 3])
       (late_bind (late (file_server (a ! 0) (a ! 1) (a ! 2))) (\<lambda>f.
          option_or ''solve_Tail: TailOfFileOptions object is not well built'' (parse_tail P) (a ! 3) (\<lambda>nline.
            late (on_shell (tail_of F nline f))))))"

section \<open>Transfers\<close>

datatype transfer_mode = Sync | Async

definition transfer_name :: "transfer_type \<Rightarrow> transfer_mode \<Rightarrow> string" where
  "transfer_name type mode =
     (case (mode, type) of
        (Sync, Copy) \<Rightarrow> ''vishnu_cp'' | (Sync, Move) \<Rightarrow> ''vishnu_mv''
      | (Async, Copy) \<Rightarrow> ''vishnu_acp'' | (Async, Move) \<Rightarrow> ''vishnu_amv'')"

definition add_transfer :: "fms_env \<Rightarrow> string \<Rightarrow> transfer_type \<Rightarrow> transfer_mode \<Rightarrow> string \<Rightarrow> string \<Rightarrow> string \<Rightarrow> string \<Rightarrow>
    cp_options \<Rightarrow> file_transfer \<Rightarrow> file_transfer fms_op" where
  "add_transfer F key type mode = (case mode of Sync \<Rightarrow> add_sync F key type | Async \<Rightarrow> add_async F key type)"

text \<open>
  The login on a host, which for \<^verbatim>\<open>localhost\<close> is the text \<open>local\<close>.
\<close>

definition login_on :: "string \<Rightarrow> string \<Rightarrow> string \<Rightarrow> string fms_op" where
  "login_on key host local =
     (if host \<noteq> ''localhost''
      then users_read (\<lambda>d. res_bind (getUserAccountLogin (Some key) empty_user host d) (\<lambda>(me, login). Inr login))
      else op_ret local)"

definition check_host :: "string \<Rightarrow> unit fms_op" where
  "check_host host = (if host \<noteq> ''localhost'' then users_read (checkMachine host) else op_ret ())"

text \<open>
  The transfer of a file whose source the client names with its host: the machine is checked for the destination only,
  and the host of the source is used as it is. The object is deleted before it is serialized.
\<close>

definition cp_options_of :: "fms_parsers \<Rightarrow> string \<Rightarrow> fms \<Rightarrow> cp_options result" where
  "cp_options_of P text s =
     parse_or (SystemException ERRCODE_INVDATA ''solve_Copy: CpFileOptions object is not well built'') (parse_cp P) text"

definition solveTransferFile :: "ums_env \<Rightarrow> fms_env \<Rightarrow> fms_parsers \<Rightarrow> fms_serializers \<Rightarrow> transfer_type \<Rightarrow> transfer_mode \<Rightarrow>
    diet_profile \<Rightarrow> diet_profile fms_late" where
  "solveTransferFile E F P S type mode pb = fms_args 5 pb (\<lambda>a.
     let key = a ! 0; srcPath = a ! 1; srcHost = a ! 2; destPath = extName (a ! 3); destHost = extHost (a ! 3) in
     fms_service E transfer_error pb key (op_ret ()) (fms_coded F (transfer_name type mode) [srcPath, a ! 3, a ! 4]) (late (
       op_bind (users_read (session_check (session_of_key key))) (\<lambda>_.
       op_bind (check_host destHost) (\<lambda>_.
       op_bind (users_read (\<lambda>d. Inr (getMachineName destHost d))) (\<lambda>destMachineName.
       op_bind (login_on key destHost destHost) (\<lambda>destUser.
       op_bind (login_on key srcHost srcHost) (\<lambda>srcUser.
       op_bind (op_read (cp_options_of P (a ! 4))) (\<lambda>options.
       op_bind (add_transfer F key type mode srcUser srcHost destUser destMachineName options
           (new_transfer srcHost destHost srcPath destPath)) (\<lambda>ft.
         op_ret (ser_deleted S ft)))))))))))"

text \<open>
  The transfer between hosts the client names one by one. The user of the destination is never given, so the second
  look-up of the destination repeats the first; for \<^verbatim>\<open>localhost\<close> the login is empty.
\<close>

definition solveTransferRemoteFile :: "ums_env \<Rightarrow> fms_env \<Rightarrow> fms_parsers \<Rightarrow> fms_serializers \<Rightarrow> transfer_type \<Rightarrow>
    transfer_mode \<Rightarrow> diet_profile \<Rightarrow> diet_profile fms_late" where
  "solveTransferRemoteFile E F P S type mode pb = fms_args 6 pb (\<lambda>a.
     let key = a ! 0; srcHost = a ! 1; srcPath = a ! 2; destHost = a ! 3; destPath = a ! 4;
         name_of = (\<lambda>host. if host \<noteq> ''localhost'' then users_read (\<lambda>d. Inr (getMachineName host d)) else op_ret host)
     in
     fms_service E transfer_error pb key
       (op_bind (check_host destHost) (\<lambda>_. op_bind (name_of destHost) (\<lambda>_. op_bind (login_on key destHost []) (\<lambda>_. op_ret ()))))
       (fms_coded F (transfer_name type mode) [file_name srcHost srcPath, file_name destHost destPath, a ! 5]) (late (
       op_bind (users_read (session_check (session_of_key key))) (\<lambda>_.
       op_bind (check_host srcHost) (\<lambda>_.
       op_bind (name_of srcHost) (\<lambda>srcMachineName.
       op_bind (login_on key srcHost []) (\<lambda>srcUserLogin.
       op_bind (check_host destHost) (\<lambda>_.
       op_bind (name_of destHost) (\<lambda>destMachineName.
       op_bind (login_on key destHost []) (\<lambda>destUserLogin.
       op_bind (op_read (cp_options_of P (a ! 5))) (\<lambda>options.
       op_bind (add_transfer F key type mode srcUserLogin srcMachineName destUserLogin destMachineName options
           (new_transfer srcHost destHost srcPath destPath)) (\<lambda>ft.
         op_ret (ser_transfer S ft)))))))))))))"

text \<open>
  An object that cannot be parsed: the exception is made and not thrown, and the null pointer used.
\<close>

definition solveFileTransferStop :: "ums_env \<Rightarrow> fms_env \<Rightarrow> fms_parsers \<Rightarrow> diet_profile \<Rightarrow> diet_profile fms_late" where
  "solveFileTransferStop E F P pb = fms_args 2 pb (\<lambda>a.
     fms_service E file_error pb (a ! 0) (op_ret ()) (fms_coded F ''vishnu_stop_file_transfer'' [a ! 1]) (late (
       op_bind (op_read (\<lambda>_. parse_or UndefinedBehaviour (parse_stop P) (a ! 1))) (\<lambda>options.
       op_bind (stopThread F (a ! 0) options) (\<lambda>_. op_ret [])))))"

text \<open>
  The client's report on a transfer: no session is checked and no command recorded, and the profile is reset
  only when the update succeeded.
\<close>

definition solveUpdateClientSideTransfer :: "fms_env \<Rightarrow> fms_serializers \<Rightarrow> diet_profile \<Rightarrow> diet_profile fms_late" where
  "solveUpdateClientSideTransfer F S pb = fms_args 2 pb (\<lambda>a s.
     Some (case op_bind (op_read (\<lambda>_. parse_or UndefinedBehaviour (parse_transfer S) (a ! 1))) (\<lambda>ft.
                  updateDatabaseRecord F (a ! 0) ft) s of
             (Inr _, s') \<Rightarrow> (Inr (reply pb ''success'' []), s')
           | (Inl e, s') \<Rightarrow> if is_vishnu e then (Inr (pb\<lparr>params := [''error'', what e] @ drop 2 (params pb)\<rparr>), s') else (Inl e, s')))"

section \<open>The table\<close>

definition fms_mcb :: "ums_env \<Rightarrow> fms_env \<Rightarrow> fms_parsers \<Rightarrow> fms_serializers \<Rightarrow>
    string \<rightharpoonup> (diet_profile \<Rightarrow> diet_profile fms_late)" where
  "fms_mcb E F P S = map_of
     [(''FileCopyAsync'', solveTransferFile E F P S Copy Async),
      (''FileMoveAsync'', solveTransferFile E F P S Move Async),
      (''FileMove'', solveTransferFile E F P S Move Sync),
      (''FileCopy'', solveTransferFile E F P S Copy Sync),
      (''FileGetInfos'', solveGetInfos E F S),
      (''FileChangeGroup'', solveChangeGroup E F),
      (''FileChangeMode'', solveChangeMode E F),
      (''FileHead'', solveHeadFile E F P),
      (''FileContent'', solveGetFileContent E F),
      (''FileCreate'', solveCreateFile E F),
      (''DirCreate'', solveCreateDir E F P),
      (''FileRemove'', solveRemoveFile E F P),
      (''DirRemove'', solveRemoveDir E F),
      (''FileTail'', solveTailFile E F P),
      (''DirList'', solveListDir E F P S),
      (''RemoteFileCopyAsync'', solveTransferRemoteFile E F P S Copy Async),
      (''RemoteFileMoveAsync'', solveTransferRemoteFile E F P S Move Async),
      (''RemoteFileCopy'', solveTransferRemoteFile E F P S Copy Sync),
      (''RemoteFileMove'', solveTransferRemoteFile E F P S Move Sync),
      (''FileTransferStop'', solveFileTransferStop E F P),
      (''UpdateClientSideTransfer'', solveUpdateClientSideTransfer F S)]"

end
