(* ===== verification/Ums_Lists.thy ===== *)
theory Ums_Lists
  imports Ums_Service Fms_Mapper Tms_Mapper "HOL-Library.List_Lexorder" "HOL-Library.Multiset"
begin

text \<open>
  The list servers of the user management module (\<^verbatim>\<open>UMS/src/server/List*Server.hpp\<close> over
  \<^verbatim>\<open>core/src/utils/QueryServer.hpp\<close>) and the services that run them (\<^verbatim>\<open>solveGenerique\<close> in
  \<^verbatim>\<open>XMS/src/internalApiUMS.cpp\<close>). The statement the code assembles is the list of the joined rows with
  the conditions as filters; rows of a join come in the order of its tables, texts are ordered by the codes of
  their characters and a null comes last. A date in an option lies in the years boost prints.
\<close>

section \<open>Checks of options\<close>

definition ensure :: "bool \<Rightarrow> exn \<Rightarrow> unit result" where
  "ensure b e = (if b then Inr () else Inl e)"

definition when_given :: "string \<Rightarrow> unit result \<Rightarrow> unit result" where
  "when_given v check = (if v \<noteq> [] then check else Inr ())"

definition query_checkUserId :: "string \<Rightarrow> db \<Rightarrow> unit result" where
  "query_checkUserId userId d =
     ensure (list_ex (\<lambda>r. us_userid r = userId \<and> sql_ne (us_status r) STATUS_DELETED) (t_users d))
       (UMSVishnuException ERRCODE_UNKNOWN_USERID [])"

definition query_checkMachineId :: "string \<Rightarrow> db \<Rightarrow> unit result" where
  "query_checkMachineId machineId d =
     ensure (list_ex (\<lambda>r. ma_machineid r = Some machineId \<and> sql_ne (ma_status r) STATUS_DELETED) (t_machine d))
       (UMSVishnuException ERRCODE_UNKNOWN_MACHINE [])"

definition checkClientMachineName :: "string \<Rightarrow> db \<Rightarrow> unit result" where
  "checkClientMachineName clmachineId d =
     ensure (list_ex (\<lambda>r. cl_name r = Some clmachineId) (t_clmachine d))
       (UMSVishnuException ERRCODE_UNKNOWN_MACHINE [])"

text \<open>The constant of a deleted row is compared with the state of the session, which never has that value.\<close>

definition checkSessionId :: "string \<Rightarrow> db \<Rightarrow> unit result" where
  "checkSessionId sessionId d =
     ensure (list_ex (\<lambda>r. vs_sessionid r = Some sessionId \<and> sql_ne (vs_state r) STATUS_DELETED) (t_vsession d))
       (UMSVishnuException ERRCODE_UNKNOWN_SESSION_ID [])"

definition checkAuthSystemId :: "string \<Rightarrow> db \<Rightarrow> unit result" where
  "checkAuthSystemId authSystemId d =
     ensure (list_ex (\<lambda>r. ay_authsystemid r = Some authSystemId \<and> sql_ne (ay_status r) STATUS_DELETED) (t_authsystem d))
       (TMSVishnuException ERRCODE_UNKNOWN_AUTH_SYSTEM [])"

definition checkStatus :: "int \<Rightarrow> unit result" where
  "checkStatus status =
     ensure (\<not> (status < - 1 \<or> status > 1))
       (UMSVishnuException ERRCODE_UNKNOWN_OPTION ''Invalid value: its value must be 0 or 1'')"

definition checkClosePolicy :: "int \<Rightarrow> unit result" where
  "checkClosePolicy closePolicy =
     ensure (\<not> (closePolicy < 0 \<or> closePolicy > 2))
       (UMSVishnuException ERRCODE_UNKNOWN_CLOSURE_MODE ''Invalid ClosePolicy value: its value must be 0, 1 or 2'')"

definition convertToTimeType :: "int option \<Rightarrow> int" where
  "convertToTimeType v = (case v of None \<Rightarrow> 0 | Some t \<Rightarrow> t)"

section \<open>Selections\<close>

text \<open>The conditions of a statement on dates: -1 is no date, and a comparison with null is not true.\<close>

definition from_date :: "int \<Rightarrow> int option \<Rightarrow> bool" where
  "from_date start v \<longleftrightarrow> start = - 1 \<or> (\<exists>t. v = Some t \<and> start \<le> t)"

definition to_date :: "int \<Rightarrow> int option \<Rightarrow> bool" where
  "to_date stop v \<longleftrightarrow> stop = - 1 \<or> (\<exists>t. v = Some t \<and> t \<le> stop)"

lemma from_date_code [code]:
  "from_date start v = (start = - 1 \<or> (case v of None \<Rightarrow> False | Some t \<Rightarrow> start \<le> t))"
  by (simp add: from_date_def split: option.splits)

lemma to_date_code [code]:
  "to_date stop v = (stop = - 1 \<or> (case v of None \<Rightarrow> False | Some t \<Rightarrow> t \<le> stop))"
  by (simp add: to_date_def split: option.splits)

definition order_by :: "('r \<Rightarrow> 'k::linorder option) \<Rightarrow> 'r list \<Rightarrow> 'r list" where
  "order_by attr rs = sort_key (\<lambda>r. the (attr r)) (filter (\<lambda>r. attr r \<noteq> None) rs) @ filter (\<lambda>r. attr r = None) rs"

lemma set_order_by [simp]: "set (order_by attr rs) = set rs"
  by (auto simp: order_by_def)

lemma mset_order_by [simp]: "mset (order_by attr rs) = mset rs"
proof -
  have "mset rs = filter_mset (\<lambda>r. attr r \<noteq> None) (mset rs) + filter_mset (\<lambda>r. \<not> attr r \<noteq> None) (mset rs)"
    by (rule multiset_partition)
  then show ?thesis by (simp add: order_by_def)
qed

definition admin_options :: "user \<Rightarrow> bool \<Rightarrow> db \<Rightarrow> unit result" where
  "admin_options me used d = ensure (\<not> (\<not> isAdmin me d \<and> used)) (UMSVishnuException ERRCODE_NO_ADMIN [])"

section \<open>Users\<close>

definition user_of_row :: "users_row \<Rightarrow> user" where
  "user_of_row r = empty_user\<lparr>u_userId := us_userid r, u_password := us_pwd r, u_firstname := text_of (us_firstname r),
     u_lastname := text_of (us_lastname r), u_privilege := int_of (us_privilege r),
     u_email := text_of (us_email r), u_status := int_of (us_status r)\<rparr>"

text \<open>
  The condition on an authentication system is a statement of its own whose text, quotes included, goes through
  \<^verbatim>\<open>escapeData\<close>: the database refuses the whole statement.
\<close>

definition users_options :: "user \<Rightarrow> list_user_options \<Rightarrow> db \<Rightarrow> (users_row \<Rightarrow> bool) result" where
  "users_options me opt d =
     res_bind (ensure (isAdmin me d) (UMSVishnuException ERRCODE_NO_ADMIN [])) (\<lambda>_.
     res_bind (when_given (lu_userId opt) (query_checkUserId (lu_userId opt) d)) (\<lambda>_.
     res_bind (when_given (lu_authSystemId opt) (checkAuthSystemId (lu_authSystemId opt) d)) (\<lambda>_.
     res_bind (when_given (lu_authSystemId opt) (Inl (SystemException ERRCODE_DBERR ''syntax error''))) (\<lambda>_.
       Inr (\<lambda>r. lu_userId opt \<noteq> [] \<longrightarrow> us_userid r = lu_userId opt)))))"

definition listUsers :: "string \<Rightarrow> list_user_options \<Rightarrow> db \<Rightarrow> user list result" where
  "listUsers key opt d = res_bind (caller key d) (\<lambda>me.
     let visible = (\<lambda>r. sql_ne (us_status r) STATUS_DELETED \<and> (isAdmin me d \<or> us_userid r \<noteq> ''root'')) in
     res_bind (users_options me opt d) (\<lambda>selected.
       Inr (map user_of_row (order_by (\<lambda>r. Some (us_userid r)) (filter (\<lambda>r. visible r \<and> selected r) (t_users d))))))"

section \<open>Machines\<close>

definition machine_of_row :: "machine_row \<times> description_row \<Rightarrow> machine" where
  "machine_of_row r = (case r of (m, t) \<Rightarrow>
     empty_machine\<lparr>mc_machineId := text_of (ma_machineid m), mc_name := text_of (ma_name m),
       mc_site := text_of (ma_site m), mc_status := int_of (ma_status m), mc_language := text_of (de_lang t),
       mc_description := text_of (de_text t)\<rparr>)"

definition described_machines :: "db \<Rightarrow> (machine_row \<times> description_row) list" where
  "described_machines d =
     [(m, t). m \<leftarrow> t_machine d, t \<leftarrow> t_description d, ma_num m = de_machine t, sql_ne (ma_status m) STATUS_DELETED]"

definition machines_of_user :: "string \<Rightarrow> db \<Rightarrow> (machine_row \<times> description_row) list" where
  "machines_of_user uid d =
     [(m, t). m \<leftarrow> t_machine d, t \<leftarrow> t_description d, a \<leftarrow> t_account d, u \<leftarrow> t_users d,
       ma_num m = de_machine t, ac_machine a = ma_num m, ac_user a = us_num u, sql_ne (ma_status m) STATUS_DELETED,
       sql_ne (ac_status a) STATUS_DELETED, sql_ne (us_status u) STATUS_DELETED, us_userid u = uid]"

definition machines_options :: "user \<Rightarrow> list_acc_options \<Rightarrow> db \<Rightarrow> (machine_row \<times> description_row) list result" where
  "machines_options me opt d =
     res_bind (admin_options me (lo_userId opt \<noteq> []) d) (\<lambda>_.
     res_bind (when_given (lo_userId opt) (query_checkUserId (lo_userId opt) d)) (\<lambda>_.
     res_bind (when_given (lo_targetId opt) (query_checkMachineId (lo_targetId opt) d)) (\<lambda>_.
       let rows = (if lo_userId opt \<noteq> [] then machines_of_user (lo_userId opt) d
                   else if lo_all opt \<or> lo_targetId opt \<noteq> [] then described_machines d
                   else machines_of_user (u_userId me) d)
       in Inr (filter (\<lambda>(m, t). lo_targetId opt \<noteq> [] \<longrightarrow> ma_machineid m = Some (lo_targetId opt)) rows))))"

definition listMachines :: "string \<Rightarrow> list_acc_options \<Rightarrow> db \<Rightarrow> machine list result" where
  "listMachines key opt d = res_bind (caller key d) (\<lambda>me.
     res_bind (machines_options me opt d) (\<lambda>rows. Inr (map machine_of_row rows)))"

section \<open>Accounts\<close>

text \<open>An administrator who names a user drops the earlier condition; the conditions on machine and system are added.\<close>

definition owner_condition :: "user \<Rightarrow> list_acc_options \<Rightarrow> string \<Rightarrow> bool" where
  "owner_condition me opt uid \<longleftrightarrow>
     (if lo_userId opt \<noteq> [] then uid = lo_userId opt else \<not> lo_all opt \<longrightarrow> uid = u_userId me)"

definition accounts_options :: "user \<Rightarrow> list_acc_options \<Rightarrow> db \<Rightarrow>
    (account_row \<times> machine_row \<times> users_row \<Rightarrow> bool) result" where
  "accounts_options me opt d =
     res_bind (admin_options me (lo_userId opt \<noteq> [] \<or> lo_all opt) d) (\<lambda>_.
     res_bind (when_given (lo_userId opt) (query_checkUserId (lo_userId opt) d)) (\<lambda>_.
     res_bind (when_given (lo_targetId opt) (query_checkMachineId (lo_targetId opt) d)) (\<lambda>_.
       Inr (\<lambda>(a, m, u). owner_condition me opt (us_userid u) \<and>
         (lo_targetId opt \<noteq> [] \<longrightarrow> ma_machineid m = Some (lo_targetId opt))))))"

definition active_accounts :: "db \<Rightarrow> (account_row \<times> machine_row \<times> users_row) list" where
  "active_accounts d =
     [(a, m, u). a \<leftarrow> t_account d, m \<leftarrow> t_machine d, u \<leftarrow> t_users d, ac_machine a = ma_num m, ac_user a = us_num u,
       us_status u = Some STATUS_ACTIVE, ma_status m = Some STATUS_ACTIVE, ac_status a = Some STATUS_ACTIVE]"

definition listLocalAccounts :: "string \<Rightarrow> list_acc_options \<Rightarrow> db \<Rightarrow> local_account list result" where
  "listLocalAccounts key opt d = res_bind (caller key d) (\<lambda>me.
     res_bind (accounts_options me opt d) (\<lambda>selected.
       Inr (map (\<lambda>(a, m, u). empty_account\<lparr>la_machineId := text_of (ma_machineid m), la_userId := us_userid u,
                 la_acLogin := text_of (ac_login a), la_homeDirectory := text_of (ac_home a)\<rparr>)
             (filter selected (active_accounts d)))))"

definition auth_accounts_options :: "user \<Rightarrow> list_acc_options \<Rightarrow> db \<Rightarrow>
    (authaccount_row \<times> authsystem_row \<times> users_row \<Rightarrow> bool) result" where
  "auth_accounts_options me opt d =
     res_bind (admin_options me (lo_userId opt \<noteq> [] \<or> lo_all opt) d) (\<lambda>_.
     res_bind (when_given (lo_userId opt) (query_checkUserId (lo_userId opt) d)) (\<lambda>_.
     res_bind (when_given (lo_targetId opt) (checkAuthSystemId (lo_targetId opt) d)) (\<lambda>_.
       Inr (\<lambda>(a, y, u). owner_condition me opt (us_userid u) \<and>
         (lo_targetId opt \<noteq> [] \<longrightarrow> ay_authsystemid y = Some (lo_targetId opt))))))"

definition live_auth_accounts :: "db \<Rightarrow> (authaccount_row \<times> authsystem_row \<times> users_row) list" where
  "live_auth_accounts d =
     [(a, y, u). a \<leftarrow> t_authaccount d, y \<leftarrow> t_authsystem d, u \<leftarrow> t_users d, au_authsystem a = ay_num y,
       au_user a = us_num u, sql_ne (ay_status y) STATUS_DELETED, sql_ne (au_status a) STATUS_DELETED]"

definition listAuthAccounts :: "string \<Rightarrow> list_acc_options \<Rightarrow> db \<Rightarrow> auth_account list result" where
  "listAuthAccounts key opt d = res_bind (caller key d) (\<lambda>me.
     res_bind (auth_accounts_options me opt d) (\<lambda>selected.
       Inr (map (\<lambda>(a, y, u). \<lparr>aa_authSystemId = text_of (ay_authsystemid y), aa_userId = us_userid u,
                 aa_acLogin = text_of (au_login a)\<rparr>)
             (filter selected (live_auth_accounts d)))))"

section \<open>Authentication systems\<close>

text \<open>
  \<^verbatim>\<open>mfullInfo\<close> is set from the options first. The accounts a system is looked for in are not asked for their
  status, nor their users.
\<close>

definition authsystems_of_user :: "string \<Rightarrow> db \<Rightarrow> string option list" where
  "authsystems_of_user uid d =
     [ay_authsystemid y. y \<leftarrow> t_authsystem d, u \<leftarrow> t_users d, a \<leftarrow> t_authaccount d,
       us_userid u = uid, au_authsystem a = ay_num y, au_user a = us_num u]"

definition in_query :: "'a option \<Rightarrow> 'a option list \<Rightarrow> bool" where
  "in_query v vs \<longleftrightarrow> v \<noteq> None \<and> v \<in> set vs"

definition authsystems_options :: "user \<Rightarrow> list_authsys_options \<Rightarrow> db \<Rightarrow> (authsystem_row \<Rightarrow> bool) result" where
  "authsystems_options me opt d =
     res_bind (admin_options me (ls_fullInfo opt) d) (\<lambda>_.
     res_bind (when_given (ls_userId opt) (if isAdmin me d then query_checkUserId (ls_userId opt) d
                                        else Inl (UMSVishnuException ERRCODE_NO_ADMIN []))) (\<lambda>_.
     res_bind (when_given (ls_authSystemId opt) (checkAuthSystemId (ls_authSystemId opt) d)) (\<lambda>_.
       Inr (\<lambda>y. (ls_userId opt \<noteq> [] \<longrightarrow> in_query (ay_authsystemid y) (authsystems_of_user (ls_userId opt) d)) \<and>
         (ls_authSystemId opt \<noteq> [] \<longrightarrow> ay_authsystemid y = Some (ls_authSystemId opt)) \<and>
         (\<not> ls_all opt \<and> ls_userId opt = [] \<and> ls_authSystemId opt = [] \<longrightarrow>
            in_query (ay_authsystemid y) (authsystems_of_user (u_userId me) d))))))"

definition auth_system_of_row :: "bool \<Rightarrow> authsystem_row \<times> ldapauthsystem_row \<Rightarrow> auth_system" where
  "auth_system_of_row mfullInfo r = (case r of (y, l) \<Rightarrow>
     let y0 = empty_auth_system\<lparr>as_authSystemId := text_of (ay_authsystemid y), as_name := text_of (ay_name y),
                as_URI := text_of (ay_uri y)\<rparr>;
         y1 = (if mfullInfo then y0\<lparr>as_authLogin := text_of (ay_authlogin y),
                 as_authPassword := text_of (ay_authpassword y),
                 as_userPasswordEncryption := int_of (ay_userpwdencryption y), as_type := int_of (ay_authtype y)\<rparr>
               else y0)
     in y1\<lparr>as_status := int_of (ay_status y), as_ldapBase := text_of (ld_ldapbase l)\<rparr>)"

definition ldap_systems :: "db \<Rightarrow> (authsystem_row \<times> ldapauthsystem_row) list" where
  "ldap_systems d =
     [(y, l). y \<leftarrow> t_authsystem d, l \<leftarrow> t_ldapauthsystem d, ld_authsystem l = ay_num y, sql_ne (ay_status y) STATUS_DELETED]"

definition listAuthSystems :: "string \<Rightarrow> list_authsys_options \<Rightarrow> db \<Rightarrow> auth_system list result" where
  "listAuthSystems key opt d = res_bind (caller key d) (\<lambda>me.
     res_bind (authsystems_options me opt d) (\<lambda>selected.
       Inr (map (auth_system_of_row (ls_fullInfo opt))
             (order_by (\<lambda>(y, l). ay_authsystemid y) (filter (\<lambda>(y, l). selected y) (ldap_systems d))))))"

section \<open>Sessions\<close>

record listed_session = session +
  se_dateLastConnect :: int
  se_dateCreation :: int
  se_dateClosure :: int

text \<open>With the name of a client machine the statement is another one, which joins the table of those.\<close>

definition sessions_joined :: "string \<Rightarrow> db \<Rightarrow> (vsession_row \<times> users_row) list" where
  "sessions_joined name d =
     (if name \<noteq> []
      then [(s, u). s \<leftarrow> t_vsession d, u \<leftarrow> t_users d, c \<leftarrow> t_clmachine d, vs_user s = us_num u,
              vs_clmachine s = cl_num c, cl_name c = Some name]
      else [(s, u). s \<leftarrow> t_vsession d, u \<leftarrow> t_users d, vs_user s = us_num u])"

definition sessions_options :: "user \<Rightarrow> list_session_options \<Rightarrow> db \<Rightarrow>
    (vsession_row \<times> users_row \<Rightarrow> bool) result" where
  "sessions_options me opt d =
     (let status = (if lss_status opt = STATUS_UNDEFINED then STATUS_ACTIVE else lss_status opt) in
     res_bind (admin_options me (lss_userId opt \<noteq> [] \<or> lss_admin opt) d) (\<lambda>_.
     res_bind (when_given (lss_machineId opt) (checkClientMachineName (lss_machineId opt) d)) (\<lambda>_.
     res_bind (when_given (lss_userId opt) (query_checkUserId (lss_userId opt) d)) (\<lambda>_.
     res_bind (checkStatus status) (\<lambda>_.
     res_bind (checkClosePolicy (lss_closePolicy opt)) (\<lambda>_.
     res_bind (ensure (\<not> lss_inactivityDelay opt < 0) (UMSVishnuException ERRCODE_INCORRECT_TIMEOUT [])) (\<lambda>_.
     res_bind (when_given (lss_sessionId opt) (checkSessionId (lss_sessionId opt) d)) (\<lambda>_.
       Inr (\<lambda>(s, u). (if lss_userId opt \<noteq> [] then us_userid u = lss_userId opt
                     else \<not> lss_admin opt \<longrightarrow> us_userid u = u_userId me) \<and>
         vs_state s = Some status \<and>
         (lss_closePolicy opt \<noteq> 0 \<longrightarrow> vs_closepolicy s = Some (lss_closePolicy opt)) \<and>
         (lss_inactivityDelay opt \<noteq> 0 \<longrightarrow> vs_timeout s = Some (lss_inactivityDelay opt)) \<and>
         (lss_sessionId opt \<noteq> [] \<longrightarrow> vs_sessionid s = Some (lss_sessionId opt)) \<and>
         from_date (lss_startDate opt) (vs_creation s) \<and> to_date (lss_endDate opt) (vs_closure s))))))))))"

definition session_of_row :: "vsession_row \<times> users_row \<Rightarrow> listed_session" where
  "session_of_row r = (case r of (s, u) \<Rightarrow>
     \<lparr>se_sessionId = text_of (vs_sessionid s), se_userId = us_userid u, se_sessionKey = text_of (vs_key s),
      se_status = int_of (vs_state s), se_closePolicy = int_of (vs_closepolicy s), se_timeout = int_of (vs_timeout s),
      se_authenId = text_of (vs_authid s), se_dateLastConnect = convertToTimeType (vs_lastconnect s),
      se_dateCreation = convertToTimeType (vs_creation s), se_dateClosure = convertToTimeType (vs_closure s)\<rparr>)"

definition listSessions :: "string \<Rightarrow> list_session_options \<Rightarrow> db \<Rightarrow> listed_session list result" where
  "listSessions key opt d = res_bind (caller key d) (\<lambda>me.
     res_bind (sessions_options me opt d) (\<lambda>selected.
       Inr (map session_of_row (order_by (\<lambda>(s, u). vs_creation s)
             (filter selected (sessions_joined (lss_machineId opt) d))))))"

section \<open>The history of the commands\<close>

record command_info =
  ci_commandId :: string
  ci_sessionId :: string
  ci_machineId :: string
  ci_cmdDescription :: string
  ci_cmdStartTime :: int
  ci_cmdEndTime :: int
  ci_status :: int

definition convertCmdType :: "int \<Rightarrow> string" where
  "convertCmdType type =
     (if type = 0 then ''UMS'' else if type = 1 then ''TMS'' else if type = 2 then ''FMS'' else ''Unknown Command'')"

definition convertypetoMapperName :: "int \<Rightarrow> string" where
  "convertypetoMapperName type =
     (if type = 0 then ''UMS'' else if type = 1 then ''TMS'' else if type = 2 then ''FMS'' else ''Uknown Mapper Name'')"

text \<open>The registry of the decoders that a server fills at its start.\<close>

type_synonym decoders = "(string \<Rightarrow> string result) registry"

definition server_decoders :: "ums_parsers \<Rightarrow> 'j jansson \<Rightarrow> tms_parsers \<Rightarrow> fms_parsers \<Rightarrow> (int \<Rightarrow> string) \<Rightarrow> decoders" where
  "server_decoders P J TP FP date_string =
     Some [''UMS'' \<mapsto> ums_decode P date_string, ''TMS'' \<mapsto> tms_decode J TP date_string, ''FMS'' \<mapsto> fms_decode FP]"

definition commands_joined :: "db \<Rightarrow> (vsession_row \<times> clmachine_row \<times> command_row \<times> users_row) list" where
  "commands_joined d =
     [(s, c, m, u). s \<leftarrow> t_vsession d, c \<leftarrow> t_clmachine d, m \<leftarrow> t_command d, u \<leftarrow> t_users d,
       vs_num s = cm_session m, vs_clmachine s = cl_num c, vs_user s = us_num u]"

definition commands_options :: "user \<Rightarrow> list_cmd_options \<Rightarrow> db \<Rightarrow>
    (vsession_row \<times> clmachine_row \<times> command_row \<times> users_row \<Rightarrow> bool) result" where
  "commands_options me opt d =
     res_bind (admin_options me (lc_userId opt \<noteq> [] \<or> lc_admin opt) d) (\<lambda>_.
     res_bind (when_given (lc_userId opt) (query_checkUserId (lc_userId opt) d)) (\<lambda>_.
     res_bind (when_given (lc_sessionId opt) (checkSessionId (lc_sessionId opt) d)) (\<lambda>_.
       Inr (\<lambda>(s, c, m, u). (if lc_userId opt \<noteq> [] then us_userid u = lc_userId opt
                     else \<not> lc_admin opt \<longrightarrow> us_userid u = u_userId me) \<and>
         (lc_sessionId opt \<noteq> [] \<longrightarrow> vs_sessionid s = Some (lc_sessionId opt)) \<and>
         from_date (lc_startDate opt) (cm_starttime m) \<and> to_date (lc_endDate opt) (cm_endtime m)))))"

definition command_of_row :: "decoders \<Rightarrow> vsession_row \<times> clmachine_row \<times> command_row \<times> users_row \<Rightarrow>
    command_info result" where
  "command_of_row D r = (case r of (s, c, m, u) \<Rightarrow>
     let type = int_of (cm_ctype m) in
     res_bind (getMapper (convertypetoMapperName type) D) (\<lambda>decode.
     res_bind (decode (text_of (cm_description m))) (\<lambda>description.
       Inr \<lparr>ci_commandId = convertCmdType type, ci_sessionId = text_of (vs_sessionid s),
            ci_machineId = text_of (cl_name c), ci_cmdDescription = description,
            ci_cmdStartTime = convertToTimeType (cm_starttime m), ci_cmdEndTime = convertToTimeType (cm_endtime m),
            ci_status = int_of (cm_status m)\<rparr>)))"

definition listCommands :: "decoders \<Rightarrow> string \<Rightarrow> list_cmd_options \<Rightarrow> db \<Rightarrow> command_info list result" where
  "listCommands D key opt d = res_bind (caller key d) (\<lambda>me.
     res_bind (commands_options me opt d) (\<lambda>selected.
       res_map (command_of_row D)
         (order_by (\<lambda>(s, c, m, u). cm_starttime m) (filter selected (commands_joined d)))))"

section \<open>The services\<close>

record ums_lists =
  ser_users :: "user list \<Rightarrow> string"
  ser_machines :: "machine list \<Rightarrow> string"
  ser_local_accounts :: "local_account list \<Rightarrow> string"
  ser_auth_accounts :: "auth_account list \<Rightarrow> string"
  ser_auth_systems :: "auth_system list \<Rightarrow> string"
  ser_sessions :: "listed_session list \<Rightarrow> string"
  ser_commands :: "command_info list \<Rightarrow> string"

text \<open>
  An option that is no object is refused before the text of the command is made, so the command is recorded
  without a text.
\<close>

definition solveGenerique :: "ums_env \<Rightarrow> diet_profile \<Rightarrow> string \<Rightarrow> (string \<Rightarrow> 'o option) \<Rightarrow>
    (string \<Rightarrow> 'o \<Rightarrow> db \<Rightarrow> 'l list result) \<Rightarrow> ('l list \<Rightarrow> string) \<Rightarrow> diet_profile op" where
  "solveGenerique env pb command parse query ser = with_args 2 pb (\<lambda>a.
     (case parse (a ! 1) of
        None \<Rightarrow> session_service env pb (a ! 0) [] True True (op_throw bad_param)
      | Some options \<Rightarrow> session_service env pb (a ! 0) (ums_coded command [a ! 1]) True True (
          op_bind (op_read (query (a ! 0) options)) (\<lambda>l. op_ret (ser l, [])))))"

definition solveListUsers :: "ums_env \<Rightarrow> ums_parsers \<Rightarrow> ums_lists \<Rightarrow> diet_profile \<Rightarrow> diet_profile op" where
  "solveListUsers env P L pb =
     solveGenerique env pb ''vishnu_list_users'' (parse_user_options P) listUsers (ser_users L)"

definition solveListMachines :: "ums_env \<Rightarrow> ums_parsers \<Rightarrow> ums_lists \<Rightarrow> diet_profile \<Rightarrow> diet_profile op" where
  "solveListMachines env P L pb =
     solveGenerique env pb ''vishnu_list_machines'' (parse_machine_options P) listMachines (ser_machines L)"

definition solveListLocalAccount :: "ums_env \<Rightarrow> ums_parsers \<Rightarrow> ums_lists \<Rightarrow> diet_profile \<Rightarrow> diet_profile op" where
  "solveListLocalAccount env P L pb =
     solveGenerique env pb ''vishnu_list_local_accounts'' (parse_local_acc_options P) listLocalAccounts
       (ser_local_accounts L)"

definition solveListHistoryCmd :: "ums_env \<Rightarrow> ums_parsers \<Rightarrow> decoders \<Rightarrow> ums_lists \<Rightarrow> diet_profile \<Rightarrow>
    diet_profile op" where
  "solveListHistoryCmd env P D L pb =
     solveGenerique env pb ''vishnu_list_history_cmd'' (parse_cmd_options P) (listCommands D) (ser_commands L)"

definition solveListSessions :: "ums_env \<Rightarrow> ums_parsers \<Rightarrow> ums_lists \<Rightarrow> diet_profile \<Rightarrow> diet_profile op" where
  "solveListSessions env P L pb =
     solveGenerique env pb ''vishnu_list_sessions'' (parse_session_options P) listSessions (ser_sessions L)"

definition solveSystemAuthList :: "ums_env \<Rightarrow> ums_parsers \<Rightarrow> ums_lists \<Rightarrow> diet_profile \<Rightarrow> diet_profile op" where
  "solveSystemAuthList env P L pb =
     solveGenerique env pb ''vishnu_list_auth_systems'' (parse_authsys_options P) listAuthSystems (ser_auth_systems L)"

definition solveAccountAuthList :: "ums_env \<Rightarrow> ums_parsers \<Rightarrow> ums_lists \<Rightarrow> diet_profile \<Rightarrow> diet_profile op" where
  "solveAccountAuthList env P L pb =
     solveGenerique env pb ''vishnu_list_auth_accounts'' (parse_auth_acc_options P) listAuthAccounts (ser_auth_accounts L)"

definition ums_list_mcb :: "ums_env \<Rightarrow> ums_parsers \<Rightarrow> decoders \<Rightarrow> ums_lists \<Rightarrow> string \<Rightarrow>
    (diet_profile \<Rightarrow> diet_profile op) option" where
  "ums_list_mcb env P D L = map_of
     [(''sessionList'', solveListSessions env P L),
      (''localAccountList'', solveListLocalAccount env P L),
      (''machineList'', solveListMachines env P L),
      (''commandList'', solveListHistoryCmd env P D L),
      (''userList'', solveListUsers env P L),
      (''authSystemList'', solveSystemAuthList env P L),
      (''authAccountList'', solveAccountAuthList env P L)]"

lemmas list_service_defs = solveListUsers_def solveListMachines_def solveListLocalAccount_def
  solveListHistoryCmd_def solveListSessions_def solveSystemAuthList_def solveAccountAuthList_def

end
