(* ===== verification/Tms_Options.thy ===== *)
theory Tms_Options
  imports Util_Tms
begin

text \<open>
  The default options of the batch scheduler: \<^verbatim>\<open>ServerXMS::getConfigOptions\<close> reads them from a file,
  \<^verbatim>\<open>JobServer::processDefaultOptions\<close> and \<^verbatim>\<open>JobServer::insertOptionLine\<close> put the ones a script does not
  give into it. A list of options is a key, its value, a key, its value and so on.
\<close>

section \<open>Reading the options\<close>

text \<open>
  What a line gives: the text after the key of the batch scheduler, up to a blank the name of an option
  and then its values.
\<close>

definition option_line :: "string \<Rightarrow> string \<Rightarrow> (string \<times> string) option" where
  "option_line batchKey line =
     (case find_str line ''#'' of
        None \<Rightarrow> None
      | Some pos \<Rightarrow>
          let line1 = drop pos line in
          if starts_with batchKey line1 then
            let line2 = dropWhile is_space_char (drop (length batchKey) line1) in
            (case find_str line2 '' '' of
               None \<Rightarrow> None
             | Some p \<Rightarrow> Some (trim (take p line2), trim (drop p line2)))
          else None)"

text \<open>
  The loop over the values. \<^verbatim>\<open>substr(0, pos-1)\<close> leaves out the character before the comma, and is the
  whole text when the comma comes first; \<^verbatim>\<open>erase(0, pos)\<close> leaves the comma in front.
\<close>

partial_function (option) values_loop :: "string \<Rightarrow> string \<Rightarrow> string list \<Rightarrow> string list option" where
  "values_loop key line opts =
     (case find_str line '','' of
        None \<Rightarrow> Some (opts @ [line])
      | Some pos \<Rightarrow> values_loop key (drop pos line)
          (opts @ [if pos = 0 then line else take (pos - 1) line, key]))"

fun option_lines :: "string \<Rightarrow> string list \<Rightarrow> string list \<Rightarrow> string list option" where
  "option_lines batchKey [] opts = Some opts"
| "option_lines batchKey (line # rest) opts =
     (case option_line batchKey line of
        None \<Rightarrow> option_lines batchKey rest opts
      | Some (key, vals) \<Rightarrow>
          (case values_loop key vals (opts @ [key]) of
             None \<Rightarrow> None
           | Some opts' \<Rightarrow> option_lines batchKey rest opts'))"

text \<open>A file that cannot be read gives no options: every exception is caught.\<close>

definition getConfigOptions :: "string \<Rightarrow> fs_entry \<Rightarrow> string list \<Rightarrow> string \<Rightarrow> string list option" where
  "getConfigOptions configPath f defaultOptions batchKey =
     (case get_file_content configPath f True of
        Inl e \<Rightarrow> Some defaultOptions
      | Inr content \<Rightarrow> option_lines batchKey (split_if (\<lambda>c. c = CHR 0x0A) content) defaultOptions)"

section \<open>Reading ends exactly without a comma\<close>

lemma comma_find: "find_str line '','' = None \<longleftrightarrow> CHR '','' \<notin> set line"
  by (auto simp: find_str_def find_str_char find_if_from_None)

lemma values_loop_comma_aux:
  assumes "values_loop key line opts = Some r"
  shows "CHR '','' \<notin> set line"
proof (rule values_loop.raw_induct [OF _ assms])
  fix rec and key line :: string and opts r
  assume ih: "\<And>key line opts r. rec key line opts = Some r \<Longrightarrow> CHR '','' \<notin> set line"
    and body: "(case find_str line '','' of
        None \<Rightarrow> Some (opts @ [line])
      | Some pos \<Rightarrow> rec key (drop pos line) (opts @ [if pos = 0 then line else take (pos - 1) line, key])) = Some r"
  show "CHR '','' \<notin> set line"
  proof (cases "find_str line '',''")
    case None
    then show ?thesis by (simp add: comma_find)
  next
    case (Some pos)
    from find_char_split [OF Some] have "CHR '','' \<in> set (drop pos line)"
      by (metis append_eq_conv_conj append_take_drop_id list.set_intros(1) same_append_eq)
    moreover have "CHR '','' \<notin> set (drop pos line)" using ih body Some by simp
    ultimately show ?thesis by simp
  qed
qed

lemma values_loop_result:
  "values_loop key line opts = (if CHR '','' \<in> set line then None else Some (opts @ [line]))"
proof (cases "CHR '','' \<in> set line")
  case True
  then show ?thesis using values_loop_comma_aux by (cases "values_loop key line opts") auto
next
  case False
  then show ?thesis by (subst values_loop.simps) (simp add: comma_find [THEN iffD2])
qed

fun flat_options :: "(string \<times> string) list \<Rightarrow> string list" where
  "flat_options [] = []"
| "flat_options ((k, v) # kvs) = k # v # flat_options kvs"

lemma option_lines_result:
  "option_lines batchKey lines opts =
     (if list_ex (\<lambda>kv. CHR '','' \<in> set (snd kv)) (List.map_filter (option_line batchKey) lines) then None
      else Some (opts @ flat_options (List.map_filter (option_line batchKey) lines)))"
  by (induction batchKey lines opts rule: option_lines.induct)
    (auto simp: map_filter_simps values_loop_result split: option.splits)

text \<open>
  C37. The default batch options are read to the end exactly when no option of the file has a comma in its
  value; the result is then the options of the lines, each with its name and its value. With a comma the
  loop never ends: what it cuts off leaves the comma in front.
\<close>

theorem getConfigOptions_terminates:
  "getConfigOptions path (Regular content) opts batchKey =
     (let kvs = List.map_filter (option_line batchKey) (split_if (\<lambda>c. c = CHR 0x0A) content) in
      if content = [] then Some opts
      else if list_ex (\<lambda>kv. CHR '','' \<in> set (snd kv)) kvs then None
      else Some (opts @ flat_options kvs))"
  by (simp add: getConfigOptions_def get_file_content_def option_lines_result Let_def)

end
