(* ===== verification/Tms_Script.thy ===== *)
theory Tms_Script
  imports Tms_Options
begin

text \<open>
  The conversion of generic scripts into scripts of a batch scheduler:
  \<^verbatim>\<open>TMS/src/server/ScriptGenConvertor.cpp\<close>. A script is parsed into descriptors, pairs of a key and a
  value, and these are printed with the directives of the scheduler.
\<close>

section \<open>Keys and tables\<close>

type_synonym descriptor = "(string \<times> string) list"

abbreviation (input) k_group :: string where "k_group \<equiv> ''vishnu_group''"
abbreviation (input) k_workingDir :: string where "k_workingDir \<equiv> ''vishnu_working_dir''"
abbreviation (input) k_jobName :: string where "k_jobName \<equiv> ''vishnu_job_name''"
abbreviation (input) k_jobOutput :: string where "k_jobOutput \<equiv> ''vishnu_output''"
abbreviation (input) k_jobError :: string where "k_jobError \<equiv> ''vishnu_error''"
abbreviation (input) k_wallClock :: string where "k_wallClock \<equiv> ''vishnu_wallclocklimit''"
abbreviation (input) k_cpuTime :: string where "k_cpuTime \<equiv> ''vishnu_cput''"
abbreviation (input) k_nbCpu :: string where "k_nbCpu \<equiv> ''vishnu_nb_cpu''"
abbreviation (input) k_nbNodes :: string where "k_nbNodes \<equiv> ''vishnu_nbnodesandcpupernode''"
abbreviation (input) k_mem :: string where "k_mem \<equiv> ''vishnu_memory''"
abbreviation (input) k_mailNotification :: string where "k_mailNotification \<equiv> ''vishnu_mailnotification''"
abbreviation (input) k_mailNotifyUser :: string where "k_mailNotifyUser \<equiv> ''vishnu_notify_user''"
abbreviation (input) k_queue :: string where "k_queue \<equiv> ''vishnu_queue''"
abbreviation (input) loadLevelerSec :: string where "loadLevelerSec \<equiv> ''loadleveler_sec''"
abbreviation (input) torqueSec :: string where "torqueSec \<equiv> ''torque_sec''"
abbreviation (input) slurmSec :: string where "slurmSec \<equiv> ''slurm_sec''"
abbreviation (input) lsfSec :: string where "lsfSec \<equiv> ''lsf_sec''"
abbreviation (input) sgeSec :: string where "sgeSec \<equiv> ''sge_sec''"
abbreviation (input) commandSec :: string where "commandSec \<equiv> ''command_sec''"

definition generic_keys :: "string list" where
  "generic_keys = [k_group, k_workingDir, k_jobName, k_jobOutput, k_jobError, k_wallClock, k_cpuTime, k_nbCpu,
     k_nbNodes, k_mem, k_mailNotification, k_mailNotifyUser, k_queue]"

text \<open>The table of a scheduler: the directives of the generic keys in the order above, and of the sections.\<close>

definition table_of :: "string list \<Rightarrow> (string \<times> string) list \<Rightarrow> (string \<times> string) list" where
  "table_of directives sections = zip generic_keys directives @ sections"

definition pbs_directives :: "string list" where
  "pbs_directives = [''#PBS -W group_list='', ''#PBS -d '', ''#PBS -N '', ''#PBS -o '', ''#PBS -e '',
     ''#PBS -l walltime='', ''#PBS -l cput='', ''## PBS -l '', ''#PBS -l '', ''#PBS -l mem='', ''#PBS -m '',
     ''#PBS -M '', ''#PBS -q '']"

definition conversion_table :: "BatchType \<Rightarrow> (string \<times> string) list" where
  "conversion_table b = (case b of
     LOADLEVELER \<Rightarrow> table_of
       [''# @ group='', ''# @ initialdir='', ''# @ job_name='', ''# @ output='', ''# @ error='',
        ''# @ wall_clock_limit='', ''# @ cpu_limit= '', ''# @ '', ''# @ '', ''# @ data_limit='',
        ''# @ notification='', ''# @ notify_user='', ''# @ class='']
       [(loadLevelerSec, []), (commandSec, []), (torqueSec, [])]
   | TORQUE \<Rightarrow> table_of pbs_directives [(loadLevelerSec, []), (commandSec, []), (torqueSec, [])]
   | PBSPRO \<Rightarrow> table_of pbs_directives [(loadLevelerSec, []), (commandSec, []), (torqueSec, [])]
   | SLURM \<Rightarrow> table_of
       [''#SBATCH --gid='', ''#SBATCH -D '', ''#SBATCH -J '', ''#SBATCH -o '', ''#SBATCH -e '',
        ''#SBATCH -t '', ''#SBATCH -t '', ''#SBATCH --mincpus='', ''#SBATCH '', ''#SBATCH --mem='',
        ''#SBATCH --mail-type='', ''#SBATCH --mail-user='', ''#SBATCH -p '']
       [(slurmSec, []), (commandSec, []), (torqueSec, [])]
   | LSF \<Rightarrow> table_of
       [''#BSUB -G '', ''#BSUB -cwd '', ''#BSUB -J '', ''#BSUB -o '', ''#BSUB -e '',
        ''#% -vishnuWaillClockLimit='', ''#BSUB -c '', ''#% -vishnuCpu='',
        ''#% -vishnuNbNodesAndCpuPerNode='', ''#BSUB -M '', ''#% -vishnuMailNofication='', ''#BSUB -u '',
        ''#BSUB -q '']
       [(lsfSec, []), (commandSec, [])]
   | SGE \<Rightarrow> table_of
       [[], ''#$ -wd '', ''#$ -N '', ''#$ -o '', ''#$ -e '', ''#$ -l s_rt='', ''#$ -l s_cpu='', ''#'', ''#'',
        ''#$ -l s_vmem='', ''#$ -m '', ''#$ -M '', ''#$ -q '']
       [(sgeSec, []), (commandSec, []), (torqueSec, [])]
   | POSIX \<Rightarrow> table_of
       [''#% vishnu_group='', ''#% vishnu_working_dir='', ''#% vishnu_job_name='', ''#% vishnu_output='',
        ''#% vishnu_error='', ''#% vishnu_wallclocklimit='', ''##'', ''##'', ''##'', ''##'', ''##'', ''##'', ''##'']
       [(sgeSec, []), (commandSec, []), (torqueSec, [])]
   | _ \<Rightarrow> zip (tl generic_keys) (replicate 12 ''#'') @ [(sgeSec, ''#''), (commandSec, []), (torqueSec, ''#'')])"

text \<open>\<^verbatim>\<open>operator[]\<close> of the map gives the empty string for a key that is not there.\<close>

definition directive_of :: "BatchType \<Rightarrow> string \<Rightarrow> string" where
  "directive_of b key = (case map_of (conversion_table b) key of None \<Rightarrow> [] | Some v \<Rightarrow> v)"

definition end_script :: "BatchType \<Rightarrow> string" where
  "end_script b = (if b = LOADLEVELER then ''# @ queue'' else [])"

definition symbols :: "string list" where
  "symbols = generic_keys @ [loadLevelerSec, torqueSec, commandSec]"

section \<open>Parsing\<close>

definition lower :: "char \<Rightarrow> char" where
  "lower c = (if 65 \<le> (of_char c :: nat) \<and> (of_char c :: nat) \<le> 90 then char_of ((of_char c :: nat) + 32) else c)"

definition erase_spaces :: "string \<Rightarrow> string" where
  "erase_spaces s = filter (\<lambda>c. c \<noteq> CHR '' '') s"

definition invalid_argument :: "string \<Rightarrow> nat \<Rightarrow> string" where
  "invalid_argument arg numline =
     ''Error : Invalid argument '' @ arg @ '' at line '' @ show_nat numline @ '' in your script file'' @ [CHR 0x0A]"

text \<open>A generic directive, from its percent sign on.\<close>

definition generic_line :: "string \<Rightarrow> nat \<Rightarrow> string + descriptor" where
  "generic_line line numline =
     (case find_str line ''='' of
        None \<Rightarrow>
          let arg = erase_spaces line in
          if arg = [] \<or> map lower arg \<in> set symbols then Inr [] else Inl (invalid_argument arg numline)
      | Some pos \<Rightarrow>
          let key = erase_spaces (take pos line) in
          if key = [] then Inr []
          else if map lower key \<notin> set symbols then Inl (invalid_argument key numline)
          else Inr [(map lower key, dropWhile (\<lambda>c. c = CHR '' '') (drop (pos + 1) line))])"

text \<open>
  A line. Without the sign it is a command. With it, what comes before the sign is erased; a directive of
  this scheduler or an interpreter line is kept as it is, a generic directive is parsed, and
  every other line is left out.
\<close>

definition script_line :: "BatchType \<Rightarrow> string \<Rightarrow> nat \<Rightarrow> string + descriptor" where
  "script_line b line numline =
     (case find_str line ''#'' of
        None \<Rightarrow> Inr (if erase_spaces line = [] then [] else [(commandSec, line)])
      | Some pos \<Rightarrow>
          let l = drop pos line in
          if starts_with ''#@'' (erase_spaces l) then Inr (if b = LOADLEVELER then [(loadLevelerSec, l)] else [])
          else if starts_with ''#PBS'' l then Inr (if b = TORQUE \<or> b = PBSPRO then [(torqueSec, l)] else [])
          else if starts_with ''#SBATCH'' l then Inr (if b = SLURM then [(slurmSec, l)] else [])
          else if starts_with ''#$'' l then Inr (if b = SGE then [(slurmSec, l)] else [])
          else if starts_with ''#BSUB'' (erase_spaces l) then Inr (if b = LSF then [(lsfSec, l)] else [])
          else if starts_with ''#!'' l then Inr [(commandSec, l)]
          else if \<not> starts_with ''#%'' (erase_spaces l) then Inr []
          else (case find_str l ''%'' of
                  None \<Rightarrow> Inr []
                | Some p \<Rightarrow> generic_line (drop (p + 1) l) numline))"

text \<open>The loop over the lines: a backslash at the end continues a line; \<open>tmp\<close> is what was collected.\<close>

fun parse_script :: "BatchType \<Rightarrow> nat \<Rightarrow> string \<Rightarrow> string list \<Rightarrow> descriptor \<Rightarrow> string + descriptor" where
  "parse_script b numline tmp [] d = Inr d"
| "parse_script b numline tmp (line # rest) d =
     (if erase_spaces line \<noteq> [] \<and> last (erase_spaces line) = CHR 0x5C
      then parse_script b (numline + 1)
             (tmp @ take (case rfind_char line (CHR 0x5C) of None \<Rightarrow> 0 | Some p \<Rightarrow> p) line) rest d
      else (case script_line b (tmp @ line) (numline + 1) of
              Inl err \<Rightarrow> Inl err
            | Inr ds \<Rightarrow> parse_script b (numline + 1) [] rest (d @ ds)))"

definition script_lines :: "string \<Rightarrow> string list" where
  "script_lines content = split_if (\<lambda>c. c = CHR 0x0A) content"

definition vishnuScriptGenConvertor :: "BatchType \<Rightarrow> string \<Rightarrow> descriptor result" where
  "vishnuScriptGenConvertor b content =
     (case parse_script b 0 [] (script_lines content) [] of
        Inl err \<Rightarrow> Inl (UserException ERRCODE_INVALID_PARAM
          (''Can'' @ [CHR 0x27] @ ''t generate this generic script content '' @ [CHR 0x0A] @ err))
      | Inr d \<Rightarrow> Inr d)"

definition scriptIsGeneric :: "string \<Rightarrow> bool" where
  "scriptIsGeneric content \<longleftrightarrow> contains_str (erase_spaces (map lower content)) ''#%vishnu''"

section \<open>Processors per node\<close>

text \<open>
  \<^verbatim>\<open>findAndReplace\<close>: first each number after the text \<open>ppn\<close> becomes the given one, then every part
  between the plus signs that has no such text gets it. The first loop searches again from one
  character on, in the text it has just inserted, too.
\<close>

partial_function (option) ppn_replace :: "string \<Rightarrow> string \<Rightarrow> nat option \<Rightarrow> string \<Rightarrow> string option" where
  "ppn_replace ppn nbCpuStr pos str =
     (case pos of
        None \<Rightarrow> Some str
      | Some p \<Rightarrow>
          let after = drop (p + length ppn) str;
              str' = take (p + length ppn) str @ nbCpuStr @ dropWhile is_digit after
          in ppn_replace ppn nbCpuStr (find_at str' ppn (p + 1)) str')"

text \<open>\<^verbatim>\<open>findAndInsert\<close>, which also moves the end when there is one.\<close>

definition findAndInsert :: "string \<Rightarrow> string \<Rightarrow> nat \<Rightarrow> nat option \<Rightarrow> string \<Rightarrow> nat option \<times> string" where
  "findAndInsert oldValue newValue begin stop str =
     (let part = (case stop of None \<Rightarrow> drop begin str | Some e \<Rightarrow> take (e - begin) (drop begin str)) in
      if contains_str part oldValue then (stop, str)
      else (map_option (\<lambda>e. e + length newValue) stop,
            take (begin + length part) str @ newValue @ drop (begin + length part) str))"

lemma findAndInsert_left:
  "findAndInsert old new b (Some e) str = (stop, str') \<Longrightarrow> b \<le> e \<Longrightarrow> e \<le> length str \<Longrightarrow>
   \<exists>e'. stop = Some e' \<and> e' \<le> length str' \<and> length str' - e' = length str - e \<and> drop e' str' = drop e str"
  by (auto simp: findAndInsert_def Let_def min_def split: if_splits)

lemma findAndInsert_next:
  assumes "(Some e', str') = findAndInsert old new b (Some e) str" and "\<not> e < b" and "\<not> length str \<le> e"
    and "find_at str' ''+'' (Suc e') = Some e2"
  shows "length str' - e2 < length str - e"
  using findAndInsert_left [OF assms(1) [symmetric]] assms(2,3) find_at_Some(1,2) [OF assms(4)] by auto

text \<open>The positions are always in order: the first test never holds where the function is called.\<close>

function insert_parts :: "string \<Rightarrow> string \<Rightarrow> nat \<Rightarrow> nat option \<Rightarrow> string \<Rightarrow> string" where
  "insert_parts ppn newValue begin None str = str"
| "insert_parts ppn newValue begin (Some e) str =
     (if e < begin \<or> length str \<le> e then str
      else (case findAndInsert ppn newValue begin (Some e) str of
              (None, str') \<Rightarrow> str'
            | (Some e', str') \<Rightarrow>
                (case find_at str' ''+'' (e' + 1) of
                   None \<Rightarrow> snd (findAndInsert ppn newValue (e' + 1) None str')
                 | Some e2 \<Rightarrow> insert_parts ppn newValue (e' + 1) (Some e2) str')))"
  by pat_completeness auto
termination
  by (relation "measure (\<lambda>(ppn, v, b, e, str). length str - the e)") (auto intro: findAndInsert_next)

declare insert_parts.simps [simp del]

definition findAndReplace :: "string \<Rightarrow> string \<Rightarrow> string \<Rightarrow> string option" where
  "findAndReplace ppn nbCpuStr str =
     map_option (\<lambda>s. case find_str s ''+'' of
         None \<Rightarrow> snd (findAndInsert ppn (ppn @ nbCpuStr) 0 None s)
       | Some e \<Rightarrow> insert_parts ppn (ppn @ nbCpuStr) 0 (Some e) s)
     (ppn_replace ppn nbCpuStr (find_str str ppn) str)"

section \<open>Printing\<close>

definition newline_text :: string where "newline_text = [CHR 0x0A]"

text \<open>\<open>"value"\<close> without its quotes; a value that is one quote is read before its beginning.\<close>

definition unquote :: "string \<Rightarrow> string result" where
  "unquote value =
     (if value = [] then Inr []
      else let v = (if hd value = CHR 0x22 then tl value else value) in
        if v = [] then Inl UndefinedBehaviour
        else Inr (if last v = CHR 0x22 then butlast v else v))"

definition nodes_value :: "BatchType \<Rightarrow> string \<Rightarrow> string" where
  "nodes_value b value =
     (case find_str value '':'' of
        None \<Rightarrow> value
      | Some p \<Rightarrow>
          let nbNodes = take p value; cpuPerNode = drop (p + 1) value in
          if b = LOADLEVELER then
            '' node='' @ nbNodes @ newline_text @ ''# @ tasks_per_node=1'' @ newline_text @
            ''# @ tasks_affinity = core(1)'' @ newline_text @ ''# @ cpus_per_node = '' @ cpuPerNode
          else if b = TORQUE \<or> b = PBSPRO then '' nodes='' @ nbNodes @ '':ppn='' @ cpuPerNode
          else if b = SLURM then '' --nodes='' @ nbNodes @ newline_text @ ''#SBATCH --mincpus='' @ cpuPerNode
          else value)"

text \<open>The number of processors for LoadLeveler: the text printed is the name of the key.\<close>

definition loadleveler_cpu :: string where
  "loadleveler_cpu = ''# @ tasks_per_node = 1'' @ newline_text @ ''# @ tasks_affinity = core(1)'' @ newline_text @
     ''# @ cpus_per_node = '' @ k_nbCpu @ newline_text"

text \<open>The directives of a Torque script that ask for nodes, with the number of processors put in.\<close>

fun torque_nodes :: "string \<Rightarrow> string list \<Rightarrow> bool \<times> string \<Rightarrow> (bool \<times> string) option" where
  "torque_nodes value [] acc = Some acc"
| "torque_nodes value (line # rest) (ppnNotDefined, nodes) =
     (case find_str line ''#PBS'' of
        None \<Rightarrow> torque_nodes value rest (ppnNotDefined, nodes)
      | Some pos \<Rightarrow>
          (case find_at line ''-l'' pos of
             None \<Rightarrow> torque_nodes value rest (ppnNotDefined, nodes)
           | Some posL \<Rightarrow>
               if find_at line ''nodes='' pos = None then torque_nodes value rest (ppnNotDefined, nodes)
               else (case findAndReplace '':ppn='' value (drop (posL + 2) line) of
                       None \<Rightarrow> None
                     | Some l \<Rightarrow> torque_nodes value rest
                         (False, nodes @ ''#PBS -l '' @ l @ newline_text))))"

definition notifications :: "BatchType \<Rightarrow> (string \<times> string) list option" where
  "notifications b =
     (if b = LOADLEVELER then
        Some [(''BEGIN'', ''start''), (''END'', ''complete''), (''ERROR'', ''error''), (''ALL'', ''always'')]
      else if b = TORQUE \<or> b = PBSPRO \<or> b = SGE then
        Some [(''BEGIN'', ''b''), (''END'', ''e''), (''ERROR'', ''a''), (''ALL'', ''abe'')]
      else if b = SLURM then
        Some [(''BEGIN'', ''BEGIN''), (''END'', ''END''), (''ERROR'', ''FAIL''), (''ALL'', ''ALL'')]
      else None)"

definition notification_value :: "BatchType \<Rightarrow> string \<Rightarrow> string result" where
  "notification_value b value =
     (case notifications b of
        None \<Rightarrow> Inr value
      | Some t \<Rightarrow>
          (case map_of t value of
             Some v \<Rightarrow> Inr v
           | None \<Rightarrow> Inl (UserException ERRCODE_INVALID_PARAM
               (value @ '' is an invalid notification type:'' @ '' consult the vishnu user manuel''))))"

record convert_state =
  ps_nodes :: string
  ps_nodes_added :: bool
  ps_result :: string

text \<open>One descriptor. The outer option is the loop that may not end.\<close>

definition convert_value :: "BatchType \<Rightarrow> string \<Rightarrow> string \<Rightarrow> string \<Rightarrow> string \<Rightarrow>
    (string \<times> string) result option" where
  "convert_value b content key value nodes =
     (case (if key = k_nbNodes then res_bind (unquote value) (\<lambda>v. Inr (nodes_value b v)) else Inr value) of
        Inl e \<Rightarrow> Some (Inl e)
      | Inr v1 \<Rightarrow>
          let v2 = (if b = LOADLEVELER \<and> key = k_nbCpu then loadleveler_cpu else v1) in
          (case (if b = TORQUE \<and> key = k_nbCpu then torque_nodes v2 (script_lines content) (True, nodes)
                 else Some (False, nodes)) of
             None \<Rightarrow> None
           | Some (ppnNotDefined, nodes') \<Rightarrow>
               let v3 = (if ppnNotDefined then '' nodes=1:ppn='' @ v2 else v2) in
               Some (res_bind (if key = k_mailNotification then notification_value b v3 else Inr v3)
                       (\<lambda>v4. Inr (v4, nodes')))))"

fun convert_loop :: "BatchType \<Rightarrow> string \<Rightarrow> descriptor \<Rightarrow> convert_state \<Rightarrow> string result option" where
  "convert_loop b content [] st = Some (Inr (ps_result st))"
| "convert_loop b content ((key, value) # rest) st =
     (case convert_value b content key value (ps_nodes st) of
        None \<Rightarrow> None
      | Some (Inl e) \<Rightarrow> Some (Inl e)
      | Some (Inr (v, nodes)) \<Rightarrow>
          let add = b = TORQUE \<and> key = commandSec \<and> nodes \<noteq> [] \<and> \<not> ps_nodes_added st in
          convert_loop b content rest
            \<lparr>ps_nodes = nodes, ps_nodes_added = ps_nodes_added st \<or> add,
             ps_result = ps_result st @ (if add then nodes else []) @ directive_of b key @ v @ newline_text\<rparr>)"

definition getConvertedScript :: "BatchType \<Rightarrow> string \<Rightarrow> descriptor \<Rightarrow> string result option" where
  "getConvertedScript b content d =
     map_option (\<lambda>r. res_bind r (\<lambda>s. Inr (s @ end_script b)))
       (convert_loop b content d \<lparr>ps_nodes = [], ps_nodes_added = False, ps_result = []\<rparr>)"

section \<open>Conversion line by line\<close>

text \<open>What a descriptor is printed as, for a scheduler other than Torque.\<close>

definition convert_line :: "BatchType \<Rightarrow> string \<times> string \<Rightarrow> string result" where
  "convert_line b kv =
     (case kv of (key, value) \<Rightarrow>
        res_bind (if key = k_nbNodes then res_bind (unquote value) (\<lambda>v. Inr (nodes_value b v)) else Inr value) (\<lambda>v.
        let v' = (if b = LOADLEVELER \<and> key = k_nbCpu then loadleveler_cpu else v) in
        res_bind (if key = k_mailNotification then notification_value b v' else Inr v') (\<lambda>v''.
          Inr (directive_of b key @ v'' @ newline_text))))"

lemma convert_loop_lines:
  assumes "b \<noteq> TORQUE"
  shows "convert_loop b content d st =
    Some (res_bind (res_map (convert_line b) d) (\<lambda>ls. Inr (ps_result st @ concat ls)))"
proof (induction d arbitrary: st)
  case Nil
  then show ?case by simp
next
  case (Cons kv d)
  obtain key v0 where kv: "kv = (key, v0)" by fastforce
  let ?v = "if key = k_nbNodes then res_bind (unquote v0) (\<lambda>v. Inr (nodes_value b v)) else Inr v0"
  show ?case
  proof (cases ?v)
    case (Inl e)
    then have "convert_value b content key v0 (ps_nodes st) = Some (Inl e)" by (simp add: convert_value_def)
    moreover have "convert_line b kv = Inl e" using Inl by (simp add: convert_line_def kv)
    ultimately show ?thesis by (simp add: kv)
  next
    case (Inr v)
    let ?v' = "if b = LOADLEVELER \<and> key = k_nbCpu then loadleveler_cpu else v"
    let ?m = "if key = k_mailNotification then notification_value b ?v' else Inr ?v'"
    have val: "convert_value b content key v0 (ps_nodes st) = Some (res_bind ?m (\<lambda>v4. Inr (v4, ps_nodes st)))"
      using Inr assms by (simp add: convert_value_def Let_def)
    have line: "convert_line b kv = res_bind ?m (\<lambda>v''. Inr (directive_of b key @ v'' @ newline_text))"
      using Inr by (simp add: convert_line_def kv Let_def)
    show ?thesis
    proof (cases ?m)
      case (Inl e)
      with val line show ?thesis by (simp add: kv)
    next
      case (Inr w)
      with val line Cons.IH assms show ?thesis
        by (cases "res_map (convert_line b) d") (simp_all add: kv)
    qed
  qed
qed

text \<open>
  C40. For every scheduler but Torque the conversion of a script always ends and works descriptor by
  descriptor: the result is the concatenation of what each is printed as, in their order, and the
  closing directive of the scheduler; the first descriptor that cannot be printed gives the error.
\<close>

theorem conversion_by_line:
  assumes "b \<noteq> TORQUE"
  shows "getConvertedScript b content d =
    Some (res_bind (res_map (convert_line b) d) (\<lambda>ls. Inr (concat ls @ end_script b)))"
  by (cases "res_map (convert_line b) d")
    (simp_all add: getConvertedScript_def convert_loop_lines [OF assms])

theorem conversion_by_line_witness:
  "getConvertedScript SLURM [] [(k_queue, ''long''), (commandSec, ''make'')] =
     Some (Inr (''#SBATCH -p long'' @ newline_text @ ''make'' @ newline_text))"
  using conversion_by_line [of SLURM "[]" "[(k_queue, ''long''), (commandSec, ''make'')]"]
  by (simp add: convert_line_def directive_of_def conversion_table_def table_of_def generic_keys_def end_script_def)

text \<open>
  A command line that holds the sign of a comment after the command is left out of the converted
  script, the command with it: what comes before the sign is erased before the line is looked at.
\<close>

theorem commented_command_dropped:
  assumes "CHR ''#'' \<notin> set command" and "97 \<le> (of_char c :: nat)" and "(of_char c :: nat) \<le> 122"
  shows "script_line b (command @ ''# '' @ c # comment) n = Inr []"
proof -
  have c: "c \<noteq> CHR '' ''" "c \<noteq> CHR ''@''" "c \<noteq> CHR ''B''" "c \<noteq> CHR ''%''"
    using assms(2,3) by auto
  have "find_str (command @ ''# '' @ c # comment) ''#'' = Some (length command)"
    unfolding find_str_def using find_str_hit_char [of "CHR ''#''" command "[]" 0 "CHR '' '' # c # comment"] assms(1) by simp
  with c show ?thesis by (simp add: script_line_def erase_spaces_def starts_with_head)
qed

theorem commented_command_dropped_witness: "script_line SLURM ''make all # build'' 1 = Inr []"
  using commented_command_dropped [of "''make all ''" "CHR ''b''" SLURM "''uild''" 1] by simp

section \<open>Processors per node, again\<close>

text \<open>The loop over the parts between plus signs does the same to each part.\<close>

definition with_ppn :: "string \<Rightarrow> string \<Rightarrow> string \<Rightarrow> string" where
  "with_ppn ppn newValue part = (if contains_str part ppn then part else part @ newValue)"

lemma find_at_app: "find_at (pre @ s) pat (length pre) = map_option (\<lambda>k. k + length pre) (find_str s pat)"
  by (simp add: find_at_def find_str_def find_str_from_shift [of pat "length pre"])

lemma find_plus:
  "find_str s ''+'' = None \<longleftrightarrow> CHR ''+'' \<notin> set s"
  "CHR ''+'' \<notin> set t \<Longrightarrow> find_str (t @ CHR ''+'' # s) ''+'' = Some (length t)"
  using find_if_from_hit [of t "\<lambda>d. d = CHR ''+''" "CHR ''+''" 0 s]
  by (auto simp: find_str_def find_str_char find_if_from_None)

lemma split_plus:
  "CHR ''+'' \<notin> set t \<Longrightarrow> split_if (\<lambda>c. c = CHR ''+'') (t @ CHR ''+'' # u) = t # split_if (\<lambda>c. c = CHR ''+'') u"
  by (rule split_if_app) auto

lemma join_Cons: "xs \<noteq> [] \<Longrightarrow> join sep (x # xs) = x @ sep @ join sep xs"
  by (cases xs) simp_all

lemma insert_parts_step:
  assumes "CHR ''+'' \<notin> set t"
  shows "insert_parts ppn v (length pre) (Some (length pre + length t)) (pre @ t @ CHR ''+'' # u) =
    pre @ join ''+'' (map (with_ppn ppn v) (t # split_if (\<lambda>c. c = CHR ''+'') u))"
  using assms
proof (induction "length u" arbitrary: pre t u rule: less_induct)
  case less
  let ?t = "with_ppn ppn v t"
  let ?pre = "pre @ ?t @ ''+''"
  have ins: "findAndInsert ppn v (length pre) (Some (length pre + length t)) (pre @ t @ CHR ''+'' # u) =
      (Some (length pre + length ?t), pre @ ?t @ CHR ''+'' # u)"
    by (simp add: findAndInsert_def Let_def with_ppn_def)
  have len: "length pre + length ?t + 1 = length ?pre" and str: "pre @ ?t @ CHR ''+'' # u = ?pre @ u" by simp_all
  have body: "insert_parts ppn v (length pre) (Some (length pre + length t)) (pre @ t @ CHR ''+'' # u) =
      (case find_at (?pre @ u) ''+'' (length ?pre) of
         None \<Rightarrow> snd (findAndInsert ppn v (length ?pre) None (?pre @ u))
       | Some e2 \<Rightarrow> insert_parts ppn v (length ?pre) (Some e2) (?pre @ u))"
    unfolding len [symmetric] str [symmetric] by (simp add: insert_parts.simps(2) ins)
  show ?case
  proof (cases "CHR ''+'' \<in> set u")
    case False
    then have "split_if (\<lambda>c. c = CHR ''+'') u = [u]" by (intro split_if_token) auto
    moreover have "find_at (?pre @ u) ''+'' (length ?pre) = None"
      unfolding find_at_app using False find_plus(1) by simp
    moreover have "snd (findAndInsert ppn v (length ?pre) None (?pre @ u)) = ?pre @ with_ppn ppn v u"
      by (simp add: findAndInsert_def Let_def with_ppn_def)
    ultimately show ?thesis unfolding body by simp
  next
    case True
    from split_list_first [OF this] obtain t2 u2 where u: "u = t2 @ CHR ''+'' # u2" "CHR ''+'' \<notin> set t2"
      by blast
    have "find_at (?pre @ u) ''+'' (length ?pre) = Some (length ?pre + length t2)"
      unfolding find_at_app u(1) find_plus(2) [OF u(2)] by simp
    moreover have "insert_parts ppn v (length ?pre) (Some (length ?pre + length t2)) (?pre @ t2 @ CHR ''+'' # u2) =
        ?pre @ join ''+'' (map (with_ppn ppn v) (t2 # split_if (\<lambda>c. c = CHR ''+'') u2))"
      by (rule less) (simp_all add: u(1,2))
    ultimately show ?thesis unfolding body by (simp add: u(1) split_plus [OF u(2)] join_Cons)
  qed
qed

text \<open>
  The search with moving positions that gives every part of a node request its number of processors
  is the part by part one: split at the plus signs, append the number where there is none, join.
\<close>

theorem findAndReplace_by_parts:
  assumes "ppn_replace ppn n (find_str str ppn) str = Some s"
  shows "findAndReplace ppn n str =
    Some (join ''+'' (map (with_ppn ppn (ppn @ n)) (split_if (\<lambda>c. c = CHR ''+'') s)))"
proof (cases "CHR ''+'' \<in> set s")
  case True
  from split_list_first [OF this] obtain t u where s: "s = t @ CHR ''+'' # u" "CHR ''+'' \<notin> set t"
    by blast
  have "find_str s ''+'' = Some (length t)" using find_plus(2) [OF s(2)] by (simp add: s(1))
  then show ?thesis
    using insert_parts_step [OF s(2), of ppn "ppn @ n" "[]" u] assms
    by (simp add: findAndReplace_def s(1) split_plus [OF s(2)])
next
  case False
  then have "split_if (\<lambda>c. c = CHR ''+'') s = [s]" by (intro split_if_token) auto
  with False show ?thesis
    using assms find_plus(1) [of s] by (simp add: findAndReplace_def findAndInsert_def Let_def with_ppn_def)
qed

lemma example_request: "ppn_replace '':ppn='' ''4'' (find_str ''nodes=2+3:ppn=1'' '':ppn='') ''nodes=2+3:ppn=1'' =
    Some ''nodes=2+3:ppn=4''"
  by (subst ppn_replace.simps, simp add: find_str_def starts_with_def find_at_def is_digit_def,
      subst ppn_replace.simps, simp)

theorem findAndReplace_by_parts_witness:
  "findAndReplace '':ppn='' ''4'' ''nodes=2+3:ppn=1'' = Some ''nodes=2:ppn=4+3:ppn=4''"
  unfolding findAndReplace_by_parts [OF example_request]
  by (simp add: with_ppn_def contains_str_def find_str_def starts_with_def)

section \<open>When the numbers are put in at all\<close>

abbreviation (input) ppn_text :: string where "ppn_text \<equiv> '':ppn=''"

lemma find_at_exists:
  assumes "starts_with pat (drop k s)" and "pat \<noteq> []" and "pos \<le> k" and "k \<le> length s"
  shows "find_at s pat pos \<noteq> None"
proof -
  have "find_str_from pat i t \<noteq> None" if "starts_with pat (drop n t)" "n \<le> length t" for i n t
    using that assms(2)
  proof (induction t arbitrary: i n)
    case Nil
    then show ?case by (simp add: starts_with_def)
  next
    case (Cons c t)
    then show ?case by (cases n) auto
  qed
  from this [of "k - pos" "drop pos s" pos] assms show ?thesis by (simp add: find_at_def)
qed

lemma nth_in_middle: "length xs = p \<Longrightarrow> p \<le> q \<Longrightarrow> q - p < length ys \<Longrightarrow> (xs @ ys @ zs) ! q = ys ! (q - p)"
  by (simp add: nth_append)

lemma ppn_replace_ends:
  assumes "list_all is_digit v"
  shows "starts_with ppn_text (drop p str) \<Longrightarrow> p \<le> length str \<Longrightarrow> \<exists>s. ppn_replace ppn_text v (Some p) str = Some s"
proof (induction "length str - p" arbitrary: p str rule: less_induct)
  case less
  let ?after = "drop (p + length ppn_text) str"
  let ?str = "take (p + length ppn_text) str @ v @ dropWhile is_digit ?after"
  have str: "str = take p str @ ppn_text @ ?after"
    using less.prems by (metis append_take_drop_id drop_drop starts_with_def add.commute)
  have head: "take (p + length ppn_text) str = take p str @ ppn_text"
    using less.prems(1) by (simp only: take_add starts_with_def)
  have "p + length ppn_text \<le> length str"
    using arg_cong [OF str, of length] less.prems(2) by simp
  note len = this
  have short: "length (dropWhile is_digit ?after) \<le> length str - (p + length ppn_text)"
    using length_dropWhile_le [of is_digit ?after] by simp
  show ?case
  proof (cases "find_at ?str ppn_text (p + 1)")
    case None
    then have "ppn_replace ppn_text v (Some p) str = Some ?str"
      by (simp add: ppn_replace.simps [of ppn_text v "Some p"] ppn_replace.simps [of ppn_text v None] Let_def)
    then show ?thesis by blast
  next
    case (Some q)
    have q: "p + 1 \<le> q" "q + length ppn_text \<le> length ?str" "starts_with ppn_text (drop q ?str)"
      using find_at_Some [OF Some] by simp_all
    have "?str ! q = CHR '':''"
      using q(2,3) by (metis Cons_nth_drop_Suc starts_with_head add_leD1 length_Cons less_le_trans zero_less_Suc
          add_less_cancel_left add.right_neutral)
    note colon = this
    have eq: "?str = take p str @ (ppn_text @ v) @ dropWhile is_digit ?after" unfolding head by simp
    have "p + length (ppn_text @ v) \<le> q"
    proof (rule ccontr)
      assume "\<not> p + length (ppn_text @ v) \<le> q"
      then have lt: "q - p < length (ppn_text @ v)" using q(1) by simp
      have "?str ! q = (ppn_text @ v) ! (q - p)"
        unfolding eq by (rule nth_in_middle) (use less.prems(2) q(1) lt in auto)
      moreover have "(ppn_text @ v) ! (q - p) \<in> set (''ppn='' @ v)"
        using lt q(1) by (cases "q - p") (auto simp: nth_append nth_Cons split: nat.splits)
      ultimately show False using colon assms by (auto simp: list_all_iff is_digit_def)
    qed
    then have "length ?str - q < length str - p"
      using len short by (auto simp: min_def)
    moreover have "q \<le> length ?str" using q(2) by simp
    ultimately obtain s where "ppn_replace ppn_text v (Some q) ?str = Some s"
      using less.hyps [OF _ q(3)] by blast
    then have "ppn_replace ppn_text v (Some p) str = Some s"
      using Some by (simp add: ppn_replace.simps [of ppn_text v "Some p"] Let_def)
    then show ?thesis by blast
  qed
qed

lemma ppn_replace_again_aux:
  assumes "ppn_replace ppn n pos str = Some r"
  shows "starts_with ppn_text n \<longrightarrow> ppn = ppn_text \<longrightarrow>
    (\<forall>p. pos = Some p \<longrightarrow> p + length ppn_text \<le> length str \<longrightarrow> False)"
proof (rule ppn_replace.raw_induct [OF _ assms], intro impI allI)
  fix rec :: "string \<Rightarrow> string \<Rightarrow> nat option \<Rightarrow> string \<Rightarrow> string option"
    and ppn n :: string and pos and str r :: string and p :: nat
  assume ih: "\<And>ppn n pos str r. rec ppn n pos str = Some r \<Longrightarrow> starts_with ppn_text n \<longrightarrow> ppn = ppn_text \<longrightarrow>
      (\<forall>p. pos = Some p \<longrightarrow> p + length ppn_text \<le> length str \<longrightarrow> False)"
    and body: "(case pos of None \<Rightarrow> Some str
      | Some p \<Rightarrow>
          let after = drop (p + length ppn) str;
              str' = take (p + length ppn) str @ n @ dropWhile is_digit after
          in rec ppn n (find_at str' ppn (p + 1)) str') = Some r"
    and n: "starts_with ppn_text n" and ppn: "ppn = ppn_text" and pos: "pos = Some p"
    and p: "p + length ppn_text \<le> length str"
  let ?str = "take (p + length ppn) str @ n @ dropWhile is_digit (drop (p + length ppn) str)"
  have "starts_with ppn_text (drop (p + length ppn) ?str)"
  proof -
    from n obtain m where "n = ppn_text @ m" by (metis append_take_drop_id starts_with_def)
    moreover have "drop (p + length ppn) ?str = n @ dropWhile is_digit (drop (p + length ppn) str)"
      using p by (simp add: ppn)
    ultimately show ?thesis by (simp only: append_assoc starts_with_append)
  qed
  then have "find_at ?str ppn (p + 1) \<noteq> None"
    using find_at_exists [of ppn "p + length ppn" ?str "p + 1"] p by (simp add: ppn)
  then obtain q where q: "find_at ?str ppn (p + 1) = Some q" by blast
  have "rec ppn n (Some q) ?str = Some r" using body by (simp only: pos q Let_def option.case)
  from ih [OF this] n ppn find_at_Some(2) [OF q] show False by blast
qed

lemma findAndReplace_cases:
  "list_all is_digit n \<Longrightarrow> findAndReplace ppn_text n str \<noteq> None"
  "starts_with ppn_text n \<Longrightarrow> contains_str str ppn_text \<Longrightarrow> findAndReplace ppn_text n str = None"
proof -
  assume "list_all is_digit n"
  show "findAndReplace ppn_text n str \<noteq> None"
  proof (cases "find_str str ppn_text")
    case None
    then show ?thesis by (simp add: findAndReplace_def ppn_replace.simps)
  next
    case (Some p)
    then have "find_at str ppn_text 0 = Some p" by (simp add: find_at_def find_str_def)
    from find_at_Some [OF this] ppn_replace_ends [OF \<open>list_all is_digit n\<close>, of p str]
    show ?thesis by (auto simp: findAndReplace_def Some)
  qed
next
  assume n: "starts_with ppn_text n" and "contains_str str ppn_text"
  then obtain p where p: "find_str str ppn_text = Some p" by (auto simp: contains_str_def)
  then have "find_at str ppn_text 0 = Some p" by (simp add: find_at_def find_str_def)
  from find_at_Some(2) [OF this] ppn_replace_again_aux [of ppn_text n "Some p" str] n
  have "ppn_replace ppn_text n (Some p) str = None" by (cases "ppn_replace ppn_text n (Some p) str") auto
  then show "findAndReplace ppn_text n str = None" by (simp add: findAndReplace_def p)
qed

text \<open>
  Whether putting in the number of processors ends: always when the number consists of digits, and
  never when it begins with the text it is put after and the request has that text. A value
  of a generic script comes from the user.
\<close>

theorem findAndReplace_ends:
  "(list_all is_digit n \<longrightarrow> findAndReplace ppn_text n str \<noteq> None) \<and>
   (starts_with ppn_text n \<and> contains_str str ppn_text \<longrightarrow> findAndReplace ppn_text n str = None)"
  using findAndReplace_cases by blast

theorem findAndReplace_ends_witness:
  "findAndReplace ppn_text ''16'' ''nodes=1:ppn=2'' \<noteq> None \<and>
   findAndReplace ppn_text '':ppn='' ''nodes=1:ppn=2'' = None"
  using findAndReplace_ends [of "''16''" "''nodes=1:ppn=2''"] findAndReplace_ends [of "'':ppn=''" "''nodes=1:ppn=2''"]
  by (simp add: is_digit_def starts_with_def contains_str_def find_str_def)

end
