(* ===== verification/Tms_Submit.thy ===== *)
theory Tms_Submit
  imports Tms_Script
begin

text \<open>
  What \<^verbatim>\<open>JobServer\<close> makes of a script before it is submitted (\<^verbatim>\<open>TMS/src/server/JobServer.cpp\<close>): the
  paths, the parameters, the conversion, the options of the request and the default options of the
  scheduler. The options of a request are the texts of a JSON object.
\<close>

section \<open>Directives\<close>

definition getBatchDirective :: "BatchType \<Rightarrow> string \<times> string" where
  "getBatchDirective b =
     (case b of
        TORQUE \<Rightarrow> (''#PBS'', '' '')
      | LOADLEVELER \<Rightarrow> (''# @'', '' = '')
      | SLURM \<Rightarrow> (''#SBATCH'', '' '')
      | LSF \<Rightarrow> (''#BSUB'', '' '')
      | SGE \<Rightarrow> (''#$'', '' '')
      | PBSPRO \<Rightarrow> (''#PBS'', '' '')
      | POSIX \<Rightarrow> (''#%'', '' '')
      | _ \<Rightarrow> ([], '' ''))"

section \<open>Inserting an option\<close>

text \<open>
  The end of the line at a position, past the ends that a backslash escapes. \<^verbatim>\<open>compare\<close> throws when the
  position before the end is not in the text, which is so when there is no end of line.
\<close>

function line_end :: "string \<Rightarrow> nat option \<Rightarrow> nat result" where
  "line_end content None = Inl OutOfRange"
| "line_end content (Some q) =
     (if q = 0 \<or> length content < q then Inl OutOfRange
      else if content ! (q - 1) = CHR 0x5C then line_end content (find_at content [CHR 0x0A] (q + 1))
      else Inr q)"
  by pat_completeness auto

lemma find_at_measure: "find_at content pat pos = Some k \<Longrightarrow> length content - k < Suc (length content) - pos"
  using find_at_Some(1) [of content pat pos k] by (auto simp: find_at_def split: if_splits)

lemma find_at_next: "find_at content pat (Suc q) = Some q' \<Longrightarrow> q < q'"
  by (auto dest: find_at_Some(1))

termination line_end
proof (relation "measure (\<lambda>(content, q). case q of None \<Rightarrow> 0 | Some p \<Rightarrow> Suc (length content + 1 - p))")
  fix content :: string and q
  assume "\<not> (q = 0 \<or> length content < q)"
  then show "((content, find_at content [CHR 0x0A] (q + 1)), content, Some q)
      \<in> measure (\<lambda>(content, q). case q of None \<Rightarrow> 0 | Some p \<Rightarrow> Suc (length content + 1 - p))"
    by (auto split: option.splits dest!: find_at_next)
qed simp

declare line_end.simps(2) [simp del]

lemma line_end_Some:
  "line_end content start = Inr q \<Longrightarrow> (\<And>p. start = Some p \<Longrightarrow> content ! p = CHR 0x0A \<and> p < length content) \<Longrightarrow>
     0 < q \<and> q < length content \<and> content ! q = CHR 0x0A \<and> (\<forall>p. start = Some p \<longrightarrow> p \<le> q)"
proof (induction content start rule: line_end.induct)
  case (1 content)
  then show ?case by simp
next
  case (2 content q0)
  have nl: "find_at content [CHR 0x0A] (q0 + 1) = Some p \<Longrightarrow> content ! p = CHR 0x0A \<and> p < length content \<and> q0 < p" for p
    using find_at_Some [of content "[CHR 0x0A]" "q0 + 1" p]
    by (auto simp: starts_with_def take_Suc_conv_app_nth hd_drop_conv_nth Cons_nth_drop_Suc [symmetric] split: if_splits)
  have q0: "\<not> (q0 = 0 \<or> length content < q0)" and body:
      "(if content ! (q0 - 1) = CHR 0x5C then line_end content (find_at content [CHR 0x0A] (q0 + 1)) else Inr q0) = Inr q"
    using 2(2) by (auto simp: line_end.simps(2) [of content q0] split: if_splits)
  show ?case
  proof (cases "content ! (q0 - 1) = CHR 0x5C")
    case True
    with body have next_end: "line_end content (find_at content [CHR 0x0A] (q0 + 1)) = Inr q" by simp
    then obtain p where p: "find_at content [CHR 0x0A] (q0 + 1) = Some p"
      by (cases "find_at content [CHR 0x0A] (q0 + 1)") auto
    with 2(1) [OF q0 True next_end] nl [OF p] show ?thesis by auto
  next
    case False
    with body q0 2(3) [of q0] show ?thesis by auto
  qed
qed

text \<open>The search for the place of an option: after the last directive that begins a line.\<close>

function insert_position :: "BatchType \<Rightarrow> string \<Rightarrow> string \<Rightarrow> nat \<Rightarrow> nat \<Rightarrow> nat result" where
  "insert_position b content key pos posLastDirective =
     (case find_at content key pos of
        None \<Rightarrow> Inr posLastDirective
      | Some p \<Rightarrow>
          (case line_end content (find_at content [CHR 0x0A] p) of
             Inl e \<Rightarrow> Inl e
           | Inr pos1 \<Rightarrow>
               let line = take (pos1 - p) (drop p content) in
               if p = 0 then Inl OutOfRange
               else if content ! (p - 1) = CHR 0x0A then
                 if b = LOADLEVELER \<and> contains_str (map lower line) ''queue'' then Inr posLastDirective
                 else insert_position b content key (p + 1) (p + length line + 1)
               else insert_position b content key (p + 1) posLastDirective))"
  by pat_completeness auto
termination
  by (relation "measure (\<lambda>(b, content, key, pos, l). length content + 1 - pos)")
    (auto dest: find_at_measure)

declare insert_position.simps [simp del]

definition insertOptionLine :: "BatchType \<Rightarrow> string \<Rightarrow> string \<Rightarrow> string \<Rightarrow> string result" where
  "insertOptionLine b optionLineToInsert content key =
     res_bind (insert_position b content key 0 0) (\<lambda>p. Inr (take p content @ optionLineToInsert @ drop p content))"

section \<open>Default options\<close>

function option_given :: "string \<Rightarrow> string \<Rightarrow> string \<Rightarrow> nat \<Rightarrow> bool" where
  "option_given content key key1 position =
     (case find_at content key position of
        None \<Rightarrow> False
      | Some p \<Rightarrow>
          let line = (case find_at content [CHR 0x0A] p of
                        None \<Rightarrow> drop p content
                      | Some q \<Rightarrow> take (q - p) (drop p content)) in
          contains_str line key1 \<or> option_given content key key1 (p + 1))"
  by pat_completeness auto
termination
  by (relation "measure (\<lambda>(content, key, key1, pos). length content + 1 - pos)")
    (auto dest: find_at_measure)

declare option_given.simps [simp del]

fun processDefaultOptions :: "BatchType \<Rightarrow> string list \<Rightarrow> string \<Rightarrow> string \<Rightarrow> string result" where
  "processDefaultOptions b [] content key = Inr content"
| "processDefaultOptions b [k] content key =
     (if option_given content key k 0 then Inr content else Inl OutOfRange)"
| "processDefaultOptions b (k # v # rest) content key =
     (if option_given content key k 0 then processDefaultOptions b rest content key
      else res_bind (insertOptionLine b (key @ '' '' @ k @ '' '' @ v @ [CHR 0x0A]) content key)
             (\<lambda>content'. processDefaultOptions b rest content' key))"

section \<open>Options of the request\<close>

text \<open>
  The length of a value is computed from the blank that ends it; when the blank comes before the equals
  sign the unsigned difference wraps around and the value is the rest of the text.
\<close>

function handleSpecificParams :: "BatchType \<Rightarrow> string \<Rightarrow> string \<Rightarrow> string result" where
  "handleSpecificParams b params content =
     (let (directive, sep) = getBatchDirective b in
      case find_str params ''='' of
        None \<Rightarrow> Inr content
      | Some pos2 \<Rightarrow>
          (case find_str params '' '' of
             None \<Rightarrow>
               insertOptionLine b
                 (directive @ '' '' @ take pos2 params @ sep @ drop (pos2 + 1) params @ [CHR 0x0A]) content directive
           | Some pos3 \<Rightarrow>
               let val = (if pos2 < pos3 then take (pos3 - pos2 - 1) (drop (pos2 + 1) params)
                            else drop (pos2 + 1) params) in
               res_bind (insertOptionLine b
                   (directive @ '' '' @ take pos2 params @ sep @ val @ [CHR 0x0A]) content directive)
                 (handleSpecificParams b (dropWhile is_space_char (drop pos3 params)))))"
  by pat_completeness auto

lemma trim_shorter:
  assumes "find_str params '' '' = Some p"
  shows "length (dropWhile is_space_char (drop p params)) < length params"
proof -
  from find_char_split [OF assms] have "drop p params = CHR '' '' # drop (p + 1) params"
    by (metis append_eq_conv_conj append_take_drop_id same_append_eq)
  moreover have "length (dropWhile is_space_char (drop (p + 1) params)) \<le> length params - (p + 1)"
    using length_dropWhile_le [of is_space_char "drop (p + 1) params"] by simp
  moreover have "is_space_char (CHR '' '')" by (simp add: is_space_char_def)
  moreover have "p < length params"
    using assms by (auto simp: find_str_def find_str_char dest: find_if_from_Some)
  ultimately show ?thesis by simp
qed

termination handleSpecificParams
  by (relation "measure (\<lambda>(b, params, content). length params)") (auto intro: trim_shorter)

declare handleSpecificParams.simps [simp del]

section \<open>The script\<close>

type_synonym job_options = "string \<rightharpoonup> string"

text \<open>\<^verbatim>\<open>getStringProperty\<close> throws when the object has no such property or its value is no string.\<close>

definition option_of :: "job_options \<Rightarrow> string \<Rightarrow> string result" where
  "option_of options key =
     (case options key of
        None \<Rightarrow> Inl (SystemException ERRCODE_INVDATA (''null or invalid property '' @ key))
      | Some v \<Rightarrow> Inr v)"

definition if_given :: "string \<Rightarrow> (string \<Rightarrow> 'a \<Rightarrow> 'a result) \<Rightarrow> 'a \<Rightarrow> 'a result" where
  "if_given param f x = (if param \<noteq> [] then f param x else Inr x)"

text \<open>
  \<^verbatim>\<open>processScript\<close>. For the cloud scheduler DeltaCloud the file of the nodes is put into \<^verbatim>\<open>content\<close> after
  the script to submit was made from it, so the result does not have it; only the look-up of the option
  can be noticed.
\<close>

definition substituted_script :: "string \<Rightarrow> job_options \<Rightarrow> string \<Rightarrow> string result" where
  "substituted_script content options machineName =
     (let c1 = replaceAllOccurences (replaceAllOccurences content ''$VISHNU_SUBMIT_MACHINE_NAME'' machineName)
                 ''${VISHNU_SUBMIT_MACHINE_NAME}'' machineName in
      res_bind (option_of options ''textparams'') (\<lambda>text.
      let c2 = (if text \<noteq> [] then setParams c1 text else c1) in
      res_bind (option_of options ''fileparams'') (\<lambda>files.
      Inr (if files \<noteq> [] then setParams c2 files else c2))))"

definition finished_script :: "BatchType \<Rightarrow> job_options \<Rightarrow> string list \<Rightarrow> string \<Rightarrow> string result" where
  "finished_script b options defaultBatchOption script =
     res_bind (option_of options ''specificparams'') (\<lambda>specific.
     res_bind (if_given specific (handleSpecificParams b) script) (\<lambda>script1.
     res_bind (if defaultBatchOption \<noteq> []
               then processDefaultOptions b defaultBatchOption script1 (fst (getBatchDirective b))
               else Inr script1) (\<lambda>script2.
     res_bind (if b = DELTACLOUD then option_of options ''outputdir'' else Inr []) (\<lambda>_.
       Inr script2))))"

definition processScript :: "BatchType \<Rightarrow> string \<Rightarrow> job_options \<Rightarrow> string list \<Rightarrow> string \<Rightarrow> string result option" where
  "processScript b content options defaultBatchOption machineName =
     (case substituted_script content options machineName of
        Inl e \<Rightarrow> Some (Inl e)
      | Inr c \<Rightarrow>
          (case vishnuScriptGenConvertor b c of
             Inl e \<Rightarrow> Some (Inl e)
           | Inr d \<Rightarrow>
               map_option (\<lambda>r. res_bind r (finished_script b options defaultBatchOption))
                 (if scriptIsGeneric c then getConvertedScript b c d else Some (Inr c))))"

text \<open>
  \<^verbatim>\<open>setRealFilePaths\<close>: the branch for the clouds asks for both of them at once and is never taken.
\<close>

record job_paths =
  jp_content :: string
  jp_options :: job_options
  jp_outputDir :: string
  jp_workingDir :: string

definition setRealFilePaths :: "BatchType \<Rightarrow> string \<Rightarrow> string \<Rightarrow> tm \<Rightarrow> string \<Rightarrow> string \<Rightarrow> job_options \<Rightarrow>
    job_paths result" where
  "setRealFilePaths b achome unique now jobId content options =
     res_bind (option_of options ''workingdir'') (\<lambda>path.
     let workingDir = (if path \<noteq> [] then path else achome);
         options1 = (if path \<noteq> [] then options else options(''workingdir'' \<mapsto> achome));
         scriptPath = ''/tmp/vishnuJobScript'' @ unique @ ''-'' @ jobId;
         outputDir = workingDir @ ''/VISHNU_OUTPUT_DIR_'' @ generatedUniquePatternFromCurTime jobId now;
         out = contains_str content ''VISHNU_OUTPUT_DIR'' \<or> b = DELTACLOUD \<or> b = OPENNEBULA
     in Inr \<lparr>jp_content = (if out then replaceAllOccurences (replaceAllOccurences content ''$VISHNU_OUTPUT_DIR'' outputDir)
                              ''${VISHNU_OUTPUT_DIR}'' outputDir else content),
             jp_options = options1(''scriptpath'' \<mapsto> scriptPath),
             jp_outputDir = (if out then outputDir else []),
             jp_workingDir = workingDir\<rparr>)"

section \<open>Where options are inserted\<close>

definition line_start :: "string \<Rightarrow> nat \<Rightarrow> bool" where
  "line_start s p \<longleftrightarrow> p = 0 \<or> (p \<le> length s \<and> s ! (p - 1) = CHR 0x0A)"

lemma find_newline:
  assumes "find_at content [CHR 0x0A] p = Some q"
  shows "p \<le> q \<and> q < length content \<and> content ! q = CHR 0x0A"
  using find_at_Some [OF assms]
  by (auto simp: starts_with_def take_Suc_conv_app_nth hd_drop_conv_nth Cons_nth_drop_Suc [symmetric] split: if_splits)

lemma insert_position_start:
  "insert_position b content key pos l = Inr p \<Longrightarrow> line_start content l \<Longrightarrow> line_start content p"
proof (induction b content key pos l rule: insert_position.induct)
  case (1 b content key pos l)
  show ?case
  proof (cases "find_at content key pos")
    case None
    with 1(3,4) show ?thesis by (simp add: insert_position.simps [of b content key pos])
  next
    case (Some p0)
    then obtain pos1 where pos1: "line_end content (find_at content [CHR 0x0A] p0) = Inr pos1"
      using 1(3) by (cases "line_end content (find_at content [CHR 0x0A] p0)")
        (simp_all add: insert_position.simps [of b content key pos])
    have "0 < pos1 \<and> pos1 < length content \<and> content ! pos1 = CHR 0x0A \<and>
        (\<forall>q. find_at content [CHR 0x0A] p0 = Some q \<longrightarrow> q \<le> pos1)"
      by (rule line_end_Some [OF pos1]) (auto dest: find_newline)
    moreover obtain q where "find_at content [CHR 0x0A] p0 = Some q"
      using pos1 by (cases "find_at content [CHR 0x0A] p0") auto
    ultimately have end1: "p0 \<le> pos1" "pos1 < length content" "content ! pos1 = CHR 0x0A"
      using find_newline [of content p0 q] by auto
    let ?line = "take (pos1 - p0) (drop p0 content)"
    have "p0 + length ?line + 1 = pos1 + 1" using end1(1,2) by simp
    then have "line_start content (p0 + length ?line + 1)" using end1 by (simp add: line_start_def)
    with 1(1,2) [OF Some pos1] 1(3,4) Some pos1 show ?thesis
      by (auto simp: insert_position.simps [of b content key pos] Let_def split: if_splits)
  qed
qed

text \<open>
  An option is put into a script as a line of its own: whenever the insertion does not throw, the
  script is what it was with the line inserted where a line begins, so no line of the script is broken.
\<close>

theorem insertOptionLine_between_lines:
  assumes "insertOptionLine b line content key = Inr script"
  shows "\<exists>p \<le> length content. script = take p content @ line @ drop p content \<and>
    (p = 0 \<or> content ! (p - 1) = CHR 0x0A)"
proof -
  from assms obtain p where p: "insert_position b content key 0 0 = Inr p"
      "script = take p content @ line @ drop p content"
    by (auto simp: insertOptionLine_def res_simps)
  from insert_position_start [OF this(1)] have "line_start content p" by (simp add: line_start_def)
  with p(2) show ?thesis by (auto simp: line_start_def)
qed

definition example_script :: string where
  "example_script = ''#!/bin/sh'' @ [CHR 0x0A] @ ''#PBS -N j'' @ [CHR 0x0A] @ ''make'' @ [CHR 0x0A]"

lemma example_insert:
  "insertOptionLine TORQUE (''#PBS -q q'' @ [CHR 0x0A]) example_script ''#PBS'' =
     Inr (''#!/bin/sh'' @ [CHR 0x0A] @ ''#PBS -N j'' @ [CHR 0x0A] @ ''#PBS -q q'' @ [CHR 0x0A] @ ''make'' @ [CHR 0x0A])"
  by code_simp

theorem insertOptionLine_between_lines_witness:
  "\<exists>p \<le> length example_script.
     ''#!/bin/sh'' @ [CHR 0x0A] @ ''#PBS -N j'' @ [CHR 0x0A] @ ''#PBS -q q'' @ [CHR 0x0A] @ ''make'' @ [CHR 0x0A] =
       take p example_script @ (''#PBS -q q'' @ [CHR 0x0A]) @ drop p example_script \<and>
     (p = 0 \<or> example_script ! (p - 1) = CHR 0x0A)"
  by (rule insertOptionLine_between_lines [OF example_insert])

end
