(* ===== verification/Tms_Tables.thy ===== *)
theory Tms_Tables
  imports Tms_Submit Ums_Session Comm_Json
begin

text \<open>
  The table of the jobs (\<^verbatim>\<open>core/database/postgre_create.sql\<close>) beside the tables of the user management
  module, the session look-ups of \<^verbatim>\<open>core/src/utils/utilServer.cpp\<close>, and the statements of
  \<^verbatim>\<open>TMS/src/server/JobServer.cpp\<close> that write jobs. The conventions are those of theory Ums_Tables.
\<close>

section \<open>Rows\<close>

record job_row =
  jr_num :: int
  jr_session :: int
  jr_owner_id :: "int option"
  jr_owner :: "string option"
  jr_machine :: "int option"
  jr_submitMachineId :: "string option"
  jr_submitMachineName :: "string option"
  jr_jobid :: "string option"
  jr_batchJobId :: "string option"
  jr_batchType :: "int option"
  jr_jobName :: "string option"
  jr_jobPath :: "string option"
  jr_outputPath :: "string option"
  jr_errorPath :: "string option"
  jr_outputDir :: "string option"
  jr_scriptContent :: "string option"
  jr_jobPrio :: "int option"
  jr_nbCpus :: "int option"
  jr_jobWorkingDir :: "string option"
  jr_status :: "int option"
  jr_submitDate :: "int option"
  jr_endDate :: "int option"
  jr_jobQueue :: "string option"
  jr_wallClockLimit :: "int option"
  jr_groupName :: "string option"
  jr_jobDescription :: "string option"
  jr_memLimit :: "int option"
  jr_nbNodes :: "int option"
  jr_nbNodesAndCpuPerNode :: "string option"
  jr_workId :: "int option"
  jr_vmId :: "string option"
  jr_vmIp :: "string option"
  jr_relatedSteps :: "string option"

record tms =
  tm_ums :: db
  t_job :: "job_row list"
  q_job :: int

type_synonym 'a tms_op = "(tms, 'a) step"

text \<open>An operation on the tables of the user management module, here.\<close>

definition on_ums :: "'a op \<Rightarrow> 'a tms_op" where
  "on_ums m s = (case m (tm_ums s) of (r, d) \<Rightarrow> (r, s\<lparr>tm_ums := d\<rparr>))"

definition blank_job :: "int \<Rightarrow> int \<Rightarrow> string option \<Rightarrow> job_row" where
  "blank_job key sess jobid =
     \<lparr>jr_num = key, jr_session = sess, jr_owner_id = None, jr_owner = None, jr_machine = None,
      jr_submitMachineId = None, jr_submitMachineName = None, jr_jobid = jobid, jr_batchJobId = None,
      jr_batchType = None, jr_jobName = None, jr_jobPath = None, jr_outputPath = None, jr_errorPath = None,
      jr_outputDir = None, jr_scriptContent = None, jr_jobPrio = None, jr_nbCpus = None,
      jr_jobWorkingDir = None, jr_status = None, jr_submitDate = None, jr_endDate = None,
      jr_jobQueue = None, jr_wallClockLimit = None, jr_groupName = None, jr_jobDescription = None,
      jr_memLimit = None, jr_nbNodes = None, jr_nbNodesAndCpuPerNode = None, jr_workId = None,
      jr_vmId = None, jr_vmIp = None, jr_relatedSteps = None\<rparr>"

section \<open>Jobs as objects\<close>

text \<open>The defaults of the generated class.\<close>

definition job0 :: job where
  "job0 = \<lparr>j_sessionId = [], j_submitMachineId = [], j_submitMachineName = [], j_jobId = [], j_workId = 0,
     j_jobName = [], j_batchJobId = [], j_jobPath = [], j_outputPath = [], j_errorPath = [],
     j_outputDir = [], j_jobPrio = -1, j_nbCpus = -1, j_jobWorkingDir = [], j_status = -1,
     j_submitDate = -1, j_endDate = -1, j_owner = [], j_jobQueue = [], j_wallClockLimit = -1,
     j_groupName = [], j_jobDescription = [], j_memLimit = -1, j_nbNodes = -1,
     j_nbNodesAndCpuPerNode = [], j_userId = [], j_vmIp = [], j_vmId = []\<rparr>"

section \<open>Sessions\<close>

record user_session_info =
  num_session :: int
  machine_name :: string
  num_machine :: int
  num_user :: int
  userid :: string
  user_privilege :: int
  user_aclogin :: string
  user_achome :: string

abbreviation (input) PRIVILEGE_ADMIN :: int where "PRIVILEGE_ADMIN \<equiv> 1"

text \<open>
  The join of the session with its user, his accounts and their machines: the sessions that have the key
  and are active, with an active account on the machine.
\<close>

definition active_sessions :: "string \<Rightarrow> db \<Rightarrow> vsession_row list" where
  "active_sessions authKey d =
     filter (\<lambda>s. has_key authKey s \<and> vs_state s = Some SESSION_ACTIVE) (t_vsession d)"

definition session_infos :: "string \<Rightarrow> string \<Rightarrow> db \<Rightarrow> user_session_info list" where
  "session_infos authKey machineId d =
     [\<lparr>num_session = vs_num s, machine_name = text_of (ma_name m), num_machine = ma_num m,
       num_user = us_num u, userid = us_userid u, user_privilege = int_of (us_privilege u),
       user_aclogin = text_of (ac_login a), user_achome = text_of (ac_home a)\<rparr>.
      s \<leftarrow> active_sessions authKey d, u \<leftarrow> t_users d, a \<leftarrow> t_account d, m \<leftarrow> t_machine d,
      us_num u = vs_user s, ac_user a = us_num u, ac_status a = Some STATUS_ACTIVE,
      ac_machine a = ma_num m, ma_machineid m = Some machineId]"

definition validateAuthKey :: "string \<Rightarrow> string \<Rightarrow> db \<Rightarrow> user_session_info result" where
  "validateAuthKey authKey machineId d =
     (case session_infos authKey machineId d of
        [] \<Rightarrow> Inl (TMSVishnuException ERRCODE_PERMISSION_DENIED
          (''Can'' @ [CHR 0x27] @ ''t get user information from the session token provided''))
      | info # _ \<Rightarrow> Inr info)"

text \<open>Without a machine: the query names the table of the machines without a condition on it.\<close>

definition validateAuthKey_any :: "string \<Rightarrow> db \<Rightarrow> user_session_info result" where
  "validateAuthKey_any authKey d =
     (case [\<lparr>num_session = vs_num s, machine_name = [], num_machine = 0,
             num_user = us_num u, userid = us_userid u, user_privilege = int_of (us_privilege u),
             user_aclogin = text_of (ac_login a), user_achome = text_of (ac_home a)\<rparr>.
            s \<leftarrow> active_sessions authKey d, u \<leftarrow> t_users d, a \<leftarrow> t_account d, m \<leftarrow> t_machine d,
            us_num u = vs_user s, ac_user a = us_num u, ac_status a = Some STATUS_ACTIVE] of
        [] \<Rightarrow> Inl (TMSVishnuException ERRCODE_INVALID_PARAM
          (''Can'' @ [CHR 0x27] @ ''t get user local account. Check that:'' @ [CHR 0x0A] @
           ''  * your session is still active'' @ [CHR 0x0A] @
           ''  * you have a local account on this server''))
      | info # _ \<Rightarrow> Inr info)"

definition checkMachineId :: "string \<Rightarrow> db \<Rightarrow> unit result" where
  "checkMachineId machineId d =
     (if list_ex (\<lambda>m. ma_machineid m = Some machineId \<and> sql_ne (ma_status m) STATUS_DELETED) (t_machine d)
      then Inr () else Inl (UMSVishnuException ERRCODE_UNKNOWN_MACHINE []))"

section \<open>Identifiers\<close>

definition sql_max :: "int list \<Rightarrow> int option" where
  "sql_max ns = (case ns of [] \<Rightarrow> None | n # ns' \<Rightarrow> Some (foldl max n ns'))"

text \<open>
  \<^verbatim>\<open>getObjectId\<close> for a job. The inserted row belongs to the newest user, machine and session until it is
  updated; the column of the session may not be null.
\<close>

definition job_ids :: "tms \<Rightarrow> id_table" where
  "job_ids s = \<lparr>rows = map (\<lambda>r. \<lparr>row_key = jr_num r, row_ident = jr_jobid r\<rparr>) (t_job s), next_key = q_job s\<rparr>"

definition job_getObjectId :: "date \<Rightarrow> string \<Rightarrow> string tms_op" where
  "job_getObjectId now machineId s =
     (case sql_max (map vs_num (t_vsession (tm_ums s))) of
        None \<Rightarrow> (Inl (SystemException ERRCODE_DBERR ''null value''), s)
      | Some sess \<Rightarrow>
          let new = (blank_job (q_job s) sess None)
                \<lparr>jr_owner_id := sql_max (map us_num (t_users (tm_ums s))),
                 jr_machine := sql_max (map ma_num (t_machine (tm_ums s)))\<rparr>
          in (case getObjectId now JOB machineId (job_ids s) of (r, t) \<Rightarrow>
               (r, s\<lparr>t_job := map2 (\<lambda>j i. j\<lparr>jr_jobid := row_ident i\<rparr>) (t_job s @ [new]) (rows t),
                     q_job := next_key t\<rparr>)))"

section \<open>Statements\<close>

definition with_machine :: "string \<Rightarrow> string \<Rightarrow> string" where
  "with_machine machine path = (if CHR '':'' \<in> set path then [] else machine @ '':'') @ path"

definition job_columns :: "user_session_info \<Rightarrow> string \<Rightarrow> int \<Rightarrow> int \<Rightarrow> job \<Rightarrow> job_row \<Rightarrow> job_row" where
  "job_columns info machineId batchType now j r =
     r\<lparr>jr_session := num_session info,
       jr_owner_id := Some (num_user info),
       jr_owner := Some (j_owner j),
       jr_submitMachineId := Some machineId,
       jr_machine := Some (num_machine info),
       jr_submitMachineName := Some (machine_name info),
       jr_batchJobId := Some (j_batchJobId j),
       jr_batchType := Some batchType,
       jr_jobName := Some (j_jobName j),
       jr_jobPath := Some (j_jobPath j),
       jr_outputPath := Some (with_machine (machine_name info) (j_outputPath j)),
       jr_errorPath := Some (with_machine (machine_name info) (j_errorPath j)),
       jr_scriptContent := Some ''job'',
       jr_jobPrio := Some (j_jobPrio j),
       jr_nbCpus := Some (j_nbCpus j),
       jr_jobWorkingDir := Some (j_jobWorkingDir j),
       jr_status := Some (j_status j),
       jr_submitDate := Some now,
       jr_jobQueue := Some (j_jobQueue j),
       jr_wallClockLimit := Some (j_wallClockLimit j),
       jr_groupName := Some (j_groupName j),
       jr_jobDescription := Some (j_jobDescription j),
       jr_memLimit := Some (j_memLimit j),
       jr_nbNodes := Some (j_nbNodes j),
       jr_nbNodesAndCpuPerNode := Some (j_nbNodesAndCpuPerNode j),
       jr_outputDir := Some (j_outputDir j),
       jr_workId := (if j_workId j \<noteq> 0 then Some (j_workId j) else jr_workId r),
       jr_vmId := Some (j_vmId j),
       jr_vmIp := Some (j_vmIp j)\<rparr>"

text \<open>\<^verbatim>\<open>updateJobRecordIntoDatabase\<close> after a submission, with the related steps, and after a cancellation.\<close>

definition has_jobid :: "string \<Rightarrow> job_row \<Rightarrow> bool" where
  "has_jobid jobId r \<longleftrightarrow> jr_jobid r = Some jobId"

definition set_jobs :: "(job_row \<Rightarrow> bool) \<Rightarrow> (job_row \<Rightarrow> job_row) \<Rightarrow> tms \<Rightarrow> tms" where
  "set_jobs cond f s = s\<lparr>t_job := sql_update cond f (t_job s)\<rparr>"

definition record_submitted :: "user_session_info \<Rightarrow> string \<Rightarrow> int \<Rightarrow> int \<Rightarrow> string \<Rightarrow> job \<Rightarrow> tms \<Rightarrow> tms" where
  "record_submitted info machineId batchType now relatedSteps j =
     set_jobs (has_jobid (j_jobId j))
       (\<lambda>r. (job_columns info machineId batchType now j r)\<lparr>jr_relatedSteps := Some relatedSteps\<rparr>)"

definition record_status :: "string \<Rightarrow> int \<Rightarrow> tms \<Rightarrow> tms" where
  "record_status jobId status = set_jobs (has_jobid jobId) (\<lambda>r. r\<lparr>jr_status := Some status\<rparr>)"

end
