(* ===== verification/Fms_Lists.thy ===== *)
theory Fms_Lists
  imports Fms_Service Ums_Lists Tms_Tables
begin

text \<open>
  The list of the transfers (\<^verbatim>\<open>FMS/src/server/ListFileTransfers.hpp\<close>) and the service that runs it
  (\<^verbatim>\<open>XMS/src/internalApiFMS.cpp\<close>). The conventions are those of theory Ums_Lists.
\<close>

section \<open>The list\<close>

definition checkTransferId :: "string \<Rightarrow> fms \<Rightarrow> unit result" where
  "checkTransferId transferId s =
     ensure (list_ex (has_transferid transferId) (t_transfer s))
       (UserException ERRCODE_INVALID_PARAM ''Invalid transfer identifier'')"

definition checkTransferStatus :: "int \<Rightarrow> unit result" where
  "checkTransferStatus status =
     ensure (\<not> (status < 0 \<or> status > 4))
       (UserException ERRCODE_INVALID_PARAM ''The file transfer status option value is incorrect'')"

text \<open>Without an option the transfers in progress are listed; the check of the privilege refuses administrators.\<close>

definition transfers_options :: "user_session_info \<Rightarrow> transfer_options \<Rightarrow> fms \<Rightarrow> (transfer_row \<Rightarrow> bool) result" where
  "transfers_options info opt s =
     res_bind (when_given (to_transferId opt) (checkTransferId (to_transferId opt) s)) (\<lambda>_.
     res_bind (when_given (to_userId opt)
       (if user_privilege info = PRIVILEGE_ADMIN then Inl (UMSVishnuException ERRCODE_NO_ADMIN [])
        else query_checkUserId (to_userId opt) (fm_ums s))) (\<lambda>_.
     res_bind (if to_status opt \<noteq> 4 then checkTransferStatus (to_status opt) else Inr ()) (\<lambda>_.
       let onlyProgressFile = (to_transferId opt = [] \<and> to_fromMachineId opt = [] \<and> to_userId opt = [])
       in Inr (\<lambda>r. (to_transferId opt \<noteq> [] \<longrightarrow> has_transferid (to_transferId opt) r) \<and>
         (to_fromMachineId opt \<noteq> [] \<longrightarrow> tr_sourceMachineId r = Some (to_fromMachineId opt) \<or>
            tr_destinationMachineId r = Some (to_fromMachineId opt)) \<and>
         (to_userId opt \<noteq> [] \<longrightarrow> tr_userId r = Some (to_userId opt)) \<and>
         (if to_status opt \<noteq> 4 then tr_status r = Some (to_status opt)
          else onlyProgressFile \<longrightarrow> tr_status r = Some TRANSFER_INPROGRESS)))))"

text \<open>The size of a row without one is the empty text, which is no number.\<close>

definition transfer_of_row :: "transfer_row \<Rightarrow> file_transfer result" where
  "transfer_of_row r =
     (let trStatus = int_of (tr_status r); trCommand = int_of (tr_trCommand r) in
      res_bind (lexical_cast 64 (case tr_fileSize r of None \<Rightarrow> [] | Some n \<Rightarrow> show_int n)) (\<lambda>fileSize.
        Inr \<lparr>ft_transferId = text_of (tr_transferid r), ft_userId = text_of (tr_userId r),
             ft_clientMachineId = text_of (tr_clientMachineId r), ft_sourceMachineId = text_of (tr_sourceMachineId r),
             ft_destinationMachineId = text_of (tr_destinationMachineId r),
             ft_sourceFilePath = text_of (tr_sourceFilePath r),
             ft_destinationFilePath = text_of (tr_destinationFilePath r),
             ft_status = (if 0 \<le> trStatus \<and> trStatus < 5 then trStatus else 4), ft_size = fileSize,
             ft_startTime = convertToTimeType (tr_startTime r),
             ft_trCommand = (if 0 \<le> trCommand \<and> trCommand < 3 then trCommand else 2),
             ft_errorMsg = text_of (tr_errorMsg r)\<rparr>))"

definition transfers_joined :: "fms \<Rightarrow> transfer_row list" where
  "transfers_joined s = [r. r \<leftarrow> t_transfer s, v \<leftarrow> t_vsession (fm_ums s), vs_num v = tr_session r]"

definition listFileTransfers :: "string \<Rightarrow> transfer_options \<Rightarrow> fms \<Rightarrow> file_transfer list result" where
  "listFileTransfers key opt s =
     res_bind (validateAuthKey_any key (fm_ums s)) (\<lambda>info.
     res_bind (transfers_options info opt s) (\<lambda>selected.
       res_map transfer_of_row (order_by tr_startTime (filter selected (transfers_joined s)))))"

section \<open>The service\<close>

definition fms_generique :: "ums_env \<Rightarrow> diet_profile \<Rightarrow> (string \<Rightarrow> string) \<Rightarrow> (string \<Rightarrow> 'o option) \<Rightarrow>
    (string \<Rightarrow> 'o \<Rightarrow> fms \<Rightarrow> 'l result) \<Rightarrow> ('l \<Rightarrow> string) \<Rightarrow> diet_profile fms_late" where
  "fms_generique E pb coded parse query ser = fms_args 2 pb (\<lambda>a.
     let options = op_read (\<lambda>_. parse_or bad_param parse (a ! 1)) in
     fms_service E transfer_error pb (a ! 0) (op_bind options (\<lambda>_. op_ret ())) (coded (a ! 1)) (
       late_bind (late options) (\<lambda>opt.
       late_bind (late (op_read (query (a ! 0) opt))) (\<lambda>l. late (op_ret (ser l))))))"

definition solveGetListOfFileTransfers :: "ums_env \<Rightarrow> fms_env \<Rightarrow> fms_parsers \<Rightarrow> (file_transfer list \<Rightarrow> string) \<Rightarrow>
    diet_profile \<Rightarrow> diet_profile fms_late" where
  "solveGetListOfFileTransfers E F P ser pb =
     fms_generique E pb (\<lambda>text. fms_coded F ''vishnu_list_file_transfers'' [text]) (parse_ls_transfer P) listFileTransfers ser"

definition fms_list_mcb :: "ums_env \<Rightarrow> fms_env \<Rightarrow> fms_parsers \<Rightarrow> (file_transfer list \<Rightarrow> string) \<Rightarrow>
    string \<rightharpoonup> (diet_profile \<Rightarrow> diet_profile fms_late)" where
  "fms_list_mcb E F P ser = map_of [(''FileTransfersList'', solveGetListOfFileTransfers E F P ser)]"

end
