(* ===== verification/Ums_System.thy ===== *)
theory Ums_System
  imports Ums_Lists
begin

text \<open>
  The user management server as a transition system over its database: a step is a call of one of its
  services, by any client, at any time, or a round of its monitor. The locale \<open>ums_relation\<close> states what
  a relation between databases has to satisfy on the single statements of the servers; in it, every
  operation, every service and every sequence of steps is shown to satisfy the relation. Its
  interpretations below give the properties.
\<close>

section \<open>Steps\<close>

inductive ums_step :: "db \<Rightarrow> db \<Rightarrow> bool" where
  service: "ums_mcb env P S name = Some f \<Longrightarrow> ums_step d (snd (f pb d))"
| lists: "ums_list_mcb env P D L name = Some f \<Longrightarrow> ums_step d (snd (f pb d))"
| monitor: "ums_step d (snd (monitor_checkSession env d))"

inductive ums_steps :: "db \<Rightarrow> db \<Rightarrow> bool" where
  none: "ums_steps d d"
| more: "ums_steps d d' \<Longrightarrow> ums_step d' d'' \<Longrightarrow> ums_steps d d''"

section \<open>Relations between databases\<close>

text \<open>How a statement may change a row of a table, and what a new row looks like.\<close>

definition same_user :: "users_row \<Rightarrow> users_row \<Rightarrow> bool" where
  "same_user r r' \<longleftrightarrow> us_num r' = us_num r \<and> us_userid r' = us_userid r"

definition later_session :: "vsession_row \<Rightarrow> vsession_row \<Rightarrow> bool" where
  "later_session s s' \<longleftrightarrow> vs_num s' = vs_num s \<and> vs_user s' = vs_user s \<and> vs_key s' = vs_key s \<and>
     (vs_state s' = vs_state s \<or> vs_state s' = Some SESSION_CLOSED)"

definition later_account :: "account_row \<Rightarrow> account_row \<Rightarrow> bool" where
  "later_account a a' \<longleftrightarrow> ac_num a' = ac_num a \<and> ac_machine a' = ac_machine a \<and> ac_user a' = ac_user a \<and>
     (ac_status a' = ac_status a \<or> ac_status a' = Some STATUS_DELETED)"

definition later_authaccount :: "authaccount_row \<Rightarrow> authaccount_row \<Rightarrow> bool" where
  "later_authaccount a a' \<longleftrightarrow> au_num a' = au_num a \<and> au_authsystem a' = au_authsystem a \<and>
     au_user a' = au_user a \<and> (au_status a' = au_status a \<or> au_status a' = Some STATUS_DELETED)"

locale ums_relation =
  fixes R :: "db \<Rightarrow> db \<Rightarrow> bool"
  assumes R_refl: "R d d"
    and R_trans: "R d d' \<Longrightarrow> R d' d'' \<Longrightarrow> R d d''"
    and new_user: "R d (snd (users_getObjectId env name d))"
    and set_users: "(\<And>r. same_user r (f r)) \<Longrightarrow> R d (d\<lparr>t_users := sql_update c f (t_users d)\<rparr>)"
    and set_sessions: "(\<And>s. later_session s (g s)) \<Longrightarrow> R d (d\<lparr>t_vsession := sql_update e g (t_vsession d)\<rparr>)"
    and new_session: "vs_num s = q_vsession d \<Longrightarrow> vs_state s = Some SESSION_ACTIVE \<Longrightarrow>
      vs_user s \<in> us_num ` set (t_users d) \<Longrightarrow>
      R d (d\<lparr>t_vsession := t_vsession d @ [s], q_vsession := q_vsession d + 1\<rparr>)"
    and new_client: "R d (d\<lparr>t_clmachine := x1, q_clmachine := x2\<rparr>)"
    and new_command: "R d (d\<lparr>t_command := x3, q_command := x4\<rparr>)"
    and new_machine: "R d (snd (machine_getObjectId env name d))"
    and set_machines: "(\<And>m. ma_num (h m) = ma_num m \<and> ma_machineid (h m) = ma_machineid m) \<Longrightarrow>
      R d (d\<lparr>t_machine := sql_update k h (t_machine d)\<rparr>)"
    and set_descriptions: "R d (d\<lparr>t_description := x5\<rparr>)"
    and new_account: "\<not> account_exist (Some (ac_machine a)) (Some (ac_user a)) d \<Longrightarrow> ac_num a = q_account d \<Longrightarrow>
      R d (d\<lparr>t_account := t_account d @ [a], q_account := q_account d + 1\<rparr>)"
    and set_accounts: "(\<And>a. later_account a (i a)) \<Longrightarrow> R d (d\<lparr>t_account := sql_update l i (t_account d)\<rparr>)"
    and new_authsystem: "R d (snd (authsystem_getObjectId env name d))"
    and set_authsystems: "(\<And>y. ay_num (j y) = ay_num y \<and> ay_authsystemid (j y) = ay_authsystemid y) \<Longrightarrow>
      R d (d\<lparr>t_authsystem := sql_update n j (t_authsystem d)\<rparr>)"
    and set_ldap: "R d (d\<lparr>t_ldapauthsystem := x6\<rparr>)"
    and new_authaccount: "\<not> authaccount_exist (Some (au_authsystem b)) (Some (au_user b)) d \<Longrightarrow>
      au_num b = q_authaccount d \<Longrightarrow>
      R d (d\<lparr>t_authaccount := t_authaccount d @ [b], q_authaccount := q_authaccount d + 1\<rparr>)"
    and set_authaccounts: "(\<And>b. later_authaccount b (o' b)) \<Longrightarrow>
      R d (d\<lparr>t_authaccount := sql_update p o' (t_authaccount d)\<rparr>)"
begin

definition keeps :: "'a op \<Rightarrow> db \<Rightarrow> bool" where
  "keeps m d \<longleftrightarrow> R d (snd (m d))"

lemma keeps_ret [intro, simp]: "keeps (op_ret x) d"
  by (simp add: keeps_def op_simps R_refl)

lemma keeps_throw [intro, simp]: "keeps (op_throw e) d"
  by (simp add: keeps_def op_simps R_refl)

lemma keeps_read [intro, simp]: "keeps (op_read f) d"
  by (simp add: keeps_def op_simps R_refl)

lemma keeps_write: "R d (f d) \<Longrightarrow> keeps (op_write f) d"
  by (simp add: keeps_def op_simps)

lemma keeps_bind: "keeps m d \<Longrightarrow> (\<And>x d'. m d = (Inr x, d') \<Longrightarrow> keeps (f x) d') \<Longrightarrow> keeps (op_bind m f) d"
  by (auto simp: keeps_def op_bind_def split: prod.splits sum.splits intro: R_trans)

lemma keeps_bind_read: "(\<And>x. f d = Inr x \<Longrightarrow> keeps (g x) d) \<Longrightarrow> keeps (op_bind (op_read f) g) d"
  by (auto simp: keeps_def op_bind_def op_simps R_refl split: sum.splits)

lemma keeps_bind_write: "R d (f d) \<Longrightarrow> keeps (g ()) (f d) \<Longrightarrow> keeps (op_bind (op_write f) g) d"
  by (rule keeps_bind) (auto simp: op_simps keeps_def)

lemma keeps_if: "(b \<Longrightarrow> keeps m d) \<Longrightarrow> (\<not> b \<Longrightarrow> keeps m' d) \<Longrightarrow> keeps (if b then m else m') d"
  by simp

lemmas keeps_intros = keeps_ret keeps_throw keeps_read keeps_bind_read keeps_bind_write keeps_write keeps_if

lemma keeps_users_id: "keeps (users_getObjectId env name) d"
  and keeps_machine_id: "keeps (machine_getObjectId env name) d"
  and keeps_authsystem_id: "keeps (authsystem_getObjectId env name) d"
  by (simp_all add: keeps_def new_user new_machine new_authsystem)

lemma set_sessions': "R (d\<lparr>t_vsession := x\<rparr>) (d\<lparr>t_vsession := sql_update e g x\<rparr>)"
  if "\<And>s. later_session s (g s)"
  using set_sessions [of g "d\<lparr>t_vsession := x\<rparr>" e] that by simp

lemma set_users': "R (d\<lparr>t_users := x\<rparr>) (d\<lparr>t_users := sql_update e g x\<rparr>)"
  if "\<And>s. same_user s (g s)"
  using set_users [of g "d\<lparr>t_users := x\<rparr>" e] that by simp

subsection \<open>Sessions\<close>

lemma keeps_save: "R d (saveConnection env ss d)"
  unfolding saveConnection_def by (rule set_sessions) (simp add: later_session_def)

lemma keeps_disconnect: "R d (disconnetToTimeout ss d)"
  unfolding disconnetToTimeout_def
  by (rule R_trans [OF set_sessions set_sessions']) (simp_all add: later_session_def)

lemma keeps_closed: "R d (session_closed env key d)"
  unfolding session_closed_def
  by (rule R_trans [OF set_sessions set_sessions']) (simp_all add: later_session_def)

lemma keeps_close_sessions: "R d (close_sessions_of userId d)"
  unfolding close_sessions_of_def by (rule set_sessions) (simp add: later_session_def)

lemma keeps_client: "R d (recordMachineClient h d)"
  by (simp add: recordMachineClient_def new_client R_refl)

lemma keeps_command: "keeps (command_record env key cmd ct cs i) d"
  unfolding command_record_def by (intro keeps_intros new_command)

lemma keeps_finish: "keeps (session_finish env ss cmd ct cs i chk) d"
  unfolding session_finish_def
  by (intro keeps_bind keeps_if keeps_read keeps_ret keeps_command keeps_write keeps_save)

lemma keeps_session_close: "keeps (session_close env ss) d"
  unfolding session_close_def by (intro keeps_intros keeps_closed keeps_disconnect)

lemma keeps_record:
  assumes "se_status se = SESSION_ACTIVE" and "\<And>n. iduser = Some n \<Longrightarrow> n \<in> us_num ` set (t_users d)"
  shows "keeps (recordSessionServer env se m iduser) d"
  unfolding recordSessionServer_def
  using assms by (auto simp: sql_num_def intro!: keeps_intros new_session split: option.splits)

lemma keeps_connect:
  assumes "se_status (msession ss) = SESSION_ACTIVE"
  shows "keeps (connectSession env u host opt ss) d"
proof -
  have st: "se_status (msession ss2) = se_status (msession ss1)" if "solveConnectionMode opt ss1 = Inr ss2"
    for ss1 ss2 using that by (auto simp: solveConnectionMode_def Let_def split: if_splits)
  have num: "n \<in> us_num ` set (t_users (recordMachineClient h d))"
    if "connect_user u1 opt d = Inr (Some n, uid)" for n u1 uid h
    using that
    by (auto simp: connect_user_def Let_def users_getAttribut_def recordMachineClient_def
        dest!: first_element_Some split: if_splits)
  have rec: "keeps (op_bind (recordSessionServer env (msession ss2) m num) (\<lambda>_. op_ret ss2))
      (recordMachineClient h d)"
    if "connect_user u1 opt d = Inr (num, uid)" "solveConnectionMode opt ss1 = Inr ss2"
      "se_status (msession ss1) = SESSION_ACTIVE" for u1 num uid ss1 ss2 m h
    using that by (intro keeps_bind keeps_record keeps_ret) (auto simp: st dest: num)
  show ?thesis
    unfolding connectSession_def
    using assms by (auto simp: Let_def intro!: keeps_bind_read keeps_bind_write keeps_client rec keeps_if
        split: prod.splits)
qed

lemma keeps_monitor: "keeps (monitor_checkSession env) d"
proof -
  have "R d (snd (monitor_close env keys d))" for keys
  proof (induction keys arbitrary: d)
    case Nil
    then show ?case by (simp add: op_simps R_refl)
  next
    case (Cons key keys)
    have "R d (snd (session_close env (session_of_key key) d))"
      using keeps_session_close by (simp add: keeps_def)
    then show ?case using Cons.IH
      by (auto split: prod.splits sum.splits option.splits intro: R_trans)
  qed
  then show ?thesis by (simp add: keeps_def monitor_checkSession_def)
qed

subsection \<open>Users\<close>

lemma keeps_user_add: "keeps (user_add env me u) d"
proof -
  have w: "R d (d\<lparr>t_users := sql_update c (new_user_fields v p) (t_users d)\<rparr>)" for c v p d
    by (rule set_users) (simp add: same_user_def new_user_fields_def)
  show ?thesis unfolding user_add_def Let_def
    by (intro keeps_intros keeps_bind [OF keeps_users_id] w)
qed

lemma keeps_user_update: "keeps (user_update me u) d"
proof -
  have w: "R d (d\<lparr>t_users := sql_update c (update_user_fields v) (t_users d)\<rparr>)" for c v d
    by (rule set_users) (simp add: same_user_def update_user_fields_def)
  show ?thesis unfolding user_update_def by (intro keeps_intros w keeps_close_sessions)
qed

lemma keeps_user_delete: "keeps (user_delete me u) d"
  unfolding user_delete_def
  by (intro keeps_bind keeps_user_update keeps_write set_accounts) (simp add: later_account_def)

lemma keeps_set_password: "R d (set_password u p d)"
  unfolding set_password_def
  by (rule R_trans [OF set_users set_users']) (simp_all add: same_user_def)

lemma keeps_reset_password: "R d (reset_password uid p d)"
  unfolding reset_password_def
  by (rule R_trans [OF set_users set_users']) (simp_all add: same_user_def)

lemma keeps_changePassword: "keeps (changePassword env u p) d"
  unfolding changePassword_def
  by (auto intro!: keeps_intros keeps_set_password split: prod.splits)

lemma keeps_resetPassword: "keeps (resetPassword env me u) d"
  unfolding resetPassword_def Let_def by (intro keeps_intros keeps_reset_password)

subsection \<open>Machines and accounts\<close>

lemma keeps_machine_add: "keeps (machine_add env key mc) d"
  unfolding machine_add_def Let_def
  by (intro keeps_intros keeps_bind [OF keeps_machine_id] set_machines set_descriptions) simp_all

lemma keeps_machine_update: "keeps (machine_update key mc) d"
proof -
  have "R d (d\<lparr>t_machine := sql_update c (machine_fields mc) (t_machine d), t_description := x\<rparr>)" for c x
    by (rule R_trans [OF set_machines set_descriptions]) (simp_all add: machine_fields_def)
  then show ?thesis unfolding machine_update_def by (intro keeps_intros)
qed

lemma keeps_machine_delete: "keeps (machine_delete key mc) d"
  unfolding machine_delete_def
  by (intro keeps_bind keeps_machine_update keeps_write set_accounts) (simp add: later_account_def)

lemma keeps_account_add: "keeps (account_add key la) d"
  unfolding account_add_def
  by (auto simp: sql_num_def intro!: keeps_bind_read keeps_if keeps_throw keeps_write new_account
      split: option.splits)

lemma keeps_account_update: "keeps (account_update key la) d"
  unfolding account_update_def
  by (intro keeps_intros set_accounts) (simp add: later_account_def account_fields_def)

lemma keeps_account_delete: "keeps (account_delete key la) d"
  unfolding account_delete_def by (intro keeps_intros set_accounts) (simp add: later_account_def)

subsection \<open>Authentication systems and accounts\<close>

lemma keeps_authsystem_add: "keeps (authsystem_add env key a) d"
  unfolding authsystem_add_def Let_def
  by (intro keeps_intros keeps_bind [OF keeps_authsystem_id] set_authsystems set_ldap)
    (simp_all add: new_authsystem_fields_def)

lemma keeps_authsystem_update: "keeps (authsystem_update key a) d"
proof -
  have "R d (d\<lparr>t_authsystem := sql_update c (authsystem_fields a) (t_authsystem d), t_ldapauthsystem := x\<rparr>)" for c x
    by (rule R_trans [OF set_authsystems set_ldap]) (simp_all add: authsystem_fields_def)
  then show ?thesis unfolding authsystem_update_def by (intro keeps_intros)
qed

lemma keeps_authsystem_delete: "keeps (authsystem_delete key a) d"
  unfolding authsystem_delete_def
  by (intro keeps_intros set_authsystems set_authaccounts) (simp_all add: later_authaccount_def)

lemma keeps_addOrUpdate: "keeps (addOrUpdate update key aa) d"
  unfolding addOrUpdate_def
  by (auto simp: sql_num_def later_authaccount_def split: prod.splits option.splits
      intro!: keeps_bind_read keeps_if keeps_throw keeps_write new_authaccount set_authaccounts)

lemma keeps_authaccount_delete: "keeps (authaccount_delete key aa) d"
  unfolding authaccount_delete_def
  by (auto split: prod.splits intro!: keeps_intros set_authaccounts) (simp add: later_authaccount_def)

subsection \<open>Services\<close>

lemma keeps_session_service:
  assumes "keeps body d"
  shows "keeps (session_service env pb key cmd okCheck failCheck body) d"
proof -
  have fin: "R d1 d2" if "session_finish env ss cmd ct cs i chk d1 = (r, d2)" for ss ct cs i chk d1 r d2
    using keeps_finish [of env ss cmd ct cs i chk d1] that by (simp add: keeps_def)
  have "R d (snd (body d))" using assms by (simp add: keeps_def)
  then show ?thesis unfolding keeps_def session_service_def Let_def
    by (auto split: prod.splits sum.splits dest!: fin intro: R_trans)
qed

lemma keeps_plain_service: "keeps body d \<Longrightarrow> keeps (plain_service pb body) d"
  by (auto simp: keeps_def plain_service_def split: prod.splits sum.splits)

lemma keeps_done_with: "keeps f d \<Longrightarrow> keeps (done_with f) d"
  unfolding done_with_def by (intro keeps_bind) auto

lemma keeps_with_args: "(\<And>a. keeps (f a) d) \<Longrightarrow> keeps (with_args n pb f) d"
  unfolding with_args_def by (intro keeps_bind_read)

lemmas keeps_ops = keeps_session_close keeps_user_add keeps_user_update keeps_user_delete
  keeps_changePassword keeps_resetPassword keeps_machine_add keeps_machine_update keeps_machine_delete
  keeps_account_add keeps_account_update keeps_account_delete keeps_authsystem_add keeps_authsystem_update
  keeps_authsystem_delete keeps_addOrUpdate keeps_authaccount_delete

lemmas keeps_services = keeps_with_args keeps_session_service keeps_plain_service keeps_done_with
  keeps_bind_read keeps_ret

lemma keeps_solveSessionConnect: "keeps (solveSessionConnect env S pb) d"
  unfolding solveSessionConnect_def
  by (intro keeps_services keeps_bind [OF keeps_connect]) (simp add: session_of_key_def session0_def)

lemmas solve_defs = solveSessionReconnect_def solveSessionClose_def solveUserPasswordChange_def
  solveUserCreate_def solveUserUpdate_def solveUserDelete_def solveUserPasswordReset_def
  solveMachineCreate_def solveMachineUpdate_def solveMachineDelete_def solveLocalAccountCreate_def
  solveLocalAccountUpdate_def solveLocalAccountDelete_def solveSystemAuthCreate_def
  solveSystemAuthUpdate_def solveSystemAuthDelete_def solveAccountAuthCreate_def
  solveAccountAuthUpdate_def solveAccountAuthDelete_def

lemma keeps_service:
  assumes "ums_mcb env P S name = Some f"
  shows "keeps (f pb) d"
proof -
  note rules = keeps_services keeps_bind [OF keeps_user_add] keeps_bind [OF keeps_resetPassword]
    keeps_bind [OF keeps_changePassword] keeps_bind [OF keeps_machine_add] keeps_bind [OF keeps_authsystem_add]
    keeps_ops
  from assms show ?thesis
    unfolding ums_mcb_def
    by (auto split: if_splits intro: keeps_solveSessionConnect)
      (unfold solve_defs, (intro rules)+)
qed

lemma keeps_solveGenerique: "keeps (solveGenerique env pb command parse query ser) d"
  unfolding solveGenerique_def
  by (rule keeps_with_args) (auto split: option.splits intro!: keeps_session_service keeps_bind_read)

lemma keeps_list_service: "ums_list_mcb env P D L name = Some f \<Longrightarrow> keeps (f pb) d"
  unfolding ums_list_mcb_def
  by (auto simp: list_service_defs keeps_solveGenerique split: if_splits)

theorem keeps_step: "ums_step d d' \<Longrightarrow> R d d'"
  by (induction rule: ums_step.induct) (use keeps_service keeps_list_service keeps_monitor in \<open>auto simp: keeps_def\<close>)

theorem keeps_steps: "ums_steps d d' \<Longrightarrow> R d d'"
  by (induction rule: ums_steps.induct) (auto intro: R_refl R_trans keeps_step)

end

end
