(* ===== verification/Fms_System.thy ===== *)
theory Fms_System
  imports Fms_Lists Ums_System
begin

text \<open>
  The file management server as a transition system: calls of its services, the calls of the user management
  services on the same database, the threads of asynchronous transfers at any later time, and rounds of
  the monitor. The locale \<open>fms_relation\<close> states what a relation between two states needs so that every
  service keeps it; it is used for the invariant of the table of the transfers and for the commands that
  are run in the name of a user.
\<close>

section \<open>Steps\<close>

inductive fms_step :: "fms \<Rightarrow> fms \<Rightarrow> bool" where
  service: "fms_mcb E F P S name = Some f \<Longrightarrow> f pb s = Some (r, s') \<Longrightarrow> fms_step s s'"
| lists: "fms_list_mcb E F P ser name = Some f \<Longrightarrow> f pb s = Some (r, s') \<Longrightarrow> fms_step s s'"
| ums: "ums_step (fm_ums s) d \<Longrightarrow> fms_step s (s\<lparr>fm_ums := d\<rparr>)"
| thread: "fm_threads s = xs @ te # ys \<Longrightarrow> run_thread F te (s\<lparr>fm_threads := xs @ ys\<rparr>) = (r, s') \<Longrightarrow> fms_step s s'"
| monitor: "fms_step s (checkFile F s)"

abbreviation fms_steps :: "fms \<Rightarrow> fms \<Rightarrow> bool" where "fms_steps \<equiv> fms_step\<^sup>*\<^sup>*"

section \<open>Relations that every operation keeps\<close>

definition same_transfer :: "transfer_row \<Rightarrow> transfer_row \<Rightarrow> bool" where
  "same_transfer r r' \<longleftrightarrow> tr_num r' = tr_num r \<and> tr_transferid r' = tr_transferid r \<and>
     (tr_processid r' = tr_processid r \<or> tr_processid r' = Some (- 1))"

lemma args_key: "res_map (\<lambda>i. diet_string_get pb (int i)) [0..<n] = Inr a \<Longrightarrow> 0 < n \<Longrightarrow> diet_string_get pb 0 = Inr (a ! 0)"
  by (cases n) (auto simp: upt_rec [of 0] simp del: upt_Suc dest!: res_bind_Inr_iff [THEN iffD1])

locale fms_relation =
  fixes R :: "fms \<Rightarrow> fms \<Rightarrow> bool" and C :: "string \<Rightarrow> bool"
  assumes R_refl: "R s s"
    and R_trans: "R s s' \<Longrightarrow> R s' s'' \<Longrightarrow> R s s''"
    and set_users: "R s (s\<lparr>fm_ums := d\<rparr>)"
    and set_log: "list_all C cs \<Longrightarrow> R s (s\<lparr>fm_log := fm_log s @ cs\<rparr>)"
    and set_threads: "R s (s\<lparr>fm_threads := ts\<rparr>)"
    and set_rows: "(\<And>r. same_transfer r (f r)) \<Longrightarrow> R s (set_transfers cond f s)"
    and reserve: "R s (snd (transfer_getObjectId now name s))"
begin

definition keeps :: "'a fms_op \<Rightarrow> fms \<Rightarrow> bool" where
  "keeps m s \<longleftrightarrow> R s (snd (m s))"

definition late_keeps :: "'a fms_late \<Rightarrow> fms \<Rightarrow> bool" where
  "late_keeps m s \<longleftrightarrow> (\<forall>r s'. m s = Some (r, s') \<longrightarrow> R s s')"

lemma keeps_ret [intro, simp]: "keeps (op_ret x) s"
  by (simp add: keeps_def op_simps R_refl)

lemma keeps_throw [intro, simp]: "keeps (op_throw e) s"
  by (simp add: keeps_def op_simps R_refl)

lemma keeps_read [intro, simp]: "keeps (op_read f) s"
  by (simp add: keeps_def op_simps R_refl)

lemma keeps_write: "R s (f s) \<Longrightarrow> keeps (op_write f) s"
  by (simp add: keeps_def op_simps)

lemma keeps_bind: "keeps m s \<Longrightarrow> (\<And>x s'. m s = (Inr x, s') \<Longrightarrow> keeps (f x) s') \<Longrightarrow> keeps (op_bind m f) s"
  by (auto simp: keeps_def op_bind_def split: prod.splits sum.splits intro: R_trans)

lemma keeps_bind_read: "(\<And>x. f s = Inr x \<Longrightarrow> keeps (g x) s) \<Longrightarrow> keeps (op_bind (op_read f) g) s"
  by (auto simp: keeps_def op_bind_def op_simps R_refl split: sum.splits)

lemma keeps_if: "(b \<Longrightarrow> keeps m s) \<Longrightarrow> (\<not> b \<Longrightarrow> keeps m' s) \<Longrightarrow> keeps (if b then m else m') s"
  by simp

lemma keeps_users: "keeps (on_users m) s"
  by (simp add: keeps_def on_users_def set_users split: prod.splits)

lemma keeps_shell:
  assumes "runs C m"
  shows "keeps (on_shell m) s"
proof -
  obtain cs where "snd (m (fm_log s)) = fm_log s @ cs" "list_all C cs"
    using assms unfolding runs_def by blast
  then show ?thesis by (auto simp: keeps_def on_shell_def set_log split: prod.splits)
qed

lemmas keeps_intros = keeps_ret keeps_throw keeps_read keeps_bind_read keeps_write keeps_if

lemma late_keeps_late: "keeps m s \<Longrightarrow> late_keeps (late m) s"
  by (auto simp: late_keeps_def keeps_def late_def)

lemma kept_bind:
  "late_keeps m s \<Longrightarrow> (\<And>x s'. m s = Some (Inr x, s') \<Longrightarrow> late_keeps (f x) s') \<Longrightarrow> late_keeps (late_bind m f) s"
  by (force simp: late_keeps_def late_bind_def split: option.splits prod.splits sum.splits intro: R_trans)

lemma kept_bind_read:
  "(\<And>x. f s = Inr x \<Longrightarrow> late_keeps (g x) s) \<Longrightarrow> late_keeps (late_bind (late (op_read f)) g) s"
  by (rule kept_bind) (auto simp: late_def op_simps intro: late_keeps_late)

lemma late_keeps_args:
  "0 < n \<Longrightarrow> (\<And>a. diet_string_get pb 0 = Inr (a ! 0) \<Longrightarrow> late_keeps (f a) s) \<Longrightarrow> late_keeps (fms_args n pb f) s"
  unfolding fms_args_def by (rule kept_bind_read) (simp add: args_key)

lemma late_keeps_option: "(\<And>x. late_keeps (f x) s) \<Longrightarrow> late_keeps (option_or msg p t f) s"
  unfolding option_or_def by (rule kept_bind_read) simp

lemma late_keeps_service:
  assumes "keeps pre s" and "\<And>s'. pre s = (Inr (), s') \<Longrightarrow> late_keeps body s'"
  shows "late_keeps (fms_service E errText pb key pre cmd body) s"
proof -
  have fin: "R s1 s2" if "fms_finish E key c st s1 = (r, s2)" for c st s1 r s2
    using keeps_users [of "session_finish E (session_of_key key) c FMS st [] True" s1] that
    by (simp add: fms_finish_def keeps_def)
  obtain r0 s0 where p: "pre s = (r0, s0)" by (cases "pre s")
  with assms(1) have R0: "R s s0" by (simp add: keeps_def)
  have failed: "R s s2" if "R s s1"
    "(if is_vishnu e then case fms_finish E key t CMDFAILED s1 of
        (Inr _, s2) \<Rightarrow> (Inr (reply pb ''error'' (errText e None)), s2)
      | (Inl fe, s2) \<Rightarrow> if is_vishnu fe then (Inr (reply pb ''error'' (errText e (Some fe))), s2) else (Inl fe, s2)
      else (Inl e, s1)) = (r, s2)" for t e s1 r s2
    using that by (auto split: if_splits prod.splits sum.splits dest: fin intro: R_trans R_refl)
  show ?thesis
    unfolding late_keeps_def
  proof (intro allI impI)
    fix r s'
    assume run: "fms_service E errText pb key pre cmd body s = Some (r, s')"
    show "R s s'"
    proof (cases r0)
      case (Inl e)
      with run p show ?thesis by (auto simp: fms_service_def Let_def intro: failed [OF R0])
    next
      case (Inr u)
      with run p obtain b s1 where b: "body s0 = Some (b, s1)" by (auto simp: fms_service_def Let_def)
      have "late_keeps body s0" using assms(2) p Inr by simp
      with b R0 have R1: "R s s1" by (auto simp: late_keeps_def intro: R_trans)
      show ?thesis
      proof (cases b)
        case (Inl e)
        with run p Inr b show ?thesis by (auto simp: fms_service_def Let_def intro: failed [OF R1])
      next
        case (Inr out)
        obtain q s2 where q: "fms_finish E key cmd CMDSUCCESS s1 = (q, s2)"
          by (cases "fms_finish E key cmd CMDSUCCESS s1")
        then have R2: "R s s2" using R1 fin R_trans by blast
        from run p \<open>r0 = Inr u\<close> b Inr q show ?thesis
          by (cases q) (use R2 in \<open>auto simp: fms_service_def Let_def intro: failed [OF R2]\<close>)
      qed
    qed
  qed
qed

text \<open>The commands of the accounts of a session's user are allowed.\<close>

definition permits :: "string \<Rightarrow> fms \<Rightarrow> bool" where
  "permits key s \<longleftrightarrow> (\<forall>host me login c. session_check (session_of_key key) (fm_ums s) = Inr () \<longrightarrow>
     getUserAccountLogin (Some key) empty_user host (fm_ums s) = Inr (me, login) \<longrightarrow>
     starts_with (ssh_prefix login) c \<longrightarrow> C c)"

definition allowed :: "string \<Rightarrow> bool" where
  "allowed login \<longleftrightarrow> (\<forall>c. starts_with (ssh_prefix login) c \<longrightarrow> C c)"

lemma allowed_commands: "allowed login \<Longrightarrow> file_commands C login"
  by unfold_locales (auto simp: allowed_def ssh_command_prefix)

lemma file_service_keeps:
  assumes "permits key s"
    and "\<And>f login s'. file_of login f \<Longrightarrow> allowed login \<Longrightarrow> late_keeps (action f) s'"
  shows "late_keeps (late_bind (late (file_server key path host)) action) s"
proof (rule kept_bind)
  show "late_keeps (late (file_server key path host)) s"
    unfolding file_server_def by (intro late_keeps_late keeps_bind_read) (auto split: prod.splits)
  fix f s'
  assume "late (file_server key path host) s = Some (Inr f, s')"
  then obtain me login machineName where
    "session_check (session_of_key key) (fm_ums s) = Inr ()"
    "getUserAccountLogin (Some key) empty_user host (fm_ums s) = Inr (me, login)"
    "f = getFileServer machineName path login"
    by (auto simp: late_def file_server_def op_bind_def op_simps split: sum.splits prod.splits)
  with assms(1) have "allowed login" "file_of login f" unfolding permits_def allowed_def by auto
  then show "late_keeps (action f) s'" using assms(2) by blast
qed

lemma no_text_keeps: "runs C m \<Longrightarrow> late_keeps (no_text m) s"
  by (intro late_keeps_late keeps_bind keeps_shell keeps_ret)

lemma text_keeps: "runs C m \<Longrightarrow> late_keeps (late (on_shell m)) s"
  by (intro late_keeps_late keeps_shell)

lemma ls_keeps:
  assumes "file_of login f" and "allowed login"
  shows "late_keeps (\<lambda>s. map_option (\<lambda>(r, l). (r, s\<lparr>fm_log := l\<rparr>)) (ls F b f (fm_log s))) s"
  using file_commands.runs_ls [OF allowed_commands [OF assms(2)] assms(1)]
  by (fastforce simp: late_keeps_def intro: set_log)

text \<open>The eleven services on files.\<close>

lemmas file_operations = file_commands.runs_operations [OF allowed_commands]

lemma file_service_args:
  assumes "permits key s"
    and "\<And>f login s'. file_of login f \<Longrightarrow> allowed login \<Longrightarrow> late_keeps (action f) s'"
  shows "late_keeps (file_service E pb key path host cmd action) s"
  unfolding file_service_def
  by (rule late_keeps_service) (use file_service_keeps [OF assms] in \<open>auto simp: op_simps\<close>)

lemma file_services_keep:
  assumes "\<And>key. diet_string_get pb 0 = Inr key \<Longrightarrow> permits key s"
  shows "late_keeps (solveChangeGroup E F pb) s" and "late_keeps (solveChangeMode E F pb) s"
    and "late_keeps (solveGetFileContent E F pb) s" and "late_keeps (solveGetInfos E F S pb) s"
    and "late_keeps (solveHeadFile E F P pb) s" and "late_keeps (solveListDir E F P S pb) s"
    and "late_keeps (solveCreateDir E F P pb) s" and "late_keeps (solveCreateFile E F pb) s"
    and "late_keeps (solveRemoveDir E F pb) s" and "late_keeps (solveRemoveFile E F P pb) s"
    and "late_keeps (solveTailFile E F P pb) s"
proof -
  note intros = late_keeps_args zero_less_numeral file_service_args [OF assms] late_keeps_option no_text_keeps text_keeps
  show "late_keeps (solveChangeGroup E F pb) s"
    unfolding solveChangeGroup_def by (intro intros) (blast intro: file_operations)+
  show "late_keeps (solveChangeMode E F pb) s"
    unfolding solveChangeMode_def Let_def by (intro intros) (blast intro: file_operations)+
  show "late_keeps (solveGetFileContent E F pb) s"
    unfolding solveGetFileContent_def getContent_def by (intro intros) (blast intro: file_operations)+
  show "late_keeps (solveGetInfos E F S pb) s"
    unfolding solveGetInfos_def
    by (intro late_keeps_args zero_less_numeral file_service_args [OF assms] late_keeps_late keeps_bind keeps_shell keeps_if
        keeps_ret keeps_throw) (blast intro: file_operations)+
  show "late_keeps (solveHeadFile E F P pb) s"
    unfolding solveHeadFile_def head_of_def by (intro intros) (blast intro: file_operations)+
  show "late_keeps (solveListDir E F P S pb) s"
    unfolding solveListDir_def
    by (intro late_keeps_args zero_less_numeral file_service_args [OF assms] late_keeps_option kept_bind ls_keeps
        late_keeps_late keeps_ret)
  show "late_keeps (solveCreateDir E F P pb) s"
    unfolding solveCreateDir_def by (intro intros) (blast intro: file_operations)+
  show "late_keeps (solveCreateFile E F pb) s"
    unfolding solveCreateFile_def by (intro intros) (blast intro: file_operations)+
  show "late_keeps (solveRemoveDir E F pb) s"
    unfolding solveRemoveDir_def rmdir_def by (intro intros) (blast intro: file_operations)+
  show "late_keeps (solveRemoveFile E F P pb) s"
    unfolding solveRemoveFile_def rm_def by (intro intros) (blast intro: file_operations)+
  show "late_keeps (solveTailFile E F P pb) s"
    unfolding solveTailFile_def tail_of_def
  proof (intro late_keeps_args zero_less_numeral late_keeps_service keeps_read, goal_cases)
    case (1 a s')
    then have "permits (a ! 0) s" and "s' = s" using assms by (simp_all add: op_simps)
    then show ?case
      by (simp, intro file_service_keeps late_keeps_option text_keeps) (blast intro: file_operations)+
  qed
qed

subsection \<open>Transfers\<close>

lemma keeps_record: "keeps (updateDatabaseRecord env key ft) s"
  unfolding updateDatabaseRecord_def
  by (intro keeps_bind_read keeps_write set_rows) (simp add: same_transfer_def transfer_columns_def)

lemma keeps_status: "keeps (updateStatus st i msg) s"
  unfolding updateStatus_def by (intro keeps_write set_rows) (simp add: same_transfer_def)

lemma keeps_data: "keeps (updateData env key ft) s"
proof -
  have "keeps (transfer_getObjectId now m) s" for now m by (simp add: keeps_def reserve)
  then have "keeps (op_bind (transfer_getObjectId now m) (\<lambda>i. op_ret (g i))) s" for now m and g :: "string \<Rightarrow> file_transfer"
    by (intro keeps_bind keeps_ret)
  then show ?thesis by (simp add: keeps_def updateData_def Let_def)
qed

lemma transfer_prefix: "starts_with (ssh_prefix u) (''/usr/bin/ssh -l '' @ u @
    '' -C -o BatchMode=yes  -o StrictHostKeyChecking=no'' @ rest)"
  unfolding ssh_prefix_def starts_with_iff
  by (rule exI [of _ "'' -o BatchMode=yes  -o StrictHostKeyChecking=no'' @ rest"]) simp

lemma runs_transfer:
  assumes "allowed (te_srcUser te)"
  shows "runs C (transfer_run env te cmd)"
  unfolding transfer_run_def
  by (rule runs_bind [OF runs_system], intro assms [unfolded allowed_def, rule_format] transfer_prefix)
    (auto intro: runs_intros)

lemma keeps_copy: "allowed (te_srcUser te) \<Longrightarrow> keeps (thread_copy env te) s"
  unfolding thread_copy_def Let_def
  by (intro keeps_bind keeps_if keeps_shell runs_transfer keeps_ret keeps_status)

lemma keeps_move: "allowed (te_srcUser te) \<Longrightarrow> keeps (thread_move env te) s"
  unfolding thread_move_def rm_def
proof (intro keeps_bind keeps_if keeps_copy keeps_ret, goal_cases)
  case (2 u s')
  let ?m = "remove_with env (if True then ''rm -rf '' else ''rm -f '')
    (getFileServer (te_srcMachineName te) (te_srcPath te) (te_srcUser te))"
  have "runs C ?m" using 2 by (intro file_operations) auto
  then have shell: "keeps (on_shell ?m) s'" by (rule keeps_shell)
  obtain r s1 where m: "on_shell ?m s' = (r, s1)" by (cases "on_shell ?m s'")
  with shell have "R s' s1" by (simp add: keeps_def)
  then show ?case
    using m keeps_status [of TRANSFER_FAILED "te_transferId te" _ s1]
    by (cases r) (auto simp: keeps_def intro: R_trans)
qed

lemma keeps_thread: "allowed (te_srcUser te) \<Longrightarrow> keeps (run_thread env te) s"
  unfolding run_thread_def by (cases "te_type te") (simp_all add: keeps_copy keeps_move)

lemma keeps_start: "allowed srcUser \<Longrightarrow> keeps (start_transfer env key type srcUser m1 destUser m2 options ft) s"
  unfolding start_transfer_def Let_def
  by (intro keeps_bind keeps_if keeps_record keeps_ret keeps_throw keeps_shell file_operations) auto

lemma started_user:
  "start_transfer env key type srcUser m1 destUser m2 options ft s = (Inr (ft', Some te), s') \<Longrightarrow> te_srcUser te = srcUser"
  unfolding start_transfer_def Let_def
  by (auto dest!: op_bind_result simp: op_simps split: if_splits)

lemma keeps_add:
  assumes "fst (ifLocalTransferInvolved m1 m2 0) \<or> allowed srcUser"
  shows "keeps (addTransferThread env key type srcUser m1 destUser m2 options ft) s"
  unfolding addTransferThread_def Let_def
  by (intro keeps_bind keeps_data keeps_if keeps_record keeps_ret keeps_start) (use assms in simp)

lemma added_user:
  assumes "fst (ifLocalTransferInvolved m1 m2 0) \<or> allowed srcUser"
    and "addTransferThread env key type srcUser m1 destUser m2 options ft s = (Inr (ft', Some te), s')"
  shows "allowed (te_srcUser te)"
  using assms unfolding addTransferThread_def Let_def
  by (auto dest!: op_bind_result dest: started_user simp: op_simps split: if_splits)

lemma keeps_sync:
  assumes "fst (ifLocalTransferInvolved m1 m2 0) \<or> allowed srcUser"
  shows "keeps (add_sync env key type srcUser m1 destUser m2 options ft) s"
  unfolding add_sync_def
proof (intro keeps_bind keeps_add assms, goal_cases)
  case (1 x s')
  obtain ft' t where x: "x = (ft', t)" by (cases x)
  have wait: "keeps (waitThread env t) s'"
  proof (cases t)
    case None
    then show ?thesis by (simp add: waitThread_def)
  next
    case (Some te)
    then have "allowed (te_srcUser te)" using added_user [OF assms] 1 x by blast
    then show ?thesis by (simp add: waitThread_def Some keeps_thread)
  qed
  show ?case unfolding x by (auto intro!: keeps_bind wait keeps_bind_read)
qed

lemma keeps_async:
  assumes "fst (ifLocalTransferInvolved m1 m2 0) \<or> allowed srcUser"
  shows "keeps (add_async env key type srcUser m1 destUser m2 options ft) s"
  unfolding add_async_def
  by (intro keeps_bind keeps_add assms) (auto intro!: keeps_bind keeps_write set_threads split: prod.splits)

lemma keeps_transfer:
  assumes "fst (ifLocalTransferInvolved m1 m2 0) \<or> allowed srcUser"
  shows "keeps (add_transfer env key type mode srcUser m1 destUser m2 options ft) s"
  by (cases mode) (simp_all add: add_transfer_def keeps_sync keeps_async assms)

lemma keeps_stop: "keeps (stopThread env key options) s"
proof -
  have one: "keeps (stop_one env key i pid) s'" for i pid s'
    unfolding stop_one_def
    by (auto intro!: keeps_bind keeps_status keeps_bind_read split: option.splits)
  have "keeps (stop_loop env key rs) s'" for rs s'
    by (induction rs arbitrary: s') (auto intro!: keeps_bind one)
  then show ?thesis
    unfolding stopThread_def by (intro keeps_if keeps_bind_read keeps_ret keeps_throw)
qed

lemma keeps_monitor: "R s (checkFile env s)"
proof -
  have "R s' (fold (transfer_lost env) rs s')" for rs s'
  proof (induction rs arbitrary: s')
    case (Cons r rs)
    have "R s' (transfer_lost env r s')"
      unfolding transfer_lost_def by (auto intro!: set_rows R_refl simp: same_transfer_def)
    with Cons show ?case by (auto intro: R_trans)
  qed (simp add: R_refl)
  then show ?thesis by (simp add: checkFile_def)
qed

text \<open>The reads of a transfer's service.\<close>

lemma login_read: "login_on key host l = users_read (\<lambda>d.
    if host \<noteq> ''localhost'' then res_bind (getUserAccountLogin (Some key) empty_user host d) (\<lambda>(me, login). Inr login)
    else Inr l)"
  by (rule ext) (simp add: login_on_def op_simps)

lemma check_read: "check_host host = users_read (\<lambda>d. if host \<noteq> ''localhost'' then checkMachine host d else Inr ())"
  by (rule ext) (simp add: check_host_def op_simps)

lemma name_read: "(if host \<noteq> ''localhost'' then users_read (\<lambda>d. Inr (getMachineName host d)) else op_ret host) =
    users_read (\<lambda>d. Inr (if host \<noteq> ''localhost'' then getMachineName host d else host))"
  by (rule ext) (simp add: op_simps)

text \<open>The login of the source is allowed, unless the transfer is left to the client.\<close>

lemma source_allowed:
  assumes "permits key s" and "session_check (session_of_key key) (fm_ums s) = Inr u"
    and "(if host \<noteq> ''localhost'' then res_bind (getUserAccountLogin (Some key) empty_user host (fm_ums s)) (\<lambda>(me, login). Inr login)
          else Inr l) = Inr login"
    and "host = ''localhost'' \<longrightarrow> m1 = ''localhost''"
  shows "fst (ifLocalTransferInvolved m1 m2 0) \<or> allowed login"
proof (cases "host = ''localhost''")
  case True
  with assms(4) show ?thesis by (simp add: ifLocalTransferInvolved_def)
next
  case False
  with assms(1-3) show ?thesis
    unfolding permits_def allowed_def by (auto dest!: res_bind_Inr_iff [THEN iffD1])
qed

lemma transfer_file_keeps:
  assumes "\<And>key. diet_string_get pb 0 = Inr key \<Longrightarrow> permits key s"
  shows "late_keeps (solveTransferFile E F P S type mode pb) s"
  unfolding solveTransferFile_def Let_def login_read check_read
proof (intro late_keeps_args zero_less_numeral late_keeps_service keeps_ret late_keeps_late, goal_cases)
  case (1 a s')
  then have "permits (a ! 0) s" and "s' = s" using assms by (simp_all add: op_simps)
  from this(2) show ?case
    by (simp only:, intro keeps_bind_read keeps_bind keeps_transfer keeps_ret)
      (rule source_allowed [OF \<open>permits (a ! 0) s\<close>], assumption+, simp)
qed

lemma transfer_remote_keeps:
  assumes "\<And>key. diet_string_get pb 0 = Inr key \<Longrightarrow> permits key s"
  shows "late_keeps (solveTransferRemoteFile E F P S type mode pb) s"
  unfolding solveTransferRemoteFile_def Let_def login_read check_read name_read
proof (intro late_keeps_args zero_less_numeral late_keeps_service late_keeps_late, goal_cases)
  case 1
  show ?case by (intro keeps_bind_read keeps_ret)
next
  case (2 a s')
  then have "permits (a ! 0) s" and "s' = s" using assms by (auto simp: op_simps op_bind_def split: sum.splits)
  from this(2) show ?case
    by (simp only:, intro keeps_bind_read keeps_bind keeps_transfer keeps_ret)
      (rule source_allowed [OF \<open>permits (a ! 0) s\<close>], assumption+, (simp split: if_splits)?)
qed

lemma stop_keeps: "late_keeps (solveFileTransferStop E F P pb) s"
  unfolding solveFileTransferStop_def
  by (intro late_keeps_args zero_less_numeral late_keeps_service keeps_ret late_keeps_late keeps_bind_read keeps_bind keeps_stop)

lemma client_update_keeps: "late_keeps (solveUpdateClientSideTransfer F S pb) s"
  unfolding solveUpdateClientSideTransfer_def
proof (intro late_keeps_args zero_less_numeral, goal_cases)
  case (1 a)
  let ?m = "op_bind (op_read (\<lambda>_. parse_or UndefinedBehaviour (parse_transfer S) (a ! 1))) (\<lambda>ft. updateDatabaseRecord F (a ! 0) ft)"
  have "keeps ?m s" by (intro keeps_bind_read keeps_record)
  then show ?case by (auto simp: keeps_def late_keeps_def split: prod.splits sum.splits if_splits)
qed

theorem services_keep:
  assumes "\<And>key. diet_string_get pb 0 = Inr key \<Longrightarrow> permits key s" and "fms_mcb E F P S name = Some f"
  shows "late_keeps (f pb) s"
  using assms(2) unfolding fms_mcb_def
  by (auto split: if_splits intro: file_services_keep transfer_file_keeps transfer_remote_keeps assms(1) stop_keeps client_update_keeps)

lemma list_service_keeps: "fms_list_mcb E F P ser name = Some f \<Longrightarrow> late_keeps (f pb) s"
  unfolding fms_list_mcb_def
  by (auto simp: solveGetListOfFileTransfers_def fms_generique_def Let_def split: if_splits
      intro!: late_keeps_args late_keeps_service kept_bind late_keeps_late keeps_bind_read)

text \<open>A step, when every command is allowed.\<close>

theorem step_keeps:
  assumes "\<And>c. C c" and "fms_step s s'"
  shows "R s s'"
  using assms(2)
proof cases
  case (service E F P S name f pb r)
  have "late_keeps (f pb) s" by (rule services_keep [OF _ service(1)]) (simp add: permits_def assms(1))
  with service(2) show ?thesis by (simp add: late_keeps_def)
next
  case (lists E F P ser name f pb r)
  from list_service_keeps [OF lists(1), of pb s] lists(2) show ?thesis by (simp add: late_keeps_def)
next
  case (ums d)
  then show ?thesis by (simp add: set_users)
next
  case (thread xs te ys F r)
  have "R s (s\<lparr>fm_threads := xs @ ys\<rparr>)" by (rule set_threads)
  moreover have "R (s\<lparr>fm_threads := xs @ ys\<rparr>) s'"
    using keeps_thread [of te F "s\<lparr>fm_threads := xs @ ys\<rparr>"] thread(2) by (simp add: allowed_def assms(1) keeps_def)
  ultimately show ?thesis by (rule R_trans)
next
  case (monitor F)
  then show ?thesis by (simp add: keeps_monitor)
qed

lemma steps_keep:
  assumes "\<And>c. C c" and "fms_steps s s'"
  shows "R s s'"
  using assms(2) by (induction rule: rtranclp_induct) (auto intro: R_refl R_trans step_keeps [OF assms(1)])

end

section \<open>The table of the transfers\<close>

text \<open>
  The keys and the identifiers are distinct, the sequence is ahead of the keys, and no row has the number of a process. A
  kept table also has the old rows with their keys and identifiers, in front of the new ones.
\<close>

definition transfers_ok :: "fms \<Rightarrow> bool" where
  "transfers_ok s \<longleftrightarrow> table_ok (transfer_ids s) \<and> 0 \<le> q_transfer s \<and>
     (\<forall>r \<in> set (t_transfer s). tr_processid r = None \<or> tr_processid r = Some (- 1))"

definition transfers_kept :: "fms \<Rightarrow> fms \<Rightarrow> bool" where
  "transfers_kept s s' \<longleftrightarrow> q_transfer s \<le> q_transfer s' \<and>
     (transfers_ok s \<and> q_transfer s' \<le> 1000000000 \<longrightarrow>
        transfers_ok s' \<and> (\<exists>new. rows (transfer_ids s') = rows (transfer_ids s) @ new))"

lemma transfers_kept_same:
  "t_transfer s' = t_transfer s \<Longrightarrow> q_transfer s' = q_transfer s \<Longrightarrow> transfers_kept s s'"
  by (simp add: transfers_kept_def transfers_ok_def transfer_ids_def)

lemma transfers_kept_trans: "transfers_kept s s' \<Longrightarrow> transfers_kept s' s'' \<Longrightarrow> transfers_kept s s''"
  unfolding transfers_kept_def by force

lemma transfers_kept_rows:
  assumes "\<And>r. same_transfer r (f r)"
  shows "transfers_kept s (set_transfers cond f s)"
proof -
  have "transfer_ids (set_transfers cond f s) = transfer_ids s"
    using assms by (auto simp: transfer_ids_def set_transfers_def sql_update_def same_transfer_def)
  moreover have "tr_processid r = None \<or> tr_processid r = Some (- 1)"
    if ok: "transfers_ok s" and r: "r \<in> set (t_transfer (set_transfers cond f s))" for r
  proof -
    from r obtain q where "q \<in> set (t_transfer s)" "r = f q \<or> r = q"
      by (auto simp: set_transfers_def sql_update_def)
    with ok assms [of q] show ?thesis by (auto simp: transfers_ok_def same_transfer_def)
  qed
  ultimately show ?thesis by (auto simp: transfers_kept_def transfers_ok_def set_transfers_def)
qed

lemma same_rows:
  "map2 (\<lambda>j i. j\<lparr>tr_transferid := row_ident i\<rparr>) rs (map (\<lambda>r. \<lparr>row_key = tr_num r, row_ident = tr_transferid r\<rparr>) rs) = rs"
  by (induction rs) simp_all

lemma reserved_transfer:
  assumes "transfers_ok s" and "q_transfer s < 1000000000" and "newest_session (fm_ums s) = Some sess"
  obtains i where "snd (transfer_getObjectId now name s) = s\<lparr>t_transfer := t_transfer s @
        [(blank_transfer (q_transfer s) sess)\<lparr>tr_transferid := Some i\<rparr>], q_transfer := q_transfer s + 1\<rparr>"
    and "\<And>j. fst (transfer_getObjectId now name s) = Inr j \<Longrightarrow> j = i"
    and "transfers_ok (snd (transfer_getObjectId now name s))"
    and "checkObjectId (rows (transfer_ids s)) i"
    and "rows (transfer_ids (snd (transfer_getObjectId now name s))) =
        rows (transfer_ids s) @ [\<lparr>row_key = q_transfer s, row_ident = Some i\<rparr>]"
proof -
  obtain r t where g: "getObjectId now FILETRANSFERT name (transfer_ids s) = (r, t)"
    by (cases "getObjectId now FILETRANSFERT name (transfer_ids s)")
  have "next_key (transfer_ids s) = q_transfer s" by (simp add: transfer_ids_def)
  with getObjectId_extends [of "transfer_ids s" now FILETRANSFERT name] assms(1,2) obtain i where
    t: "t = \<lparr>rows = rows (transfer_ids s) @ [\<lparr>row_key = q_transfer s, row_ident = Some i\<rparr>], next_key = q_transfer s + 1\<rparr>"
    and i: "checkObjectId (rows (transfer_ids s)) i" "table_ok t" "\<And>x. r = Inr x \<Longrightarrow> x = i"
    by (auto simp: transfers_ok_def g)
  have rt: "rows t = map (\<lambda>r. \<lparr>row_key = tr_num r, row_ident = tr_transferid r\<rparr>) (t_transfer s) @
      [\<lparr>row_key = q_transfer s, row_ident = Some i\<rparr>]" "next_key t = q_transfer s + 1"
    by (simp_all add: t transfer_ids_def)
  let ?s1 = "s\<lparr>t_transfer := t_transfer s @ [(blank_transfer (q_transfer s) sess)\<lparr>tr_transferid := Some i\<rparr>],
      q_transfer := q_transfer s + 1\<rparr>"
  have s1: "transfer_getObjectId now name s = (r, ?s1)"
    by (simp add: transfer_getObjectId_def assms(3) g rt same_rows)
  have ids: "transfer_ids ?s1 = t" by (simp add: t transfer_ids_def blank_transfer_def)
  then have "transfers_ok ?s1" using assms(1) i(2) by (auto simp: transfers_ok_def blank_transfer_def)
  then show ?thesis using that [of i] s1 i(1,3) ids t by simp
qed

lemma transfers_kept_reserve: "transfers_kept s (snd (transfer_getObjectId now name s))"
proof (cases "newest_session (fm_ums s)")
  case None
  then show ?thesis by (simp add: transfer_getObjectId_def transfers_kept_same)
next
  case (Some sess)
  have q: "q_transfer (snd (transfer_getObjectId now name s)) = q_transfer s + 1"
    using next_key_getObjectId [of now FILETRANSFERT name "transfer_ids s"]
    by (simp add: transfer_getObjectId_def Some split_beta transfer_ids_def)
  show ?thesis
    unfolding transfers_kept_def
  proof (intro conjI impI)
    assume a: "transfers_ok s \<and> q_transfer (snd (transfer_getObjectId now name s)) \<le> 1000000000"
    then have "transfers_ok s" "q_transfer s < 1000000000" using q by simp_all
    from this Some show "transfers_ok (snd (transfer_getObjectId now name s))"
      by (rule reserved_transfer)
    from \<open>transfers_ok s\<close> \<open>q_transfer s < 1000000000\<close> Some
    show "\<exists>new. rows (transfer_ids (snd (transfer_getObjectId now name s))) = rows (transfer_ids s) @ new"
      by (rule reserved_transfer) blast
  qed (simp add: q)
qed

interpretation transfers: fms_relation transfers_kept "\<lambda>_. True"
  by unfold_locales
    (auto intro: transfers_kept_same transfers_kept_trans transfers_kept_rows transfers_kept_reserve)

lemma transfers_kept_start: "transfers_ok s \<Longrightarrow> fms_steps s s' \<Longrightarrow> q_transfer s' \<le> 1000000000 \<Longrightarrow>
    transfers_ok s' \<and> (\<exists>new. rows (transfer_ids s') = rows (transfer_ids s) @ new)"
  using transfers.steps_keep [of s s'] by (simp add: transfers_kept_def)

section \<open>The commands\<close>

definition ran :: "(string \<Rightarrow> bool) \<Rightarrow> fms \<Rightarrow> fms \<Rightarrow> bool" where
  "ran C s s' \<longleftrightarrow> (\<exists>cs. fm_log s' = fm_log s @ cs \<and> list_all C cs)"

lemma ran_same: "fm_log s' = fm_log s \<Longrightarrow> ran C s s'"
  by (simp add: ran_def)

lemma ran_trans: "ran C s s' \<Longrightarrow> ran C s' s'' \<Longrightarrow> ran C s s''"
  by (force simp: ran_def)

interpretation commands: fms_relation "ran C" C
proof unfold_locales
  show "ran C s (snd (transfer_getObjectId now name s))" for s now name
    by (rule ran_same) (simp add: transfer_getObjectId_def split_beta split: option.splits)
qed (auto intro: ran_same ran_trans simp: ran_def set_transfers_def)

end
