(* ===== verification/Tms_Jobs.thy ===== *)
theory Tms_Jobs
  imports Tms_Tables Comm_Sed
begin

text \<open>
  \<^verbatim>\<open>TMS/src/server/JobServer.cpp\<close>: submission, cancellation and the look-up of jobs, with the launching
  of a command through ssh (\<^verbatim>\<open>SSHJobExec.cpp\<close>) and the choice of the plugin (\<^verbatim>\<open>BatchFactory.cpp\<close>). What runs in
  another process, the scheduler behind its plugin and the slave behind ssh, is a parameter; so are the
  clock and the random parts of file names. A submission that may not end is an option.
\<close>

section \<open>What the server takes from outside\<close>

text \<open>
  How a child process of the server ends: with the jobs the scheduler made, or with an exception; for an
  exception of the program its text comes back through the pipe, for another one nothing does.
  The scheduler is given the path of the script, its text and the options.
  How the command that runs the slave ends: it fails, leaves no result file, leaves one that cannot be
  read, or one with jobs; the text is what it left in its error files.
\<close>

datatype ssh_outcome =
    SshFailed
  | SshNoResult string
  | SshUnreadable
  | SshJobs "job list"

record tms_server =
  sv_batchType :: BatchType
  sv_batchVersion :: string
  sv_standalone :: bool
  sv_default_options :: "string list"
  sv_uid :: "string \<rightharpoonup> int"
  sv_setuid :: "int \<Rightarrow> string option"
  sv_plugin :: "string \<Rightarrow> bool"
  sv_submit :: "string \<Rightarrow> string \<Rightarrow> job_options \<Rightarrow> job list result"
  sv_cancel :: "string \<Rightarrow> unit result"
  sv_ssh :: "string \<Rightarrow> string \<Rightarrow> job \<Rightarrow> ssh_outcome"
  sv_variables :: "string \<rightharpoonup> string"
  sv_clock :: tm
  sv_now :: int
  sv_date :: date
  sv_unique :: string

section \<open>Plugins\<close>

definition batch_library :: "BatchType \<Rightarrow> string \<Rightarrow> string" where
  "batch_library b batchVersion =
     (let realBatchVersion = (if batchVersion \<noteq> ''n/a'' then batchVersion else []) in
      ''vishnu-tms-'' @
      (case b of
         TORQUE \<Rightarrow> ''torque'' @ realBatchVersion
       | LOADLEVELER \<Rightarrow> ''loadleveler'' @ realBatchVersion
       | SLURM \<Rightarrow> ''slurm'' @ realBatchVersion
       | LSF \<Rightarrow> ''lsf'' @ realBatchVersion
       | SGE \<Rightarrow> ''sge'' @ realBatchVersion
       | PBSPRO \<Rightarrow> ''pbspro'' @ realBatchVersion
       | DELTACLOUD \<Rightarrow> ''deltacloud''
       | OPENNEBULA \<Rightarrow> ''opennebula''
       | _ \<Rightarrow> ''posix''))"

definition batch_code :: "BatchType \<Rightarrow> int" where
  "batch_code b =
     (case b of TORQUE \<Rightarrow> 0 | LOADLEVELER \<Rightarrow> 1 | SLURM \<Rightarrow> 2 | LSF \<Rightarrow> 3 | SGE \<Rightarrow> 4 | PBSPRO \<Rightarrow> 5
      | DELTACLOUD \<Rightarrow> 6 | POSIX \<Rightarrow> 7 | OPENNEBULA \<Rightarrow> 8 | UNDEFINED \<Rightarrow> 99)"

text \<open>A number that is none of these is treated like \<open>UNDEFINED\<close> everywhere.\<close>

definition batch_of_code :: "int \<Rightarrow> BatchType" where
  "batch_of_code n =
     (case find (\<lambda>b. batch_code b = n) [TORQUE, LOADLEVELER, SLURM, LSF, SGE, PBSPRO, DELTACLOUD, POSIX, OPENNEBULA] of
        None \<Rightarrow> UNDEFINED
      | Some b \<Rightarrow> b)"

abbreviation cloud :: "BatchType \<Rightarrow> bool" where
  "cloud b \<equiv> b = DELTACLOUD \<or> b = OPENNEBULA"

section \<open>Saving what was submitted\<close>

definition base_fields :: "job \<Rightarrow> job \<Rightarrow> job" where
  "base_fields base j =
     j\<lparr>j_submitMachineId := j_submitMachineId base, j_workId := j_workId base, j_jobPath := j_jobPath base,
       j_owner := j_owner base, j_outputDir := j_outputDir base\<rparr>"

definition step_id :: "job \<Rightarrow> nat \<Rightarrow> string" where
  "step_id base k = j_jobId base @ ''.'' @ show_nat k"

definition related_steps :: "job \<Rightarrow> nat \<Rightarrow> nat \<Rightarrow> string" where
  "related_steps base n k = join '','' (map (step_id base) (filter (\<lambda>i. i \<noteq> k) [0..<n]))"

definition insert_step :: "user_session_info \<Rightarrow> string \<Rightarrow> tms \<Rightarrow> tms" where
  "insert_step info jobid s =
     s\<lparr>t_job := t_job s @ [blank_job (q_job s) (num_session info) (Some jobid)], q_job := q_job s + 1\<rparr>"

definition updateAndSaveJobSteps :: "user_session_info \<Rightarrow> string \<Rightarrow> int \<Rightarrow> int \<Rightarrow> job list \<Rightarrow> job \<Rightarrow> tms \<Rightarrow> tms" where
  "updateAndSaveJobSteps info machineId batchType now jobSteps base s =
     (case jobSteps of
        [j] \<Rightarrow> record_submitted info machineId batchType now []
                 ((base_fields base j)\<lparr>j_jobId := j_jobId base, j_jobWorkingDir := j_jobWorkingDir base\<rparr>) s
      | _ \<Rightarrow>
          let n = length jobSteps;
              s1 = fold (\<lambda>k. insert_step info (step_id base k)) [0..<n] s
          in fold (\<lambda>(k, j). record_submitted info machineId batchType now (related_steps base n k)
                     ((base_fields base j)\<lparr>j_jobId := step_id base k\<rparr>)) (enumerate 0 jobSteps) s1)"

section \<open>Through ssh\<close>

definition slave_command :: "tms_server \<Rightarrow> BatchType \<Rightarrow> user_session_info \<Rightarrow> string \<Rightarrow> string \<Rightarrow> string" where
  "slave_command sv b info actionName scriptPath =
     (if cloud b then []
      else ''ssh -l '' @ user_aclogin info @ '' '' @ machine_name info @
           '' -o NoHostAuthenticationForLocalhost=yes -o PasswordAuthentication=no '') @
     ''tmsSlave '' @ actionName @ '' '' @ convertBatchTypeToString b @ '' '' @
     (if sv_batchVersion sv = [] then ''n/a'' else sv_batchVersion sv) @
     '' /tmp/jobSerialized'' @ sv_unique sv @ '' /tmp/errorPath'' @ sv_unique sv @ '' '' @
     (if actionName = ''SUBMIT''
      then ''/tmp/jobResultSerialized'' @ sv_unique sv @ '' /tmp/submitOptionsSerialized'' @ sv_unique sv @
           '' '' @ scriptPath
      else []) @
     '' 2> /tmp/stderr'' @ sv_unique sv"

definition checkSshParams :: "user_session_info \<Rightarrow> unit result" where
  "checkSshParams info =
     (if user_aclogin info = [] then Inl (SystemException ERRCODE_SSH ''User login is empty'')
      else if machine_name info = [] then Inl (SystemException ERRCODE_SSH ''Server hostname is empty'')
      else Inr ())"

definition sshexec :: "tms_server \<Rightarrow> BatchType \<Rightarrow> user_session_info \<Rightarrow> string \<Rightarrow> string \<Rightarrow> string \<Rightarrow> job \<Rightarrow>
    job list result" where
  "sshexec sv b info actionName scriptPath script base =
     res_bind (checkSshParams info) (\<lambda>_.
       let cmd = slave_command sv b info actionName scriptPath in
       case sv_ssh sv cmd script base of
         SshFailed \<Rightarrow>
           Inl (SystemException ERRCODE_SSH (''Unknown error while executing the command: '' @ cmd))
       | outcome \<Rightarrow>
           if actionName = ''SUBMIT'' then
             (case outcome of
                SshJobs js \<Rightarrow> Inr js
              | SshNoResult msg \<Rightarrow> Inl (TMSVishnuException ERRCODE_BATCH_SCHEDULER_ERROR msg)
              | _ \<Rightarrow> Inr [])
           else Inr [base\<lparr>j_status := STATE_CANCELLED\<rparr>])"

definition ssh_submit :: "tms_server \<Rightarrow> BatchType \<Rightarrow> user_session_info \<Rightarrow> string \<Rightarrow> string \<Rightarrow> string \<Rightarrow> job \<Rightarrow>
    unit tms_op" where
  "ssh_submit sv b info machineId scriptPath script base =
     op_bind (op_read (\<lambda>_. sshexec sv b info ''SUBMIT'' scriptPath script base)) (\<lambda>steps.
       op_write (updateAndSaveJobSteps info machineId (batch_code b) (sv_now sv) steps base))"

definition ssh_cancel :: "tms_server \<Rightarrow> BatchType \<Rightarrow> user_session_info \<Rightarrow> job \<Rightarrow> unit tms_op" where
  "ssh_cancel sv b info j =
     op_bind (op_read (\<lambda>_. sshexec sv b info ''CANCEL'' [] [] j)) (\<lambda>js.
       op_write (record_status (j_jobId (hd js)) (j_status (hd js))))"

section \<open>In a process of its own\<close>

text \<open>
  The child changes the user, runs the request, writes the jobs and sends \<^verbatim>\<open>SUCCESS\<close> or the text of an
  exception, of which the parent reads 255 characters; what the plugin returns is the status of
  the child, at which nobody looks. When the account is no user of the system the exception is thrown outside the
  block that catches it: the child goes on as a second server and the parent waits for it for ever
  (\<open>None\<close>).
\<close>

definition worker_error :: "string \<Rightarrow> exn" where
  "worker_error msg = TMSVishnuException ERRCODE_RUNTIME_ERROR
     (''Job worker process exited with error: '' @ take 255 msg)"

definition native_run :: "tms_server \<Rightarrow> BatchType \<Rightarrow> BatchType \<Rightarrow> user_session_info \<Rightarrow> unit tms_op \<Rightarrow> tms \<Rightarrow>
    (unit result \<times> tms) option" where
  "native_run sv server_type b info request s =
     (if \<not> sv_plugin sv (batch_library b (sv_batchVersion sv)) then
        Some (Inl (TMSVishnuException ERRCODE_BATCH_SCHEDULER_ERROR
          (''getBatchServerInstance return NULL (batch: '' @ convertBatchTypeToString b @ '', version: '' @
           sv_batchVersion sv @ '')'')), s)
      else
        let child = (case request s of
               (Inr _, s') \<Rightarrow> (Inr (), s')
             | (Inl e, s') \<Rightarrow> (Inl (worker_error (if is_vishnu e then what e else [])), s'))
        in if cloud server_type then Some child
           else (case sv_uid sv (user_aclogin info) of
                   None \<Rightarrow> None
                 | Some uid \<Rightarrow>
                     (case sv_setuid sv uid of
                        Some msg \<Rightarrow> Some (Inl (worker_error msg), s)
                      | None \<Rightarrow> Some child)))"

definition native_submit :: "tms_server \<Rightarrow> BatchType \<Rightarrow> user_session_info \<Rightarrow> string \<Rightarrow> string \<Rightarrow> string \<Rightarrow>
    job_options \<Rightarrow> job \<Rightarrow> unit tms_op" where
  "native_submit sv b info machineId scriptPath script options base =
     op_bind (op_read (\<lambda>_. sv_submit sv scriptPath script options)) (\<lambda>steps.
       op_write (updateAndSaveJobSteps info machineId (batch_code b) (sv_now sv) steps base))"

definition native_cancel :: "tms_server \<Rightarrow> BatchType \<Rightarrow> job \<Rightarrow> unit tms_op" where
  "native_cancel sv server_type j =
     op_bind (op_read (\<lambda>_. sv_cancel sv (if cloud server_type then j_vmId j else j_batchJobId j))) (\<lambda>_.
       op_write (record_status (j_jobId j) STATE_CANCELLED))"

section \<open>Submission\<close>

text \<open>The constructor: the machine and the session are checked before any operation.\<close>

definition job_server :: "string \<Rightarrow> string \<Rightarrow> db \<Rightarrow> user_session_info result" where
  "job_server authKey machineId d =
     res_bind (checkMachineId machineId d) (\<lambda>_. validateAuthKey authKey machineId d)"

record job_request =
  rq_content :: string
  rq_options :: job_options
  rq_numbers :: "string \<Rightarrow> int \<Rightarrow> int"

definition request_batch :: "tms_server \<Rightarrow> job_request \<Rightarrow> BatchType" where
  "request_batch sv rq =
     (let usePosix = rq_numbers rq ''posix'' (- 1) in
      if usePosix \<noteq> -1 \<and> usePosix \<noteq> 0 then POSIX else sv_batchType sv)"

definition job_owner :: "tms_server \<Rightarrow> BatchType \<Rightarrow> user_session_info \<Rightarrow> string" where
  "job_owner sv b info =
     (if cloud b then (case sv_variables sv ''VISHNU_CLOUD_VM_USER'' of None \<Rightarrow> ''root'' | Some u \<Rightarrow> u)
      else user_aclogin info)"

definition new_job :: "string \<Rightarrow> job_request \<Rightarrow> job" where
  "new_job jobId rq = job0\<lparr>j_jobId := jobId, j_workId := rq_numbers rq ''workid'' 0\<rparr>"

definition base_job :: "tms_server \<Rightarrow> BatchType \<Rightarrow> user_session_info \<Rightarrow> string \<Rightarrow> string \<Rightarrow> job_request \<Rightarrow>
    job_paths \<Rightarrow> job" where
  "base_job sv b info machineId jobId rq paths =
     (new_job jobId rq)\<lparr>j_outputDir := jp_outputDir paths, j_jobWorkingDir := jp_workingDir paths,
       j_submitMachineId := machineId, j_status := STATE_UNDEFINED, j_owner := job_owner sv b info\<rparr>"

definition failed_job :: "job \<Rightarrow> job" where
  "failed_job j = j\<lparr>j_errorPath := [], j_outputPath := [], j_outputDir := [], j_status := STATE_FAILED\<rparr>"

text \<open>
  The script is made and written, then it is submitted; an exception of the program at any of
  these steps makes the job a failed one and is thrown again, another one leaves the row as it was.
\<close>

definition submit_script :: "tms_server \<Rightarrow> BatchType \<Rightarrow> user_session_info \<Rightarrow> string \<Rightarrow> job_paths \<Rightarrow> job \<Rightarrow> tms \<Rightarrow>
    (unit result \<times> tms) option" where
  "submit_script sv b info machineId paths base s =
     (case processScript b (jp_content paths) (jp_options paths) (sv_default_options sv) (machine_name info) of
        None \<Rightarrow> None
      | Some (Inl e) \<Rightarrow> Some (Inl e, s)
      | Some (Inr script) \<Rightarrow>
          (let scriptPath = (case jp_options paths ''scriptpath'' of None \<Rightarrow> [] | Some p \<Rightarrow> p) in
           if sv_standalone sv
           then native_run sv b b info (native_submit sv b info machineId scriptPath script (jp_options paths) base) s
           else Some (ssh_submit sv b info machineId scriptPath script base s)))"

definition submit_failed :: "tms_server \<Rightarrow> BatchType \<Rightarrow> user_session_info \<Rightarrow> string \<Rightarrow> job \<Rightarrow> exn \<Rightarrow> tms \<Rightarrow>
    string result \<times> tms" where
  "submit_failed sv b info machineId j e s =
     (Inl e, if is_vishnu e
             then record_submitted info machineId (batch_code b) (sv_now sv) [] (failed_job j) s else s)"

definition submitJob :: "tms_server \<Rightarrow> user_session_info \<Rightarrow> string \<Rightarrow> job_request \<Rightarrow> tms \<Rightarrow>
    (string result \<times> tms) option" where
  "submitJob sv info machineId rq s =
     (case job_getObjectId (sv_date sv) machineId s of
        (Inl e, s1) \<Rightarrow> Some (Inl e, s1)
      | (Inr jobId, s1) \<Rightarrow>
          if rq_content rq = [] then
            Some (Inl (UserException ERRCODE_INVALID_PARAM ''Empty script content''), s1)
          else
            let b = request_batch sv rq in
            (case setRealFilePaths b (user_achome info) (sv_unique sv) (sv_clock sv) jobId
                    (rq_content rq) (rq_options rq) of
               Inl e \<Rightarrow> Some (submit_failed sv b info machineId (new_job jobId rq) e s1)
             | Inr paths \<Rightarrow>
                 let base = base_job sv b info machineId jobId rq paths in
                 (case submit_script sv b info machineId paths base s1 of
                    None \<Rightarrow> None
                  | Some (Inl e, s2) \<Rightarrow> Some (submit_failed sv b info machineId base e s2)
                  | Some (Inr _, s2) \<Rightarrow> Some (Inr jobId, s2))))"

section \<open>Cancellation\<close>

abbreviation (input) ALL_KEYWORD :: string where "ALL_KEYWORD \<equiv> ''all''"

text \<open>
  The rights: who may name a user, and, for a job that is named, whether the session that asks is the one
  that submitted it.
\<close>

definition cancel_allowed :: "user_session_info \<Rightarrow> string \<Rightarrow> string \<Rightarrow> string \<Rightarrow> tms \<Rightarrow> unit result" where
  "cancel_allowed info authKey jobId userId s =
     (let admin = user_privilege info = PRIVILEGE_ADMIN in
      if userId = ALL_KEYWORD \<and> \<not> admin then
        Inl (TMSVishnuException ERRCODE_PERMISSION_DENIED ''Option privileged users can cancel all user jobs'')
      else if userId \<noteq> [] \<and> \<not> admin then
        Inl (TMSVishnuException ERRCODE_PERMISSION_DENIED ''Only privileged users can cancel other users jobs'')
      else if jobId \<noteq> [] \<and> \<not> admin \<and>
          \<not> list_ex (\<lambda>r. has_jobid jobId r \<and>
              list_ex (\<lambda>v. vs_num v = jr_session r \<and> has_key authKey v) (t_vsession (tm_ums s))) (t_job s) then
        Inl (TMSVishnuException ERRCODE_PERMISSION_DENIED ''Only privileged users can cancel other users jobs'')
      else Inr ())"

definition sql_less :: "int option \<Rightarrow> int \<Rightarrow> bool" where
  "sql_less c n = (case c of None \<Rightarrow> False | Some k \<Rightarrow> k < n)"

definition of_session :: "tms \<Rightarrow> job_row \<Rightarrow> bool" where
  "of_session s r \<longleftrightarrow> list_ex (\<lambda>v. vs_num v = jr_session r) (t_vsession (tm_ums s))"

definition of_user :: "string \<Rightarrow> tms \<Rightarrow> job_row \<Rightarrow> bool" where
  "of_user userId s r \<longleftrightarrow> list_ex (\<lambda>u. jr_owner_id r = Some (us_num u) \<and> us_userid u = userId) (t_users (tm_ums s))"

definition cancel_selected :: "user_session_info \<Rightarrow> string \<Rightarrow> string \<Rightarrow> string \<Rightarrow> tms \<Rightarrow> job_row \<Rightarrow> bool" where
  "cancel_selected info machineId jobId userId s r \<longleftrightarrow>
     sql_less (jr_status r) STATE_COMPLETED \<and>
     (if \<not> (jobId = [] \<or> jobId = ALL_KEYWORD \<or> userId = ALL_KEYWORD)
      then of_session s r \<and> has_jobid jobId r
      else jr_submitMachineId r = Some machineId \<and>
        (if user_privilege info = PRIVILEGE_ADMIN \<and> userId = ALL_KEYWORD then of_session s r
         else if userId = [] then of_session s r \<and> jr_owner r = Some (user_aclogin info)
         else of_user userId s r))"

text \<open>A job of the answer, with the columns the query asks for.\<close>

definition cancel_job :: "job_row \<Rightarrow> job" where
  "cancel_job r = job0\<lparr>j_owner := text_of (jr_owner r), j_status := int_of (jr_status r),
     j_jobId := text_of (jr_jobid r), j_batchJobId := text_of (jr_batchJobId r), j_vmId := text_of (jr_vmId r)\<rparr>"

definition cancel_one :: "tms_server \<Rightarrow> user_session_info \<Rightarrow> job_row \<Rightarrow> tms \<Rightarrow> (unit result \<times> tms) option" where
  "cancel_one sv info r s =
     (let j = cancel_job r; b = batch_of_code (int_of (jr_batchType r)) in
      if sv_standalone sv then native_run sv (sv_batchType sv) b info (native_cancel sv (sv_batchType sv) j) s
      else Some (ssh_cancel sv b info j s))"

fun cancel_loop :: "tms_server \<Rightarrow> user_session_info \<Rightarrow> job_row list \<Rightarrow> tms \<Rightarrow> (unit result \<times> tms) option" where
  "cancel_loop sv info [] s = Some (Inr (), s)"
| "cancel_loop sv info (r # rs) s =
     (let j = cancel_job r in
      if j_status j = STATE_COMPLETED then
        Some (Inl (TMSVishnuException ERRCODE_ALREADY_TERMINATED (j_jobId j)), s)
      else if j_status j = STATE_CANCELLED then
        Some (Inl (TMSVishnuException ERRCODE_ALREADY_CANCELED (j_jobId j)), s)
      else if j_owner j \<noteq> user_aclogin info \<and> user_privilege info \<noteq> PRIVILEGE_ADMIN then
        Some (Inl (TMSVishnuException ERRCODE_PERMISSION_DENIED []), s)
      else
        (case cancel_one sv info r s of
           None \<Rightarrow> None
         | Some (Inl e, s') \<Rightarrow> Some (Inl e, s')
         | Some (Inr _, s') \<Rightarrow> cancel_loop sv info rs s'))"

definition cancelJob :: "tms_server \<Rightarrow> user_session_info \<Rightarrow> string \<Rightarrow> string \<Rightarrow> job_options \<Rightarrow> tms \<Rightarrow>
    (unit result \<times> tms) option" where
  "cancelJob sv info authKey machineId options s =
     (case res_bind (option_of options ''jobid'') (\<lambda>jobId. res_bind (option_of options ''user'') (\<lambda>userId.
             res_bind (cancel_allowed info authKey jobId userId s) (\<lambda>_. Inr (jobId, userId)))) of
        Inl e \<Rightarrow> Some (Inl e, s)
      | Inr (jobId, userId) \<Rightarrow>
          let selected = filter (cancel_selected info machineId jobId userId s) (t_job s) in
          if selected = [] \<and> \<not> (jobId = [] \<or> jobId = ALL_KEYWORD \<or> userId = ALL_KEYWORD)
          then Some (Inl (TMSVishnuException ERRCODE_UNKNOWN_JOBID ''perhaps the job is not longer running''), s)
          else cancel_loop sv info selected s)"

section \<open>Look-up\<close>

text \<open>\<^verbatim>\<open>LIKE\<close>: an underscore is any character, a percent sign any text.\<close>

fun sql_like :: "string \<Rightarrow> string \<Rightarrow> bool" where
  "sql_like [] t = (t = [])"
| "sql_like (p # ps) [] = (p = CHR ''%'' \<and> sql_like ps [])"
| "sql_like (p # ps) (c # t) =
     (if p = CHR ''%'' then sql_like ps (c # t) \<or> sql_like (p # ps) t
      else (p = CHR ''_'' \<or> p = c) \<and> sql_like ps t)"

definition step_of :: "string \<Rightarrow> job_row \<Rightarrow> bool" where
  "step_of jobId r = (case jr_jobid r of None \<Rightarrow> False | Some i \<Rightarrow> i = jobId \<or> sql_like (jobId @ ''._%'') i)"

definition job_info :: "job_row \<Rightarrow> vsession_row \<Rightarrow> users_row \<Rightarrow> job" where
  "job_info r v u =
     \<lparr>j_sessionId = text_of (vs_sessionid v), j_submitMachineId = text_of (jr_submitMachineId r),
      j_submitMachineName = text_of (jr_submitMachineName r), j_jobId = text_of (jr_jobid r),
      j_workId = (case jr_workId r of None \<Rightarrow> -1 | Some n \<Rightarrow> n),
      j_jobName = text_of (jr_jobName r), j_batchJobId = text_of (jr_batchJobId r),
      j_jobPath = text_of (jr_jobPath r), j_outputPath = text_of (jr_outputPath r),
      j_errorPath = text_of (jr_errorPath r), j_outputDir = text_of (jr_outputDir r),
      j_jobPrio = int_of (jr_jobPrio r), j_nbCpus = int_of (jr_nbCpus r),
      j_jobWorkingDir = text_of (jr_jobWorkingDir r), j_status = int_of (jr_status r),
      j_submitDate = (case jr_submitDate r of None \<Rightarrow> 0 | Some n \<Rightarrow> n),
      j_endDate = (case jr_endDate r of None \<Rightarrow> 0 | Some n \<Rightarrow> n),
      j_owner = text_of (jr_owner r), j_jobQueue = text_of (jr_jobQueue r),
      j_wallClockLimit = int_of (jr_wallClockLimit r), j_groupName = text_of (jr_groupName r),
      j_jobDescription = text_of (jr_jobDescription r), j_memLimit = int_of (jr_memLimit r),
      j_nbNodes = int_of (jr_nbNodes r), j_nbNodesAndCpuPerNode = text_of (jr_nbNodesAndCpuPerNode r),
      j_userId = us_userid u, j_vmIp = text_of (jr_vmIp r), j_vmId = text_of (jr_vmId r)\<rparr>"

definition getJobStepInfo :: "string \<Rightarrow> tms \<Rightarrow> job list result" where
  "getJobStepInfo jobId s =
     (case [job_info r v u. r \<leftarrow> filter (step_of jobId) (t_job s), v \<leftarrow> t_vsession (tm_ums s),
              u \<leftarrow> t_users (tm_ums s), vs_num v = jr_session r, us_num u = vs_user v] of
        [] \<Rightarrow> Inl (TMSVishnuException ERRCODE_UNKNOWN_JOBID [])
      | js \<Rightarrow> Inr js)"

definition getJobInfo :: "string \<Rightarrow> tms \<Rightarrow> job result" where
  "getJobInfo jobId s = res_bind (getJobStepInfo jobId s) (\<lambda>js. Inr (hd js))"

text \<open>\<^verbatim>\<open>scanErrorMessage\<close>; the code and the message are out parameters.\<close>

definition scanErrorMessage :: "string \<Rightarrow> string \<Rightarrow> int \<times> string" where
  "scanErrorMessage errorInfo message =
     (case find_str errorInfo ''#'' of
        None \<Rightarrow> (ERRCODE_INVEXCEP, message)
      | Some pos \<Rightarrow>
          if pos = 0 then (ERRCODE_INVEXCEP, message)
          else ((case lexical_cast 32 (take pos errorInfo) of Inl _ \<Rightarrow> ERRCODE_INVEXCEP | Inr c \<Rightarrow> c),
                drop (pos + 1) errorInfo))"

end
