(* ===== verification/Tms_Output.thy ===== *)
theory Tms_Output
  imports Tms_Jobs
begin

text \<open>
  What becomes of a job after its submission: the monitor (\<^verbatim>\<open>MonitorXMS::checkJobs\<close>) asks the scheduler
  for its state, and \<^verbatim>\<open>TMS/src/server/JobOutputServer.cpp\<close> gives its output files to its owner.
\<close>

section \<open>The monitor\<close>

text \<open>
  The scheduler's answer for a job, its number or its cloud description, and the variable that holds the
  output of a script of the cloud.
\<close>

record tms_monitor =
  mo_machineId :: string
  mo_batchVersion :: string
  mo_plugin :: "string \<Rightarrow> bool"
  mo_state :: "job \<Rightarrow> int result"
  mo_output :: "job \<Rightarrow> string"
  mo_now :: int

definition sql_between :: "int option \<Rightarrow> int \<Rightarrow> int \<Rightarrow> bool" where
  "sql_between c lo hi = (case c of None \<Rightarrow> False | Some k \<Rightarrow> lo \<le> k \<and> k < hi)"

definition polled :: "tms_monitor \<Rightarrow> BatchType \<Rightarrow> tms \<Rightarrow> job_row \<Rightarrow> bool" where
  "polled mo b s r \<longleftrightarrow> of_session s r \<and> jr_submitMachineId r = Some (mo_machineId mo) \<and>
     jr_batchType r = Some (batch_code b) \<and> sql_between (jr_status r) STATE_UNDEFINED STATE_COMPLETED"

definition polled_job :: "job_row \<Rightarrow> job" where
  "polled_job r = job0\<lparr>j_jobId := text_of (jr_jobid r), j_batchJobId := text_of (jr_batchJobId r),
     j_vmIp := text_of (jr_vmIp r), j_vmId := text_of (jr_vmId r), j_owner := ''root''\<rparr>"

definition polled_columns :: "tms_monitor \<Rightarrow> BatchType \<Rightarrow> job \<Rightarrow> int \<Rightarrow> job_row \<Rightarrow> job_row" where
  "polled_columns mo b j state r =
     (let r1 = r\<lparr>jr_status := Some state\<rparr> in
      if state = STATE_COMPLETED then r1\<lparr>jr_endDate := Some (mo_now mo)\<rparr>
      else if b = OPENNEBULA \<and> j_batchJobId j = [] then
        (if state = STATE_RUNNING then r1\<lparr>jr_batchJobId := Some (mo_output mo j)\<rparr>
         else if state = STATE_FAILED \<or> state = STATE_CANCELLED then r1\<lparr>jr_jobDescription := Some (mo_output mo j)\<rparr>
         else r1)
      else r1)"

definition record_polled :: "tms_monitor \<Rightarrow> BatchType \<Rightarrow> job \<Rightarrow> int \<Rightarrow> tms \<Rightarrow> tms" where
  "record_polled mo b j state = set_jobs (has_jobid (j_jobId j)) (polled_columns mo b j state)"

text \<open>
  The answers are taken one after the other; an exception of the program is logged and the round goes on,
  any other one ends the round. Without its plugin the monitor calls a null pointer.
\<close>

fun check_loop :: "tms_monitor \<Rightarrow> BatchType \<Rightarrow> job_row list \<Rightarrow> tms \<Rightarrow> unit result \<times> tms" where
  "check_loop mo b [] s = (Inr (), s)"
| "check_loop mo b (r # rs) s =
     (let j = polled_job r in
      case mo_state mo j of
        Inr state \<Rightarrow> check_loop mo b rs (record_polled mo b j state s)
      | Inl e \<Rightarrow>
          if is_vishnu e then check_loop mo b rs s
          else if e = UndefinedBehaviour then (Inl e, s) else (Inr (), s))"

definition checkJobs :: "tms_monitor \<Rightarrow> BatchType \<Rightarrow> unit tms_op" where
  "checkJobs mo b s =
     (let rs = filter (polled mo b s) (t_job s) in
      if rs \<noteq> [] \<and> \<not> mo_plugin mo (batch_library b (mo_batchVersion mo)) then (Inl UndefinedBehaviour, s)
      else check_loop mo b rs s)"

text \<open>The part of a round of the monitor that is about jobs.\<close>

definition monitor_jobs :: "tms_monitor \<Rightarrow> BatchType \<Rightarrow> unit tms_op" where
  "monitor_jobs mo b =
     op_bind (checkJobs mo b) (\<lambda>_. if b \<noteq> POSIX then checkJobs mo POSIX else op_ret ())"

section \<open>Output\<close>

definition without_machine :: "string \<Rightarrow> string" where
  "without_machine path = (case find_str path '':'' of None \<Rightarrow> path | Some p \<Rightarrow> drop (p + 1) path)"

definition getJobOutput :: "user_session_info \<Rightarrow> job_options \<Rightarrow> string \<Rightarrow> tms \<Rightarrow> job_result result" where
  "getJobOutput info options jobId s =
     res_bind (option_of options ''machineid'') (\<lambda>machineTmp.
      case filter (\<lambda>r. has_jobid jobId r \<and> (machineTmp = [] \<or> jr_submitMachineId r = Some machineTmp)) (t_job s) of
        [] \<Rightarrow> Inl (TMSVishnuException ERRCODE_UNKNOWN_JOBID [])
      | r # _ \<Rightarrow>
          if text_of (jr_owner r) \<noteq> user_aclogin info then
            Inl (TMSVishnuException ERRCODE_PERMISSION_DENIED
              (''You can'' @ [CHR 0x27] @ ''t get the output of this job because it is for an other owner''))
          else if int_of (jr_status r) = STATE_COMPLETED \<or> int_of (jr_status r) = STATE_DOWNLOADED then
            Inr \<lparr>r_jobId = [], r_outputPath = without_machine (text_of (jr_outputPath r)),
                 r_errorPath = without_machine (text_of (jr_errorPath r)), r_outputDir = text_of (jr_outputDir r)\<rparr>
          else if int_of (jr_status r) = STATE_CANCELLED \<or> int_of (jr_status r) = STATE_FAILED then
            Inl (TMSVishnuException ERRCODE_INVALID_PARAM
              (''Can'' @ [CHR 0x27] @ ''t get output from cancelled or failed jobs''))
          else Inl (TMSVishnuException ERRCODE_JOB_IS_NOT_TERMINATED []))"

text \<open>
  The jobs that are completed, or, with a number of days, those submitted since then that are completed or
  were downloaded already. The query with the days uses functions of MySQL; \<open>today\<close> is \<^verbatim>\<open>CURDATE\<close>.
\<close>

definition output_selected :: "user_session_info \<Rightarrow> string \<Rightarrow> int \<Rightarrow> int \<Rightarrow> tms \<Rightarrow> job_row \<Rightarrow> bool" where
  "output_selected info machineId today days s r \<longleftrightarrow>
     of_session s r \<and> jr_owner r = Some (user_aclogin info) \<and> jr_submitMachineId r = Some machineId \<and>
     (if days \<le> 0 then jr_status r = Some STATE_COMPLETED
      else (case jr_submitDate r of None \<Rightarrow> False | Some t \<Rightarrow> t \<ge> today - days * 86400) \<and>
        (jr_status r = Some STATE_COMPLETED \<or> jr_status r = Some STATE_DOWNLOADED))"

definition result_of :: "job_row \<Rightarrow> job_result" where
  "result_of r = \<lparr>r_jobId = text_of (jr_jobid r), r_outputPath = without_machine (text_of (jr_outputPath r)),
     r_errorPath = without_machine (text_of (jr_errorPath r)), r_outputDir = text_of (jr_outputDir r)\<rparr>"

definition getCompletedJobsOutput :: "user_session_info \<Rightarrow> string \<Rightarrow> int \<Rightarrow> int \<Rightarrow> tms \<Rightarrow> job_result list \<times> tms" where
  "getCompletedJobsOutput info machineId today days s =
     (let rs = filter (output_selected info machineId today days s) (t_job s) in
      (map result_of rs, fold (\<lambda>r. record_status (text_of (jr_jobid r)) STATE_DOWNLOADED) rs s))"

end
