(* ===== verification/Tms_Service.thy ===== *)
theory Tms_Service
  imports Tms_Output Ums_Service Tms_Mapper
begin

text \<open>
  The services of the task management module (\<^verbatim>\<open>XMS/src/internalApiTMS.cpp\<close>): each reads its parameters
  and its JSON options, runs an operation of a server object and records the command in the session of the
  caller. The JSON library and the serializer of the list of results are parameters. The list
  services and the works are not modelled; the row of a work can never be reserved, because its
  statement names a column that no schema has.
\<close>

section \<open>What the services share\<close>

abbreviation (input) TMS :: int where "TMS \<equiv> 1"

definition tms_coded :: "string \<Rightarrow> string list \<Rightarrow> string" where
  "tms_coded name args =
     (case filter (\<lambda>(k, n). n = name) tms_table of
        [] \<Rightarrow> []
      | (k, n) # _ \<Rightarrow> mapper.command_text (show_int k) args)"

text \<open>The texts and numbers of a JSON object.\<close>

definition json_options :: "'j jansson \<Rightarrow> 'j \<Rightarrow> job_options" where
  "json_options J obj key = (case getStringProperty J key obj of Inl _ \<Rightarrow> None | Inr v \<Rightarrow> Some v)"

definition json_numbers :: "'j jansson \<Rightarrow> 'j \<Rightarrow> string \<Rightarrow> int \<Rightarrow> int" where
  "json_numbers J obj key defaultValue = getIntProperty J key defaultValue obj"

text \<open>
  The body of a service may not end. What it gives is the value of the answer and the object it made; the
  command is recorded with its text, and a failure with the text \<open>failText\<close>.
\<close>

type_synonym 'a late_op = "(tms, 'a) late_step"

definition tms_finish :: "ums_env \<Rightarrow> string \<Rightarrow> string \<Rightarrow> int \<Rightarrow> string \<Rightarrow> unit tms_op" where
  "tms_finish env key cmd status newId = on_ums (session_finish env (session_of_key key) cmd TMS status newId True)"

definition tms_service :: "ums_env \<Rightarrow> diet_profile \<Rightarrow> string \<Rightarrow> string \<Rightarrow> string \<Rightarrow> (string \<times> string) late_op \<Rightarrow>
    diet_profile late_op" where
  "tms_service env pb key cmd failText body s =
     (let failed = (\<lambda>e s1.
            if is_vishnu e then
              (case tms_finish env key failText CMDFAILED [] s1 of
                 (Inr _, s2) \<Rightarrow> (Inr (reply pb ''error'' (what e)), s2)
               | (Inl fe, s2) \<Rightarrow>
                   if is_vishnu fe then (Inr (reply pb ''error'' (what (appendMsgComp e (what fe)))), s2)
                   else (Inl fe, s2))
            else (Inl e, s1))
      in map_option (\<lambda>r. case r of
             (Inr (out, newId), s1) \<Rightarrow>
               (case tms_finish env key cmd CMDSUCCESS newId s1 of
                  (Inr _, s2) \<Rightarrow> (Inr (reply pb ''success'' out), s2)
                | (Inl e, s2) \<Rightarrow> failed e s2)
           | (Inl e, s1) \<Rightarrow> failed e s1) (body s))"

definition tms_args :: "nat \<Rightarrow> diet_profile \<Rightarrow> (string list \<Rightarrow> diet_profile late_op) \<Rightarrow> diet_profile late_op" where
  "tms_args n pb f = late_bind (late (op_read (\<lambda>_. res_map (\<lambda>i. diet_string_get pb (int i)) [0..<n]))) f"

abbreviation reads :: "(tms \<Rightarrow> 'a result) \<Rightarrow> 'a late_op" where
  "reads f \<equiv> late (op_read f)"

abbreviation server_object :: "string \<Rightarrow> string \<Rightarrow> user_session_info late_op" where
  "server_object key machineId \<equiv> reads (\<lambda>s. job_server key machineId (tm_ums s))"

section \<open>The services\<close>

definition solveSubmitJob :: "ums_env \<Rightarrow> 'j jansson \<Rightarrow> tms_server \<Rightarrow> diet_profile \<Rightarrow> diet_profile late_op" where
  "solveSubmitJob env J sv pb = tms_args 4 pb (\<lambda>a.
     tms_service env pb (a ! 0)
       (case decode J (a ! 3) of
          Inl _ \<Rightarrow> []
        | Inr obj \<Rightarrow> (case json_options J obj ''scriptpath'' of
            None \<Rightarrow> [] | Some p \<Rightarrow> tms_coded ''vishnu_submit_job'' [p, a ! 3])) [] (
       late_bind (reads (\<lambda>_. decode J (a ! 3))) (\<lambda>obj.
       late_bind (reads (\<lambda>_. option_of (json_options J obj) ''scriptpath'')) (\<lambda>_.
       late_bind (server_object (a ! 0) (a ! 1)) (\<lambda>info.
       late_bind (submitJob sv info (a ! 1) \<lparr>rq_content = a ! 2, rq_options = json_options J obj,
           rq_numbers = json_numbers J obj\<rparr>) (\<lambda>jobId.
       late_bind (reads (\<lambda>s. res_bind (getJobInfo jobId s) (serialize_job J))) (\<lambda>text.
         late (op_ret (text, jobId)))))))))"

definition solveCancelJob :: "ums_env \<Rightarrow> 'j jansson \<Rightarrow> tms_server \<Rightarrow> diet_profile \<Rightarrow> diet_profile late_op" where
  "solveCancelJob env J sv pb = tms_args 3 pb (\<lambda>a.
     tms_service env pb (a ! 0) (tms_coded ''vishnu_cancel_job'' [a ! 2]) [] (
       late_bind (server_object (a ! 0) (a ! 1)) (\<lambda>info.
       late_bind (reads (\<lambda>_. decode J (a ! 2))) (\<lambda>obj.
       late_bind (cancelJob sv info (a ! 0) (a ! 1) (json_options J obj)) (\<lambda>_.
         late (op_ret ([], [])))))))"

definition solveJobInfo :: "ums_env \<Rightarrow> 'j jansson \<Rightarrow> diet_profile \<Rightarrow> diet_profile late_op" where
  "solveJobInfo env J pb = tms_args 3 pb (\<lambda>a.
     tms_service env pb (a ! 0) (tms_coded ''vishnu_get_job_info'' [a ! 1, a ! 2]) [] (
       late_bind (server_object (a ! 0) (a ! 1)) (\<lambda>info.
       late_bind (reads (\<lambda>s. res_bind (getJobInfo (a ! 2) s) (serialize_job J))) (\<lambda>text.
         late (op_ret (text, []))))))"

text \<open>
  The constructor of \<^verbatim>\<open>JobOutputServer\<close> checks the session only. The files that describe the results have
  random names: \<open>unique\<close>.
\<close>

definition solveJobOutPutGetResult :: "ums_env \<Rightarrow> 'j jansson \<Rightarrow> string \<Rightarrow> diet_profile \<Rightarrow> diet_profile late_op" where
  "solveJobOutPutGetResult env J unique pb = tms_args 4 pb (\<lambda>a.
     tms_service env pb (a ! 0) (tms_coded ''vishnu_get_job_output'' [a ! 1, a ! 2, a ! 3]) [] (
       late_bind (reads (\<lambda>s. validateAuthKey (a ! 0) (a ! 1) (tm_ums s))) (\<lambda>info.
       late_bind (reads (\<lambda>_. decode J (a ! 2))) (\<lambda>obj.
       late_bind (reads (getJobOutput info (json_options J obj) (a ! 3))) (\<lambda>result.
         late (op_ret (''/tmp/vishnu-'' @ (a ! 3) @ ''-outdescr'' @ unique, [])))))))"

definition solveJobOutPutGetCompletedJobs :: "ums_env \<Rightarrow> 'j jansson \<Rightarrow> (job_result list \<Rightarrow> string) \<Rightarrow> int \<Rightarrow> string \<Rightarrow>
    diet_profile \<Rightarrow> diet_profile late_op" where
  "solveJobOutPutGetCompletedJobs env J ser today unique pb = tms_args 3 pb (\<lambda>a.
     let cmd = tms_coded ''vishnu_get_completed_jobs_output'' [a ! 1, a ! 2] in
     tms_service env pb (a ! 0) cmd cmd (
       late_bind (reads (\<lambda>_. decode J (a ! 2))) (\<lambda>obj.
       late_bind (reads (\<lambda>s. validateAuthKey (a ! 0) (a ! 1) (tm_ums s))) (\<lambda>info.
       late_bind (late (\<lambda>s. case getCompletedJobsOutput info (a ! 1) today (json_numbers J obj ''days'' (- 1)) s of
                              (results, s') \<Rightarrow> (Inr results, s'))) (\<lambda>results.
       late_bind (reads (\<lambda>_. setProperties J [(''infofile'', PStr (''/tmp/vishnu-outdescr'' @ unique)),
                                           (''joblist'', PStr (ser results))] (js_object J))) (\<lambda>data.
         late (op_ret (js_dumps J data, []))))))))"

definition tms_mcb :: "ums_env \<Rightarrow> 'j jansson \<Rightarrow> tms_server \<Rightarrow> (job_result list \<Rightarrow> string) \<Rightarrow> int \<Rightarrow> string \<Rightarrow>
    string \<rightharpoonup> (diet_profile \<Rightarrow> diet_profile late_op)" where
  "tms_mcb env J sv ser today machine = map_of
     [(''jobSubmit@'' @ machine, solveSubmitJob env J sv),
      (''jobCancel@'' @ machine, solveCancelJob env J sv),
      (''jobInfo@'' @ machine, solveJobInfo env J),
      (''jobOutputGetResult@'' @ machine, solveJobOutPutGetResult env J (sv_unique sv)),
      (''jobOutputGetCompletedJobs@'' @ machine, solveJobOutPutGetCompletedJobs env J ser today (sv_unique sv))]"

end
