(* ===== verification/Tms_Lists.thy ===== *)
theory Tms_Lists
  imports Tms_Service Ums_Lists Complex_Main "HOL-Library.Log_Nat"
begin

text \<open>
  The list servers of the task management module (\<^verbatim>\<open>TMS/src/server/ListJobServer.hpp\<close>, \<^verbatim>\<open>ListProgressServer.hpp\<close>,
  \<^verbatim>\<open>ListQueuesServer.cpp\<close>) and the services that run them (\<^verbatim>\<open>XMS/src/internalApiTMS.cpp\<close>). The batch
  scheduler is a parameter: the start of a job by its own identifier, the list of its queues. The conventions are
  those of theory Ums_Lists.
\<close>

section \<open>Numbers of type double\<close>

text \<open>
  Rounding to the nearest number with 53 binary digits, ties to even, for numbers that are neither too large nor
  too small for the type: the result of an operation is the rounded exact result.
\<close>

definition round_even :: "rat \<Rightarrow> int" where
  "round_even q =
     (let f = \<lfloor>q\<rfloor>; r = q - of_int f in
      if r < 1 / 2 then f else if r > 1 / 2 then f + 1 else if even f then f else f + 1)"

definition exponent :: "rat \<Rightarrow> int" where
  "exponent q =
     (case quotient_of q of (n, d) \<Rightarrow>
        let e = bitlen n - bitlen d in if 2 powi e \<le> q then e else e - 1)"

definition to_double :: "rat \<Rightarrow> rat" where
  "to_double q =
     (if q = 0 then 0
      else let a = \<bar>q\<bar>; s = 52 - exponent a
           in sgn q * of_int (round_even (a * 2 powi s)) / 2 powi s)"

definition toward_zero :: "rat \<Rightarrow> int" where
  "toward_zero q = (if 0 \<le> q then \<lfloor>q\<rfloor> else \<lceil>q\<rceil>)"

lemma round_even_near: "\<bar>of_int (round_even q) - q\<bar> \<le> 1 / 2"
proof -
  have "of_int \<lfloor>q\<rfloor> \<le> q" and "q < of_int \<lfloor>q\<rfloor> + 1" by linarith+
  then show ?thesis unfolding round_even_def Let_def by (auto simp: abs_le_iff)
qed

lemma exponent_le:
  assumes "0 < q"
  shows "2 powi exponent q \<le> q"
proof -
  obtain n d where nd: "quotient_of q = (n, d)" by (cases "quotient_of q")
  then have q: "q = of_int n / of_int d" and d: "0 < d"
    using quotient_of_div quotient_of_denom_pos by blast+
  with assms have n: "0 < n" by (simp add: zero_less_divide_iff)
  let ?e = "bitlen n - bitlen d"
  have bn: "(2::rat) powi (bitlen n - 1) \<le> of_int n"
  proof -
    have "2 ^ nat (bitlen n - 1) \<le> n" using bitlen_bounds [OF n] by simp
    then have "(of_int (2 ^ nat (bitlen n - 1)) :: rat) \<le> of_int n" by (simp only: of_int_le_iff)
    moreover have "0 \<le> bitlen n - 1" using n bitlen_nonneg [of n] by (simp add: bitlen_le_iff_power bitlen_alt_def)
    ultimately show ?thesis by (simp add: power_int_def)
  qed
  have bd: "of_int d \<le> (2::rat) powi bitlen d"
  proof -
    have "d \<le> 2 ^ nat (bitlen d)" using bitlen_bounds [OF d] by simp
    then have "(of_int d :: rat) \<le> of_int (2 ^ nat (bitlen d))" by (simp only: of_int_le_iff)
    then show ?thesis by (simp add: power_int_def bitlen_nonneg)
  qed
  have "2 powi (?e - 1) \<le> q"
  proof -
    have "(2::rat) powi (?e - 1) = 2 powi (bitlen n - 1) / 2 powi bitlen d"
      by (simp add: power_int_diff)
    also have "\<dots> \<le> of_int n / of_int d" using bn bd d n by (intro frac_le) auto
    finally show ?thesis by (simp add: q)
  qed
  then show ?thesis by (simp add: exponent_def nd Let_def)
qed

text \<open>The relative error of one operation.\<close>

lemma to_double_error:
  assumes "0 \<le> q"
  shows "\<bar>to_double q - q\<bar> \<le> q / 2 ^ 53"
proof (cases "q = 0")
  case True
  then show ?thesis by (simp add: to_double_def)
next
  case False
  with assms have q: "0 < q" by simp
  define s where "s = 52 - exponent q"
  have p: "(0::rat) < 2 powi s" by simp
  have "to_double q = of_int (round_even (q * 2 powi s)) / 2 powi s"
    using q by (simp add: to_double_def Let_def s_def)
  then have "to_double q - q = (of_int (round_even (q * 2 powi s)) - q * 2 powi s) / 2 powi s"
    by (simp add: field_simps)
  then have "\<bar>to_double q - q\<bar> = \<bar>of_int (round_even (q * 2 powi s)) - q * 2 powi s\<bar> / 2 powi s"
    by (simp add: abs_divide)
  also have "\<dots> \<le> (1 / 2) / 2 powi s"
    by (rule divide_right_mono [OF round_even_near]) simp
  also have "\<dots> = 2 powi exponent q / 2 ^ 53"
    by (simp add: s_def power_int_diff)
  also have "\<dots> \<le> q / 2 ^ 53"
    by (rule divide_right_mono [OF exponent_le [OF q]]) simp
  finally show ?thesis .
qed

section \<open>Jobs\<close>

text \<open>A state is named by its first letter (\<open>T\<close> for a completed job) or its digit.\<close>

definition state_of_char :: "char \<Rightarrow> int option" where
  "state_of_char c = map_of
     [(CHR ''S'', STATE_SUBMITTED), (CHR ''1'', STATE_SUBMITTED), (CHR ''Q'', STATE_QUEUED), (CHR ''2'', STATE_QUEUED),
      (CHR ''W'', STATE_WAITING), (CHR ''3'', STATE_WAITING), (CHR ''R'', STATE_RUNNING), (CHR ''4'', STATE_RUNNING),
      (CHR ''T'', STATE_COMPLETED), (CHR ''5'', STATE_COMPLETED), (CHR ''C'', STATE_CANCELLED), (CHR ''6'', STATE_CANCELLED),
      (CHR ''D'', STATE_DOWNLOADED), (CHR ''7'', STATE_DOWNLOADED), (CHR ''F'', STATE_FAILED), (CHR ''8'', STATE_FAILED)] c"

definition multiple_status :: "string \<Rightarrow> int list result" where
  "multiple_status multStat = res_map (\<lambda>c. case state_of_char c of
     None \<Rightarrow> Inl (UserException ERRCODE_INVALID_PARAM (''Unknown job state: '' @ [c])) | Some st \<Rightarrow> Inr st) multStat"

text \<open>What the servers take from the batch scheduler, the clock, and the serializers of the answers.\<close>

record job_list =
  jl_jobs :: "job list"
  jl_nbJobs :: int
  jl_nbRunningJobs :: int
  jl_nbWaitingJobs :: int

record progression =
  pg_jobId :: string
  pg_jobName :: string
  pg_wallTime :: int
  pg_startTime :: int
  pg_endTime :: int
  pg_percent :: int
  pg_status :: int

record tms_queries =
  tq_listQueues :: "string \<Rightarrow> string result"
  tq_getJobStartTime :: "string \<Rightarrow> int result"
  tq_now :: int
  ser_jobs :: "job_list \<Rightarrow> string"
  ser_progression :: "progression list \<Rightarrow> string"

definition positive_date :: "int \<Rightarrow> (int \<Rightarrow> int \<Rightarrow> bool) \<Rightarrow> int option \<Rightarrow> bool" where
  "positive_date date cmp v = (date > 0 \<longrightarrow> (case v of None \<Rightarrow> False | Some t \<Rightarrow> cmp t date))"

definition checkJobId :: "string \<Rightarrow> tms \<Rightarrow> unit result" where
  "checkJobId jobId s = ensure (list_ex (has_jobid jobId) (t_job s)) (TMSVishnuException ERRCODE_UNKNOWN_JOBID [])"

text \<open>Neither the caller nor the options \<^verbatim>\<open>batchJob\<close> and \<^verbatim>\<open>listAll\<close> have a part in the conditions.\<close>

definition jobs_options :: "tms_queries \<Rightarrow> list_jobs_options \<Rightarrow> tms \<Rightarrow> (job_row \<Rightarrow> bool) result" where
  "jobs_options Q opt s =
     res_bind (when_given (lj_jobId opt) (checkJobId (lj_jobId opt) s)) (\<lambda>_.
     res_bind (ensure (lj_nbCpu opt > 0 \<or> lj_nbCpu opt = - 1)
       (UserException ERRCODE_INVALID_PARAM ''The number of cpu is incorrect'')) (\<lambda>_.
     res_bind (if lj_status opt \<noteq> - 1 then checkJobStatus (lj_status opt) else Inr ()) (\<lambda>_.
     res_bind (multiple_status (lj_multipleStatus opt)) (\<lambda>states.
     res_bind (if lj_priority opt \<noteq> - 1 then checkJobPriority (lj_priority opt) else Inr ()) (\<lambda>_.
     res_bind (if lj_queue opt \<noteq> [] then tq_listQueues Q (lj_queue opt) else Inr []) (\<lambda>_.
       Inr (\<lambda>r. (lj_jobId opt \<noteq> [] \<longrightarrow> has_jobid (lj_jobId opt) r) \<and>
         (lj_nbCpu opt > 0 \<longrightarrow> jr_nbCpus r = Some (lj_nbCpu opt)) \<and>
         positive_date (lj_fromSubmitDate opt) (\<lambda>t date. date \<le> t) (jr_submitDate r) \<and>
         positive_date (lj_toSubmitDate opt) (\<lambda>t date. t \<le> date) (jr_submitDate r) \<and>
         (if lj_status opt \<noteq> - 1 then jr_status r = Some (lj_status opt)
          else lj_jobId opt = [] \<and> lj_multipleStatus opt = [] \<longrightarrow> sql_less (jr_status r) STATE_COMPLETED) \<and>
         (states \<noteq> [] \<longrightarrow> (case jr_status r of None \<Rightarrow> False | Some st \<Rightarrow> st \<in> set states)) \<and>
         (lj_priority opt \<noteq> - 1 \<longrightarrow> jr_jobPrio r = Some (lj_priority opt)) \<and>
         (lj_owner opt \<noteq> [] \<longrightarrow> jr_owner r = Some (lj_owner opt)) \<and>
         (lj_queue opt \<noteq> [] \<longrightarrow> jr_jobQueue r = Some (lj_queue opt)) \<and>
         (lj_workId opt \<ge> 0 \<longrightarrow> jr_workId r = Some (lj_workId opt)))))))))"

definition jobs_joined :: "tms \<Rightarrow> (job_row \<times> vsession_row \<times> users_row) list" where
  "jobs_joined s =
     [(r, v, u). r \<leftarrow> t_job s, v \<leftarrow> t_vsession (tm_ums s), u \<leftarrow> t_users (tm_ums s),
       vs_num v = jr_session r, vs_user v = us_num u]"

text \<open>The columns that are not asked for keep the defaults of the class.\<close>

definition listed_job :: "job_row \<times> vsession_row \<times> users_row \<Rightarrow> job" where
  "listed_job x = (case x of (r, v, u) \<Rightarrow> (job_info r v u)\<lparr>j_outputDir := [], j_vmIp := [], j_vmId := []\<rparr>)"

definition job_counts :: "job list \<Rightarrow> job_list" where
  "job_counts js = \<lparr>jl_jobs = js, jl_nbJobs = int (length js),
     jl_nbRunningJobs = int (length (filter (\<lambda>j. j_status j = STATE_RUNNING) js)),
     jl_nbWaitingJobs = int (length (filter (\<lambda>j. j_status j \<noteq> STATE_RUNNING \<and>
       STATE_SUBMITTED \<le> j_status j \<and> j_status j \<le> STATE_WAITING) js))\<rparr>"

definition listJobs :: "tms_queries \<Rightarrow> string \<Rightarrow> list_jobs_options \<Rightarrow> tms \<Rightarrow> job_list result" where
  "listJobs Q key opt s =
     res_bind (validateAuthKey_any key (tm_ums s)) (\<lambda>_.
     res_bind (when_given (lj_machineId opt) (query_checkMachineId (lj_machineId opt) (tm_ums s))) (\<lambda>_.
     res_bind (jobs_options Q opt s) (\<lambda>selected.
       Inr (job_counts (map listed_job (order_by (\<lambda>(r, v, u). jr_submitDate r)
         (filter (\<lambda>(r, v, u). (lj_machineId opt \<noteq> [] \<longrightarrow> jr_submitMachineId r = Some (lj_machineId opt)) \<and> selected r)
           (jobs_joined s))))))))"

section \<open>Progress\<close>

text \<open>
  The part of the wall time that has gone, in percent; the walltime that is 0 counts as a minute. The conversion
  of a number that is no \<^verbatim>\<open>int\<close> is undefined.
\<close>

definition running_percent :: "int \<Rightarrow> int \<Rightarrow> int result" where
  "running_percent gap walltime0 =
     (let walltime = (if walltime0 = 0 then 60 else walltime0) in
      if gap < walltime then
        (let ratio = to_double (100 * to_double (to_double (of_int gap) / of_int walltime)) in
         if ratio > 0 \<and> ratio \<le> 1 then Inr 1
         else if in_width 32 (toward_zero ratio) then Inr (toward_zero ratio) else Inl UndefinedBehaviour)
      else Inr 99)"

text \<open>
  The end of a job is a date, which is no number: \<^verbatim>\<open>convertToLong\<close> gives -1 for it, as for a null. The start and
  the percentage of a job that has not started are the defaults of the class.
\<close>

definition progress_of_job :: "tms_queries \<Rightarrow> job_row \<Rightarrow> progression result" where
  "progress_of_job Q r =
     (let p = \<lparr>pg_jobId = text_of (jr_jobid r), pg_jobName = text_of (jr_jobName r),
              pg_wallTime = int_of (jr_wallClockLimit r), pg_startTime = - 1, pg_endTime = - 1, pg_percent = 0,
              pg_status = int_of (jr_status r)\<rparr>
      in res_bind (tq_getJobStartTime Q (text_of (jr_batchJobId r))) (\<lambda>startTime.
           if startTime \<noteq> 0 then
             (let p1 = p\<lparr>pg_startTime := startTime\<rparr> in
              if pg_status p = STATE_COMPLETED then Inr (p1\<lparr>pg_percent := 100\<rparr>)
              else if pg_status p = STATE_RUNNING then
                res_bind (running_percent (tq_now Q - startTime) (pg_wallTime p)) (\<lambda>percent.
                  Inr (p1\<lparr>pg_percent := percent\<rparr>))
              else Inr p1)
           else Inr p))"

text \<open>The counter of the answer is the length of the list, which the serializer is given.\<close>

definition listProgress :: "tms_queries \<Rightarrow> string \<Rightarrow> progress_options \<Rightarrow> tms \<Rightarrow> progression list result" where
  "listProgress Q key opt s =
     res_bind (validateAuthKey_any key (tm_ums s)) (\<lambda>_.
     res_bind (when_given (po_machineId opt) (query_checkMachineId (po_machineId opt) (tm_ums s))) (\<lambda>_.
     let rows = filter (\<lambda>r. (po_machineId opt \<noteq> [] \<longrightarrow> jr_submitMachineId r = Some (po_machineId opt)) \<and>
                  (if po_jobId opt \<noteq> [] then has_jobid (po_jobId opt) r else jr_owner r = Some (po_user opt)))
                [r. r \<leftarrow> t_job s, v \<leftarrow> t_vsession (tm_ums s), vs_num v = jr_session r]
     in res_bind (ensure (po_jobId opt \<noteq> [] \<longrightarrow> rows \<noteq> []) (TMSVishnuException ERRCODE_UNKNOWN_JOBID [])) (\<lambda>_.
       res_map (progress_of_job Q)
         (order_by jr_jobid (filter (\<lambda>r. sql_less (jr_status r) STATE_COMPLETED) rows)))))"

section \<open>The services\<close>

definition tms_generique :: "ums_env \<Rightarrow> diet_profile \<Rightarrow> string \<Rightarrow> (string \<Rightarrow> 'o option) \<Rightarrow>
    (string \<Rightarrow> 'o \<Rightarrow> tms \<Rightarrow> 'l result) \<Rightarrow> ('l \<Rightarrow> string) \<Rightarrow> diet_profile late_op" where
  "tms_generique env pb command parse query ser = tms_args 3 pb (\<lambda>a.
     tms_service env pb (a ! 0) (tms_coded command [a ! 2]) [] (
       late_bind (reads (\<lambda>_. parse_or (TMSVishnuException ERRCODE_INVALID_PARAM []) parse (a ! 2))) (\<lambda>options.
       late_bind (reads (query (a ! 0) options)) (\<lambda>l. late (op_ret (ser l, []))))))"

definition solveGetListOfJobs :: "ums_env \<Rightarrow> tms_parsers \<Rightarrow> tms_queries \<Rightarrow> diet_profile \<Rightarrow> diet_profile late_op" where
  "solveGetListOfJobs env TP Q pb =
     tms_generique env pb ''vishnu_list_jobs'' (parse_list_jobs TP) (listJobs Q) (ser_jobs Q)"

definition solveGetListOfJobsProgression :: "ums_env \<Rightarrow> tms_parsers \<Rightarrow> tms_queries \<Rightarrow> diet_profile \<Rightarrow>
    diet_profile late_op" where
  "solveGetListOfJobsProgression env TP Q pb =
     tms_generique env pb ''vishnu_get_job_progress'' (parse_progress TP) (listProgress Q) (ser_progression Q)"

text \<open>The server object is made before the code that catches exceptions.\<close>

definition solveListOfQueues :: "ums_env \<Rightarrow> tms_queries \<Rightarrow> diet_profile \<Rightarrow> diet_profile late_op" where
  "solveListOfQueues env Q pb = tms_args 3 pb (\<lambda>a.
     late_bind (reads (\<lambda>s. validateAuthKey_any (a ! 0) (tm_ums s))) (\<lambda>_.
       tms_service env pb (a ! 0) (tms_coded ''vishnu_list_queues'' [a ! 1, a ! 2]) [] (
         late_bind (reads (\<lambda>_. tq_listQueues Q (a ! 2))) (\<lambda>queues. late (op_ret (queues, []))))))"

definition tms_list_mcb :: "ums_env \<Rightarrow> tms_parsers \<Rightarrow> tms_queries \<Rightarrow> string \<Rightarrow>
    string \<rightharpoonup> (diet_profile \<Rightarrow> diet_profile late_op)" where
  "tms_list_mcb env TP Q machine = map_of
     [(''getJobsProgression@'' @ machine, solveGetListOfJobsProgression env TP Q),
      (''getListOfQueues@'' @ machine, solveListOfQueues env Q),
      (''getListOfJobs_all'', solveGetListOfJobs env TP Q)]"

end
