(* ===== verification/Tms_System.thy ===== *)
theory Tms_System
  imports Tms_Lists Ums_System
begin

text \<open>
  The task management server as a transition system: calls of its services and lists, the calls of the user
  management services on the same database, and rounds of the monitor. Its jobs are seen through
  \<open>job_states\<close>, the map from identifiers to the column of the state; every history of the server is a
  history of the specification \<open>job_spec\<close> on that map.
\<close>

section \<open>Steps\<close>

inductive tms_step :: "'j jansson \<Rightarrow> tms \<Rightarrow> tms \<Rightarrow> bool" for J where
  service: "tms_mcb env J sv ser today machine name = Some f \<Longrightarrow> f pb s = Some (r, s') \<Longrightarrow> tms_step J s s'"
| lists: "tms_list_mcb env TP Q machine name = Some f \<Longrightarrow> f pb s = Some (r, s') \<Longrightarrow> tms_step J s s'"
| ums: "ums_step (tm_ums s) d \<Longrightarrow> tms_step J s (s\<lparr>tm_ums := d\<rparr>)"
| monitor: "tms_step J s (snd (monitor_jobs mo b s))"

inductive tms_steps :: "'j jansson \<Rightarrow> tms \<Rightarrow> tms \<Rightarrow> bool" for J where
  none: "tms_steps J s s"
| more: "tms_steps J s s' \<Longrightarrow> tms_step J s' s'' \<Longrightarrow> tms_steps J s s''"

section \<open>The specification\<close>

type_synonym job_states = "string \<rightharpoonup> int option"

text \<open>
  A job is reserved without a state, gets its first state from the scheduler or from a failure, is polled
  while its state lies between undefined and completed, cancelled while it is below completed, and
  downloaded when it is completed.
\<close>

inductive job_spec :: "job_states \<Rightarrow> job_states \<Rightarrow> bool" where
  reserve: "i \<notin> dom m \<Longrightarrow> job_spec m (m(i \<mapsto> None))"
| submit: "m i = Some None \<Longrightarrow> job_spec m (m(i \<mapsto> Some v))"
| poll: "m i = Some (Some u) \<Longrightarrow> STATE_UNDEFINED \<le> u \<Longrightarrow> u < STATE_COMPLETED \<Longrightarrow> job_spec m (m(i \<mapsto> Some v))"
| cancel: "m i = Some (Some u) \<Longrightarrow> u < STATE_COMPLETED \<Longrightarrow> job_spec m (m(i \<mapsto> Some STATE_CANCELLED))"
| download: "m i = Some (Some u) \<Longrightarrow> u = STATE_COMPLETED \<or> u = STATE_DOWNLOADED \<Longrightarrow>
    job_spec m (m(i \<mapsto> Some STATE_DOWNLOADED))"

abbreviation job_history :: "job_states \<Rightarrow> job_states \<Rightarrow> bool" where "job_history \<equiv> job_spec\<^sup>*\<^sup>*"

text \<open>What the specification says of one job.\<close>

definition later_state :: "int \<Rightarrow> int \<Rightarrow> bool" where
  "later_state u v \<longleftrightarrow> v = u \<or> (u = STATE_COMPLETED \<and> v = STATE_DOWNLOADED) \<or> (u < 0 \<and> v = STATE_CANCELLED) \<or>
     (STATE_UNDEFINED \<le> u \<and> u < STATE_COMPLETED)"

lemma spec_final:
  assumes "job_history m m'" and "m i = Some (Some u)" and "u < 0 \<or> STATE_COMPLETED \<le> u"
  shows "\<exists>v. m' i = Some (Some v) \<and> later_state u v"
  using assms
proof (induction rule: rtranclp_induct)
  case base
  then show ?case by (simp add: later_state_def)
next
  case (step y z)
  then obtain v where v: "y i = Some (Some v)" "later_state u v" by blast
  with step(2) step.prems(2) show ?case
    by cases (auto simp: later_state_def)
qed

lemma spec_dom: "job_history m m' \<Longrightarrow> i \<in> dom m \<Longrightarrow> i \<in> dom m'"
proof (induction rule: rtranclp_induct)
  case (step y z)
  then have "i \<in> dom y" by blast
  with step(2) show ?case by cases auto
qed

section \<open>The map of the states\<close>

definition job_entries :: "job_row list \<Rightarrow> (string \<times> int option) list" where
  "job_entries rs = List.map_filter (\<lambda>r. map_option (\<lambda>i. (i, jr_status r)) (jr_jobid r)) rs"

definition job_states :: "tms \<Rightarrow> job_states" where
  "job_states s = map_of (job_entries (t_job s))"

lemma job_entries_simps [simp]:
  "job_entries [] = []"
  "job_entries (r # rs) = (case jr_jobid r of None \<Rightarrow> [] | Some i \<Rightarrow> [(i, jr_status r)]) @ job_entries rs"
  "job_entries (rs @ rs') = job_entries rs @ job_entries rs'"
  by (simp_all add: job_entries_def map_filter_simps map_filter_append split: option.splits)

lemma job_entries_keys: "map fst (job_entries rs) = List.map_filter jr_jobid rs"
  by (induction rs) (auto simp: map_filter_simps split: option.splits)

lemma row_idents: "List.map_filter row_ident (map (\<lambda>r. \<lparr>row_key = jr_num r, row_ident = jr_jobid r\<rparr>) rs) =
    List.map_filter jr_jobid rs"
  by (induction rs) (auto simp: map_filter_simps split: option.splits)

text \<open>
  The invariant: keys and identifiers are distinct, no identifier is empty, and with an identifier of a step
  the table has the one of its job.
\<close>

definition id_stem :: "string \<Rightarrow> string" where
  "id_stem i = takeWhile (\<lambda>c. c \<noteq> CHR ''.'') i"

definition jobs_ok :: "tms \<Rightarrow> bool" where
  "jobs_ok s \<longleftrightarrow> table_ok (job_ids s) \<and> 0 \<le> q_job s \<and> [] \<notin> dom (job_states s) \<and>
     (\<forall>i \<in> dom (job_states s). id_stem i \<in> dom (job_states s))"

lemma states_dom: "i \<in> dom (job_states s) \<longleftrightarrow> i \<in> set (List.map_filter jr_jobid (t_job s))"
  by (simp add: job_states_def dom_map_of_conv_image_fst job_entries_keys [symmetric])

lemma check_free: "checkObjectId (rows (job_ids s)) i \<longleftrightarrow> i \<notin> dom (job_states s)"
  using ident_in_map_filter [of i "rows (job_ids s)"] by (simp add: states_dom job_ids_def row_idents)

lemma jobs_ok_distinct: "jobs_ok s \<Longrightarrow> distinct (List.map_filter jr_jobid (t_job s))"
  by (simp add: jobs_ok_def table_ok_def job_ids_def row_idents)

lemma row_state_aux:
  "distinct (List.map_filter jr_jobid rs) \<Longrightarrow> r \<in> set rs \<Longrightarrow> jr_jobid r = Some i \<Longrightarrow>
   map_of (job_entries rs) i = Some (jr_status r)"
proof (induction rs)
  case Nil
  then show ?case by simp
next
  case (Cons a rs)
  show ?case
  proof (cases "a = r")
    case True
    then show ?thesis using Cons.prems(3) by simp
  next
    case False
    then have "i \<in> set (List.map_filter jr_jobid rs)"
      using Cons.prems(2,3) by (force simp: map_filter_def)
    then have "jr_jobid a \<noteq> Some i" using Cons.prems(1) by (auto simp: map_filter_simps split: option.splits)
    with Cons False show ?thesis by (auto simp: map_filter_simps split: option.splits)
  qed
qed

lemma row_state:
  "jobs_ok s \<Longrightarrow> r \<in> set (t_job s) \<Longrightarrow> jr_jobid r = Some i \<Longrightarrow> job_states s i = Some (jr_status r)"
  unfolding job_states_def by (rule row_state_aux [OF jobs_ok_distinct])

section \<open>Statements\<close>

text \<open>
  A statement that writes the rows of one identifier: it keeps key and identifier and sets the state. A
  list of rows is \<open>current\<close> when the table still has the states they were selected with.
\<close>

definition current :: "job_row list \<Rightarrow> tms \<Rightarrow> bool" where
  "current rs s \<longleftrightarrow> jobs_ok s \<and> distinct (List.map_filter jr_jobid rs) \<and>
     (\<forall>r \<in> set rs. \<forall>i. jr_jobid r = Some i \<longrightarrow> job_states s i = Some (jr_status r))"

lemma current_skip: "current (r # rs) s \<Longrightarrow> current rs s"
  by (auto simp: current_def map_filter_simps split: option.splits)

lemma current_ok: "current rs s \<Longrightarrow> jobs_ok s"
  by (simp add: current_def)

lemma map_filter_sub: "set (List.map_filter g (filter P rs)) \<subseteq> set (List.map_filter g rs)"
  by (auto simp: map_filter_def)

lemma distinct_map_filter: "distinct (List.map_filter g rs) \<Longrightarrow> distinct (List.map_filter g (filter P rs))"
  using map_filter_sub [of g P]
  by (induction rs) (auto simp: map_filter_simps split: option.splits)

lemma current_filter: "jobs_ok s \<Longrightarrow> current (filter P (t_job s)) s"
  by (auto simp: current_def distinct_map_filter jobs_ok_distinct row_state)

locale job_writer =
  fixes f :: "job_row \<Rightarrow> job_row" and v :: "int option"
  assumes same_id: "jr_jobid (f r) = jr_jobid r"
    and same_key: "jr_num (f r) = jr_num r"
    and new_status: "jr_status (f r) = v"
begin

lemma entries_update:
  "map_of (job_entries (sql_update (has_jobid i) f rs)) j =
    (if j = i \<and> map_of (job_entries rs) i \<noteq> None then Some v else map_of (job_entries rs) j)"
  by (induction rs) (auto simp: sql_update_def has_jobid_def same_id new_status split: option.splits)

lemma states: "job_states (set_jobs (has_jobid i) f s) =
    (if i \<in> dom (job_states s) then (job_states s)(i \<mapsto> v) else job_states s)"
  by (rule ext) (auto simp: job_states_def set_jobs_def entries_update)

lemma dom_states: "dom (job_states (set_jobs (has_jobid i) f s)) = dom (job_states s)"
  by (auto simp: states split: if_splits)

lemma ids: "job_ids (set_jobs c f s) = job_ids s"
  by (simp add: job_ids_def set_jobs_def sql_update_def comp_def if_distrib same_id same_key cong: if_cong)

lemma sequence: "q_job (set_jobs c f s) = q_job s"
  by (simp add: set_jobs_def)

lemma ok: "jobs_ok (set_jobs (has_jobid i) f s) \<longleftrightarrow> jobs_ok s"
  by (simp add: jobs_ok_def ids dom_states sequence)

lemma stays_current:
  assumes "current (r # rs) s"
  shows "current rs (set_jobs (has_jobid (text_of (jr_jobid r))) f s)"
proof (cases "jr_jobid r")
  case None
  moreover have "[] \<notin> dom (job_states s)" using current_ok [OF assms] by (simp add: jobs_ok_def)
  ultimately show ?thesis using current_skip [OF assms]
    by (simp add: current_def text_of_def ok states)
next
  case (Some i)
  then have "i \<notin> set (List.map_filter jr_jobid rs)"
    using assms by (auto simp: current_def map_filter_simps)
  then have "jr_jobid q \<noteq> Some i" if "q \<in> set rs" for q
    using that by (force simp: map_filter_def)
  then show ?thesis using current_skip [OF assms] Some
    by (auto simp: current_def text_of_def ok states)
qed

lemma history:
  assumes "current (r # rs) s"
    and "\<And>m i. jr_jobid r = Some i \<Longrightarrow> m i = Some (jr_status r) \<Longrightarrow> job_spec m (m(i \<mapsto> v))"
  shows "job_history (job_states s) (job_states (set_jobs (has_jobid (text_of (jr_jobid r))) f s))"
proof (cases "jr_jobid r")
  case None
  then have "text_of (jr_jobid r) \<notin> dom (job_states s)"
    using assms(1) by (simp add: current_def text_of_def jobs_ok_def domIff)
  then show ?thesis by (simp add: states)
next
  case (Some i)
  then have "job_states s i = Some (jr_status r)" using assms(1) by (simp add: current_def)
  moreover from this have "job_spec (job_states s) ((job_states s)(i \<mapsto> v))"
    using assms(2) [of i "job_states s"] Some by simp
  ultimately show ?thesis using Some by (auto simp: states text_of_def domIff)
qed

end

interpretation status_writer: job_writer "\<lambda>r. r\<lparr>jr_status := Some st\<rparr>" "Some st"
  by unfold_locales simp_all

interpretation polled_writer: job_writer "polled_columns mo b j st" "Some st"
  by unfold_locales (simp_all add: polled_columns_def Let_def)

interpretation submitted_writer: job_writer
  "\<lambda>r. (job_columns info machineId batchType now j r)\<lparr>jr_relatedSteps := Some steps\<rparr>" "Some (j_status j)"
  by unfold_locales (simp_all add: job_columns_def)

text \<open>The three loops over selected rows.\<close>

definition jobs_kept :: "tms \<Rightarrow> tms \<Rightarrow> bool" where
  "jobs_kept s s' \<longleftrightarrow> q_job s \<le> q_job s' \<and>
     (jobs_ok s \<and> q_job s' \<le> 1000000000 \<longrightarrow> jobs_ok s' \<and> job_history (job_states s) (job_states s'))"

lemma jobs_kept_refl [intro, simp]: "jobs_kept s s"
  by (simp add: jobs_kept_def)

lemma jobs_kept_trans [trans]: "jobs_kept s s' \<Longrightarrow> jobs_kept s' s'' \<Longrightarrow> jobs_kept s s''"
  unfolding jobs_kept_def by (meson order_trans rtranclp_trans)

lemma jobs_keptI:
  "q_job s' = q_job s \<Longrightarrow> (jobs_ok s \<Longrightarrow> jobs_ok s' \<and> job_history (job_states s) (job_states s')) \<Longrightarrow> jobs_kept s s'"
  by (simp add: jobs_kept_def)

lemma ums_kept [intro, simp]: "jobs_kept s (s\<lparr>tm_ums := d\<rparr>)"
  by (rule jobs_keptI) (simp_all add: jobs_ok_def job_ids_def job_states_def)

text \<open>A write to the next of the selected rows.\<close>

lemma cancel_write:
  assumes "current (r # rs) s" and "sql_less (jr_status r) STATE_COMPLETED"
  defines "s' \<equiv> record_status (text_of (jr_jobid r)) STATE_CANCELLED s"
  shows "current rs s'" and "job_history (job_states s) (job_states s')" and "q_job s' = q_job s"
proof -
  show "current rs s'" unfolding s'_def record_status_def by (rule status_writer.stays_current [OF assms(1)])
  show "job_history (job_states s) (job_states s')" unfolding s'_def record_status_def
    by (rule status_writer.history [OF assms(1)])
      (use assms(2) in \<open>auto simp: sql_less_def intro: job_spec.cancel split: option.splits\<close>)
  show "q_job s' = q_job s" by (simp add: s'_def record_status_def set_jobs_def)
qed

lemma poll_write:
  fixes mo b st
  assumes "current (r # rs) s" and "sql_between (jr_status r) STATE_UNDEFINED STATE_COMPLETED"
  defines "s' \<equiv> record_polled mo b (polled_job r) st s"
  shows "current rs s'" and "job_history (job_states s) (job_states s')" and "q_job s' = q_job s"
proof -
  have id: "j_jobId (polled_job r) = text_of (jr_jobid r)" by (simp add: polled_job_def)
  show "current rs s'" unfolding s'_def record_polled_def id by (rule polled_writer.stays_current [OF assms(1)])
  show "job_history (job_states s) (job_states s')" unfolding s'_def record_polled_def id
    by (rule polled_writer.history [OF assms(1)])
      (use assms(2) in \<open>auto simp: sql_between_def intro: job_spec.poll split: option.splits\<close>)
  show "q_job s' = q_job s" by (simp add: s'_def record_polled_def set_jobs_def)
qed

lemma download_write:
  assumes "current (r # rs) s" and "jr_status r = Some STATE_COMPLETED \<or> jr_status r = Some STATE_DOWNLOADED"
  defines "s' \<equiv> record_status (text_of (jr_jobid r)) STATE_DOWNLOADED s"
  shows "current rs s'" and "job_history (job_states s) (job_states s')" and "q_job s' = q_job s"
proof -
  show "current rs s'" unfolding s'_def record_status_def by (rule status_writer.stays_current [OF assms(1)])
  show "job_history (job_states s) (job_states s')" unfolding s'_def record_status_def
    by (rule status_writer.history [OF assms(1)]) (use assms(2) in \<open>auto intro: job_spec.download\<close>)
  show "q_job s' = q_job s" by (simp add: s'_def record_status_def set_jobs_def)
qed

lemma check_loop_kept:
  "list_all (\<lambda>r. sql_between (jr_status r) STATE_UNDEFINED STATE_COMPLETED) rs \<Longrightarrow>
   check_loop mo b rs s = (res, s') \<Longrightarrow>
   q_job s' = q_job s \<and> (current rs s \<longrightarrow> jobs_ok s' \<and> job_history (job_states s) (job_states s'))"
proof (induction rs arbitrary: s)
  case Nil
  then show ?case by (auto dest: current_ok)
next
  case (Cons r rs)
  show ?case
  proof (cases "mo_state mo (polled_job r)")
    case (Inl e)
    with Cons show ?thesis
      by (auto simp: Let_def split: if_splits dest: current_skip current_ok)
  next
    case (Inr st)
    let ?s = "record_polled mo b (polled_job r) st s"
    have q: "q_job ?s = q_job s" by (simp add: record_polled_def set_jobs_def)
    have run: "check_loop mo b rs ?s = (res, s')" using Cons.prems(2) Inr by (simp add: Let_def)
    from Cons.IH [OF _ run] Cons.prems(1)
    have rest: "q_job s' = q_job ?s" "current rs ?s \<longrightarrow> jobs_ok s' \<and> job_history (job_states ?s) (job_states s')"
      by simp_all
    have "jobs_ok s' \<and> job_history (job_states s) (job_states s')" if "current (r # rs) s"
      using poll_write [OF that, of mo b st] Cons.prems(1) rest(2) by auto
    then show ?thesis using rest(1) q by simp
  qed
qed

lemma checkJobs_kept: "jobs_kept s (snd (checkJobs mo b s))"
proof (cases "checkJobs mo b s")
  case (Pair res s')
  let ?rs = "filter (polled mo b s) (t_job s)"
  have sel: "list_all (\<lambda>r. sql_between (jr_status r) STATE_UNDEFINED STATE_COMPLETED) ?rs"
    by (auto simp: list_all_iff polled_def)
  from Pair consider "s' = s" | "check_loop mo b ?rs s = (res, s')"
    by (auto simp: checkJobs_def Let_def split: if_splits)
  then show ?thesis
  proof cases
    case 2
    from check_loop_kept [OF sel 2] show ?thesis
      by (auto simp: Pair intro!: jobs_keptI current_filter)
  qed (simp add: Pair)
qed

lemma monitor_jobs_kept: "jobs_kept s (snd (monitor_jobs mo b s))"
  using checkJobs_kept [of s mo b] checkJobs_kept [of "snd (checkJobs mo b s)" mo POSIX]
  by (cases "checkJobs mo b s")
    (auto simp: monitor_jobs_def op_bind_def op_ret_def intro: jobs_kept_trans split: sum.splits)

section \<open>Cancellation and output\<close>

lemma download_fold:
  "list_all (\<lambda>r. jr_status r = Some STATE_COMPLETED \<or> jr_status r = Some STATE_DOWNLOADED) rs \<Longrightarrow>
   q_job (fold (\<lambda>r. record_status (text_of (jr_jobid r)) STATE_DOWNLOADED) rs s) = q_job s \<and>
   (current rs s \<longrightarrow> jobs_ok (fold (\<lambda>r. record_status (text_of (jr_jobid r)) STATE_DOWNLOADED) rs s) \<and>
     job_history (job_states s) (job_states (fold (\<lambda>r. record_status (text_of (jr_jobid r)) STATE_DOWNLOADED) rs s)))"
proof (induction rs arbitrary: s)
  case Nil
  then show ?case by (auto dest: current_ok)
next
  case (Cons r rs)
  let ?s = "record_status (text_of (jr_jobid r)) STATE_DOWNLOADED s"
  have q: "q_job ?s = q_job s" by (simp add: record_status_def set_jobs_def)
  from Cons.IH [of ?s] Cons.prems show ?case
    using download_write [of r rs s] q by (auto dest: rtranclp_trans)
qed

lemma outputs_kept: "jobs_kept s (snd (getCompletedJobsOutput info machineId today days s))"
proof -
  let ?rs = "filter (output_selected info machineId today days s) (t_job s)"
  have "list_all (\<lambda>r. jr_status r = Some STATE_COMPLETED \<or> jr_status r = Some STATE_DOWNLOADED) ?rs"
    by (auto simp: list_all_iff output_selected_def split: if_splits)
  from download_fold [OF this, of s] show ?thesis
    by (auto simp: getCompletedJobsOutput_def Let_def intro!: jobs_keptI current_filter)
qed

text \<open>What one request for a cancellation does: it writes the row, or nothing.\<close>

lemma ssh_cancel_writes:
  "ssh_cancel sv b info j s = (res, s') \<Longrightarrow> s' = s \<or> s' = record_status (j_jobId j) STATE_CANCELLED s"
  by (auto simp: ssh_cancel_def op_bind_def op_read_def op_write_def sshexec_def Let_def
      split: sum.splits ssh_outcome.splits if_splits dest!: res_bind_Inr_iff [THEN iffD1])

lemma native_cancel_writes:
  "native_cancel sv b j s = (res, s') \<Longrightarrow> s' = s \<or> s' = record_status (j_jobId j) STATE_CANCELLED s"
  by (auto simp: native_cancel_def op_bind_def op_read_def op_write_def split: sum.splits)

lemma native_run_state:
  "native_run sv b0 b info request s = Some (res, s') \<Longrightarrow> s' = s \<or> (\<exists>r. request s = (r, s'))"
  by (auto simp: native_run_def Let_def split: if_splits prod.splits sum.splits option.splits)

lemma cancel_one_writes:
  "cancel_one sv info r s = Some (res, s') \<Longrightarrow>
   s' = s \<or> s' = record_status (text_of (jr_jobid r)) STATE_CANCELLED s"
  by (auto simp: cancel_one_def Let_def cancel_job_def split: if_splits
      dest!: ssh_cancel_writes native_run_state native_cancel_writes)

lemma cancel_loop_Cons:
  assumes "cancel_loop sv info (r # rs) s = Some (res, s')"
  obtains "s' = s"
  | r1 s1 where "cancel_one sv info r s = Some (r1, s1)"
      "user_privilege info = PRIVILEGE_ADMIN \<or> text_of (jr_owner r) = user_aclogin info"
      "s' = s1 \<or> cancel_loop sv info rs s1 = Some (res, s')"
proof (cases "cancel_one sv info r s")
  case None
  with assms that(1) show ?thesis by (auto simp: Let_def split: if_splits)
next
  case (Some x)
  obtain r1 s1 where x: "x = (r1, s1)" by (cases x)
  with assms Some have "s' = s \<or> (user_privilege info = PRIVILEGE_ADMIN \<or> text_of (jr_owner r) = user_aclogin info) \<and>
      (s' = s1 \<or> cancel_loop sv info rs s1 = Some (res, s'))"
    by (auto simp: Let_def cancel_job_def split: if_splits sum.splits)
  with that Some x show ?thesis by blast
qed

lemma cancel_loop_kept:
  "list_all (\<lambda>r. sql_less (jr_status r) STATE_COMPLETED) rs \<Longrightarrow>
   cancel_loop sv info rs s = Some (res, s') \<Longrightarrow>
   q_job s' = q_job s \<and> (current rs s \<longrightarrow> jobs_ok s' \<and> job_history (job_states s) (job_states s'))"
proof (induction rs arbitrary: s)
  case Nil
  then show ?case by (auto dest: current_ok)
next
  case (Cons r rs)
  show ?case
  proof (rule cancel_loop_Cons [OF Cons.prems(2)])
    fix r1 s1
    assume one: "cancel_one sv info r s = Some (r1, s1)"
      and rest: "s' = s1 \<or> cancel_loop sv info rs s1 = Some (res, s')"
    have less: "sql_less (jr_status r) STATE_COMPLETED" "list_all (\<lambda>r. sql_less (jr_status r) STATE_COMPLETED) rs"
      using Cons.prems(1) by simp_all
    have step: "q_job s1 = q_job s \<and> (current (r # rs) s \<longrightarrow> current rs s1 \<and> job_history (job_states s) (job_states s1))"
      using cancel_one_writes [OF one] cancel_write [OF _ less(1), of rs s]
      by (auto dest: current_skip simp: record_status_def set_jobs_def)
    from rest show ?case
    proof
      assume "s' = s1"
      then show ?thesis using step by (auto dest: current_ok)
    next
      assume "cancel_loop sv info rs s1 = Some (res, s')"
      from Cons.IH [OF less(2) this] step show ?thesis by auto
    qed
  qed (auto dest: current_ok)
qed

lemma cancelJob_loop:
  assumes "cancelJob sv info authKey machineId options s = Some (res, s')"
  obtains "s' = s"
  | jobId userId where "cancel_allowed info authKey jobId userId s = Inr ()"
      "cancel_loop sv info (filter (cancel_selected info machineId jobId userId s) (t_job s)) s = Some (res, s')"
  using assms
  by (auto simp: cancelJob_def Let_def option_of_def res_simps split: if_splits option.splits sum.splits)

lemma cancel_selected_less: "cancel_selected info machineId jobId userId s r \<Longrightarrow> sql_less (jr_status r) STATE_COMPLETED"
  by (simp add: cancel_selected_def)

lemma cancelJob_kept:
  assumes "cancelJob sv info authKey machineId options s = Some (res, s')"
  shows "jobs_kept s s'"
proof (rule cancelJob_loop [OF assms])
  fix jobId userId
  let ?rs = "filter (cancel_selected info machineId jobId userId s) (t_job s)"
  assume run: "cancel_loop sv info ?rs s = Some (res, s')"
  have "list_all (\<lambda>r. sql_less (jr_status r) STATE_COMPLETED) ?rs"
    by (auto simp: list_all_iff intro: cancel_selected_less)
  from cancel_loop_kept [OF this run] show "jobs_kept s s'"
    by (auto intro!: jobs_keptI current_filter)
qed simp

section \<open>Submission\<close>

text \<open>The identifier of a job: the template's letter, the key, and copies of the key.\<close>

lemma job_name:
  assumes "0 \<le> n" and "n < 1000000000"
  shows "getGeneratedName now (getIdFormatTemplate JOB) n JOB m [] = Inr (''J_'' @ show_int n)"
  by (subst getGeneratedName_expand [OF short_counterI [OF assms]])
    (use short_counterI [OF assms] in \<open>simp add: getIdFormatTemplate_def template_values_def keyword_at_def
      keyword_tests starts_with_def short_counter_def\<close>)

definition job_id_chars :: "string \<Rightarrow> bool" where
  "job_id_chars i \<longleftrightarrow> i \<noteq> [] \<and> CHR ''.'' \<notin> set i"

lemma job_ids_extend:
  assumes "table_ok t" and "0 \<le> next_key t" and "next_key t < 1000000000"
  shows "\<exists>oid. snd (getObjectId now JOB m t) =
      \<lparr>rows = rows t @ [\<lparr>row_key = next_key t, row_ident = Some oid\<rparr>], next_key = next_key t + 1\<rparr> \<and>
    checkObjectId (rows t) oid \<and> table_ok (snd (getObjectId now JOB m t)) \<and>
    fst (getObjectId now JOB m t) = Inr oid \<and> job_id_chars oid"
proof -
  from getObjectId_extends [OF assms, of now JOB m] obtain oid where o:
    "snd (getObjectId now JOB m t) =
      \<lparr>rows = rows t @ [\<lparr>row_key = next_key t, row_ident = Some oid\<rparr>], next_key = next_key t + 1\<rparr>"
    "checkObjectId (rows t) oid" "table_ok (snd (getObjectId now JOB m t))"
    "\<And>x. fst (getObjectId now JOB m t) = Inr x \<Longrightarrow> x = oid" by blast
  obtain key t1 where c: "getVishnuCounter JOB t = (key, t1)" by (cases "getVishnuCounter JOB t")
  then have key: "key = next_key t" using getVishnuCounter_key [of t JOB] assms by simp
  obtain g t2 where r: "reserveObjectId key (''J_'' @ show_int key) t1 = (g, t2)"
    by (cases "reserveObjectId key (''J_'' @ show_int key) t1")
  from c key r have f: "fst (getObjectId now JOB m t) = Inr g"
    using job_name [OF assms(2,3), of now m] by (simp add: getObjectId_def)
  with o(4) have "g = oid" by simp
  moreover obtain n where "g = (''J_'' @ show_int key) @ concat (replicate n (show_int key))"
    using unique_id_form [of "rows t1" key "''J_'' @ show_int key"] r
    by (auto simp: reserveObjectId_def Let_def)
  moreover have "CHR ''.'' \<notin> set (show_int key)"
    using assms(2) key show_nat_no_char [of "CHR ''.''" "nat key"] by (simp add: show_int_def is_digit_def)
  ultimately have "job_id_chars oid" by (auto simp: job_id_chars_def)
  with o f \<open>g = oid\<close> show ?thesis by blast
qed

lemma stem_plain [simp]: "CHR ''.'' \<notin> set i \<Longrightarrow> id_stem i = i"
  by (auto simp: id_stem_def takeWhile_eq_all_conv)

lemma stem_step [simp]: "CHR ''.'' \<notin> set i \<Longrightarrow> id_stem (i @ CHR ''.'' # k) = i"
  by (subst id_stem_def) (auto simp: takeWhile_append)

text \<open>A job that was just reserved: no state, and none of its steps is in the table.\<close>

definition fresh_job :: "string \<Rightarrow> tms \<Rightarrow> bool" where
  "fresh_job i s \<longleftrightarrow> jobs_ok s \<and> job_states s i = Some None \<and> job_id_chars i \<and>
     (\<forall>k. i @ CHR ''.'' # k \<notin> dom (job_states s))"

lemma jobs_ok_extend:
  assumes "jobs_ok s" and "table_ok (job_ids s1)" and "q_job s1 = q_job s + 1"
    and st: "job_states s1 = (job_states s)(i \<mapsto> v)" and "i \<noteq> []" and "id_stem i \<in> insert i (dom (job_states s))"
  shows "jobs_ok s1"
proof -
  have "dom (job_states s1) = insert i (dom (job_states s))" by (simp add: st)
  with assms show ?thesis by (simp add: jobs_ok_def)
qed

lemma reserve_kept:
  assumes "jobs_ok s" and "q_job s < 1000000000" and "job_getObjectId now m s = (Inr i, s1)"
  shows "q_job s1 = q_job s + 1" and "fresh_job i s1" and "i \<notin> dom (job_states s)"
    and "job_states s1 = (job_states s)(i \<mapsto> None)" and "tm_ums s1 = tm_ums s"
proof -
  have nk: "next_key (job_ids s) = q_job s" by (simp add: job_ids_def)
  from assms(3) obtain sess where sess: "sql_max (map vs_num (t_vsession (tm_ums s))) = Some sess"
    by (auto simp: job_getObjectId_def split: option.splits)
  obtain r t where g: "getObjectId now JOB m (job_ids s) = (r, t)" by (cases "getObjectId now JOB m (job_ids s)")
  from job_ids_extend [of "job_ids s" now m] assms(1,2) nk
  obtain oid where t: "t = \<lparr>rows = rows (job_ids s) @ [\<lparr>row_key = q_job s, row_ident = Some oid\<rparr>],
      next_key = q_job s + 1\<rparr>" and o: "checkObjectId (rows (job_ids s)) oid" "table_ok t" "r = Inr oid"
      "job_id_chars oid"
    by (auto simp: jobs_ok_def g)
  let ?new = "(blank_job (q_job s) sess None)\<lparr>jr_owner_id := sql_max (map us_num (t_users (tm_ums s))),
      jr_machine := sql_max (map ma_num (t_machine (tm_ums s))), jr_jobid := Some oid\<rparr>"
  have same: "map2 (\<lambda>j i. j\<lparr>jr_jobid := row_ident i\<rparr>) rs
      (map (\<lambda>r. \<lparr>row_key = jr_num r, row_ident = jr_jobid r\<rparr>) rs) = rs" for rs
    by (induction rs) simp_all
  have rt: "rows t = map (\<lambda>r. \<lparr>row_key = jr_num r, row_ident = jr_jobid r\<rparr>) (t_job s) @
      [\<lparr>row_key = q_job s, row_ident = Some oid\<rparr>]" "next_key t = q_job s + 1"
    by (simp_all add: t job_ids_def)
  have i: "i = oid" and s1: "s1 = s\<lparr>t_job := t_job s @ [?new], q_job := q_job s + 1\<rparr>"
    using assms(3) by (auto simp: job_getObjectId_def sess g o(3) rt same Let_def)
  show "q_job s1 = q_job s + 1" "tm_ums s1 = tm_ums s" by (simp_all add: s1)
  show free: "i \<notin> dom (job_states s)" using o(1) by (simp add: i check_free)
  show st: "job_states s1 = (job_states s)(i \<mapsto> None)"
    using free by (auto simp: job_states_def s1 i blank_job_def map_add_def domIff fun_eq_iff split: option.splits)
  have "job_ids s1 = t" by (simp add: s1 t job_ids_def blank_job_def)
  then have "jobs_ok s1"
    by (intro jobs_ok_extend [OF assms(1) _ _ st]) (use o(2,4) in \<open>simp_all add: s1 i job_id_chars_def\<close>)
  moreover have "i @ CHR ''.'' # k \<notin> dom (job_states s1)" for k
  proof
    assume d: "i @ CHR ''.'' # k \<in> dom (job_states s1)"
    then have "i @ CHR ''.'' # k \<in> dom (job_states s)" by (auto simp: st)
    then have "id_stem (i @ CHR ''.'' # k) \<in> dom (job_states s)" using assms(1) by (simp add: jobs_ok_def)
    with free o(4) show False by (simp add: i job_id_chars_def)
  qed
  ultimately show "fresh_job i s1" using o(4) by (simp add: fresh_job_def st i)
qed

lemma insert_step_kept:
  assumes "jobs_ok s" and "i \<notin> dom (job_states s)" and "i \<noteq> []" and "id_stem i \<in> dom (job_states s)"
  shows "jobs_ok (insert_step info i s)" and "job_states (insert_step info i s) = (job_states s)(i \<mapsto> None)"
    and "q_job (insert_step info i s) = q_job s + 1" and "tm_ums (insert_step info i s) = tm_ums s"
proof -
  show q: "q_job (insert_step info i s) = q_job s + 1" "tm_ums (insert_step info i s) = tm_ums s"
    by (simp_all add: insert_step_def)
  show st: "job_states (insert_step info i s) = (job_states s)(i \<mapsto> None)"
    using assms(2) by (auto simp: job_states_def insert_step_def blank_job_def map_add_def domIff fun_eq_iff
      split: option.splits)
  have "table_ok (job_ids s)" "checkObjectId (rows (job_ids s)) i"
    using assms(1,2) by (simp_all add: check_free jobs_ok_def)
  moreover have "rows (job_ids (insert_step info i s)) =
      rows (job_ids s) @ [\<lparr>row_key = next_key (job_ids s), row_ident = Some i\<rparr>]"
      "next_key (job_ids (insert_step info i s)) = next_key (job_ids s) + 1"
    by (simp_all add: job_ids_def insert_step_def blank_job_def)
  ultimately have "table_ok (job_ids (insert_step info i s))" by (blast intro: table_ok_extend)
  then show "jobs_ok (insert_step info i s)"
    by (rule jobs_ok_extend [OF assms(1) _ q(1) st]) (use assms(3,4) in auto)
qed

text \<open>Writing what was submitted under an identifier that has no state yet.\<close>

lemma record_submitted_kept:
  fixes info machineId b now steps
  assumes "jobs_ok s" and "job_states s (j_jobId j) = Some None"
  defines "s' \<equiv> record_submitted info machineId b now steps j s"
  shows "jobs_ok s'" and "job_history (job_states s) (job_states s')" and "q_job s' = q_job s"
    and "job_states s' = (job_states s)(j_jobId j \<mapsto> Some (j_status j))"
proof -
  show st: "job_states s' = (job_states s)(j_jobId j \<mapsto> Some (j_status j))"
    using assms(2) by (auto simp: s'_def record_submitted_def submitted_writer.states domIff)
  show "jobs_ok s'" using assms(1) by (simp add: s'_def record_submitted_def submitted_writer.ok)
  show "job_history (job_states s) (job_states s')"
    unfolding st using assms(2) by (intro r_into_rtranclp job_spec.submit)
  show "q_job s' = q_job s" by (simp add: s'_def record_submitted_def set_jobs_def)
qed

lemma step_id_inj [simp]: "step_id base k = step_id base k' \<longleftrightarrow> k = k'"
  by (simp add: step_id_def show_nat_inj)

lemma stem_step_id: "job_id_chars (j_jobId base) \<Longrightarrow> id_stem (step_id base k) = j_jobId base"
  by (simp add: step_id_def job_id_chars_def)

lemma insert_steps_kept:
  assumes "job_id_chars (j_jobId base)"
  shows "jobs_ok s \<Longrightarrow> j_jobId base \<in> dom (job_states s) \<Longrightarrow> distinct ks \<Longrightarrow>
    (\<forall>k \<in> set ks. step_id base k \<notin> dom (job_states s)) \<Longrightarrow>
    (let s' = fold (\<lambda>k. insert_step info (step_id base k)) ks s in
      jobs_ok s' \<and> job_history (job_states s) (job_states s') \<and> q_job s \<le> q_job s' \<and>
      (\<forall>k \<in> set ks. job_states s' (step_id base k) = Some None) \<and>
      (\<forall>i. i \<notin> step_id base ` set ks \<longrightarrow> job_states s' i = job_states s i))"
proof (induction ks arbitrary: s)
  case Nil
  then show ?case by simp
next
  case (Cons k ks)
  let ?s = "insert_step info (step_id base k) s"
  have new: "step_id base k \<notin> dom (job_states s)" "step_id base k \<noteq> []"
      "id_stem (step_id base k) \<in> dom (job_states s)"
    using Cons.prems(2,4) stem_step_id [OF assms] by (simp_all add: step_id_def)
  note ins = insert_step_kept [OF Cons.prems(1) new, of info]
  have hist: "job_history (job_states s) (job_states ?s)"
    unfolding ins(2) using new(1) by (intro r_into_rtranclp job_spec.reserve)
  have st: "job_states ?s (step_id base k) = Some None"
      "\<And>i. i \<noteq> step_id base k \<Longrightarrow> job_states ?s i = job_states s i"
    by (simp_all add: ins(2))
  have pre: "j_jobId base \<in> dom (job_states ?s)" "distinct ks"
      "\<forall>k' \<in> set ks. step_id base k' \<notin> dom (job_states ?s)"
    using Cons.prems(2-4) by (auto simp: ins(2))
  let ?t = "fold (\<lambda>k. insert_step info (step_id base k)) ks ?s"
  have ih: "jobs_ok ?t" "job_history (job_states ?s) (job_states ?t)" "q_job ?s \<le> q_job ?t"
      "\<forall>k \<in> set ks. job_states ?t (step_id base k) = Some None"
      "\<And>i. i \<notin> step_id base ` set ks \<Longrightarrow> job_states ?t i = job_states ?s i"
    using Cons.IH [OF ins(1) pre] by (simp_all add: Let_def)
  have "job_history (job_states s) (job_states ?t)" using hist ih(2) by (rule rtranclp_trans)
  moreover have "step_id base k \<notin> step_id base ` set ks" using Cons.prems(3) by auto
  then have "job_states ?t (step_id base k) = Some None" using ih(5) st(1) by simp
  moreover have "job_states ?t i = job_states s i" if "i \<notin> step_id base ` set (k # ks)" for i
    using that ih(5) [of i] st(2) [of i] by auto
  ultimately show ?case using ih(1,3,4) ins(3) by (simp add: Let_def)
qed

lemma record_steps_kept:
  "jobs_ok s \<Longrightarrow> distinct (map fst ps) \<Longrightarrow> (\<forall>k \<in> set (map fst ps). job_states s (step_id base k) = Some None) \<Longrightarrow>
    (let s' = fold (\<lambda>(k, j). record_submitted info machineId b now (related_steps base n k)
                 ((base_fields base j)\<lparr>j_jobId := step_id base k\<rparr>)) ps s in
      jobs_ok s' \<and> job_history (job_states s) (job_states s') \<and> q_job s' = q_job s)"
proof (induction ps arbitrary: s)
  case Nil
  then show ?case by simp
next
  case (Cons p ps)
  obtain k j where p: "p = (k, j)" by (cases p)
  let ?j = "(base_fields base j)\<lparr>j_jobId := step_id base k\<rparr>"
  let ?s = "record_submitted info machineId b now (related_steps base n k) ?j s"
  have "job_states s (j_jobId ?j) = Some None" using Cons.prems(3) p by simp
  note w = record_submitted_kept [OF Cons.prems(1) this, of info machineId b now "related_steps base n k"]
  have "distinct (map fst ps)" and "\<forall>k' \<in> set (map fst ps). job_states ?s (step_id base k') = Some None"
    using Cons.prems(2,3) p by (auto simp: w(4))
  from Cons.IH [OF w(1) this] w(2,3) show ?case
    by (auto simp: Let_def p intro: rtranclp_trans)
qed

lemma saved_many:
  assumes "length jobSteps \<noteq> 1"
  shows "updateAndSaveJobSteps info machineId b now jobSteps base s =
    fold (\<lambda>(k, j). record_submitted info machineId b now (related_steps base (length jobSteps) k)
          ((base_fields base j)\<lparr>j_jobId := step_id base k\<rparr>)) (enumerate 0 jobSteps)
      (fold (\<lambda>k. insert_step info (step_id base k)) [0..<length jobSteps] s)"
  using assms by (auto simp: updateAndSaveJobSteps_def Let_def split: list.splits)

lemma saved_kept:
  fixes info machineId b now jobSteps
  assumes "fresh_job (j_jobId base) s"
  defines "s' \<equiv> updateAndSaveJobSteps info machineId b now jobSteps base s"
  shows "jobs_ok s'" and "job_history (job_states s) (job_states s')" and "q_job s \<le> q_job s'"
proof -
  have all: "jobs_ok s' \<and> job_history (job_states s) (job_states s') \<and> q_job s \<le> q_job s'"
  proof (cases "length jobSteps = 1")
    case True
    then obtain j where j: "jobSteps = [j]" by (auto simp: length_Suc_conv)
    let ?j = "(base_fields base j)\<lparr>j_jobId := j_jobId base, j_jobWorkingDir := j_jobWorkingDir base\<rparr>"
    have "job_states s (j_jobId ?j) = Some None" "jobs_ok s" using assms(1) by (simp_all add: fresh_job_def)
    from record_submitted_kept [OF this(2,1), of info machineId b now "[]"] show ?thesis
      by (simp add: s'_def j updateAndSaveJobSteps_def)
  next
    case False
    let ?n = "length jobSteps"
    let ?s = "fold (\<lambda>k. insert_step info (step_id base k)) [0..<?n] s"
    have eq: "s' = fold (\<lambda>(k, j). record_submitted info machineId b now (related_steps base ?n k)
                 ((base_fields base j)\<lparr>j_jobId := step_id base k\<rparr>)) (enumerate 0 jobSteps) ?s"
      unfolding s'_def by (rule saved_many [OF False])
    have pre: "job_id_chars (j_jobId base)" "jobs_ok s" "j_jobId base \<in> dom (job_states s)"
        "\<forall>k \<in> set [0..<?n]. step_id base k \<notin> dom (job_states s)"
      using assms(1) by (auto simp: fresh_job_def step_id_def)
    note ins = insert_steps_kept [OF pre(1,2,3) _ pre(4), of info, unfolded Let_def]
    have "map fst (enumerate 0 jobSteps) = [0..<?n]" by (simp add: map_fst_enumerate)
    then have "jobs_ok s' \<and> job_history (job_states ?s) (job_states s') \<and> q_job s' = q_job ?s"
      unfolding eq using ins record_steps_kept [of ?s "enumerate 0 jobSteps" base info machineId b now ?n]
      by (simp add: Let_def)
    with ins show ?thesis by (auto intro: rtranclp_trans)
  qed
  then show "jobs_ok s'" "job_history (job_states s) (job_states s')" "q_job s \<le> q_job s'" by simp_all
qed

text \<open>A submission either saves what the scheduler made or fails and has changed nothing.\<close>

lemma ssh_submit_cases:
  "ssh_submit sv b info machineId path script base s = (r, s') \<Longrightarrow>
   (r = Inr () \<and> (\<exists>js. s' = updateAndSaveJobSteps info machineId (batch_code b) (sv_now sv) js base s)) \<or>
   (\<exists>e. r = Inl e \<and> s' = s)"
  by (auto simp: ssh_submit_def op_bind_def op_read_def op_write_def split: sum.splits)

lemma native_submit_cases:
  "native_submit sv b info machineId path script options base s = (r, s') \<Longrightarrow>
   (r = Inr () \<and> (\<exists>js. s' = updateAndSaveJobSteps info machineId (batch_code b) (sv_now sv) js base s)) \<or>
   (\<exists>e. r = Inl e \<and> s' = s)"
  by (auto simp: native_submit_def op_bind_def op_read_def op_write_def split: sum.splits)

lemma native_run_cases:
  assumes "native_run sv b0 b info request s = Some (r, s')"
  shows "(r = Inr () \<and> request s = (Inr (), s')) \<or> (\<exists>e. r = Inl e \<and> (s' = s \<or> (\<exists>e'. request s = (Inl e', s'))))"
  using assms by (auto simp: native_run_def Let_def split: if_splits prod.splits sum.splits option.splits)

lemma submit_script_cases:
  assumes "submit_script sv b info machineId paths base s = Some (r, s')"
  shows "(r = Inr () \<and> (\<exists>js. s' = updateAndSaveJobSteps info machineId (batch_code b) (sv_now sv) js base s)) \<or>
   (\<exists>e. r = Inl e \<and> s' = s)"
proof -
  let ?path = "case jp_options paths ''scriptpath'' of None \<Rightarrow> [] | Some p \<Rightarrow> p"
  from assms consider "\<exists>e. r = Inl e \<and> s' = s"
    | script where "native_run sv b b info (native_submit sv b info machineId ?path script (jp_options paths) base) s = Some (r, s')"
    | script where "ssh_submit sv b info machineId ?path script base s = (r, s')"
    by (auto simp: submit_script_def Let_def split: option.splits sum.splits if_splits)
  then show ?thesis
  proof cases
    case 2
    from native_run_cases [OF this] show ?thesis by (auto dest: native_submit_cases)
  qed (auto dest: ssh_submit_cases)
qed

lemma failed_kept:
  assumes "fresh_job (j_jobId j) s"
  shows "jobs_ok (snd (submit_failed sv b info machineId j e s))"
    and "job_history (job_states s) (job_states (snd (submit_failed sv b info machineId j e s)))"
    and "q_job (snd (submit_failed sv b info machineId j e s)) = q_job s"
proof -
  have "job_states s (j_jobId (failed_job j)) = Some None" "jobs_ok s"
    using assms by (simp_all add: fresh_job_def failed_job_def)
  from record_submitted_kept [OF this(2,1), of info machineId "batch_code b" "sv_now sv" "[]"] \<open>jobs_ok s\<close>
  show "jobs_ok (snd (submit_failed sv b info machineId j e s))"
    "job_history (job_states s) (job_states (snd (submit_failed sv b info machineId j e s)))"
    "q_job (snd (submit_failed sv b info machineId j e s)) = q_job s"
    by (simp_all add: submit_failed_def)
qed

lemma base_job_id [simp]: "j_jobId (base_job sv b info machineId jobId rq paths) = jobId"
  "j_jobId (new_job jobId rq) = jobId"
  by (simp_all add: base_job_def new_job_def)

lemma after_reserve_kept:
  assumes "fresh_job i s1" and "i = j_jobId base"
    and "submit_script sv b info machineId paths base s1 = Some (Inr (), s')"
  shows "jobs_ok s' \<and> job_history (job_states s1) (job_states s') \<and> q_job s1 \<le> q_job s'"
  using submit_script_cases [OF assms(3)] saved_kept [of base s1] assms(1,2) by auto

lemma reserve_next:
  assumes "job_getObjectId now m s = (r, s1)"
  shows "(s1 = s \<and> (\<exists>e. r = Inl e)) \<or> (q_job s1 = q_job s + 1 \<and> r = fst (getObjectId now JOB m (job_ids s)))"
proof (cases "getObjectId now JOB m (job_ids s)")
  case (Pair r' t)
  then have "next_key t = q_job s + 1"
    using next_key_getObjectId [of now JOB m "job_ids s"] by (simp add: job_ids_def)
  with assms Pair show ?thesis
    by (auto simp: job_getObjectId_def Let_def split: option.splits)
qed

lemma submitJob_fresh:
  assumes "submitJob sv info machineId rq s = Some (r, s')" and "job_getObjectId (sv_date sv) machineId s = (Inr i, s1)"
    and "fresh_job i s1"
  shows "jobs_ok s' \<and> job_history (job_states s1) (job_states s') \<and> q_job s1 \<le> q_job s'"
proof (cases "rq_content rq = []")
  case True
  then show ?thesis using assms by (simp add: submitJob_def fresh_job_def)
next
  case False
  let ?b = "request_batch sv rq"
  note call = assms(1)
  show ?thesis
  proof (cases "setRealFilePaths ?b (user_achome info) (sv_unique sv) (sv_clock sv) i (rq_content rq) (rq_options rq)")
    case (Inl e)
    then have "s' = snd (submit_failed sv ?b info machineId (new_job i rq) e s1)"
      using call assms(2) False by (simp add: submitJob_def Let_def)
    then show ?thesis using failed_kept [of "new_job i rq" s1] assms(3) by simp
  next
    case (Inr paths)
    let ?base = "base_job sv ?b info machineId i rq paths"
    from call assms(2) False Inr obtain x where x: "submit_script sv ?b info machineId paths ?base s1 = Some x"
      by (auto simp: submitJob_def Let_def split: option.splits)
    obtain r2 s2 where rs: "x = (r2, s2)" by (cases x)
    show ?thesis
    proof (cases r2)
      case (Inl e)
      then have "s2 = s1" using submit_script_cases [OF x [unfolded rs]] by auto
      then have "s' = snd (submit_failed sv ?b info machineId ?base e s1)"
        using call assms(2) False Inr x rs Inl by (simp add: submitJob_def Let_def)
      then show ?thesis using failed_kept [of ?base s1] assms(3) by simp
    next
      case r2: (Inr u)
      then have "s' = s2" using call assms(2) False Inr x rs by (simp add: submitJob_def Let_def)
      with after_reserve_kept [OF assms(3), of ?base sv ?b info machineId paths s2] x rs r2 show ?thesis by simp
    qed
  qed
qed

text \<open>The sequence of the keys only grows, whatever the table holds.\<close>

lemma record_submitted_next [simp]: "q_job (record_submitted info machineId b now steps j s) = q_job s"
  by (simp add: record_submitted_def set_jobs_def)

lemma fold_grows: "(\<And>x s. q_job s \<le> q_job (g x s)) \<Longrightarrow> q_job s \<le> q_job (fold g xs s)"
  by (induction xs arbitrary: s) (auto intro: order_trans)

lemma saved_grows: "q_job s \<le> q_job (updateAndSaveJobSteps info machineId b now js base s)"
proof -
  have ins: "q_job s \<le> q_job (fold (\<lambda>k. insert_step info (step_id base k)) ks s)" for ks
    by (rule fold_grows) (simp add: insert_step_def)
  have rec: "q_job t \<le> q_job (fold (\<lambda>(k, j). record_submitted info machineId b now (related_steps base n k)
                 ((base_fields base j)\<lparr>j_jobId := step_id base k\<rparr>)) ps t)" for n ps t
    by (rule fold_grows) auto
  show ?thesis
  proof (cases "length js = 1")
    case True
    then show ?thesis by (auto simp: updateAndSaveJobSteps_def length_Suc_conv)
  next
    case False
    show ?thesis unfolding saved_many [OF False] using order_trans [OF ins rec] by simp
  qed
qed

lemma submitJob_grows:
  assumes "submitJob sv info machineId rq s = Some (r, s')" and "job_getObjectId (sv_date sv) machineId s = (Inr i, s1)"
  shows "q_job s1 \<le> q_job s'"
  using assms saved_grows
  by (auto simp: submitJob_def Let_def submit_failed_def split: option.splits sum.splits if_splits
      dest!: submit_script_cases)

lemma submitJob_kept:
  assumes "submitJob sv info machineId rq s = Some (r, s')"
  shows "jobs_kept s s'"
proof (cases "job_getObjectId (sv_date sv) machineId s")
  case (Pair i s1)
  show ?thesis
  proof (cases i)
    case (Inl e)
    then have s': "s' = s1" using assms Pair by (simp add: submitJob_def)
    from reserve_next [OF Pair] show ?thesis
    proof
      assume n: "q_job s1 = q_job s + 1 \<and> i = fst (getObjectId (sv_date sv) JOB machineId (job_ids s))"
      have "\<not> (jobs_ok s \<and> q_job s1 \<le> 1000000000)"
        using job_ids_extend [of "job_ids s" "sv_date sv" machineId] n Inl
        by (auto simp: jobs_ok_def job_ids_def)
      then show ?thesis using n by (auto simp: jobs_kept_def s')
    qed (simp add: s')
  next
    case (Inr oid)
    with reserve_next [OF Pair] have n: "q_job s1 = q_job s + 1" by auto
    show ?thesis
    proof (cases "jobs_ok s \<and> q_job s < 1000000000")
      case True
      note res = reserve_kept [OF True [THEN conjunct1] True [THEN conjunct2] Pair [unfolded Inr]]
      from submitJob_fresh [OF assms Pair [unfolded Inr] res(2)]
      have fin: "jobs_ok s'" "job_history (job_states s1) (job_states s')" "q_job s1 \<le> q_job s'" by simp_all
      have "job_history (job_states s) (job_states s1)"
        unfolding res(4) using res(3) by (intro r_into_rtranclp job_spec.reserve)
      then have "job_history (job_states s) (job_states s')" using fin(2) by (rule rtranclp_trans)
      then show ?thesis using fin(1,3) n by (simp add: jobs_kept_def)
    next
      case False
      have "q_job s1 \<le> q_job s'" by (rule submitJob_grows [OF assms Pair [unfolded Inr]])
      then show ?thesis using False n by (auto simp: jobs_kept_def)
    qed
  qed
qed

section \<open>Services\<close>

text \<open>What a body or a service keeps, when it ends.\<close>

definition late_keeps :: "'a late_op \<Rightarrow> bool" where
  "late_keeps m \<longleftrightarrow> (\<forall>s r s'. m s = Some (r, s') \<longrightarrow> jobs_kept s s')"

lemma late_keeps_bind [intro]:
  "late_keeps m \<Longrightarrow> (\<And>x. late_keeps (f x)) \<Longrightarrow> late_keeps (late_bind m f)"
  unfolding late_keeps_def late_bind_def
  by (auto split: option.splits sum.splits prod.splits) (blast intro: jobs_kept_trans)+

lemma late_keeps_read [intro, simp]: "late_keeps (late (op_read f))"
  by (simp add: late_keeps_def late_def op_read_def)

lemma late_keeps_ret [intro, simp]: "late_keeps (late (op_ret x))"
  by (simp add: late_keeps_def late_def op_ret_def)

lemma finish_kept: "jobs_kept s (snd (tms_finish env key cmd st newId s))"
  by (auto simp: tms_finish_def on_ums_def split: prod.splits)

lemma tms_service_keeps:
  assumes "late_keeps body"
  shows "late_keeps (tms_service env pb key cmd failText body)"
  unfolding late_keeps_def
proof (intro allI impI)
  fix s r s'
  assume run: "tms_service env pb key cmd failText body s = Some (r, s')"
  then obtain o1 s1 where o1: "body s = Some (o1, s1)"
    by (auto simp: tms_service_def Let_def split: option.splits)
  then have "jobs_kept s s1" using assms by (auto simp: late_keeps_def)
  moreover have fin: "jobs_kept t (snd (tms_finish env key c st n t))" for c st n t by (rule finish_kept)
  have "jobs_kept s1 s'"
  proof (cases o1)
    case (Inl e)
    with run o1 fin [of s1 failText 0 "[]"] show ?thesis
      by (auto simp: tms_service_def Let_def split: if_splits prod.splits sum.splits)
  next
    case (Inr x)
    obtain out newId where x: "x = (out, newId)" by (cases x)
    obtain r2 s2 where f: "tms_finish env key cmd 1 newId s1 = (r2, s2)"
      by (cases "tms_finish env key cmd 1 newId s1")
    have "jobs_kept s1 s2" using fin [of s1 cmd 1 newId] by (simp add: f)
    moreover have "jobs_kept s2 s'"
      using run o1 Inr x f fin [of s2 failText 0 "[]"]
      by (auto simp: tms_service_def Let_def split: if_splits prod.splits sum.splits)
    ultimately show ?thesis by (rule jobs_kept_trans)
  qed
  ultimately show "jobs_kept s s'" by (rule jobs_kept_trans)
qed

lemma submit_keeps: "late_keeps (submitJob sv info machineId rq)"
  using submitJob_kept by (auto simp: late_keeps_def)

lemma cancel_keeps: "late_keeps (cancelJob sv info key machineId options)"
  using cancelJob_kept by (auto simp: late_keeps_def)

lemma outputs_keep:
  "late_keeps (late (\<lambda>s. case getCompletedJobsOutput info m today days s of (results, s') \<Rightarrow> (Inr results, s')))"
  using outputs_kept by (auto simp: late_keeps_def late_def split: prod.splits) (metis snd_conv)

lemmas tms_keeps = tms_service_keeps submit_keeps cancel_keeps outputs_keep late_keeps_bind late_keeps_read late_keeps_ret

lemma tms_mcb_keeps:
  assumes "tms_mcb env J sv ser today machine name = Some f"
  shows "late_keeps (f pb)"
proof -
  from assms consider "f = solveSubmitJob env J sv" | "f = solveCancelJob env J sv" | "f = solveJobInfo env J"
    | "f = solveJobOutPutGetResult env J (sv_unique sv)"
    | "f = solveJobOutPutGetCompletedJobs env J ser today (sv_unique sv)"
    by (auto simp: tms_mcb_def split: if_splits)
  then show ?thesis
    by cases (simp_all add: solveSubmitJob_def solveCancelJob_def solveJobInfo_def solveJobOutPutGetResult_def
        solveJobOutPutGetCompletedJobs_def tms_args_def Let_def, (intro tms_keeps)+)
qed

lemma tms_list_mcb_keeps:
  assumes "tms_list_mcb env TP Q machine name = Some f"
  shows "late_keeps (f pb)"
proof -
  from assms consider "f = solveGetListOfJobsProgression env TP Q" | "f = solveListOfQueues env Q" | "f = solveGetListOfJobs env TP Q"
    by (auto simp: tms_list_mcb_def split: if_splits)
  then show ?thesis
    by cases (simp_all add: solveGetListOfJobsProgression_def solveListOfQueues_def solveGetListOfJobs_def
        tms_generique_def tms_args_def, (intro tms_keeps)+)
qed

lemma tms_step_kept: "tms_step J s s' \<Longrightarrow> jobs_kept s s'"
proof (induction rule: tms_step.induct)
  case (service env sv ser today machine name f pb s r s')
  from tms_mcb_keeps [OF service(1), of pb] service(2) show ?case by (auto simp: late_keeps_def)
next
  case (lists env TP Q machine name f pb s r s')
  from tms_list_mcb_keeps [OF lists(1), of pb] lists(2) show ?case by (auto simp: late_keeps_def)
qed (simp_all add: monitor_jobs_kept)

lemma tms_steps_kept: "tms_steps J s s' \<Longrightarrow> jobs_kept s s'"
  by (induction rule: tms_steps.induct) (auto intro: jobs_kept_trans dest: tms_step_kept)

end
