(* ===== verification/Tms_Properties.thy ===== *)
theory Tms_Properties
  imports Tms_System
begin

text \<open>
  The properties of the task management server, over the lemmas of theory Tms_System, with the concrete
  server they are tried on.
\<close>

section \<open>A concrete server\<close>

definition example_row :: "int \<Rightarrow> string \<Rightarrow> int \<Rightarrow> string \<Rightarrow> int \<Rightarrow> job_row" where
  "example_row n jobid sess who st =
     (blank_job n sess (Some jobid))\<lparr>jr_owner := Some who, jr_submitMachineId := Some ''m1'',
       jr_submitMachineName := Some ''host'', jr_batchType := Some 0, jr_batchJobId := Some ''17'',
       jr_outputPath := Some ''host:/out'', jr_errorPath := Some ''host:/err'', jr_outputDir := Some [],
       jr_status := Some st\<rparr>"

definition example_vsession :: "int \<Rightarrow> string \<Rightarrow> vsession_row" where
  "example_vsession n key =
     \<lparr>vs_num = n, vs_sessionid = Some ''sid'', vs_clmachine = 1, vs_user = 1, vs_lastconnect = Some 0,
      vs_creation = Some 0, vs_closure = None, vs_key = Some key, vs_state = Some 1,
      vs_closepolicy = Some 0, vs_timeout = Some 3600, vs_authid = None\<rparr>"

definition example_ums :: db where
  "example_ums =
     \<lparr>t_users = [\<lparr>us_num = 1, us_userid = ''ann'', us_pwd = [], us_firstname = None, us_lastname = None,
         us_email = None, us_privilege = Some 0, us_passwordstate = Some 1, us_status = Some 1\<rparr>],
      t_vsession = [example_vsession 1 ''k1'', example_vsession 2 ''k2''],
      t_command = [], t_clmachine = [],
      t_machine = [\<lparr>ma_num = 1, ma_machineid = Some ''m1'', ma_name = Some ''host'', ma_site = None, ma_status = Some 1\<rparr>],
      t_description = [],
      t_account = [\<lparr>ac_num = 1, ac_machine = 1, ac_user = 1, ac_login = Some ''ann'', ac_home = Some ''/home/ann'',
         ac_status = Some 1\<rparr>],
      t_authsystem = [], t_ldapauthsystem = [], t_authaccount = [],
      q_users = 2, q_vsession = 3, q_command = 1, q_clmachine = 1, q_machine = 2, q_account = 2,
      q_authsystem = 1, q_authaccount = 1\<rparr>"

text \<open>Three jobs: a running and a completed one of the user, a running one of somebody else.\<close>

definition example_tms :: tms where
  "example_tms =
     \<lparr>tm_ums = example_ums,
      t_job = [example_row 1 ''J_1'' 1 ''ann'' 4, example_row 2 ''J_2'' 1 ''ann'' 5, example_row 3 ''J_3'' 2 ''bob'' 4],
      q_job = 4\<rparr>"

definition example_info :: user_session_info where
  "example_info = \<lparr>num_session = 1, machine_name = ''host'', num_machine = 1, num_user = 1, userid = ''ann'',
     user_privilege = 0, user_aclogin = ''ann'', user_achome = ''/home/ann''\<rparr>"

definition example_job :: job where
  "example_job = job0\<lparr>j_batchJobId := ''18'', j_status := 2, j_outputPath := ''/home/ann/out'', j_errorPath := ''/home/ann/err''\<rparr>"

definition example_server :: "BatchType \<Rightarrow> tms_server" where
  "example_server b = \<lparr>sv_batchType = b, sv_batchVersion = ''2.3'', sv_standalone = False, sv_default_options = [],
     sv_uid = (\<lambda>_. Some 500), sv_setuid = (\<lambda>_. None), sv_plugin = (\<lambda>_. True),
     sv_submit = (\<lambda>path script options. Inr [example_job]), sv_cancel = (\<lambda>_. Inr ()),
     sv_ssh = (\<lambda>cmd script j. if contains_str script ''fail'' then SshFailed else SshJobs [example_job]),
     sv_variables = Map.empty, sv_clock = \<lparr>tm_year = 114, tm_mon = 0, tm_mday = 1, tm_hour = 0, tm_min = 0, tm_sec = 0\<rparr>, sv_now = 100,
     sv_date = \<lparr>d_year = ''2014'', d_month = ''Feb'', d_day = ''3''\<rparr>, sv_unique = ''x''\<rparr>"

definition example_options :: job_options where
  "example_options = map_of [(''textparams'', []), (''fileparams'', []), (''specificparams'', []),
     (''workingdir'', []), (''jobid'', ''J_1''), (''user'', []), (''machineid'', [])]"

lemma jobs_ok_eval:
  "jobs_ok s \<longleftrightarrow> table_ok (job_ids s) \<and> 0 \<le> q_job s \<and> [] \<notin> set (List.map_filter jr_jobid (t_job s)) \<and>
     list_all (\<lambda>i. id_stem i \<in> set (List.map_filter jr_jobid (t_job s))) (List.map_filter jr_jobid (t_job s))"
proof -
  have "dom (job_states s) = set (List.map_filter jr_jobid (t_job s))" by (rule set_eqI) (rule states_dom)
  then show ?thesis by (simp add: jobs_ok_def list_all_iff)
qed

lemma example_jobs_ok: "jobs_ok example_tms"
  unfolding jobs_ok_eval by code_simp

section \<open>The life of a job\<close>

text \<open>
  C11. Every history of the task management server, its services, the user management services and the
  rounds of its monitor in any order, is on the states of the jobs a history of the specification: a job is
  reserved under a new identifier, submitted once, polled while it is not finished, cancelled while it is not
  finished, and downloaded when it is completed. The identifiers stay unique. (The bound is for the keys,
  which the code reads as 32-bit numbers.)
\<close>

theorem jobs_refine:
  assumes "tms_steps J s s'" and "jobs_ok s" and "q_job s' \<le> 1000000000"
  shows "jobs_ok s' \<and> job_history (job_states s) (job_states s')"
  using tms_steps_kept [OF assms(1)] assms(2,3) by (simp add: jobs_kept_def)

definition example_monitor :: "int \<Rightarrow> tms_monitor" where
  "example_monitor st = \<lparr>mo_machineId = ''m1'', mo_batchVersion = ''2.3'', mo_plugin = (\<lambda>_. True),
     mo_state = (\<lambda>j. Inr st), mo_output = (\<lambda>_. []), mo_now = 200\<rparr>"

definition example_polled :: "int \<Rightarrow> tms" where
  "example_polled st = snd (monitor_jobs (example_monitor st) TORQUE example_tms)"

lemma example_history: "tms_steps J example_tms (example_polled st)"
  unfolding example_polled_def by (rule tms_steps.more [OF tms_steps.none tms_step.monitor])

lemma example_polled_next: "q_job (example_polled 5) = 4" "q_job (example_polled (- 1)) = 4"
  by code_simp+

theorem jobs_refine_witness:
  "jobs_ok (example_polled 5) \<and> job_history (job_states example_tms) (job_states (example_polled 5))"
  by (rule jobs_refine [OF example_history example_jobs_ok]) (simp add: example_polled_next)

text \<open>
  C12. As long as services and rounds of the monitor do not overlap, a job that is completed, cancelled, failed
  or downloaded keeps that state for ever, but for a completed one that becomes a downloaded one; and a job whose state the monitor wrote as a negative number, which is
  what the schedulers' plugins give when they cannot be reached, is never polled again: it keeps the number
  or is cancelled.
\<close>

theorem finished_jobs_stay:
  assumes "tms_steps J s s'" and "jobs_ok s" and "q_job s' \<le> 1000000000"
    and "r \<in> set (t_job s)" and "jr_jobid r = Some i" and "jr_status r = Some u"
    and "u < 0 \<or> STATE_COMPLETED \<le> u"
  shows "\<exists>v. job_states s' i = Some (Some v) \<and>
    (v = u \<or> (u = STATE_COMPLETED \<and> v = STATE_DOWNLOADED) \<or> (u < 0 \<and> v = STATE_CANCELLED))"
proof -
  have "job_states s i = Some (Some u)" using row_state [OF assms(2,4,5)] assms(6) by simp
  moreover have "job_history (job_states s) (job_states s')"
    using tms_steps_kept [OF assms(1)] assms(2,3) by (simp add: jobs_kept_def)
  ultimately obtain v where "job_states s' i = Some (Some v)" "later_state u v"
    using spec_final [OF _ _ assms(7)] by blast
  with assms(7) show ?thesis by (auto simp: later_state_def)
qed

lemma example_second: "example_row 2 ''J_2'' 1 ''ann'' 5 \<in> set (t_job example_tms)"
  by (simp add: example_tms_def)

theorem finished_jobs_stay_witness:
  "\<exists>v. job_states (example_polled 5) ''J_2'' = Some (Some v) \<and> (v = 5 \<or> v = 7)"
  using finished_jobs_stay [OF example_history example_jobs_ok _ example_second, of 5 "''J_2''" 5]
  by (auto simp: example_polled_next example_row_def blank_job_def)

section \<open>Cancellation\<close>

lemma id_row_unique:
  "distinct (List.map_filter jr_jobid rs) \<Longrightarrow> r \<in> set rs \<Longrightarrow> r' \<in> set rs \<Longrightarrow> jr_jobid r = Some i \<Longrightarrow>
   jr_jobid r' = Some i \<Longrightarrow> r' = r"
proof (induction rs)
  case Nil
  then show ?case by simp
next
  case (Cons a rs)
  have "i \<in> set (List.map_filter jr_jobid rs)" if "q \<in> set rs" "jr_jobid q = Some i" for q
    using that by (force simp: map_filter_def)
  then show ?case using Cons by (auto simp: map_filter_simps split: option.splits)
qed

text \<open>What a cancellation may do to a row, for a predicate on the row it was.\<close>

definition cancelled_if :: "(job_row \<Rightarrow> bool) \<Rightarrow> job_row \<Rightarrow> job_row \<Rightarrow> bool" where
  "cancelled_if P r r' \<longleftrightarrow> r' = r \<or> (P r \<and> r' = r\<lparr>jr_status := Some STATE_CANCELLED\<rparr>)"

lemma cancelled_same: "cancelled_if P r r"
  by (simp add: cancelled_if_def)

lemma cancelled_now: "P r \<Longrightarrow> cancelled_if P r (r\<lparr>jr_status := Some STATE_CANCELLED\<rparr>)"
  by (unfold cancelled_if_def) (rule disjI2, simp)

lemma cancelled_if_write:
  assumes "list_all2 (cancelled_if P) rs0 rs" and "\<And>r. r \<in> set rs0 \<Longrightarrow> has_jobid i r \<Longrightarrow> P r"
  shows "list_all2 (cancelled_if P) rs0 (sql_update (has_jobid i) (\<lambda>r. r\<lparr>jr_status := Some STATE_CANCELLED\<rparr>) rs)"
proof -
  have "cancelled_if P r (if has_jobid i r' then r'\<lparr>jr_status := Some STATE_CANCELLED\<rparr> else r')"
    if r: "r \<in> set rs0" and c: "cancelled_if P r r'" for r r'
  proof (cases "has_jobid i r")
    case True
    from c consider "r' = r" | "r' = r\<lparr>jr_status := Some STATE_CANCELLED\<rparr>"
      unfolding cancelled_if_def by blast
    then have "(if has_jobid i r' then r'\<lparr>jr_status := Some STATE_CANCELLED\<rparr> else r') =
        r\<lparr>jr_status := Some STATE_CANCELLED\<rparr>"
      by cases (use True in \<open>simp_all add: has_jobid_def\<close>)
    then show ?thesis using cancelled_now [of P r] assms(2) [OF r True] by simp
  next
    case False
    from c have "\<not> has_jobid i r'" using False unfolding cancelled_if_def has_jobid_def by fastforce
    with c show ?thesis by simp
  qed
  then show ?thesis unfolding sql_update_def list_all2_map2
    by (intro list.rel_mono_strong [OF assms(1)]) simp
qed

definition may_cancel :: "user_session_info \<Rightarrow> job_row \<Rightarrow> bool" where
  "may_cancel info r \<longleftrightarrow> sql_less (jr_status r) STATE_COMPLETED \<and>
     (user_privilege info = PRIVILEGE_ADMIN \<or> text_of (jr_owner r) = user_aclogin info)"

lemma cancel_loop_rows:
  assumes "jobs_ok s0"
  shows "set rs \<subseteq> set (t_job s0) \<Longrightarrow> list_all (\<lambda>r. sql_less (jr_status r) STATE_COMPLETED) rs \<Longrightarrow>
    list_all2 (cancelled_if (may_cancel info)) (t_job s0) (t_job s) \<Longrightarrow> cancel_loop sv info rs s = Some (res, s') \<Longrightarrow>
    list_all2 (cancelled_if (may_cancel info)) (t_job s0) (t_job s')"
proof (induction rs arbitrary: s)
  case Nil
  then show ?case by simp
next
  case (Cons r rs)
  show ?case
  proof (rule cancel_loop_Cons [OF Cons.prems(4)])
    fix r1 s1
    assume one: "cancel_one sv info r s = Some (r1, s1)"
      and own: "user_privilege info = PRIVILEGE_ADMIN \<or> text_of (jr_owner r) = user_aclogin info"
      and rest: "s' = s1 \<or> cancel_loop sv info rs s1 = Some (res, s')"
    have "may_cancel info q" if q: "q \<in> set (t_job s0)" "has_jobid (text_of (jr_jobid r)) q" for q
    proof -
      have "jr_jobid q \<noteq> Some []" using row_state [OF assms q(1), of "[]"] assms by (auto simp: jobs_ok_def)
      then have "jr_jobid r = jr_jobid q" using q(2) by (auto simp: has_jobid_def text_of_def split: option.splits)
      moreover obtain i where "jr_jobid q = Some i" using q(2) by (auto simp: has_jobid_def)
      ultimately have "q = r"
        using id_row_unique [OF jobs_ok_distinct [OF assms], of r q i] Cons.prems(1) q(1) by simp
      then show ?thesis using own Cons.prems(2) by (simp add: may_cancel_def)
    qed
    then have "list_all2 (cancelled_if (may_cancel info)) (t_job s0) (t_job
        (record_status (text_of (jr_jobid r)) STATE_CANCELLED s))"
      using cancelled_if_write [OF Cons.prems(3)] by (simp add: record_status_def set_jobs_def)
    then have "list_all2 (cancelled_if (may_cancel info)) (t_job s0) (t_job s1)"
      using cancel_one_writes [OF one] Cons.prems(3) by auto
    with rest Cons.IH [of s1] Cons.prems(1,2) show ?thesis by auto
  qed (use Cons.prems(3) in simp)
qed

lemma cancelled_refl: "list_all2 (cancelled_if P) rs rs"
  by (simp add: list_all2_same cancelled_same)

text \<open>
  C13. Whatever a request for a cancellation names, and whether it returns or throws, the rows of the jobs stay
  what they were but for jobs that were not finished and now are cancelled; and unless the caller is an
  administrator, those are his own.
\<close>

theorem cancel_only_own:
  assumes "cancelJob sv info authKey machineId options s = Some (res, s')" and "jobs_ok s"
  shows "list_all2 (cancelled_if (may_cancel info)) (t_job s) (t_job s')"
proof (rule cancelJob_loop [OF assms(1)])
  fix jobId userId
  let ?rs = "filter (cancel_selected info machineId jobId userId s) (t_job s)"
  assume run: "cancel_loop sv info ?rs s = Some (res, s')"
  have "list_all (\<lambda>r. sql_less (jr_status r) STATE_COMPLETED) ?rs"
    by (auto simp: list_all_iff intro: cancel_selected_less)
  from cancel_loop_rows [OF assms(2) _ this cancelled_refl run] show ?thesis by auto
qed (simp add: cancelled_refl)

lemma example_cancel: "cancelJob (example_server TORQUE) example_info ''k1'' ''m1'' example_options example_tms =
    Some (Inr (), record_status ''J_1'' 6 example_tms)"
  by code_simp

theorem cancel_only_own_witness:
  "list_all2 (cancelled_if (may_cancel example_info)) (t_job example_tms) (t_job (record_status ''J_1'' 6 example_tms))"
  by (rule cancel_only_own [OF example_cancel example_jobs_ok])

text \<open>
  The check that a named job belongs to the user compares sessions: a user who asks in a session other
  than the one the job was submitted in is refused for his own job, while the same request
  without a job cancels it.
\<close>

theorem own_job_other_session:
  assumes "user_privilege info \<noteq> PRIVILEGE_ADMIN" and "options ''jobid'' = Some jobId" and "jobId \<noteq> []"
    and "options ''user'' = Some userId"
    and "\<And>r v. r \<in> set (t_job s) \<Longrightarrow> jr_jobid r = Some jobId \<Longrightarrow> v \<in> set (t_vsession (tm_ums s)) \<Longrightarrow>
      vs_key v = Some authKey \<Longrightarrow> vs_num v \<noteq> jr_session r"
  shows "\<exists>msg. cancelJob sv info authKey machineId options s =
    Some (Inl (TMSVishnuException ERRCODE_PERMISSION_DENIED msg), s)"
proof -
  have "\<not> list_ex (\<lambda>r. has_jobid jobId r \<and>
      list_ex (\<lambda>v. vs_num v = jr_session r \<and> has_key authKey v) (t_vsession (tm_ums s))) (t_job s)"
    using assms(5) by (auto simp: list_ex_iff has_jobid_def has_key_def)
  with assms(1,3) have
    "\<exists>msg. cancel_allowed info authKey jobId userId s = Inl (TMSVishnuException ERRCODE_PERMISSION_DENIED msg)"
    by (cases "userId = ALL_KEYWORD"; cases "userId = []") (simp_all add: cancel_allowed_def Let_def)
  then obtain msg where
    "cancel_allowed info authKey jobId userId s = Inl (TMSVishnuException ERRCODE_PERMISSION_DENIED msg)" by blast
  with assms(2,4) show ?thesis by (simp add: cancelJob_def option_of_def res_simps)
qed

theorem own_job_other_session_witness:
  "(\<exists>msg. cancelJob (example_server TORQUE) example_info ''k2'' ''m1'' example_options example_tms =
     Some (Inl (TMSVishnuException ERRCODE_PERMISSION_DENIED msg), example_tms)) \<and>
   cancelJob (example_server TORQUE) example_info ''k2'' ''m1'' (example_options(''jobid'' \<mapsto> [])) example_tms =
     Some (Inr (), record_status ''J_1'' 6 example_tms)"
proof
  show "\<exists>msg. cancelJob (example_server TORQUE) example_info ''k2'' ''m1'' example_options example_tms =
     Some (Inl (TMSVishnuException ERRCODE_PERMISSION_DENIED msg), example_tms)"
    by (rule own_job_other_session [of _ _ "''J_1''" "[]"])
      (auto simp: example_info_def example_options_def example_tms_def example_row_def blank_job_def
        example_ums_def example_vsession_def)
  show "cancelJob (example_server TORQUE) example_info ''k2'' ''m1'' (example_options(''jobid'' \<mapsto> [])) example_tms =
     Some (Inr (), record_status ''J_1'' 6 example_tms)"
    by code_simp
qed

text \<open>
  The monitor selects the jobs of a round first and writes each answer without a look at the table: a
  job that is cancelled in between gets the state the scheduler gave, and is not cancelled any more.
\<close>

theorem round_undoes_cancel:
  assumes "jobs_ok s" and "r \<in> set (t_job s)" and "jr_jobid r = Some i" and "polled mo b s r"
    and "mo_state mo (polled_job r) = Inr st"
  shows "job_states (record_status i STATE_CANCELLED s) i = Some (Some STATE_CANCELLED) \<and>
    job_states (snd (check_loop mo b [r] (record_status i STATE_CANCELLED s))) i = Some (Some st)"
proof -
  have "i \<in> dom (job_states s)" using row_state [OF assms(1-3)] by auto
  moreover have "j_jobId (polled_job r) = i" by (simp add: polled_job_def text_of_def assms(3))
  ultimately show ?thesis
    by (simp add: assms(5) Let_def record_polled_def record_status_def polled_writer.states status_writer.states)
qed

lemma example_first: "example_row 1 ''J_1'' 1 ''ann'' 4 \<in> set (t_job example_tms)"
  by (simp add: example_tms_def)

theorem round_undoes_cancel_witness:
  "job_states (snd (check_loop (example_monitor 4) TORQUE [example_row 1 ''J_1'' 1 ''ann'' 4]
     (record_status ''J_1'' 6 example_tms))) ''J_1'' = Some (Some 4)"
proof -
  have "jr_jobid (example_row 1 ''J_1'' 1 ''ann'' 4) = Some ''J_1''" by code_simp
  moreover have "polled (example_monitor 4) TORQUE example_tms (example_row 1 ''J_1'' 1 ''ann'' 4)" by code_simp
  moreover have "mo_state (example_monitor 4) (polled_job (example_row 1 ''J_1'' 1 ''ann'' 4)) = Inr 4"
    by (simp add: example_monitor_def)
  ultimately show ?thesis using round_undoes_cancel [OF example_jobs_ok example_first] by blast
qed

section \<open>Output\<close>










section \<open>Submission\<close>

lemma record_submitted_other:
  "k \<noteq> j_jobId j \<Longrightarrow> job_states (record_submitted info machineId b now steps j s) k = job_states s k"
  by (simp add: record_submitted_def submitted_writer.states)

lemma insert_step_other:
  "k \<noteq> i \<Longrightarrow> job_states (insert_step info i s) k = job_states s k"
  by (simp add: job_states_def insert_step_def blank_job_def map_add_def split: option.splits)

lemma saved_other:
  assumes "k \<noteq> j_jobId base" and "\<And>n. k \<noteq> step_id base n"
  shows "job_states (updateAndSaveJobSteps info machineId b now js base s) k = job_states s k"
proof (cases "length js = 1")
  case True
  then obtain j where "js = [j]" by (auto simp: length_Suc_conv)
  then show ?thesis using assms(1) by (simp add: updateAndSaveJobSteps_def record_submitted_other)
next
  case False
  have ins: "job_states (fold (\<lambda>k. insert_step info (step_id base k)) ks t) k = job_states t k" for ks t
    by (induction ks arbitrary: t) (simp_all add: insert_step_other assms(2))
  have rec: "job_states (fold (\<lambda>(m, j). record_submitted info machineId b now (related_steps base n m)
                 ((base_fields base j)\<lparr>j_jobId := step_id base m\<rparr>)) ps t) k = job_states t k" for n ps t
    by (induction ps arbitrary: t) (auto simp: record_submitted_other assms(2))
  show ?thesis unfolding saved_many [OF False] by (simp add: rec ins)
qed

lemma failed_other:
  "k \<noteq> j_jobId j \<Longrightarrow> job_states (snd (submit_failed sv b info machineId j e s)) k = job_states s k"
  by (simp add: submit_failed_def record_submitted_other failed_job_def)

lemma failed_state:
  "job_states s (j_jobId j) = Some None \<Longrightarrow>
   job_states (snd (submit_failed sv b info machineId j e s)) (j_jobId j) =
     Some (if is_vishnu e then Some STATE_FAILED else None)"
  by (auto simp: submit_failed_def record_submitted_def submitted_writer.states failed_job_def domIff)

text \<open>The cases of a submission after the reservation.\<close>

lemma submitJob_cases:
  assumes "submitJob sv info machineId rq s = Some (r, s')" and "job_getObjectId (sv_date sv) machineId s = (Inr i, s1)"
    and "rq_content rq \<noteq> []"
  obtains b j e where "j_jobId j = i" "r = Inl e" "(r, s') = submit_failed sv b info machineId j e s1"
  | b base js where "j_jobId base = i" "r = Inr i"
      "s' = updateAndSaveJobSteps info machineId (batch_code b) (sv_now sv) js base s1"
proof -
  let ?b = "request_batch sv rq"
  show ?thesis
  proof (cases "setRealFilePaths ?b (user_achome info) (sv_unique sv) (sv_clock sv) i (rq_content rq) (rq_options rq)")
    case (Inl e)
    then have "(r, s') = submit_failed sv ?b info machineId (new_job i rq) e s1"
      using assms by (simp add: submitJob_def Let_def)
    then show ?thesis using that(1) [of "new_job i rq" e ?b] by (simp add: submit_failed_def)
  next
    case (Inr paths)
    let ?base = "base_job sv ?b info machineId i rq paths"
    from assms Inr obtain r2 s2 where x: "submit_script sv ?b info machineId paths ?base s1 = Some (r2, s2)"
      by (auto simp: submitJob_def Let_def split: option.splits)
    from submit_script_cases [OF x] show ?thesis
    proof (elim disjE exE conjE)
      fix js
      assume "r2 = Inr ()" "s2 = updateAndSaveJobSteps info machineId (batch_code ?b) (sv_now sv) js ?base s1"
      then show ?thesis using that(2) [of ?base ?b js] assms Inr x by (simp add: submitJob_def Let_def)
    next
      fix e
      assume "r2 = Inl e" "s2 = s1"
      then have "(r, s') = submit_failed sv ?b info machineId ?base e s1"
        using assms Inr x by (simp add: submitJob_def Let_def)
      then show ?thesis using that(1) [of ?base e ?b] by (simp add: submit_failed_def)
    qed
  qed
qed

text \<open>
  C14. A submission reserves a fresh identifier, which it returns, and leaves the states of all other jobs
  alone; when it throws an exception of the program, the script being not empty, the job
  is a failed one.
\<close>

theorem submission_recorded:
  assumes "submitJob sv info machineId rq s = Some (r, s')" and "rq_content rq \<noteq> []"
    and "jobs_ok s" and "q_job s < 1000000000" and "t_vsession (tm_ums s) \<noteq> []"
  shows "\<exists>i. i \<notin> dom (job_states s) \<and> i \<in> dom (job_states s') \<and>
    (case r of Inr x \<Rightarrow> x = i | Inl e \<Rightarrow> job_states s' i = Some (if is_vishnu e then Some STATE_FAILED else None)) \<and>
    (\<forall>k \<in> dom (job_states s). job_states s' k = job_states s k)"
proof -
  obtain o' s1 where get: "job_getObjectId (sv_date sv) machineId s = (o', s1)"
    by (cases "job_getObjectId (sv_date sv) machineId s")
  have "o' \<noteq> Inl e" for e
    using get job_ids_extend [of "job_ids s" "sv_date sv" machineId] assms(3-5)
    by (auto simp: job_getObjectId_def sql_max_def jobs_ok_def job_ids_def Let_def split: list.splits prod.splits)
  then obtain i where i: "o' = Inr i" by (cases o') auto
  note res = reserve_kept [OF assms(3,4) get [unfolded i]]
  have fresh: "job_states s1 i = Some None" "job_id_chars i" "\<And>k. i @ CHR ''.'' # k \<notin> dom (job_states s1)"
    using res(2) by (simp_all add: fresh_job_def)
  have old: "k \<noteq> i \<and> (\<forall>n. k \<noteq> i @ CHR ''.'' # n) \<and> job_states s1 k = job_states s k" if "k \<in> dom (job_states s)" for k
    using that res(3) fresh(3) by (auto simp: res(4))
  show ?thesis
  proof (rule submitJob_cases [OF assms(1) get [unfolded i] assms(2)])
    fix b j e
    assume f: "j_jobId j = i" "r = Inl e" "(r, s') = submit_failed sv b info machineId j e s1"
    then have s': "s' = snd (submit_failed sv b info machineId j e s1)" by (metis snd_conv)
    have "job_states s' i = Some (if is_vishnu e then Some STATE_FAILED else None)"
      using failed_state [of s1 j] fresh(1) f(1) by (simp add: s')
    moreover have "job_states s' k = job_states s k" if "k \<in> dom (job_states s)" for k
      using old [OF that] failed_other [of k j] f(1) by (simp add: s')
    ultimately show ?thesis using f(2) res(3) by (intro exI [of _ i]) auto
  next
    fix b base js
    assume f: "j_jobId base = i" "r = Inr i"
      "s' = updateAndSaveJobSteps info machineId (batch_code b) (sv_now sv) js base s1"
    have "job_states s' k = job_states s k" if "k \<in> dom (job_states s)" for k
      using old [OF that] saved_other [of k base] f(1) by (simp add: f(3) step_id_def)
    moreover have "i \<in> dom (job_states s')"
    proof -
      have "jobs_ok s'" "job_history (job_states s1) (job_states s')"
        using saved_kept [of base s1] res(2) f(1) by (simp_all add: f(3))
      then show ?thesis using spec_dom [of "job_states s1" "job_states s'"] fresh(1) by blast
    qed
    ultimately show ?thesis using f(2) res(3) by (intro exI [of _ i]) auto
  qed
qed

definition example_request :: job_request where
  "example_request = \<lparr>rq_content = ''make'', rq_options = example_options, rq_numbers = (\<lambda>_ d. d)\<rparr>"

definition example_failing :: job_request where
  "example_failing = \<lparr>rq_content = ''fail'', rq_options = example_options, rq_numbers = (\<lambda>_ d. d)\<rparr>"

definition after_submit :: "job_request \<Rightarrow> tms" where
  "after_submit rq = (case submitJob (example_server TORQUE) example_info ''m1'' rq example_tms of
     Some (r, s) \<Rightarrow> s | None \<Rightarrow> example_tms)"

lemma example_submitted: "submitJob (example_server TORQUE) example_info ''m1'' example_request example_tms =
    Some (Inr ''J_4'', after_submit example_request)"
proof -
  have "case submitJob (example_server TORQUE) example_info ''m1'' example_request example_tms of
      Some (Inr i, s) \<Rightarrow> i = ''J_4'' | _ \<Rightarrow> False" by code_simp
  then show ?thesis by (auto simp: after_submit_def split: option.splits sum.splits)
qed

theorem submission_recorded_witness:
  "''J_4'' \<notin> dom (job_states example_tms) \<and> ''J_4'' \<in> dom (job_states (after_submit example_request)) \<and>
   job_states (after_submit example_request) ''J_1'' = job_states example_tms ''J_1''"
proof -
  have v: "t_vsession (tm_ums example_tms) \<noteq> []" "rq_content example_request \<noteq> []" "q_job example_tms < 1000000000"
    by (simp_all add: example_tms_def example_ums_def example_request_def)
  have "''J_1'' \<in> dom (job_states example_tms)" unfolding states_dom by code_simp
  with submission_recorded [OF example_submitted v(2) example_jobs_ok v(3,1)] show ?thesis by auto
qed

lemma finished_script_deltacloud:
  "options ''outputdir'' = None \<Longrightarrow> finished_script DELTACLOUD options def script \<noteq> Inr script'"
  by (auto simp: finished_script_def option_of_def res_simps split: option.splits)

lemma processScript_deltacloud:
  "options ''outputdir'' = None \<Longrightarrow> processScript DELTACLOUD content options def machine \<noteq> Some (Inr script)"
  by (auto simp: processScript_def finished_script_deltacloud split: sum.splits if_splits
      dest!: res_bind_Inr_iff [THEN iffD1])

text \<open>
  A job of the cloud scheduler DeltaCloud is never submitted: after the script was made the code looks up an
  option \<^verbatim>\<open>outputdir\<close>, which the object made from the options of a submission does not
  have, and the look-up throws. The job fails.
\<close>

theorem deltacloud_never_submits:
  assumes "request_batch sv rq = DELTACLOUD" and "rq_options rq ''outputdir'' = None"
    and "submitJob sv info machineId rq s = Some (r, s')"
  shows "(\<forall>i. r \<noteq> Inr i) \<and> (\<forall>so. ''outputdir'' \<notin> fst ` set (submit_properties so))"
proof
  show "\<forall>so. ''outputdir'' \<notin> fst ` set (submit_properties so)" by (simp add: submit_properties_def)
  show "\<forall>i. r \<noteq> Inr i"
  proof (rule ccontr)
    assume "\<not> (\<forall>i. r \<noteq> Inr i)"
    then obtain i where r: "r = Inr i" by blast
    then obtain oid s1 paths base s2 u where
      p: "setRealFilePaths DELTACLOUD (user_achome info) (sv_unique sv) (sv_clock sv) oid (rq_content rq) (rq_options rq) = Inr paths"
      and "submit_script sv DELTACLOUD info machineId paths base s1 = Some (Inr u, s2)"
      using assms(1,3)
      by (auto simp: submitJob_def Let_def submit_failed_def split: prod.splits sum.splits option.splits if_splits)
    moreover have "jp_options paths ''outputdir'' = None"
      using p assms(2) by (auto simp: setRealFilePaths_def option_of_def res_simps Let_def split: option.splits)
    ultimately show False using processScript_deltacloud [of "jp_options paths"]
      by (auto simp: submit_script_def split: option.splits sum.splits)
  qed
qed

lemma example_cloud:
  "\<exists>r s. submitJob (example_server DELTACLOUD) example_info ''m1'' example_request example_tms = Some (r, s)"
proof -
  have "submitJob (example_server DELTACLOUD) example_info ''m1'' example_request example_tms \<noteq> None" by code_simp
  then show ?thesis by auto
qed

theorem deltacloud_never_submits_witness:
  "\<exists>e s. submitJob (example_server DELTACLOUD) example_info ''m1'' example_request example_tms = Some (Inl e, s)"
proof -
  obtain r s where run: "submitJob (example_server DELTACLOUD) example_info ''m1'' example_request example_tms = Some (r, s)"
    using example_cloud by blast
  have "request_batch (example_server DELTACLOUD) example_request = DELTACLOUD"
      "rq_options example_request ''outputdir'' = None" by code_simp+
  from deltacloud_never_submits [OF this run] have "\<And>i. r \<noteq> Inr i" by blast
  then show ?thesis using run by (cases r) auto
qed

lemma without_with_machine:
  "CHR '':'' \<notin> set machine \<Longrightarrow> CHR '':'' \<notin> set path \<Longrightarrow> without_machine (with_machine machine path) = path"
  unfolding with_machine_def without_machine_def
  using find_str_hit_char [of "CHR '':''" machine "[]" 0 path] by (simp add: find_str_def)

lemma without_machine_colon:
  "CHR '':'' \<notin> set p \<Longrightarrow> without_machine (with_machine machine (p @ CHR '':'' # q)) = q"
  unfolding with_machine_def without_machine_def
  using find_str_hit_char [of "CHR '':''" p "[]" 0 q] by (simp add: find_str_def)

lemma getJobOutput_row:
  assumes "jobs_ok s" and "r \<in> set (t_job s)" and "jr_jobid r = Some i" and "options ''machineid'' = Some []"
    and "jr_owner r = Some (user_aclogin info)" and "jr_status r = Some STATE_COMPLETED"
  shows "getJobOutput info options i s = Inr \<lparr>r_jobId = [], r_outputPath = without_machine (text_of (jr_outputPath r)),
      r_errorPath = without_machine (text_of (jr_errorPath r)), r_outputDir = text_of (jr_outputDir r)\<rparr>"
proof -
  have "r \<in> set (filter (has_jobid i) (t_job s))" using assms(2,3) by (simp add: has_jobid_def)
  then obtain q qs where q: "filter (has_jobid i) (t_job s) = q # qs" by (cases "filter (has_jobid i) (t_job s)") auto
  then have "q \<in> set (filter (has_jobid i) (t_job s))" by simp
  then have "q \<in> set (t_job s)" "jr_jobid q = Some i" by (simp_all add: has_jobid_def)
  then have "q = r" using id_row_unique [OF jobs_ok_distinct [OF assms(1)] assms(2) _ assms(3)] by simp
  with q assms(4-6) show ?thesis
    by (simp add: getJobOutput_def option_of_def res_simps text_of_def in_width_def)
qed

text \<open>
  The paths of the output: a job is saved with the name of the machine before the paths the scheduler
  gave, and its owner gets them without it once the job is completed; but a path that itself
  holds a colon is saved without the machine and comes back cut behind its first colon.
\<close>

theorem output_paths_roundtrip:
  assumes "jobs_ok s" and "j_jobId j \<in> dom (job_states s)" and "j_owner j = user_aclogin info"
    and "options ''machineid'' = Some []" and "CHR '':'' \<notin> set (machine_name info)" and "j_jobId pj = j_jobId j"
  shows "\<exists>out. getJobOutput info options (j_jobId j)
      (record_polled mo b pj STATE_COMPLETED (record_submitted info machineId b' now steps j s)) = Inr out \<and>
    (CHR '':'' \<notin> set (j_outputPath j) \<longrightarrow> r_outputPath out = j_outputPath j) \<and>
    (\<forall>p q. j_outputPath j = p @ CHR '':'' # q \<and> CHR '':'' \<notin> set p \<longrightarrow> r_outputPath out = q)"
proof -
  let ?s1 = "record_submitted info machineId b' now steps j s"
  let ?s2 = "record_polled mo b pj STATE_COMPLETED ?s1"
  from assms(2) obtain r where r: "r \<in> set (t_job s)" "jr_jobid r = Some (j_jobId j)"
    unfolding states_dom by (auto simp: map_filter_def)
  define r1 where "r1 = (job_columns info machineId b' now j r)\<lparr>jr_relatedSteps := Some steps\<rparr>"
  define r2 where "r2 = polled_columns mo b pj STATE_COMPLETED r1"
  have ok: "jobs_ok ?s2"
    using assms(1) by (simp add: record_polled_def polled_writer.ok record_submitted_def submitted_writer.ok)
  have "r1 \<in> set (t_job ?s1)"
    using r by (force simp: r1_def record_submitted_def set_jobs_def sql_update_def has_jobid_def)
  moreover have id1: "jr_jobid r1 = Some (j_jobId j)" by (simp add: r1_def job_columns_def r(2))
  ultimately have row: "r2 \<in> set (t_job ?s2)"
    by (force simp: r2_def record_polled_def set_jobs_def sql_update_def has_jobid_def assms(6))
  have cols: "jr_jobid r2 = Some (j_jobId j)" "jr_owner r2 = Some (user_aclogin info)"
      "jr_status r2 = Some STATE_COMPLETED"
      "jr_outputPath r2 = Some (with_machine (machine_name info) (j_outputPath j))"
    using id1 by (simp_all add: r2_def polled_columns_def Let_def r1_def job_columns_def assms(3))
  from getJobOutput_row [of ?s2 r2 "j_jobId j" options info, OF ok row cols(1) assms(4) cols(2,3)] cols(4) show ?thesis
    using without_with_machine [OF assms(5)] without_machine_colon by (simp add: text_of_def)
qed

lemma example_known: "''J_1'' \<in> dom (job_states example_tms)"
  unfolding states_dom by code_simp

definition example_saved :: "string \<Rightarrow> job" where
  "example_saved path = example_job\<lparr>j_jobId := ''J_1'', j_owner := ''ann'', j_outputPath := path\<rparr>"

theorem output_paths_roundtrip_witness:
  "(\<exists>out. getJobOutput example_info example_options ''J_1'' (record_polled (example_monitor 5) TORQUE
      (example_saved ''/out'') 5 (record_submitted example_info ''m1'' 0 1 [] (example_saved ''/out'') example_tms)) = Inr out \<and>
     r_outputPath out = ''/out'') \<and>
   (\<exists>out. getJobOutput example_info example_options ''J_1'' (record_polled (example_monitor 5) TORQUE
      (example_saved ''/a:b'') 5 (record_submitted example_info ''m1'' 0 1 [] (example_saved ''/a:b'') example_tms)) = Inr out \<and>
     r_outputPath out = ''b'')"
proof -
  have j: "j_jobId (example_saved p) = ''J_1''" "j_owner (example_saved p) = user_aclogin example_info"
      "j_outputPath (example_saved p) = p" for p
    by (simp_all add: example_saved_def example_info_def)
  have o: "example_options ''machineid'' = Some []" "CHR '':'' \<notin> set (machine_name example_info)"
    by (simp_all add: example_options_def example_info_def)
  have c: "''/a:b'' = ''/a'' @ CHR '':'' # ''b''" "CHR '':'' \<notin> set ''/a''" by simp_all
  note t = output_paths_roundtrip [OF example_jobs_ok, of "example_saved p" example_info example_options "example_saved p"
      "example_monitor 5" TORQUE "''m1''" 0 1 "[]" for p, unfolded j, OF example_known refl o refl]
  have "CHR '':'' \<notin> set ''/out''" by simp
  with t [of "''/out''"] have a: "\<exists>out. getJobOutput example_info example_options ''J_1'' (record_polled (example_monitor 5) TORQUE
      (example_saved ''/out'') 5 (record_submitted example_info ''m1'' 0 1 [] (example_saved ''/out'') example_tms)) = Inr out \<and>
     r_outputPath out = ''/out''" by blast
  have b: "\<exists>out. getJobOutput example_info example_options ''J_1'' (record_polled (example_monitor 5) TORQUE
      (example_saved ''/a:b'') 5 (record_submitted example_info ''m1'' 0 1 [] (example_saved ''/a:b'') example_tms)) = Inr out \<and>
     r_outputPath out = ''b''"
    using t [of "''/a:b''"] c by (elim exE conjE) (rule exI, rule conjI, assumption, blast)
  from a b show ?thesis by (rule conjI)
qed

end
