(* ===== verification/Ums_Invariant.thy ===== *)
theory Ums_Invariant
  imports Ums_System
begin

text \<open>
  The relations that every step of the user management server satisfies: sessions only move from active
  to closed, and the invariant of the database is kept as long as the key sequences stay below the
  bound up to which a key prints on nine characters.
\<close>

section \<open>Sessions\<close>

definition sessions_later :: "db \<Rightarrow> db \<Rightarrow> bool" where
  "sessions_later d d' \<longleftrightarrow> length (t_vsession d) \<le> length (t_vsession d') \<and>
     list_all2 later_session (t_vsession d) (take (length (t_vsession d)) (t_vsession d'))"

lemma later_session_refl [simp]: "later_session s s"
  by (simp add: later_session_def)

lemma later_session_trans: "later_session s s' \<Longrightarrow> later_session s' s'' \<Longrightarrow> later_session s s''"
  by (auto simp: later_session_def)

lemma sessions_later_refl: "sessions_later d d"
  by (simp add: sessions_later_def list.rel_refl)

lemma sessions_later_same: "t_vsession d' = t_vsession d \<Longrightarrow> sessions_later d d'"
  by (simp add: sessions_later_def list.rel_refl)

lemma sessions_later_trans:
  assumes "sessions_later d d'" and "sessions_later d' d''"
  shows "sessions_later d d''"
proof -
  let ?n = "length (t_vsession d)"
  have "list_all2 later_session (t_vsession d') (take (length (t_vsession d')) (t_vsession d''))"
    using assms(2) by (simp add: sessions_later_def)
  from list_all2_takeI [OF this, of ?n]
  have "list_all2 later_session (take ?n (t_vsession d')) (take ?n (take (length (t_vsession d')) (t_vsession d'')))" .
  moreover have "take ?n (take (length (t_vsession d')) (t_vsession d'')) = take ?n (t_vsession d'')"
    using assms(1) by (simp add: sessions_later_def min_absorb1)
  ultimately show ?thesis
    using assms list_all2_trans [of later_session later_session later_session, OF later_session_trans]
    by (fastforce simp: sessions_later_def)
qed

lemma sessions_later_update:
  "(\<And>s. later_session s (g s)) \<Longrightarrow> sessions_later d (d\<lparr>t_vsession := sql_update e g (t_vsession d)\<rparr>)"
  by (simp add: sessions_later_def sql_update_def list.rel_map list.rel_refl)

interpretation sessions: ums_relation sessions_later
proof unfold_locales
  show "sessions_later d d" for d by (rule sessions_later_refl)
  show "sessions_later d d' \<Longrightarrow> sessions_later d' d'' \<Longrightarrow> sessions_later d d''" for d d' d''
    by (rule sessions_later_trans)
qed (auto simp: users_getObjectId_def machine_getObjectId_def authsystem_getObjectId_def
    sessions_later_def list.rel_refl sql_update_def list.rel_map intro: sessions_later_same split: prod.splits)

section \<open>The invariant\<close>

definition account_key :: "account_row \<Rightarrow> int \<times> int" where
  "account_key a = (ac_machine a, ac_user a)"

definition account_live :: "account_row \<Rightarrow> bool" where
  "account_live a \<longleftrightarrow> sql_ne (ac_status a) STATUS_DELETED"

definition authaccount_key :: "authaccount_row \<Rightarrow> int \<times> int" where
  "authaccount_key a = (au_authsystem a, au_user a)"

definition authaccount_live :: "authaccount_row \<Rightarrow> bool" where
  "authaccount_live a \<longleftrightarrow> sql_ne (au_status a) STATUS_DELETED"

text \<open>
  The identifiers of users, machines and authentication systems are unique and their keys are below the
  sequences; the sessions have distinct keys, belong to users and are active or closed; a user has at
  most one account that is not deleted on a machine, and on an authentication system.
\<close>

definition ids_ok :: "db \<Rightarrow> bool" where
  "ids_ok d \<longleftrightarrow> table_ok (users_ids d) \<and> table_ok (machine_ids d) \<and> table_ok (authsystem_ids d) \<and>
     0 \<le> q_users d \<and> 0 \<le> q_machine d \<and> 0 \<le> q_authsystem d"

definition sessions_ok :: "db \<Rightarrow> bool" where
  "sessions_ok d \<longleftrightarrow> distinct (map vs_num (t_vsession d)) \<and>
     list_all (\<lambda>s. vs_num s < q_vsession d \<and> vs_user s \<in> us_num ` set (t_users d) \<and>
       vs_state s \<in> {Some SESSION_CLOSED, Some SESSION_ACTIVE}) (t_vsession d)"

definition accounts_ok :: "db \<Rightarrow> bool" where
  "accounts_ok d \<longleftrightarrow> distinct (map account_key (filter account_live (t_account d))) \<and>
     distinct (map authaccount_key (filter authaccount_live (t_authaccount d)))"

definition db_ok :: "db \<Rightarrow> bool" where
  "db_ok d \<longleftrightarrow> ids_ok d \<and> sessions_ok d \<and> accounts_ok d"

definition small :: "db \<Rightarrow> bool" where
  "small d \<longleftrightarrow> q_users d \<le> 1000000000 \<and> q_machine d \<le> 1000000000 \<and> q_authsystem d \<le> 1000000000"

definition ok_kept :: "db \<Rightarrow> db \<Rightarrow> bool" where
  "ok_kept d d' \<longleftrightarrow> q_users d \<le> q_users d' \<and> q_machine d \<le> q_machine d' \<and> q_authsystem d \<le> q_authsystem d' \<and>
     (small d' \<and> db_ok d \<longrightarrow> db_ok d')"

lemma ok_kept_refl: "ok_kept d d"
  by (simp add: ok_kept_def)

lemma ok_kept_trans: "ok_kept d d' \<Longrightarrow> ok_kept d' d'' \<Longrightarrow> ok_kept d d''"
  by (auto simp: ok_kept_def small_def)

text \<open>A statement that leaves the sequences of identifiers alone has to keep the invariant.\<close>

lemma ok_keptI:
  assumes "q_users d' = q_users d" "q_machine d' = q_machine d" "q_authsystem d' = q_authsystem d"
    and "ids_ok d \<Longrightarrow> ids_ok d'" and "ids_ok d \<Longrightarrow> sessions_ok d \<Longrightarrow> sessions_ok d'" and "accounts_ok d \<Longrightarrow> accounts_ok d'"
  shows "ok_kept d d'"
  using assms by (simp add: ok_kept_def db_ok_def)

subsection \<open>Rows with new identifiers\<close>

lemma filter_key_unique:
  "distinct (map f xs) \<Longrightarrow> x \<in> set xs \<Longrightarrow> filter (\<lambda>y. f y = f x) xs = [x]"
  by (induction xs) (auto simp: filter_empty_conv image_iff)

lemma ident_at_row:
  assumes "distinct (map row_key (rows t))" and "r \<in> set (rows t)" and "row_ident r = Some s"
  shows "ident_at (row_key r) t old = s"
  using filter_key_unique [OF assms(1,2)] assms(3) by (simp add: ident_at_def)

lemma users_new:
  assumes "table_ok (users_ids d)" and "0 \<le> q_users d" and "q_users d < 1000000000"
  obtains oid where
    "t_users (snd (users_getObjectId env name d)) = t_users d @ [(blank_user (q_users d))\<lparr>us_userid := oid\<rparr>]"
    and "table_ok (users_ids (snd (users_getObjectId env name d)))"
proof -
  have nk: "next_key (users_ids d) = q_users d" by (simp add: users_ids_def)
  obtain r t where g: "getObjectId (ev_date env) USER name (users_ids d) = (r, t)" by fastforce
  from getObjectId_extends [of "users_ids d" "ev_date env" USER name] assms
  obtain oid where t: "t = \<lparr>rows = rows (users_ids d) @ [\<lparr>row_key = q_users d, row_ident = Some oid\<rparr>],
      next_key = q_users d + 1\<rparr>" and ok: "table_ok t"
    by (auto simp: g nk)
  have dist: "distinct (map row_key (rows t))" using ok by (simp add: table_ok_def)
  have old: "u\<lparr>us_userid := ident_at (us_num u) t (us_userid u)\<rparr> = u" if "u \<in> set (t_users d)" for u
  proof -
    have "\<lparr>row_key = us_num u, row_ident = Some (us_userid u)\<rparr> \<in> set (rows t)"
      using that by (auto simp: t users_ids_def)
    from ident_at_row [OF dist this] show ?thesis by simp
  qed
  have new: "ident_at (q_users d) t [] = oid"
    using ident_at_row [OF dist, of "\<lparr>row_key = q_users d, row_ident = Some oid\<rparr>"] by (simp add: t)
  let ?d = "snd (users_getObjectId env name d)"
  have us: "t_users ?d = t_users d @ [(blank_user (q_users d))\<lparr>us_userid := oid\<rparr>]"
    using old new by (simp add: users_getObjectId_def g blank_user_def map_idI)
  have q: "q_users ?d = q_users d + 1" by (simp add: users_getObjectId_def g t)
  have "users_ids ?d = t" by (simp add: users_ids_def [of ?d] us q t users_ids_def [of d] blank_user_def)
  with us ok that show ?thesis by simp
qed

lemma map2_same:
  assumes "\<And>x. x \<in> set xs \<Longrightarrow> g x (f x) = x"
  shows "map2 g xs (map f xs) = xs"
  using assms by (simp add: zip_map2 zip_same_conv_map comp_def map_idI)

lemma machines_new:
  assumes "table_ok (machine_ids d)" and "0 \<le> q_machine d" and "q_machine d < 1000000000"
  shows "table_ok (machine_ids (snd (machine_getObjectId env name d)))"
proof -
  have nk: "next_key (machine_ids d) = q_machine d" by (simp add: machine_ids_def)
  obtain r t where g: "getObjectId (ev_date env) MACHINE name (machine_ids d) = (r, t)" by fastforce
  from getObjectId_extends [of "machine_ids d" "ev_date env" MACHINE name] assms
  obtain oid where t: "t = \<lparr>rows = rows (machine_ids d) @ [\<lparr>row_key = q_machine d, row_ident = Some oid\<rparr>],
      next_key = q_machine d + 1\<rparr>" and ok: "table_ok t"
    by (auto simp: g nk)
  have rt: "rows t = map (\<lambda>m. \<lparr>row_key = ma_num m, row_ident = ma_machineid m\<rparr>) (t_machine d) @ [\<lparr>row_key = q_machine d, row_ident = Some oid\<rparr>]"
    by (simp add: t machine_ids_def)
  let ?d = "snd (machine_getObjectId env name d)"
  have ms: "t_machine ?d = t_machine d @ [\<lparr>ma_num = q_machine d, ma_machineid = Some oid, ma_name = None, ma_site = None, ma_status = Some 0\<rparr>]"
    by (simp add: machine_getObjectId_def g rt map2_same)
  have q: "q_machine ?d = q_machine d + 1" by (simp add: machine_getObjectId_def g t)
  have "machine_ids ?d = t" by (simp add: machine_ids_def [of ?d] ms q t machine_ids_def [of d])
  with ok show ?thesis by simp
qed

lemma authsystems_new:
  assumes "table_ok (authsystem_ids d)" and "0 \<le> q_authsystem d" and "q_authsystem d < 1000000000"
  shows "table_ok (authsystem_ids (snd (authsystem_getObjectId env name d)))"
proof -
  have nk: "next_key (authsystem_ids d) = q_authsystem d" by (simp add: authsystem_ids_def)
  obtain r t where g: "getObjectId (ev_date env) AUTH name (authsystem_ids d) = (r, t)" by fastforce
  from getObjectId_extends [of "authsystem_ids d" "ev_date env" AUTH name] assms
  obtain oid where t: "t = \<lparr>rows = rows (authsystem_ids d) @ [\<lparr>row_key = q_authsystem d, row_ident = Some oid\<rparr>],
      next_key = q_authsystem d + 1\<rparr>" and ok: "table_ok t"
    by (auto simp: g nk)
  have rt: "rows t = map (\<lambda>y. \<lparr>row_key = ay_num y, row_ident = ay_authsystemid y\<rparr>) (t_authsystem d) @ [\<lparr>row_key = q_authsystem d, row_ident = Some oid\<rparr>]"
    by (simp add: t authsystem_ids_def)
  let ?d = "snd (authsystem_getObjectId env name d)"
  have ms: "t_authsystem ?d = t_authsystem d @ [\<lparr>ay_num = q_authsystem d, ay_authsystemid = Some oid,
        ay_name = None, ay_uri = None, ay_authlogin = None, ay_authpassword = None, ay_userpwdencryption = None,
        ay_authtype = None, ay_status = Some STATUS_UNDEFINED\<rparr>]"
    by (simp add: authsystem_getObjectId_def g rt map2_same)
  have q: "q_authsystem ?d = q_authsystem d + 1" by (simp add: authsystem_getObjectId_def g t)
  have "authsystem_ids ?d = t" by (simp add: authsystem_ids_def [of ?d] ms q t authsystem_ids_def [of d])
  with ok show ?thesis by simp
qed

lemma new_user_kept: "ok_kept d (snd (users_getObjectId env name d))"
proof -
  let ?d = "snd (users_getObjectId env name d)"
  have nk: "next_key (users_ids d) = q_users d" by (simp add: users_ids_def)
  obtain r t where g: "getObjectId (ev_date env) USER name (users_ids d) = (r, t)" by fastforce
  have q: "q_users ?d = q_users d + 1"
    using next_key_getObjectId [of "ev_date env" USER name "users_ids d"]
    by (simp add: users_getObjectId_def g nk)
  have other: "t_vsession ?d = t_vsession d" "q_vsession ?d = q_vsession d" "machine_ids ?d = machine_ids d"
      "authsystem_ids ?d = authsystem_ids d" "q_machine ?d = q_machine d" "q_authsystem ?d = q_authsystem d"
      "t_account ?d = t_account d" "t_authaccount ?d = t_authaccount d"
    by (simp_all add: users_getObjectId_def machine_ids_def authsystem_ids_def split: prod.splits)
  have "db_ok ?d" if "small ?d" "db_ok d"
  proof -
    have "table_ok (users_ids d)" "0 \<le> q_users d" "q_users d < 1000000000"
      using that q by (auto simp: db_ok_def ids_ok_def small_def)
    from users_new [OF this, of env name] obtain oid where
      "t_users ?d = t_users d @ [(blank_user (q_users d))\<lparr>us_userid := oid\<rparr>]" "table_ok (users_ids ?d)" .
    then show ?thesis using that other q
      by (auto simp: db_ok_def ids_ok_def sessions_ok_def accounts_ok_def list_all_iff)
  qed
  then show ?thesis using q other by (auto simp: ok_kept_def)
qed

lemma new_machine_kept: "ok_kept d (snd (machine_getObjectId env name d))"
proof -
  let ?d = "snd (machine_getObjectId env name d)"
  have nk: "next_key (machine_ids d) = q_machine d" by (simp add: machine_ids_def)
  obtain r t where g: "getObjectId (ev_date env) MACHINE name (machine_ids d) = (r, t)" by fastforce
  have q: "q_machine ?d = q_machine d + 1"
    using next_key_getObjectId [of "ev_date env" MACHINE name "machine_ids d"]
    by (simp add: machine_getObjectId_def g nk)
  have other: "t_vsession ?d = t_vsession d" "q_vsession ?d = q_vsession d" "users_ids ?d = users_ids d"
      "authsystem_ids ?d = authsystem_ids d" "q_users ?d = q_users d" "q_authsystem ?d = q_authsystem d"
      "t_account ?d = t_account d" "t_authaccount ?d = t_authaccount d" "t_users ?d = t_users d"
    by (simp_all add: machine_getObjectId_def users_ids_def authsystem_ids_def split: prod.splits)
  have "db_ok ?d" if "small ?d" "db_ok d"
    using that q other machines_new [of d env name]
    by (auto simp: db_ok_def ids_ok_def small_def sessions_ok_def accounts_ok_def)
  then show ?thesis using q other by (auto simp: ok_kept_def)
qed

lemma new_authsystem_kept: "ok_kept d (snd (authsystem_getObjectId env name d))"
proof -
  let ?d = "snd (authsystem_getObjectId env name d)"
  have nk: "next_key (authsystem_ids d) = q_authsystem d" by (simp add: authsystem_ids_def)
  obtain r t where g: "getObjectId (ev_date env) AUTH name (authsystem_ids d) = (r, t)" by fastforce
  have q: "q_authsystem ?d = q_authsystem d + 1"
    using next_key_getObjectId [of "ev_date env" AUTH name "authsystem_ids d"]
    by (simp add: authsystem_getObjectId_def g nk)
  have other: "t_vsession ?d = t_vsession d" "q_vsession ?d = q_vsession d" "users_ids ?d = users_ids d"
      "machine_ids ?d = machine_ids d" "q_users ?d = q_users d" "q_machine ?d = q_machine d"
      "t_account ?d = t_account d" "t_authaccount ?d = t_authaccount d" "t_users ?d = t_users d"
    by (simp_all add: authsystem_getObjectId_def users_ids_def machine_ids_def split: prod.splits)
  have "db_ok ?d" if "small ?d" "db_ok d"
    using that q other authsystems_new [of d env name]
    by (auto simp: db_ok_def ids_ok_def small_def sessions_ok_def accounts_ok_def)
  then show ?thesis using q other by (auto simp: ok_kept_def)
qed

subsection \<open>Updates\<close>

lemma map_sql_update: "(\<And>r. k (f r) = k r) \<Longrightarrow> map k (sql_update c f rs) = map k rs"
  by (simp add: sql_update_def comp_def if_distrib [of k] cong: if_cong)

lemma live_update:
  assumes "\<And>r. k (f r) = k r" and "\<And>r. live (f r) \<Longrightarrow> live r" and "distinct (map k (filter live rs))"
  shows "distinct (map k (filter live (sql_update c f rs)))"
proof -
  have sub: "set (map k (filter live (sql_update c f rs))) \<subseteq> set (map k (filter live rs))" for rs
    using assms(1,2) by (auto simp: sql_update_def image_iff split: if_splits)
  show ?thesis
    using assms(3)
  proof (induction rs)
    case Nil
    then show ?case by (simp add: sql_update_def)
  next
    case (Cons r rs)
    then show ?case
      using assms(1,2) sub [of rs] by (auto simp: sql_update_def split: if_splits)
  qed
qed

lemma users_ids_update:
  assumes "\<And>r. same_user r (f r)"
  shows "users_ids (d\<lparr>t_users := sql_update c f (t_users d)\<rparr>) = users_ids d"
    and "us_num ` set (sql_update c f (t_users d)) = us_num ` set (t_users d)"
proof -
  have "map (\<lambda>r. \<lparr>row_key = us_num r, row_ident = Some (us_userid r)\<rparr>) (sql_update c f (t_users d)) =
      map (\<lambda>r. \<lparr>row_key = us_num r, row_ident = Some (us_userid r)\<rparr>) (t_users d)"
    using assms by (intro map_sql_update) (simp add: same_user_def)
  then show "users_ids (d\<lparr>t_users := sql_update c f (t_users d)\<rparr>) = users_ids d"
    by (simp add: users_ids_def)
  have "map us_num (sql_update c f (t_users d)) = map us_num (t_users d)"
    using assms by (intro map_sql_update) (simp add: same_user_def)
  then have "set (map us_num (sql_update c f (t_users d))) = set (map us_num (t_users d))" by simp
  then show "us_num ` set (sql_update c f (t_users d)) = us_num ` set (t_users d)" by simp
qed

lemma set_users_kept:
  assumes "\<And>r. same_user r (f r)"
  shows "ok_kept d (d\<lparr>t_users := sql_update c f (t_users d)\<rparr>)"
  using users_ids_update [where f = f and d = d and c = c, OF assms]
  by (intro ok_keptI) (simp_all add: ids_ok_def sessions_ok_def accounts_ok_def machine_ids_def authsystem_ids_def)

lemma set_sessions_kept:
  assumes "\<And>s. later_session s (g s)"
  shows "ok_kept d (d\<lparr>t_vsession := sql_update e g (t_vsession d)\<rparr>)"
proof (intro ok_keptI)
  have g: "vs_num (g s) = vs_num s \<and> vs_user (g s) = vs_user s \<and>
      (vs_state (g s) = vs_state s \<or> vs_state (g s) = Some SESSION_CLOSED)" for s
    using assms [of s] by (simp add: later_session_def)
  assume ok: "sessions_ok d"
  have nums: "map vs_num (sql_update e g (t_vsession d)) = map vs_num (t_vsession d)"
    using g by (intro map_sql_update) simp
  have "vs_num s' < q_vsession d \<and> vs_user s' \<in> us_num ` set (t_users d) \<and>
      vs_state s' \<in> {Some SESSION_CLOSED, Some SESSION_ACTIVE}"
    if "s' \<in> set (sql_update e g (t_vsession d))" for s'
  proof -
    from that obtain s where s: "s \<in> set (t_vsession d)" "s' = (if e s then g s else s)"
      by (auto simp: sql_update_def)
    from ok s(1) have "vs_num s < q_vsession d \<and> vs_user s \<in> us_num ` set (t_users d) \<and>
        vs_state s \<in> {Some SESSION_CLOSED, Some SESSION_ACTIVE}"
      unfolding sessions_ok_def list_all_iff by blast
    with g [of s] s(2) show ?thesis by (auto split: if_splits)
  qed
  with ok nums show "sessions_ok (d\<lparr>t_vsession := sql_update e g (t_vsession d)\<rparr>)"
    by (simp add: sessions_ok_def list_all_iff)
qed (simp_all add: ids_ok_def accounts_ok_def users_ids_def machine_ids_def authsystem_ids_def)

lemma new_session_kept:
  "vs_num s = q_vsession d \<Longrightarrow> vs_state s = Some SESSION_ACTIVE \<Longrightarrow> vs_user s \<in> us_num ` set (t_users d) \<Longrightarrow>
   ok_kept d (d\<lparr>t_vsession := t_vsession d @ [s], q_vsession := q_vsession d + 1\<rparr>)"
  by (intro ok_keptI)
    (auto simp: sessions_ok_def list_all_iff ids_ok_def accounts_ok_def users_ids_def machine_ids_def
      authsystem_ids_def)

lemma set_accounts_kept:
  assumes "\<And>a. later_account a (i a)"
  shows "ok_kept d (d\<lparr>t_account := sql_update l i (t_account d)\<rparr>)"
proof (intro ok_keptI)
  assume "accounts_ok d"
  moreover have "account_key (i a) = account_key a" "account_live (i a) \<Longrightarrow> account_live a" for a
    using assms [of a] by (auto simp: later_account_def account_key_def account_live_def sql_ne_def)
  ultimately show "accounts_ok (d\<lparr>t_account := sql_update l i (t_account d)\<rparr>)"
    by (simp add: accounts_ok_def live_update)
qed (simp_all add: ids_ok_def sessions_ok_def users_ids_def machine_ids_def authsystem_ids_def)

lemma set_authaccounts_kept:
  assumes "\<And>a. later_authaccount a (i a)"
  shows "ok_kept d (d\<lparr>t_authaccount := sql_update l i (t_authaccount d)\<rparr>)"
proof (intro ok_keptI)
  assume "accounts_ok d"
  moreover have "authaccount_key (i a) = authaccount_key a" "authaccount_live (i a) \<Longrightarrow> authaccount_live a" for a
    using assms [of a] by (auto simp: later_authaccount_def authaccount_key_def authaccount_live_def sql_ne_def)
  ultimately show "accounts_ok (d\<lparr>t_authaccount := sql_update l i (t_authaccount d)\<rparr>)"
    by (simp add: accounts_ok_def live_update)
qed (simp_all add: ids_ok_def sessions_ok_def users_ids_def machine_ids_def authsystem_ids_def)

lemma new_account_kept:
  assumes "\<not> account_exist (Some (ac_machine a)) (Some (ac_user a)) d"
  shows "ok_kept d (d\<lparr>t_account := t_account d @ [a], q_account := q_account d + 1\<rparr>)"
proof (intro ok_keptI)
  have "account_key a \<notin> account_key ` set (filter account_live (t_account d))"
    using assms
    by (auto simp: account_exist_def account_getAttribut_def first_element_key account_of_def account_key_def
        account_live_def list_ex_iff)
  then show "accounts_ok d \<Longrightarrow> accounts_ok (d\<lparr>t_account := t_account d @ [a], q_account := q_account d + 1\<rparr>)"
    by (simp add: accounts_ok_def)
qed (simp_all add: ids_ok_def sessions_ok_def users_ids_def machine_ids_def authsystem_ids_def)

lemma new_authaccount_kept:
  assumes "\<not> authaccount_exist (Some (au_authsystem a)) (Some (au_user a)) d"
  shows "ok_kept d (d\<lparr>t_authaccount := t_authaccount d @ [a], q_authaccount := q_authaccount d + 1\<rparr>)"
proof (intro ok_keptI)
  have "authaccount_key a \<notin> authaccount_key ` set (filter authaccount_live (t_authaccount d))"
    using assms
    by (auto simp: authaccount_exist_def authaccount_getAttribut_def first_element_key authaccount_of_def
        authaccount_key_def authaccount_live_def list_ex_iff)
  then show "accounts_ok d \<Longrightarrow>
      accounts_ok (d\<lparr>t_authaccount := t_authaccount d @ [a], q_authaccount := q_authaccount d + 1\<rparr>)"
    by (simp add: accounts_ok_def)
qed (simp_all add: ids_ok_def sessions_ok_def users_ids_def machine_ids_def authsystem_ids_def)

lemma set_machines_kept:
  assumes "\<And>m. ma_num (h m) = ma_num m \<and> ma_machineid (h m) = ma_machineid m"
  shows "ok_kept d (d\<lparr>t_machine := sql_update k h (t_machine d)\<rparr>)"
proof -
  have "map (\<lambda>m. \<lparr>row_key = ma_num m, row_ident = ma_machineid m\<rparr>) (sql_update k h (t_machine d)) =
      map (\<lambda>m. \<lparr>row_key = ma_num m, row_ident = ma_machineid m\<rparr>) (t_machine d)"
    using assms by (intro map_sql_update) simp
  then show ?thesis
    by (intro ok_keptI)
      (simp_all add: ids_ok_def sessions_ok_def accounts_ok_def users_ids_def machine_ids_def authsystem_ids_def)
qed

lemma set_authsystems_kept:
  assumes "\<And>y. ay_num (j y) = ay_num y \<and> ay_authsystemid (j y) = ay_authsystemid y"
  shows "ok_kept d (d\<lparr>t_authsystem := sql_update k j (t_authsystem d)\<rparr>)"
proof -
  have "map (\<lambda>y. \<lparr>row_key = ay_num y, row_ident = ay_authsystemid y\<rparr>) (sql_update k j (t_authsystem d)) =
      map (\<lambda>y. \<lparr>row_key = ay_num y, row_ident = ay_authsystemid y\<rparr>) (t_authsystem d)"
    using assms by (intro map_sql_update) simp
  then show ?thesis
    by (intro ok_keptI)
      (simp_all add: ids_ok_def sessions_ok_def accounts_ok_def users_ids_def machine_ids_def authsystem_ids_def)
qed

lemma other_tables_kept:
  "ok_kept d (d\<lparr>t_clmachine := x1, q_clmachine := x2\<rparr>)"
  "ok_kept d (d\<lparr>t_command := x3, q_command := x4\<rparr>)"
  "ok_kept d (d\<lparr>t_description := x5\<rparr>)"
  "ok_kept d (d\<lparr>t_ldapauthsystem := x6\<rparr>)"
  by (rule ok_keptI; simp add: ids_ok_def sessions_ok_def accounts_ok_def users_ids_def machine_ids_def
      authsystem_ids_def)+

interpretation invariant: ums_relation ok_kept
proof unfold_locales
  show "ok_kept d d' \<Longrightarrow> ok_kept d' d'' \<Longrightarrow> ok_kept d d''" for d d' d''
    by (rule ok_kept_trans)
qed (rule ok_kept_refl new_user_kept set_users_kept set_sessions_kept new_session_kept other_tables_kept
    new_machine_kept set_machines_kept new_account_kept set_accounts_kept new_authsystem_kept
    set_authsystems_kept new_authaccount_kept set_authaccounts_kept; assumption?; simp?)+

end
