(* ===== verification/Ums_Properties.thy ===== *)
theory Ums_Properties
  imports Ums_Invariant
begin

text \<open>
  The properties of the user management server: what every history of service calls and monitor rounds
  keeps, who may do what, and how sessions, passwords and accounts behave. The section of examples gives
  the database and the environment that show the properties can hold.
\<close>

section \<open>Examples\<close>

definition example_crypt :: crypt_fn where
  "example_crypt key salt = Some (salt @ key @ ''.'')"

definition example_env :: ums_env where
  "example_env = \<lparr>ev_crypt = example_crypt, ev_now = 5000,
     ev_date = \<lparr>d_year = ''2014'', d_month = ''Feb'', d_day = ''3''\<rparr>, ev_now_text = ''now'',
     ev_day_text = ''day'', ev_clock_text = ''clock'', ev_random1 = 7, ev_random2 = 8, ev_fork = True,
     ev_sendmail = ''mail'', ev_auth = ums_authenticate example_crypt\<rparr>"

definition example_users :: "users_row list" where
  "example_users =
     [\<lparr>us_num = 1, us_userid = ''root'', us_pwd = ''a.'', us_firstname = None, us_lastname = None,
       us_email = Some ''r@x'', us_privilege = Some 1, us_passwordstate = Some 1, us_status = Some 1\<rparr>,
      \<lparr>us_num = 2, us_userid = ''bob'', us_pwd = ''b.'', us_firstname = None, us_lastname = None,
       us_email = Some ''b@x'', us_privilege = Some 0, us_passwordstate = Some 1, us_status = Some 1\<rparr>]"

definition example_session :: "int \<Rightarrow> int \<Rightarrow> string \<Rightarrow> vsession_row" where
  "example_session n u key = \<lparr>vs_num = n, vs_sessionid = Some key, vs_clmachine = 1, vs_user = u,
     vs_lastconnect = Some 0, vs_creation = Some 0, vs_closure = None, vs_key = Some key, vs_state = Some 1,
     vs_closepolicy = Some 1, vs_timeout = Some 3600, vs_authid = Some ''''\<rparr>"

definition example_db :: db where
  "example_db = \<lparr>t_users = example_users,
     t_vsession = [example_session 1 1 ''k1'', (example_session 2 2 ''k2'')\<lparr>vs_state := Some 0\<rparr>,
                   example_session 3 2 ''k3''],
     t_command = [],
     t_clmachine = [\<lparr>cl_num = 1, cl_sshkey = Some ''ssh'', cl_name = Some ''host''\<rparr>],
     t_machine = [\<lparr>ma_num = 1, ma_machineid = Some ''m1'', ma_name = Some ''m'', ma_site = None, ma_status = Some 1\<rparr>],
     t_description = [], t_account = [], t_authsystem = [], t_ldapauthsystem = [], t_authaccount = [],
     q_users = 3, q_vsession = 4, q_command = 1, q_clmachine = 2, q_machine = 2, q_account = 1,
     q_authsystem = 1, q_authaccount = 1\<rparr>"

lemmas example_defs = example_env_def example_users_def example_session_def example_db_def example_crypt_def

lemma example_ok: "db_ok example_db" and example_small: "small example_db"
  by (simp_all add: db_ok_def ids_ok_def sessions_ok_def accounts_ok_def example_defs users_ids_def machine_ids_def
      authsystem_ids_def table_ok_def map_filter_simps small_def)

section \<open>Histories\<close>

text \<open>
  Whatever services are called and however the monitor runs, a session that is closed stays closed,
  with the same key and the same user: no service brings a session back.
\<close>

theorem sessions_stay_closed:
  assumes "ums_steps d d'" and "i < length (t_vsession d)" and "vs_state (t_vsession d ! i) = Some SESSION_CLOSED"
  shows "vs_state (t_vsession d' ! i) = Some SESSION_CLOSED \<and>
    vs_key (t_vsession d' ! i) = vs_key (t_vsession d ! i) \<and> vs_user (t_vsession d' ! i) = vs_user (t_vsession d ! i)"
  using sessions.keeps_steps [OF assms(1)] assms(2,3)
  by (auto simp: sessions_later_def list_all2_conv_all_nth later_session_def)

theorem sessions_stay_closed_witness:
  "vs_state (t_vsession (snd (monitor_checkSession example_env example_db)) ! 1) = Some SESSION_CLOSED"
  using sessions_stay_closed [OF ums_steps.more [OF ums_steps.none ums_step.monitor], of 1 example_db example_env]
  by (simp add: example_defs)










section \<open>Answers\<close>

definition well_formed_answer :: "diet_profile \<Rightarrow> bool" where
  "well_formed_answer pb \<longleftrightarrow> param_count pb = 2 \<and> length (params pb) = 2 \<and>
     params pb ! 0 \<in> {''success'', ''error''}"

lemma well_formed_reply [simp]: "well_formed_answer (reply pb ''success'' v)"
    "well_formed_answer (reply pb ''error'' v)"
  by (simp_all add: well_formed_answer_def reply_def)












section \<open>Authorisation\<close>

lemma caller_exists: "caller key d = Inr me \<Longrightarrow> user_exist False me d = Inr True"
  by (auto simp: caller_def res_simps split: if_splits)

text \<open>
  C6. Only administrators administer: when the user of a session is valid but has no administrator
  privilege, the operations on users, machines and authentication systems throw the exception
  that says so and leave the database as it is.
\<close>

theorem only_admins_administer:
  assumes "caller key d = Inr me" and "\<not> isAdmin me d"
  shows "user_add env me u d = (Inl (UMSVishnuException ERRCODE_NO_ADMIN []), d) \<and>
    user_update me u d = (Inl (UMSVishnuException ERRCODE_NO_ADMIN []), d) \<and>
    user_delete me u d = (Inl (UMSVishnuException ERRCODE_NO_ADMIN []), d) \<and>
    resetPassword env me u d = (Inl (UMSVishnuException ERRCODE_NO_ADMIN []), d) \<and>
    machine_add env key mc d = (Inl (UMSVishnuException ERRCODE_NO_ADMIN []), d) \<and>
    machine_update key mc d = (Inl (UMSVishnuException ERRCODE_NO_ADMIN []), d) \<and>
    machine_delete key mc d = (Inl (UMSVishnuException ERRCODE_NO_ADMIN []), d) \<and>
    authsystem_add env key y d = (Inl (UMSVishnuException ERRCODE_NO_ADMIN []), d) \<and>
    authsystem_update key y d = (Inl (UMSVishnuException ERRCODE_NO_ADMIN []), d) \<and>
    authsystem_delete key y d = (Inl (UMSVishnuException ERRCODE_NO_ADMIN []), d)"
  using assms(2) caller_exists [OF assms(1)]
  by (simp_all add: user_add_def user_update_def user_delete_def resetPassword_def machine_add_def
      machine_update_def machine_delete_def authsystem_add_def authsystem_update_def authsystem_delete_def
      admin_caller_def assms(1) res_bind.simps op_bind_def op_simps)

lemma example_bob: "caller ''k3'' example_db =
    Inr (empty_user\<lparr>u_userId := ''bob'', u_password := ''b.''\<rparr>)"
  and example_bob_admin: "\<not> isAdmin (empty_user\<lparr>u_userId := ''bob'', u_password := ''b.''\<rparr>) example_db"
  by code_simp+

theorem only_admins_administer_witness:
  "machine_delete ''k3'' (empty_machine\<lparr>mc_machineId := ''m1''\<rparr>) example_db =
     (Inl (UMSVishnuException ERRCODE_NO_ADMIN []), example_db)"
  using only_admins_administer [OF example_bob example_bob_admin] by blast

text \<open>
  Locking a user who has an active session closes the sessions of everyone: the statement that means
  to close the sessions of that user selects the key from a subquery without such a column, so that it
  compares each key with itself. After the update every session that has a key is closed.
\<close>

theorem lock_closes_everyone:
  assumes "user_update me u d = (Inr x, d')" and "u_status u = STATUS_LOCKED"
    and "r \<in> set (t_users d)" and "us_userid r = u_userId u"
    and "s0 \<in> set (t_vsession d)" and "vs_user s0 = us_num r" and "vs_state s0 = Some SESSION_ACTIVE"
    and "i < length (t_vsession d')" and "vs_key (t_vsession d' ! i) \<noteq> None"
  shows "vs_state (t_vsession d' ! i) = Some SESSION_CLOSED"
proof -
  let ?d1 = "d\<lparr>t_users := sql_update (\<lambda>r. us_userid r = u_userId u \<and> sql_ne (us_status r) STATUS_DELETED)
                (update_user_fields u) (t_users d)\<rparr>"
  have d': "d' = close_sessions_of (u_userId u) ?d1"
    using assms(1,2) by (auto simp: user_update_def op_bind_def op_simps split: sum.splits prod.splits if_splits)
  have "\<exists>r' \<in> set (t_users ?d1). us_num r = us_num r' \<and> us_userid r' = u_userId u"
    using assms(3,4)
    by (intro bexI [of _ "if sql_ne (us_status r) STATUS_DELETED then update_user_fields u r else r"])
      (auto simp: sql_update_def update_user_fields_def)
  with assms(5-7) have E: "list_ex (\<lambda>si. vs_state si = Some SESSION_ACTIVE \<and>
      list_ex (\<lambda>r. vs_user si = us_num r \<and> us_userid r = u_userId u) (t_users ?d1)) (t_vsession ?d1)"
    unfolding list_ex_iff by (intro bexI [of _ s0]) auto
  have "t_vsession d' = sql_update (\<lambda>s. vs_key s \<noteq> None) (\<lambda>s. s\<lparr>vs_state := Some SESSION_CLOSED\<rparr>) (t_vsession d)"
    unfolding d' close_sessions_of_def using E by simp
  then show ?thesis using assms(8,9) by (auto simp: sql_update_def)
qed

definition example_root :: user where
  "example_root = empty_user\<lparr>u_userId := ''root'', u_password := ''a.''\<rparr>"

definition example_lock :: user where
  "example_lock = empty_user\<lparr>u_userId := ''bob'', u_status := 0\<rparr>"

lemma example_lock_done:
  "fst (user_update example_root example_lock example_db) = Inr ()"
  "length (t_vsession (snd (user_update example_root example_lock example_db))) = 3"
  "vs_key (t_vsession (snd (user_update example_root example_lock example_db)) ! 0) = Some ''k1''"
  by code_simp+

theorem lock_closes_everyone_witness:
  "vs_state (t_vsession (snd (user_update example_root example_lock example_db)) ! 0) = Some SESSION_CLOSED"
  by (rule lock_closes_everyone [where me = example_root and u = example_lock and d = example_db and x = "()"
        and r = "example_users ! 1" and ?s0.0 = "example_session 3 2 ''k3''"])
    (simp_all add: prod_eq_iff example_lock_done, simp_all add: example_defs example_lock_def)

section \<open>Sessions\<close>

lemma int_of_eq_Some: "k \<noteq> -1 \<Longrightarrow> int_of v = k \<longleftrightarrow> v = Some k \<and> in_width 32 k"
  by (auto simp: int_of_def convertToInt_def lexical_cast_def split: option.splits)

lemma int_of_1 [simp]: "int_of v = 1 \<longleftrightarrow> v = Some 1"
  using int_of_eq_Some [of 1 v] by (auto simp: in_width_def)

lemma users_distinct:
  assumes "db_ok d"
  shows "distinct (map us_num (t_users d))" and "distinct (map us_userid (t_users d))"
  using assms by (simp_all add: db_ok_def ids_ok_def table_ok_def users_ids_def comp_def List.map_filter_def filter_map)

lemma join_empty: "(\<And>x. x \<in> set xs \<Longrightarrow> f x = []) \<Longrightarrow> concat (map f xs) = []"
  by simp

lemma join_unique:
  assumes "distinct (map k rs)" and "r \<in> set rs" and "\<And>r'. r' \<in> set rs \<Longrightarrow> k r' \<noteq> k r \<Longrightarrow> f r' = []"
  shows "concat (map f rs) = f r"
  using assms
proof (induction rs)
  case Nil
  then show ?case by simp
next
  case (Cons x rs)
  show ?case
  proof (cases "r = x")
    case True
    then have "f x' = []" if "x' \<in> set rs" for x'
      using Cons.prems(1,3) that by (metis distinct.simps(2) image_eqI list.set_intros(2) list.set_map list.simps(9))
    with True show ?thesis by simp
  next
    case False
    with Cons.prems have "k x \<noteq> k r" by auto
    with Cons False show ?thesis by auto
  qed
qed

lemma session_check_row:
  assumes "distinct (map us_num (t_users d))" and "r \<in> set (t_users d)" and "us_num r = vs_user s"
    and "filter (has_key (session_key ss)) (t_vsession d) = [s]" and "sql_ne (vs_state s) STATUS_DELETED"
  shows "session_check ss d =
    (if vs_state s \<noteq> Some SESSION_ACTIVE then Inl (UMSVishnuException ERRCODE_SESSIONKEY_EXPIRED [])
     else if us_status r \<noteq> Some STATUS_ACTIVE then Inl (UMSVishnuException ERRCODE_USER_LOCKED [])
     else if us_passwordstate r \<noteq> Some STATUS_ACTIVE then Inl (UMSVishnuException ERRCODE_TEMPORARY_PASSWORD [])
     else Inr ())"
proof -
  let ?of = "\<lambda>r'. map (\<lambda>s. (vs_state s, us_status r', us_passwordstate r'))
      (filter (\<lambda>s. us_num r' = vs_user s \<and> has_key (session_key ss) s \<and> sql_ne (vs_state s) STATUS_DELETED)
        (t_vsession d))"
  have flt: "filter (\<lambda>s'. us_num r' = vs_user s' \<and> has_key (session_key ss) s' \<and> sql_ne (vs_state s') STATUS_DELETED)
      (t_vsession d) = filter (\<lambda>s'. us_num r' = vs_user s' \<and> sql_ne (vs_state s') STATUS_DELETED) [s]" for r'
    unfolding assms(4) [symmetric] filter_filter by (rule filter_cong) auto
  then have rows: "?of r' = (if us_num r' = us_num r then [(vs_state s, us_status r', us_passwordstate r')] else [])" for r'
    unfolding flt using assms(3,5) by simp
  have "concat (map ?of (t_users d)) = ?of r"
    by (rule join_unique [OF assms(1,2)]) (simp add: rows)
  then have "concat (map ?of (t_users d)) = [(vs_state s, us_status r, us_passwordstate r)]" by (simp add: rows)
  then show ?thesis unfolding session_check_def by simp
qed

text \<open>
  C10. The check every service makes of a session key, in a consistent database: it accepts exactly the
  sessions that are active and whose user is active and has changed the given password, and names what is
  wrong otherwise, the session first, then the user, then the password.
\<close>

theorem session_check_decides:
  assumes "db_ok d" and "filter (has_key key) (t_vsession d) = [s]" and "r \<in> set (t_users d)" and "us_num r = vs_user s"
  shows "session_check (session_of_key key) d =
    (if vs_state s \<noteq> Some SESSION_ACTIVE then Inl (UMSVishnuException ERRCODE_SESSIONKEY_EXPIRED [])
     else if us_status r \<noteq> Some STATUS_ACTIVE then Inl (UMSVishnuException ERRCODE_USER_LOCKED [])
     else if us_passwordstate r \<noteq> Some STATUS_ACTIVE then Inl (UMSVishnuException ERRCODE_TEMPORARY_PASSWORD [])
     else Inr ())"
proof -
  from assms(2) have "s \<in> set (filter (has_key key) (t_vsession d))" by simp
  then have "sql_ne (vs_state s) STATUS_DELETED"
    using assms(1) by (auto simp: db_ok_def sessions_ok_def list_all_iff sql_ne_def)
  then show ?thesis
    using session_check_row [OF users_distinct(1) [OF assms(1)] assms(3,4)] assms(2)
    by (simp add: session_of_key_def)
qed

theorem session_check_decides_witness:
  "session_check (session_of_key ''k2'') example_db = Inl (UMSVishnuException ERRCODE_SESSIONKEY_EXPIRED [])"
  using session_check_decides [OF example_ok, of "''k2''" "(example_session 2 2 ''k2'')\<lparr>vs_state := Some 0\<rparr>"
      "example_users ! 1"]
  by (simp add: example_defs has_key_def)






lemma distinct_mapD: "distinct (map f xs) \<Longrightarrow> x \<in> set xs \<Longrightarrow> y \<in> set xs \<Longrightarrow> f x = f y \<Longrightarrow> x = y"
  by (simp add: distinct_map inj_on_def)

lemma users_getAttribut_unique:
  assumes "distinct (map us_userid (t_users d))" and "r \<in> set (t_users d)" and "cond r"
    and "\<And>r'. cond r' \<Longrightarrow> us_userid r' = us_userid r"
  shows "users_getAttribut cond attr d = attr r"
  unfolding users_getAttribut_def
  using assms by (intro first_element_unique) (auto dest: distinct_mapD)

lemma isAttributOk_1:
  assumes "distinct (map us_userid (t_users d))" and "r \<in> set (t_users d)" and "has_credentials u r"
    and "sql_ne (us_status r) STATUS_DELETED"
  shows "isAttributOk attr 1 u d \<longleftrightarrow> attr r = Some 1"
  unfolding isAttributOk_def
  using users_getAttribut_unique [OF assms(1,2), of "\<lambda>r. has_credentials u r \<and> sql_ne (us_status r) STATUS_DELETED" attr]
    assms(3,4) by (auto simp: has_credentials_def)

lemma CheckUserState_row:
  assumes "CheckUserState chg u d = Inr ()" and "distinct (map us_userid (t_users d))"
  obtains r where "r \<in> set (t_users d)" and "has_credentials u r" and "us_status r = Some STATUS_ACTIVE"
    and "chg \<or> us_passwordstate r = Some STATUS_ACTIVE"
proof -
  have "isAttributOk us_status 1 u d" and pw: "chg \<or> isAttributOk us_passwordstate 1 u d"
    using assms(1) by (auto simp: CheckUserState_def split: if_splits)
  from this(1) obtain r where r: "r \<in> set (t_users d)" "has_credentials u r" "us_status r = Some 1"
    by (auto simp: isAttributOk_def users_getAttribut_def dest!: first_element_Some)
  then have "sql_ne (us_status r) STATUS_DELETED" by (simp add: sql_ne_def)
  with isAttributOk_1 [OF assms(2) r(1,2)] pw r that show ?thesis by blast
qed

text \<open>
  C7. A session that was just opened is accepted: after a connection as oneself, with a key that no other
  session has, the check that every service makes of the session key succeeds.
\<close>

theorem connect_then_check:
  assumes "connectSession env u host opt ss d = (Inr ss', d')" and "co_substituteUserId opt = []"
    and "db_ok d" and "se_status (msession ss) = SESSION_ACTIVE"
    and "filter (has_key (session_key ss')) (t_vsession d) = []"
  shows "session_check ss' d' = Inr ()"
proof -
  let ?dm = "recordMachineClient host d"
  have same: "t_users ?dm = t_users d" "t_vsession ?dm = t_vsession d"
    by (simp_all add: recordMachineClient_def)
  from assms(1,2) obtain u1 key num m ss1 where auth: "isAuthenticate env False u d = Inr (True, u1)"
    and num: "users_getAttribut (has_credentials u1) numuserid d = Some num"
    and mode: "solveConnectionMode opt ss1 = Inr ss'" "se_status (msession ss1) = se_status (msession ss)"
    and d': "recordSessionServer env (msession ss') (Some m) (Some num) ?dm = (Inr (), d')"
    by (auto simp: connectSession_def connect_user_def op_bind_def op_simps recordSessionServer_def Let_def
        split: sum.splits prod.splits if_splits option.splits)
  have "CheckUserState False u1 d = Inr ()"
    using auth by (auto simp: isAuthenticate_def res_simps split: if_splits)
  from CheckUserState_row [OF this users_distinct(2) [OF assms(3)]] obtain r where
    r: "r \<in> set (t_users d)" "has_credentials u1 r" "us_status r = Some 1" "us_passwordstate r = Some 1" by auto
  have "num = us_num r"
    using users_getAttribut_unique [OF users_distinct(2) [OF assms(3)] r(1), of "has_credentials u1" numuserid] r(2) num
    by (simp add: has_credentials_def)
  moreover have "se_status (msession ss') = SESSION_ACTIVE"
    using mode assms(4) by (auto simp: solveConnectionMode_def Let_def split: if_splits)
  ultimately obtain s where s: "t_vsession d' = t_vsession d @ [s]" "vs_user s = us_num r"
      "vs_key s = Some (session_key ss')" "vs_state s = Some 1" and us: "t_users d' = t_users d"
    using d' same by (auto simp: recordSessionServer_def op_bind_def op_simps)
  have "filter (has_key (session_key ss')) (t_vsession d') = [s]"
    using s(1,3) assms(5) by (simp add: has_key_def)
  from session_check_row [OF _ _ _ this, of r] show ?thesis
    using users_distinct(1) [OF assms(3)] r s by (simp add: us sql_ne_def)
qed

definition example_connect :: "session_server result \<times> db" where
  "example_connect = connectSession example_env (empty_user\<lparr>u_userId := ''bob'', u_password := ''b''\<rparr>)
     \<lparr>mmachineSSHKey = ''ssh'', mhostname = ''host''\<rparr>
     \<lparr>co_closePolicy = 1, co_inactivityDelay = 60, co_substituteUserId = []\<rparr> (session_of_key []) example_db"

definition example_connected :: session_server where
  "example_connected = \<lparr>msession = \<lparr>se_sessionId = ''bob-day-clock:8'', se_userId = ''bob'', se_sessionKey = ''now.7'',
     se_status = 1, se_closePolicy = 1, se_timeout = 60, se_authenId = ''bob''\<rparr>, mtimeout = 3600\<rparr>"

lemma example_connect_done: "fst example_connect = Inr example_connected"
  by code_simp

theorem connect_then_check_witness: "session_check example_connected (snd example_connect) = Inr ()"
  by (rule connect_then_check [OF _ _ example_ok, of example_env "empty_user\<lparr>u_userId := ''bob'', u_password := ''b''\<rparr>"
        "\<lparr>mmachineSSHKey = ''ssh'', mhostname = ''host''\<rparr>"
        "\<lparr>co_closePolicy = 1, co_inactivityDelay = 60, co_substituteUserId = []\<rparr>" "session_of_key []"])
    (simp add: example_connect_done [unfolded example_connect_def] example_connect_def prod_eq_iff,
     simp_all add: session_of_key_def session0_def example_defs has_key_def example_connected_def)

section \<open>Passwords\<close>

lemma sql_update_sets: "r \<in> set rs \<Longrightarrow> (if c r then f r else r) \<in> set (sql_update c f rs)"
  by (auto simp: sql_update_def)

text \<open>
  C9. The new password works: after a password change that succeeded, the same user is authenticated with
  the new password, also where a temporary password would be refused, since the change marks
  the password as the user's own.
\<close>

theorem changed_password_works:
  assumes "ev_auth env = ums_authenticate (ev_crypt env)" and "db_ok d"
    and "changePassword env u newPassword d = (Inr u', d')"
  shows "\<exists>p. isAuthenticate env False (u\<lparr>u_password := newPassword\<rparr>) d' = Inr (True, u\<lparr>u_password := p\<rparr>)"
proof -
  from assms(1,3) obtain p0 p where auth: "isAuthenticate env True u d = Inr (True, u\<lparr>u_password := p0\<rparr>)"
    and p: "cryptPassword (ev_crypt env) (u_userId u) newPassword True = Inr p"
    and d': "d' = set_password (u\<lparr>u_password := p0\<rparr>) p d"
    by (auto simp: changePassword_def op_bind_def op_simps isAuthenticate_def ums_authenticate_def res_simps Let_def
        split: sum.splits prod.splits if_splits)
  let ?u = "u\<lparr>u_password := p0\<rparr>"
  have "CheckUserState True ?u d = Inr ()"
    using auth by (auto simp: isAuthenticate_def res_simps split: if_splits)
  from CheckUserState_row [OF this users_distinct(2) [OF assms(2)]] obtain r where
    r: "r \<in> set (t_users d)" "has_credentials ?u r" "us_status r = Some 1" by auto
  let ?r = "r\<lparr>us_pwd := p, us_passwordstate := Some STATUS_ACTIVE\<rparr>"
  have mem: "?r \<in> set (t_users d')"
    using sql_update_sets [OF sql_update_sets [OF r(1),
          where c = "\<lambda>r. has_credentials ?u r \<and> sql_ne (us_status r) STATUS_DELETED" and f = "\<lambda>r. r\<lparr>us_pwd := p\<rparr>"],
        where c = "\<lambda>r. us_userid r = u_userId ?u \<and> us_pwd r = p \<and> sql_ne (us_status r) STATUS_DELETED"
          and f = "\<lambda>r. r\<lparr>us_passwordstate := Some STATUS_ACTIVE\<rparr>"] r(2,3)
    by (simp add: d' set_password_def has_credentials_def sql_ne_def)
  have "map us_userid (t_users d') = map us_userid (t_users d)"
    by (simp add: d' set_password_def map_sql_update)
  then have dist: "distinct (map us_userid (t_users d'))"
    using users_distinct(2) [OF assms(2)] by simp
  let ?v = "u\<lparr>u_password := p\<rparr>"
  have cred: "has_credentials ?v ?r" using r(2) by (simp add: has_credentials_def)
  have live: "sql_ne (us_status ?r) STATUS_DELETED" using r(3) by (simp add: sql_ne_def)
  have "isAttributOk us_status 1 ?v d'"
    using isAttributOk_1 [OF dist mem cred live, of us_status] r(3) by simp
  moreover have "isAttributOk us_passwordstate 1 ?v d'"
    using isAttributOk_1 [OF dist mem cred live, of us_passwordstate] by simp
  moreover have "users_getAttribut (\<lambda>r. has_credentials ?v r \<and> sql_ne (us_status r) STATUS_DELETED) numuserid d'
      = numuserid ?r"
    by (rule users_getAttribut_unique [OF dist mem]) (use cred live in \<open>auto simp: has_credentials_def\<close>)
  ultimately show ?thesis
    by (intro exI [of _ p]) (simp add: isAuthenticate_def assms(1) ums_authenticate_def p CheckUserState_def Let_def)
qed

lemma example_change_done:
  "fst (changePassword example_env (empty_user\<lparr>u_userId := ''bob'', u_password := ''b''\<rparr>) ''new'' example_db) =
     Inr (empty_user\<lparr>u_userId := ''bob'', u_password := ''new''\<rparr>)"
  by code_simp

theorem changed_password_works_witness:
  "\<exists>p. isAuthenticate example_env False (empty_user\<lparr>u_userId := ''bob'', u_password := ''new''\<rparr>)
     (snd (changePassword example_env (empty_user\<lparr>u_userId := ''bob'', u_password := ''b''\<rparr>) ''new'' example_db)) =
     Inr (True, empty_user\<lparr>u_userId := ''bob'', u_password := p\<rparr>)"
  using changed_password_works [OF _ example_ok, of example_env
      "empty_user\<lparr>u_userId := ''bob'', u_password := ''b''\<rparr>" "''new''"] example_change_done
  by (simp add: example_env_def prod_eq_iff)

section \<open>Accounts\<close>

lemma concat_map_sql_update:
  "(\<And>r. F (f r) = F r) \<Longrightarrow> concat (map F (sql_update c f rs)) = concat (map F rs)"
  by (simp add: map_sql_update)

text \<open>
  Deleting an authentication account does not take away the login it gave: the query of the LDAP
  authenticator does not look at the status of the account, so that every authentication goes as before.
\<close>

theorem deleted_authaccount_authenticates:
  assumes "authaccount_delete key aa d = (Inr x, d')"
  shows "ldap_authenticate connect u d' = ldap_authenticate connect u d"
proof -
  from assms obtain y n where d': "d' = d\<lparr>t_authaccount := sql_update (authaccount_of y n)
      (\<lambda>a. a\<lparr>au_status := Some STATUS_DELETED\<rparr>) (t_authaccount d)\<rparr>"
    by (auto simp: authaccount_delete_def op_bind_def op_simps split: sum.splits prod.splits if_splits option.splits)
  have "ldap_accounts login d' = ldap_accounts login d" for login
    unfolding ldap_accounts_def d' by (simp add: concat_map_sql_update)
  then show ?thesis by (simp add: ldap_authenticate_def)
qed

definition example_ldap_db :: db where
  "example_ldap_db = example_db\<lparr>
     t_authsystem := [\<lparr>ay_num = 1, ay_authsystemid = Some ''as1'', ay_name = None, ay_uri = Some ''ldap'',
        ay_authlogin = None, ay_authpassword = None, ay_userpwdencryption = Some 0, ay_authtype = Some 0,
        ay_status = Some 1\<rparr>],
     t_ldapauthsystem := [\<lparr>ld_authsystem = 1, ld_ldapbase = Some ''base''\<rparr>],
     t_authaccount := [\<lparr>au_num = 1, au_authsystem = 1, au_user = 2, au_login = Some ''bl'', au_status = Some 1\<rparr>]\<rparr>"

definition example_authaccount :: auth_account where
  "example_authaccount = \<lparr>aa_authSystemId = ''as1'', aa_userId = ''bob'', aa_acLogin = []\<rparr>"

lemma example_authaccount_done:
  "fst (authaccount_delete ''k1'' example_authaccount example_ldap_db) = Inr ()"
  "ldap_authenticate (\<lambda>_ _ _ _. Inr ()) (empty_user\<lparr>u_userId := ''bl''\<rparr>) example_ldap_db =
     Inr (True, empty_user\<lparr>u_userId := ''bob'', u_password := ''b.''\<rparr>)"
  by code_simp+

theorem deleted_authaccount_authenticates_witness:
  "ldap_authenticate (\<lambda>_ _ _ _. Inr ()) (empty_user\<lparr>u_userId := ''bl''\<rparr>)
     (snd (authaccount_delete ''k1'' example_authaccount example_ldap_db)) =
   Inr (True, empty_user\<lparr>u_userId := ''bob'', u_password := ''b.''\<rparr>)"
  using deleted_authaccount_authenticates [of "''k1''" example_authaccount example_ldap_db "()"] example_authaccount_done
  by (simp add: prod_eq_iff)

text \<open>The logins of the active accounts of a machine, which should be one user's each.\<close>

definition login_rows :: "db \<Rightarrow> (int \<times> string option) list" where
  "login_rows d = map (\<lambda>a. (ac_machine a, ac_login a))
     (filter (\<lambda>a. ac_status a = Some STATUS_ACTIVE \<and> ac_login a \<noteq> Some []) (t_account d))"

text \<open>
  Adding an account keeps the logins of the active accounts of a machine distinct, whatever the caller
  asks for: a login in use is refused.
\<close>

theorem account_add_logins:
  assumes "distinct (login_rows d)"
  shows "distinct (login_rows (snd (account_add key la d)))"
proof (cases "snd (account_add key la d) = d")
  case True
  then show ?thesis using assms by simp
next
  case False
  then obtain m n where used: "\<not> isLoginUsed (Some m) (la_acLogin la) d"
    and d': "t_account (snd (account_add key la d)) = t_account d @
      [\<lparr>ac_num = q_account d, ac_machine = m, ac_user = n, ac_login = Some (la_acLogin la),
        ac_home = Some (la_homeDirectory la), ac_status = Some STATUS_ACTIVE\<rparr>]"
    by (auto simp: account_add_def op_bind_def op_simps split: sum.splits option.splits if_splits)
  have "(m, Some (la_acLogin la)) \<notin> set (login_rows d)" if "la_acLogin la \<noteq> []"
    using used that
    by (auto simp: isLoginUsed_def account_getAttribut_def first_element_key login_rows_def list_ex_iff)
  then show ?thesis using assms by (auto simp: login_rows_def d')
qed

definition example_accounts :: db where
  "example_accounts = example_db\<lparr>t_account :=
    [\<lparr>ac_num = 1, ac_machine = 1, ac_user = 1, ac_login = Some ''root'', ac_home = None, ac_status = Some 1\<rparr>,
     \<lparr>ac_num = 2, ac_machine = 1, ac_user = 2, ac_login = Some ''bob'', ac_home = None, ac_status = Some 1\<rparr>],
    q_account := 3\<rparr>"

theorem account_add_logins_witness:
  "distinct (login_rows (snd (account_add ''k3''
     (empty_account\<lparr>la_userId := ''bob'', la_machineId := ''m1'', la_acLogin := ''root''\<rparr>) example_accounts)))"
  by (rule account_add_logins) (simp add: login_rows_def example_accounts_def)

text \<open>
  An update of an account does not make that check: when it gives the login that another user has on
  the machine, it succeeds like any other and two users share the login.
\<close>

theorem account_update_shares_login:
  assumes "account_update key la d = (Inr x, d')" and "la_acLogin la \<noteq> []"
    and "machine_getAttribut (has_machineid (la_machineId la)) nummachineid d = Some m"
    and "users_getAttribut (\<lambda>r. us_userid r = la_userId la) numuserid d = Some n"
    and "a \<in> set (t_account d)" and "account_of m n a" and "ac_status a = Some STATUS_ACTIVE"
    and "b \<in> set (t_account d)" and "ac_machine b = m" and "ac_user b \<noteq> n"
    and "ac_login b = Some (la_acLogin la)" and "ac_status b = Some STATUS_ACTIVE"
  shows "\<not> distinct (login_rows d')"
proof
  have d': "t_account d' = sql_update (account_of m n) (account_fields la) (t_account d)"
    using assms(1-4) by (auto simp: account_update_def op_bind_def op_simps split: sum.splits if_splits)
  let ?live = "filter (\<lambda>a. ac_status a = Some STATUS_ACTIVE \<and> ac_login a \<noteq> Some []) (t_account d')"
  have "account_fields la a \<in> set ?live"
    using assms(2,6,7) sql_update_sets [OF assms(5), where c = "account_of m n" and f = "account_fields la"]
    by (simp add: d' account_fields_def)
  moreover have "b \<in> set ?live"
    using assms(2,10-12) sql_update_sets [OF assms(8), where c = "account_of m n" and f = "account_fields la"]
    by (simp add: d' account_of_def)
  moreover have "(ac_machine (account_fields la a), ac_login (account_fields la a)) = (ac_machine b, ac_login b)"
    using assms(2,6,9,11) by (simp add: account_fields_def account_of_def)
  moreover assume "distinct (login_rows d')"
  ultimately have "account_fields la a = b"
    unfolding login_rows_def by (intro distinct_mapD [of _ ?live])
  with assms(6,10) show False by (auto simp: account_fields_def account_of_def)
qed

definition example_relogin :: local_account where
  "example_relogin = empty_account\<lparr>la_userId := ''bob'', la_machineId := ''m1'', la_acLogin := ''root''\<rparr>"

lemma example_update_done: "fst (account_update ''k3'' example_relogin example_accounts) = Inr ()"
  by code_simp

theorem account_update_shares_login_witness:
  "\<not> distinct (login_rows (snd (account_update ''k3'' example_relogin example_accounts)))"
  by (rule account_update_shares_login [of "''k3''" example_relogin example_accounts "()" _ 1 2
        "t_account example_accounts ! 1" "t_account example_accounts ! 0"])
    (simp add: prod_eq_iff example_update_done,
     simp_all add: example_accounts_def example_defs machine_getAttribut_def users_getAttribut_def
       first_element_def has_machineid_def account_of_def empty_account_def example_relogin_def)

section \<open>The monitor\<close>

lemma session_close_other:
  "session_close env (session_of_key key) d = (r, d') \<Longrightarrow> i < length (t_vsession d) \<Longrightarrow>
     vs_key (t_vsession d ! i) \<noteq> Some key \<Longrightarrow>
     length (t_vsession d') = length (t_vsession d) \<and> t_vsession d' ! i = t_vsession d ! i"
  by (auto simp: session_close_def session_of_key_def session0_def op_bind_def op_simps session_closed_def
      disconnetToTimeout_def sql_update_def has_key_def split: sum.splits prod.splits if_splits)

lemma monitor_close_other:
  "monitor_close env keys d = (r, d') \<Longrightarrow> i < length (t_vsession d) \<Longrightarrow>
     vs_key (t_vsession d ! i) \<notin> Some ` set keys \<Longrightarrow> t_vsession d' ! i = t_vsession d ! i"
proof (induction keys arbitrary: d)
  case Nil
  then show ?case by (simp add: op_simps)
next
  case (Cons key keys)
  obtain r1 d1 where c: "session_close env (session_of_key key) d = (r1, d1)" by fastforce
  have same: "length (t_vsession d1) = length (t_vsession d)" "t_vsession d1 ! i = t_vsession d ! i"
    using session_close_other [OF c Cons.prems(2)] Cons.prems(3) by auto
  have "monitor_close env keys d1 = (r, d') \<or> d' = d1"
    using Cons.prems(1) by (auto simp: c op_simps split: sum.splits option.splits if_splits)
  then show ?case
    using Cons.IH [of d1] same Cons.prems(2,3) by auto
qed

text \<open>
  C34. The monitor closes no session before its time: where the keys of the sessions are distinct, a session
  that a round changes had, when the round began, been without a request for more than its timeout.
\<close>

theorem monitor_waits_for_timeout:
  assumes "monitor_checkSession env d = (r, d')" and "distinct (map vs_key (t_vsession d))"
    and "None \<notin> set (map vs_key (t_vsession d))"
    and "i < length (t_vsession d)" and "t_vsession d' ! i \<noteq> t_vsession d ! i"
  shows "\<exists>t timeout. vs_lastconnect (t_vsession d ! i) = Some t \<and> vs_timeout (t_vsession d ! i) = Some timeout \<and>
    t + timeout < ev_now env \<and> vs_closepolicy (t_vsession d ! i) = Some CLOSE_ON_TIMEOUT"
proof -
  let ?s = "t_vsession d ! i"
  have "vs_key ?s \<in> Some ` set (getSessionToclosebyTimeout env d)"
    using monitor_close_other [OF assms(1) [unfolded monitor_checkSession_def] assms(4)] assms(5) by blast
  then obtain s where s: "s \<in> set (t_vsession d)" "idle (ev_now env) s" "vs_key ?s = Some (text_of (vs_key s))"
    by (auto simp: getSessionToclosebyTimeout_def)
  moreover have "vs_key s \<noteq> None" using assms(3) s(1) by force
  ultimately have "vs_key s = vs_key ?s" by (auto simp: text_of_def)
  then have "s = ?s" using distinct_mapD [OF assms(2) s(1), of ?s] assms(4) by simp
  with s(2) show ?thesis by (auto simp: idle_def split: option.splits)
qed

lemma example_round: "vs_state (t_vsession (snd (monitor_checkSession example_env example_db)) ! 0) = Some 0"
  by code_simp

theorem monitor_waits_for_timeout_witness:
  "\<exists>t timeout. vs_lastconnect (t_vsession example_db ! 0) = Some t \<and>
     vs_timeout (t_vsession example_db ! 0) = Some timeout \<and> t + timeout < ev_now example_env \<and>
     vs_closepolicy (t_vsession example_db ! 0) = Some CLOSE_ON_TIMEOUT"
proof -
  have "t_vsession (snd (monitor_checkSession example_env example_db)) ! 0 \<noteq> t_vsession example_db ! 0"
    using example_round by (auto simp: example_defs dest: arg_cong [where f = vs_state])
  from monitor_waits_for_timeout [OF prod.collapse [symmetric] _ _ _ this] show ?thesis
    by (simp add: example_db_def example_session_def)
qed

end
