(* ===== verification/Fms_Properties.thy ===== *)
theory Fms_Properties
  imports Fms_System Tms_Properties Ums_Properties
begin

text \<open>
  The properties of the file management server, over the lemmas of theory Fms_System, with the concrete
  server they are tried on.
\<close>

section \<open>A concrete server\<close>

text \<open>
  The machine of the example answers every command with the marker and what \<open>answer\<close> says of it.
\<close>

definition answering :: "(string \<Rightarrow> string) \<Rightarrow> fms_env" where
  "answering answer = \<lparr>fe_run = (\<lambda>_ cmd. Some (''beginVishnuCommand'' @ [CHR 0x0A] @ answer cmd)), fe_alive = (\<lambda>_. False),
     fe_kill = (\<lambda>_. None), fe_junk = 7, fe_now = 300,
     fe_date = \<lparr>d_year = ''2014'', d_month = ''Feb'', d_day = ''3''\<rparr>\<rparr>"

definition example_stat :: string where
  "example_stat = ''ann users 644 500 500 12 1 2 3 regular file'' @ [CHR 0x0A] @ ''@ 0''"

definition example_answer :: "string \<Rightarrow> string" where
  "example_answer cmd = (if contains_str cmd ''stat'' then example_stat else ''no such file'')"

definition example_transfer :: transfer_row where
  "example_transfer = (blank_transfer 1 1)\<lparr>tr_transferid := Some ''TR_1'', tr_userId := Some ''ann'', tr_status := Some 0,
     tr_processid := Some (- 1), tr_errorMsg := Some []\<rparr>"

definition example_fms :: fms where
  "example_fms = \<lparr>fm_ums = example_ums, t_transfer = [example_transfer], q_transfer = 2, fm_log = [], fm_threads = []\<rparr>"

lemma example_transfers_ok: "transfers_ok example_fms"
  unfolding transfers_ok_def table_ok_def by code_simp

section \<open>Transfers\<close>

text \<open>
  C16. Whatever the services of the file management server, the user management services, the threads of
  asynchronous transfers and the rounds of the monitor do, the keys and identifiers of the transfers stay
  distinct and no transfer is deleted or renamed: the old rows stay in front of the new ones. (The bound is that of
  the keys, which the code reads as 32-bit numbers.)
\<close>

theorem transfers_consistent:
  assumes "transfers_ok s" and "fms_steps s s'" and "q_transfer s' \<le> 1000000000"
  shows "table_ok (transfer_ids s') \<and> (\<exists>new. rows (transfer_ids s') = rows (transfer_ids s) @ new)"
  using transfers_kept_start [OF assms] by (simp add: transfers_ok_def)

definition example_rounds :: fms where
  "example_rounds = checkFile (answering example_answer) example_fms"

lemma example_rounds_reached: "fms_steps example_fms example_rounds"
  unfolding example_rounds_def by (rule r_into_rtranclp) (rule fms_step.monitor)

theorem transfers_consistent_witness:
  "table_ok (transfer_ids example_rounds) \<and> (\<exists>new. rows (transfer_ids example_rounds) = rows (transfer_ids example_fms) @ new)"
  by (rule transfers_consistent [OF example_transfers_ok example_rounds_reached]) code_simp

text \<open>The number of a process, as the server reads it from a row.\<close>

lemma stop_one_none:
  "tr_processid r = None \<or> tr_processid r = Some (- 1) \<Longrightarrow>
   stop_one env key i (int_of (tr_processid r)) = op_ret ()"
proof -
  have "int_of None = - 1" "int_of (Some (- 1)) = - 1" by code_simp+
  then show "tr_processid r = None \<or> tr_processid r = Some (- 1) \<Longrightarrow>
    stop_one env key i (int_of (tr_processid r)) = op_ret ()"
    by (auto simp: stop_one_def)
qed

lemma stop_loop_none:
  "\<forall>r \<in> set rs. tr_processid r = None \<or> tr_processid r = Some (- 1) \<Longrightarrow> stop_loop env key rs s = (Inr (), s)"
  by (induction rs) (simp_all add: stop_one_none op_simps op_bind_def)

text \<open>
  C20. No transfer is ever stopped: nothing writes the number of a process into a row, so after any history a
  request to stop transfers that is accepted, whoever makes it and whatever it selects, kills no process and
  changes nothing.
\<close>

theorem stop_never_stops:
  assumes "transfers_ok s0" and "fms_steps s0 s" and "q_transfer s \<le> 1000000000"
    and "stopThread F key options s = (r, s')"
  shows "s' = s"
proof -
  have ok: "\<forall>r \<in> set (filter P (t_transfer s)). tr_processid r = None \<or> tr_processid r = Some (- 1)" for P
    using transfers_kept_start [OF assms(1-3)] by (auto simp: transfers_ok_def)
  then show ?thesis
    using assms(4) unfolding stopThread_def
    by (auto simp: op_bind_def op_simps stop_loop_none split: if_splits sum.splits prod.splits)
qed

definition example_stop :: transfer_options where
  "example_stop = \<lparr>to_transferId = ''TR_1'', to_fromMachineId = [], to_userId = [], to_status = -1\<rparr>"

theorem stop_never_stops_witness:
  "stopThread (answering example_answer) ''k1'' example_stop example_fms = (Inr (), example_fms)"
proof -
  obtain r s' where run: "stopThread (answering example_answer) ''k1'' example_stop example_fms = (r, s')"
    by (cases "stopThread (answering example_answer) ''k1'' example_stop example_fms")
  have "s' = example_fms"
    by (rule stop_never_stops [OF example_transfers_ok rtranclp.rtrancl_refl _ run]) (simp add: example_fms_def)
  moreover have "fst (stopThread (answering example_answer) ''k1'' example_stop example_fms) = Inr ()" by code_simp
  ultimately show ?thesis using run by simp
qed

text \<open>What a round of the monitor writes.\<close>

definition lost_row :: "fms_env \<Rightarrow> transfer_row list \<Rightarrow> transfer_row \<Rightarrow> transfer_row" where
  "lost_row env rs q =
     (if list_ex (\<lambda>r. \<not> fe_alive env (num_text (tr_processid r)) \<and> has_transferid (text_of (tr_transferid r)) q) rs
      then q\<lparr>tr_status := Some TRANSFER_FAILED\<rparr> else q)"

lemma fold_lost: "fold (transfer_lost env) rs s = s\<lparr>t_transfer := map (lost_row env rs) (t_transfer s)\<rparr>"
proof (induction rs arbitrary: s)
  case Nil
  then show ?case by (simp add: lost_row_def [abs_def])
next
  case (Cons r rs)
  have one: "lost_row env rs (if has_transferid i q then q\<lparr>tr_status := Some TRANSFER_FAILED\<rparr> else q) =
      lost_row env (r # rs) q" if "\<not> fe_alive env (num_text (tr_processid r))" "i = text_of (tr_transferid r)" for i q
    using that by (auto simp: lost_row_def has_transferid_def list_ex_iff)
  have other: "lost_row env rs q = lost_row env (r # rs) q" if "fe_alive env (num_text (tr_processid r))" for q
    using that by (simp add: lost_row_def)
  have rows: "map (lost_row env rs) (t_transfer (transfer_lost env r s)) = map (lost_row env (r # rs)) (t_transfer s)"
    by (simp add: transfer_lost_def set_transfers_def sql_update_def one other)
  have "fold (transfer_lost env) (r # rs) s =
      (transfer_lost env r s)\<lparr>t_transfer := map (lost_row env rs) (t_transfer (transfer_lost env r s))\<rparr>"
    by (simp add: Cons)
  also have "\<dots> = s\<lparr>t_transfer := map (lost_row env (r # rs)) (t_transfer s)\<rparr>"
    unfolding rows by (simp add: transfer_lost_def set_transfers_def)
  finally show ?case .
qed

text \<open>
  C21. A round of the monitor marks every transfer in progress as failed, though it may be running: the number of
  the process it looks for is always \<^verbatim>\<open>-1\<close>, which no process has.
\<close>

theorem monitor_fails_running:
  assumes "transfers_ok s" and "r \<in> set (t_transfer s)" and "in_progress s r" and "tr_transferid r = Some i"
    and "tr_processid r \<noteq> None" and "\<not> fe_alive F ''-1''"
  shows "r\<lparr>tr_status := Some TRANSFER_FAILED\<rparr> \<in> set (t_transfer (checkFile F s))"
proof -
  have "tr_processid r = Some (- 1)" using assms(1,2,5) by (auto simp: transfers_ok_def)
  moreover have "num_text (Some (- 1)) = ''-1''" by code_simp
  ultimately have "lost_row F (filter (in_progress s) (t_transfer s)) r = r\<lparr>tr_status := Some TRANSFER_FAILED\<rparr>"
    using assms by (auto simp: lost_row_def list_ex_iff has_transferid_def text_of_def)
  with assms(2) show ?thesis by (force simp: checkFile_def fold_lost)
qed

theorem monitor_fails_running_witness:
  "example_transfer\<lparr>tr_status := Some 3\<rparr> \<in> set (t_transfer (checkFile (answering example_answer) example_fms))"
  by (rule monitor_fails_running [OF example_transfers_ok, of example_transfer "''TR_1''"])
    (simp_all add: example_fms_def example_transfer_def in_progress_def example_ums_def example_vsession_def
      blank_transfer_def answering_def)

text \<open>
  C22. The report of a client on a transfer is believed: with any key that is in the table of the sessions, be the
  session closed and the transfer somebody else's, it overwrites the row of the transfer it names, the user and the
  session included.
\<close>

theorem client_update_unchecked:
  assumes "params pb = [key, text]" and "parse_transfer S text = Some ft" and "v \<in> set (t_vsession (fm_ums s))"
    and "vs_key v = Some key" and "r \<in> set (t_transfer s)" and "tr_transferid r = Some (ft_transferId ft)"
  shows "\<exists>n s'. solveUpdateClientSideTransfer F S pb s = Some (Inr (reply pb ''success'' []), s') \<and>
    transfer_columns n (fe_now F) ft r \<in> set (t_transfer s')"
proof -
  obtain v0 vs where "filter (has_key key) (t_vsession (fm_ums s)) = v0 # vs"
    using assms(3,4) by (cases "filter (has_key key) (t_vsession (fm_ums s))")
      (auto simp: filter_empty_conv has_key_def)
  then have n: "vsession_getAttribut (has_key key) numsessionid (fm_ums s) = Some (vs_num v0)"
    by (simp add: vsession_getAttribut_def first_element_def)
  have args: "res_map (\<lambda>i. diet_string_get pb (int i)) [0..<2] = Inr [key, text]"
    by (simp add: upt_rec assms(1) diet_string_get_def)
  have "transfer_columns (vs_num v0) (fe_now F) ft r \<in>
      set (t_transfer (set_transfers (has_transferid (ft_transferId ft)) (transfer_columns (vs_num v0) (fe_now F) ft) s))"
    using assms(5,6) by (force simp: set_transfers_def sql_update_def has_transferid_def)
  then show ?thesis
    by (auto simp: solveUpdateClientSideTransfer_def fms_args_def late_bind_def late_def op_simps args op_bind_def
        parse_or_def assms(2) updateDatabaseRecord_def n sql_num_def)
qed

definition example_report :: file_transfer where
  "example_report = (new_transfer ''h1'' ''h2'' ''/a'' ''/b'')\<lparr>ft_transferId := ''TR_1'', ft_status := 1\<rparr>"

definition example_serializers :: fms_serializers where
  "example_serializers = \<lparr>ser_stat = sf_owner, ser_entries = (\<lambda>es. concat (map en_path es)), ser_transfer = ft_transferId,
     ser_deleted = (\<lambda>_. []), parse_transfer = (\<lambda>_. Some example_report)\<rparr>"

definition example_request :: "string list \<Rightarrow> diet_profile" where
  "example_request args = \<lparr>p_name = ''service'', param_count = int (length args), params = args\<rparr>"

theorem client_update_unchecked_witness:
  "\<exists>n s'. solveUpdateClientSideTransfer (answering example_answer) example_serializers (example_request [''k2'', ''x'']) example_fms =
      Some (Inr (reply (example_request [''k2'', ''x'']) ''success'' []), s') \<and>
    transfer_columns n 300 example_report example_transfer \<in> set (t_transfer s')"
  using client_update_unchecked [of "example_request [''k2'', ''x'']" "''k2''" "''x''" example_serializers
      example_report "example_vsession 2 ''k2''" example_fms example_transfer "answering example_answer"]
  by (simp add: example_request_def example_serializers_def example_fms_def example_ums_def example_vsession_def
      example_transfer_def example_report_def answering_def)

section \<open>Whose commands\<close>













section \<open>What a remote command says\<close>

text \<open>A remote command that was run gives what it printed after the marker and the character that follows, never an error.\<close>

lemma ssh_exec_answer:
  assumes "fe_run env cmds (ssh_command f cmd) = Some (''beginVishnuCommand'' @ c # out)"
  shows "ssh_exec env f cmd cmds = (Inr (out, []), cmds @ [ssh_command f cmd])"
proof -
  have "find_str (''beginVishnuCommand'' @ c # out) ''beginVishnuCommand'' = Some 0"
    by (simp add: find_str_def starts_with_def)
  with assms show ?thesis
    by (simp add: ssh_exec_def execSystemCommand_def op_bind_def op_simps)
qed

text \<open>
  Removing a file or a directory succeeds whatever the remote command prints, its error messages included: the
  object says the file is gone, though nothing may have been removed.
\<close>

theorem removal_unnoticed:
  assumes "sf_upToDate f" and "sf_exist f"
    and "cmd = (if rec then ''rm -rf '' else ''rm -f '') @ sf_path f"
    and "fe_run env cmds (ssh_command f cmd) = Some (''beginVishnuCommand'' @ c # out)"
    and "fe_run env cmds (ssh_command f (''rmdir '' @ sf_path f)) = Some (''beginVishnuCommand'' @ c' # out')"
  shows "rm env rec f cmds = (Inr (f\<lparr>sf_exist := False, sf_upToDate := False\<rparr>), cmds @ [ssh_command f cmd]) \<and>
    rmdir env f cmds = (Inr (f\<lparr>sf_exist := False, sf_upToDate := False\<rparr>), cmds @ [ssh_command f (''rmdir '' @ sf_path f)])"
  using ssh_exec_answer [OF assms(4)] ssh_exec_answer [OF assms(5)] assms(1-3)
  by (simp add: rm_def rmdir_def remove_with_def if_exists_def up_to_date_def op_bind_def op_simps)

definition example_file :: ssh_file where
  "example_file = (getFileServer ''host'' ''/tmp/d'' ''ann'')\<lparr>sf_upToDate := True, sf_exist := True\<rparr>"

definition refusing :: fms_env where
  "refusing = answering (\<lambda>_. ''rmdir: Directory not empty'')"

theorem removal_unnoticed_witness:
  "fst (rmdir refusing example_file []) = Inr (example_file\<lparr>sf_exist := False, sf_upToDate := False\<rparr>)"
  using removal_unnoticed [of example_file _ True refusing "[]" "CHR 0x0A" "''rmdir: Directory not empty''"
      "CHR 0x0A" "''rmdir: Directory not empty''", OF _ _ refl]
  by (simp add: example_file_def refusing_def answering_def getFileServer_def)





section \<open>Threads\<close>

definition copy_line :: "transfer_exec \<Rightarrow> string" where
  "copy_line te = ''/usr/bin/ssh -l '' @ te_srcUser te @ '' -C -o BatchMode=yes  -o StrictHostKeyChecking=no'' @
     '' -o ForwardAgent=yes -p 22 '' @ te_srcMachineName te @ '' '' @ copy_command te"

lemma transfer_run_answer:
  "fe_run F cmds (copy_line te) = Some out \<Longrightarrow>
   transfer_run F te (copy_command te) cmds = (Inr (out, []), cmds @ [copy_line te])"
  by (simp add: transfer_run_def copy_line_def execSystemCommand_def op_bind_def op_simps)

lemma thread_copy_answer:
  assumes "fe_run F (fm_log s) (copy_line te) = Some out" and "\<not> contains_str out ''Warning''"
  shows "thread_copy F te s =
    updateStatus (if cleanOutputMsg out \<noteq> [] then TRANSFER_FAILED else TRANSFER_COMPLETED) (te_transferId te)
      (cleanOutputMsg out) (s\<lparr>fm_log := fm_log s @ [copy_line te]\<rparr>)"
  using assms by (simp add: thread_copy_def on_shell_def transfer_run_answer [OF assms(1)] op_bind_def op_simps
      Let_def contains_str_def find_str_def)

text \<open>
  C19. A move whose copy failed removes its source all the same: the status that \<^verbatim>\<open>move\<close> looks at is never set, so
  after a copy that printed an error, which is what marks the transfer as failed, the source is removed with
  \<^verbatim>\<open>rm -rf\<close>.
\<close>

theorem failed_move_removes_source:
  assumes "te_type te = Move"
    and "fe_run F (fm_log s) (copy_line te) = Some out" and "\<not> contains_str out ''Warning''" and "cleanOutputMsg out \<noteq> []"
    and "up_to_date F (getFileServer (te_srcMachineName te) (te_srcPath te) (te_srcUser te)) (fm_log s @ [copy_line te]) =
      (Inr g, cmds)" and "sf_exist g"
    and "fe_run F cmds (ssh_command g (''rm -rf '' @ sf_path g)) = Some (''beginVishnuCommand'' @ c # answer)"
  shows "\<exists>s'. run_thread F te s = (Inr (), s') \<and> last (fm_log s') = ssh_command g (''rm -rf '' @ sf_path g) \<and>
    t_transfer s' = sql_update (\<lambda>r. has_transferid (te_transferId te) r \<and> sql_ne (tr_status r) TRANSFER_CANCELLED)
      (\<lambda>r. r\<lparr>tr_status := Some TRANSFER_FAILED, tr_errorMsg := Some (cleanOutputMsg out)\<rparr>) (t_transfer s)"
  using assms(4-6) ssh_exec_answer [OF assms(7)]
  by (simp add: run_thread_def assms(1) thread_move_def lastExecStatus_def thread_copy_answer [OF assms(2,3)]
      updateStatus_def op_bind_def op_simps on_shell_def rm_def remove_with_def if_exists_def set_transfers_def)

definition example_exec :: transfer_exec where
  "example_exec = \<lparr>te_type = Move, te_command = ''scp'', te_srcUser = ''ann'', te_srcMachineName = ''host'',
     te_srcPath = ''/tmp/f'', te_destUser = ''ann'', te_destMachineName = ''other'', te_destPath = ''/tmp/f'',
     te_transferId = ''TR_1''\<rparr>"

text \<open>The disk of the destination is full.\<close>

definition full_disk :: fms_env where
  "full_disk = (answering (\<lambda>_. []))\<lparr>fe_run := \<lambda>_ cmd.
     if contains_str cmd ''stat'' then Some (''beginVishnuCommand'' @ CHR 0x0A # example_stat)
     else if contains_str cmd ''scp'' then Some ''No space left on device''
     else Some (''beginVishnuCommand'' @ [CHR 0x0A])\<rparr>"

theorem failed_move_removes_source_witness:
  "\<exists>s'. run_thread full_disk example_exec example_fms = (Inr (), s') \<and>
    last (fm_log s') = ssh_command (getFileServer ''host'' ''/tmp/f'' ''ann'') ''rm -rf /tmp/f'' \<and>
    map tr_status (t_transfer s') = [Some 3]"
proof -
  let ?f = "getFileServer ''host'' ''/tmp/f'' ''ann''" and ?cmds = "fm_log example_fms @ [copy_line example_exec]"
  let ?g = "set_stat 7 (example_stat) ?f"
  let ?cmds' = "?cmds @ [ssh_command ?f (STATCMD_DEFAULT @ ''/tmp/f; echo -n @ $?'')]"
  have facts: "fe_run full_disk (fm_log example_fms) (copy_line example_exec) = Some ''No space left on device''"
    "\<not> contains_str ''No space left on device'' ''Warning''" "cleanOutputMsg ''No space left on device'' = ''No space left on device''"
    "up_to_date full_disk ?f ?cmds = (Inr ?g, ?cmds')" "ssh_command ?g (''rm -rf '' @ sf_path ?g) = ssh_command ?f ''rm -rf /tmp/f''"
    "sf_exist ?g"
    "fe_run full_disk ?cmds' (ssh_command ?f ''rm -rf /tmp/f'') = Some (''beginVishnuCommand'' @ CHR 0x0A # [])"
    by code_simp+
  have te: "te_type example_exec = Move" "te_srcMachineName example_exec = ''host''" "te_srcPath example_exec = ''/tmp/f''"
    "te_srcUser example_exec = ''ann''" "te_transferId example_exec = ''TR_1''"
    by (simp_all add: example_exec_def)
  show ?thesis
    using failed_move_removes_source [OF te(1) facts(1,2), unfolded te facts(3), OF _ facts(4,6), unfolded facts(5), OF _ facts(7)]
    by (auto simp: sql_update_def example_fms_def example_transfer_def has_transferid_def sql_ne_def)
qed

section \<open>A synchronous copy\<close>

lemma on_shell_tables:
  "on_shell m s = (r, s') \<Longrightarrow> t_transfer s' = t_transfer s \<and> q_transfer s' = q_transfer s \<and> fm_ums s' = fm_ums s"
  by (auto simp: on_shell_def split: prod.splits)

lemma thread_copy_result:
  assumes "thread_copy F te s = (Inr u, s')"
  obtains status msg where "t_transfer s' = sql_update (\<lambda>r. has_transferid (te_transferId te) r \<and> sql_ne (tr_status r) TRANSFER_CANCELLED)
      (\<lambda>r. r\<lparr>tr_status := Some status, tr_errorMsg := Some msg\<rparr>) (t_transfer s)"
    and "msg = [] \<longrightarrow> status = TRANSFER_COMPLETED"
proof -
  from assms obtain x s1 y s2 where run: "on_shell (transfer_run F te (copy_command te)) s = (Inr x, s1)"
    and again: "(if contains_str (snd x) ''Warning'' \<or> contains_str (fst x) ''Warning''
       then on_shell (transfer_run F te (copy_command te)) else op_ret x) s1 = (Inr y, s2)"
    and st: "(let allOutputMsg = cleanOutputMsg (fst y @ snd y) in
       if allOutputMsg \<noteq> [] then updateStatus TRANSFER_FAILED (te_transferId te) allOutputMsg
       else updateStatus TRANSFER_COMPLETED (te_transferId te) []) s2 = (Inr u, s')"
    unfolding thread_copy_def by (blast dest!: op_bind_result)
  have "t_transfer s2 = t_transfer s"
    using on_shell_tables [OF run] again by (auto simp: op_simps split: if_splits dest: on_shell_tables)
  with st that show ?thesis
    by (auto simp: Let_def updateStatus_def op_simps set_transfers_def split: if_splits)
qed

text \<open>A statement on the rows of an identifier that only the last row has.\<close>

lemma update_last:
  "checkObjectId (map (\<lambda>r. \<lparr>row_key = tr_num r, row_ident = tr_transferid r\<rparr>) rs) i \<Longrightarrow> tr_transferid q = Some i \<Longrightarrow>
   sql_update (\<lambda>r. has_transferid i r \<and> P r) f (rs @ [q]) = rs @ [if P q then f q else q]"
  by (induction rs) (auto simp: sql_update_def has_transferid_def checkObjectId_def)

lemma error_last:
  "checkObjectId (map (\<lambda>r. \<lparr>row_key = tr_num r, row_ident = tr_transferid r\<rparr>) rs) i \<Longrightarrow> tr_transferid q = Some i \<Longrightarrow>
   first_element tr_errorMsg (has_transferid i) (rs @ [q]) = tr_errorMsg q"
  by (induction rs) (auto simp: first_element_def has_transferid_def checkObjectId_def)

lemma started_transfer:
  assumes "start_transfer F key type srcUser m1 destUser m2 options ft0 s = (Inr (ft, t), s')"
    and "t_transfer s = rs @ [q]" and "checkObjectId (map (\<lambda>r. \<lparr>row_key = tr_num r, row_ident = tr_transferid r\<rparr>) rs) (ft_transferId ft0)"
    and "tr_transferid q = Some (ft_transferId ft0)"
  obtains te q' where "t = Some te" and "te_type te = type" and "te_transferId te = ft_transferId ft0" and "ft_transferId ft = ft_transferId ft0"
    and "t_transfer s' = rs @ [q']" and "tr_transferid q' = Some (ft_transferId ft0)" and "tr_status q' = Some TRANSFER_INPROGRESS"
proof -
  from assms(1) obtain f s1 where "on_shell (up_to_date F (getFileServer m1 (ft_sourceFilePath ft0) srcUser)) s = (Inr f, s1)"
    and rest: "\<exists>g te u. updateDatabaseRecord F key g s1 = (Inr u, s') \<and> t = Some te \<and> te_type te = type \<and> ft = g \<and>
      te_transferId te = ft_transferId ft0 \<and> ft_transferId g = ft_transferId ft0 \<and> ft_status g = TRANSFER_INPROGRESS"
    unfolding start_transfer_def Let_def by (auto dest!: op_bind_result simp: op_simps split: if_splits)
  then have rows: "t_transfer s1 = rs @ [q]" using on_shell_tables assms(2) by force
  from rest obtain g te u where g: "updateDatabaseRecord F key g s1 = (Inr u, s')" "t = Some te" "te_type te = type" "ft = g"
    "te_transferId te = ft_transferId ft0" "ft_transferId g = ft_transferId ft0" "ft_status g = TRANSFER_INPROGRESS" by blast
  from g(1) obtain n where "s' = set_transfers (has_transferid (ft_transferId g)) (transfer_columns n (fe_now F) g) s1"
    unfolding updateDatabaseRecord_def by (auto dest!: op_bind_result simp: op_simps)
  then have "t_transfer s' = rs @ [transfer_columns n (fe_now F) g q]"
    using update_last [OF assms(3,4), of "\<lambda>_. True"] by (simp add: set_transfers_def rows g(6))
  with g(2-7) that [of te "transfer_columns n (fe_now F) g q"] assms(4) show ?thesis
    by (simp add: transfer_columns_def)
qed

text \<open>
  C18. A synchronous copy between two remote machines that returns has a row of its own, under an identifier that was
  free, and the row says the copy is completed; the rows of the other transfers are as they were.
\<close>

theorem sync_copy_completes:
  assumes "transfers_ok s" and "q_transfer s < 1000000000" and "\<not> fst (ifLocalTransferInvolved m1 m2 0)"
    and "add_sync F key Copy srcUser m1 destUser m2 options ft0 s = (Inr ft, s')"
  shows "\<exists>q. t_transfer s' = t_transfer s @ [q] \<and> tr_transferid q = Some (ft_transferId ft) \<and>
    tr_status q = Some TRANSFER_COMPLETED \<and> checkObjectId (rows (transfer_ids s)) (ft_transferId ft)"
proof -
  from assms(4) obtain t s3 u s4 where
    added: "addTransferThread F key Copy srcUser m1 destUser m2 (thread_options Copy options) ft0 s = (Inr (ft, t), s3)"
    and waited: "waitThread F t s3 = (Inr u, s4)" and silent: "getErrorFromDatabase (ft_transferId ft) s4 = []" and s': "s' = s4"
    unfolding add_sync_def by (auto dest!: op_bind_result simp: op_simps split: if_splits)
  from added obtain ft1 s1 where up: "updateData F key ft0 s = (Inr ft1, s1)"
    and start: "start_transfer F key Copy srcUser m1 destUser m2 (thread_options Copy options) ft1 s1 = (Inr (ft, t), s3)"
    unfolding addTransferThread_def using assms(3) by (auto dest!: op_bind_result)
  from up obtain m i where m: "transfer_getObjectId (fe_date F) m s = (Inr i, s1)" and "ft_transferId ft1 = i"
    unfolding updateData_def Let_def by (auto dest!: op_bind_result simp: op_simps)
  from m obtain sess where "newest_session (fm_ums s) = Some sess" by (auto simp: transfer_getObjectId_def split: option.splits)
  from reserved_transfer [OF assms(1,2) this, of "fe_date F" m] m obtain
    s1: "t_transfer s1 = t_transfer s @ [(blank_transfer (q_transfer s) sess)\<lparr>tr_transferid := Some i\<rparr>]"
    and free: "checkObjectId (rows (transfer_ids s)) i" by fastforce
  then have free': "checkObjectId (map (\<lambda>r. \<lparr>row_key = tr_num r, row_ident = tr_transferid r\<rparr>) (t_transfer s)) (ft_transferId ft1)"
    using \<open>ft_transferId ft1 = i\<close> by (simp add: transfer_ids_def)
  obtain te q where te: "t = Some te" "te_type te = Copy" "te_transferId te = ft_transferId ft1" "ft_transferId ft = ft_transferId ft1"
    and q: "t_transfer s3 = t_transfer s @ [q]" "tr_transferid q = Some (ft_transferId ft1)" "tr_status q = Some TRANSFER_INPROGRESS"
    by (rule started_transfer [OF start s1 free']) (simp_all add: \<open>ft_transferId ft1 = i\<close>)
  from waited te have "thread_copy F te s3 = (Inr u, s4)" by (simp add: waitThread_def run_thread_def)
  then obtain status msg where rows: "t_transfer s4 = t_transfer s @ [q\<lparr>tr_status := Some status, tr_errorMsg := Some msg\<rparr>]"
    and completed: "msg = [] \<longrightarrow> status = TRANSFER_COMPLETED"
    by (rule thread_copy_result) (use update_last [OF free' q(2)] q in \<open>simp add: te sql_ne_def\<close>)
  from silent have "msg = []"
    using error_last [OF free', of "q\<lparr>tr_status := Some status, tr_errorMsg := Some msg\<rparr>"] q(2)
    by (simp add: getErrorFromDatabase_def rows te text_of_def)
  with rows completed q(2) te free \<open>ft_transferId ft1 = i\<close> show ?thesis by (simp add: s')
qed

definition quiet :: fms_env where
  "quiet = (answering (\<lambda>_. []))\<lparr>fe_run := \<lambda>_ cmd.
     if contains_str cmd ''stat'' then Some (''beginVishnuCommand'' @ CHR 0x0A # example_stat) else Some []\<rparr>"

definition example_copy :: "file_transfer result \<times> fms" where
  "example_copy = add_sync quiet ''k1'' Copy ''ann'' ''host'' ''ann'' ''other'' \<lparr>cp_recursive = False, cp_trCommand = 0\<rparr>
     (new_transfer ''m1'' ''m2'' ''/a'' ''/b'') example_fms"

lemma example_copy_run: "(case fst example_copy of Inr ft \<Rightarrow> ft_transferId ft = ''TR_2'' | Inl e \<Rightarrow> False)"
  by code_simp

theorem sync_copy_completes_witness:
  "\<exists>q. t_transfer (snd example_copy) = [example_transfer, q] \<and> tr_transferid q = Some ''TR_2'' \<and> tr_status q = Some 1"
proof -
  obtain ft where ft: "fst example_copy = Inr ft" "ft_transferId ft = ''TR_2''"
    using example_copy_run by (auto split: sum.splits)
  then have run: "example_copy = (Inr ft, snd example_copy)" by (metis prod.collapse)
  have far: "\<not> fst (ifLocalTransferInvolved ''host'' ''other'' 0)" and q: "q_transfer example_fms < 1000000000"
    by (simp_all add: ifLocalTransferInvolved_def example_fms_def)
  from sync_copy_completes [OF example_transfers_ok q far run [unfolded example_copy_def]] ft(2)
  show ?thesis by (auto simp: example_copy_def example_fms_def)
qed

end
