(* ===== verification/Ums_Listing.thy ===== *)
theory Ums_Listing
  imports Ums_Properties
begin

text \<open>
  What the list servers of the user management module show: rows of the caller only, unless he is an administrator,
  and how a listing fails.
\<close>

section \<open>Selections\<close>

lemma ensure_simps [simp]: "ensure True e = Inr ()" "ensure False e = Inl e"
  by (simp_all add: ensure_def)

lemma when_given_simps [simp]: "when_given [] c = Inr ()" "v \<noteq> [] \<Longrightarrow> when_given v c = c"
  by (simp_all add: when_given_def)

lemma res_map_Inr_set: "res_map f xs = Inr ys \<Longrightarrow> y \<in> set ys \<Longrightarrow> \<exists>x \<in> set xs. f x = Inr y"
  by (induction xs arbitrary: ys) (auto simp: res_simps)



lemmas option_defs = users_options_def machines_options_def accounts_options_def auth_accounts_options_def
  authsystems_options_def sessions_options_def commands_options_def admin_options_def owner_condition_def

section \<open>Whose rows are shown\<close>

lemma sessions_own:
  assumes "listSessions key opt d = Inr l" and "caller key d = Inr me" and "\<not> isAdmin me d" and "s \<in> set l"
  shows "se_userId s = u_userId me"
proof -
  obtain sel where sel: "sessions_options me opt d = Inr sel"
    and l: "l = map session_of_row (order_by (\<lambda>(s, u). vs_creation s) (filter sel (sessions_joined (lss_machineId opt) d)))"
    using assms(1,2) by (auto simp: listSessions_def res_simps)
  have own: "us_userid u = u_userId me" if "sel (r, u)" for r u
    using sel assms(3) that by (auto simp: sessions_options_def admin_options_def Let_def ensure_def res_simps split: if_splits)
  from assms(4) l obtain r u where "sel (r, u)" "s = session_of_row (r, u)" by auto
  then show ?thesis using own by (simp add: session_of_row_def)
qed

lemma local_accounts_own:
  assumes "listLocalAccounts key opt d = Inr l" and "caller key d = Inr me" and "\<not> isAdmin me d" and "a \<in> set l"
  shows "la_userId a = u_userId me"
proof -
  obtain sel where sel: "accounts_options me opt d = Inr sel"
    and l: "l = map (\<lambda>(a, m, u). empty_account\<lparr>la_machineId := text_of (ma_machineid m), la_userId := us_userid u,
        la_acLogin := text_of (ac_login a), la_homeDirectory := text_of (ac_home a)\<rparr>) (filter sel (active_accounts d))"
    using assms(1,2) by (auto simp: listLocalAccounts_def res_simps)
  have own: "us_userid u = u_userId me" if "sel (a, m, u)" for a m u
    using sel assms(3) that
    by (auto simp: accounts_options_def admin_options_def owner_condition_def ensure_def res_simps split: if_splits)
  from assms(4) l obtain a' m u where "sel (a', m, u)" "la_userId a = us_userid u" by auto
  then show ?thesis using own by simp
qed

lemma auth_accounts_own:
  assumes "listAuthAccounts key opt d = Inr l" and "caller key d = Inr me" and "\<not> isAdmin me d" and "a \<in> set l"
  shows "aa_userId a = u_userId me"
proof -
  obtain sel where sel: "auth_accounts_options me opt d = Inr sel"
    and l: "l = map (\<lambda>(a, y, u). \<lparr>aa_authSystemId = text_of (ay_authsystemid y), aa_userId = us_userid u,
        aa_acLogin = text_of (au_login a)\<rparr>) (filter sel (live_auth_accounts d))"
    using assms(1,2) by (auto simp: listAuthAccounts_def res_simps)
  have own: "us_userid u = u_userId me" if "sel (a, m, u)" for a m u
    using sel assms(3) that
    by (auto simp: auth_accounts_options_def admin_options_def owner_condition_def ensure_def res_simps split: if_splits)
  from assms(4) l obtain a' m u where "sel (a', m, u)" "aa_userId a = us_userid u" by auto
  then show ?thesis using own by simp
qed

lemma commands_joined_iff: "(s, h, m, u) \<in> set (commands_joined d) \<longleftrightarrow>
    s \<in> set (t_vsession d) \<and> h \<in> set (t_clmachine d) \<and> m \<in> set (t_command d) \<and> u \<in> set (t_users d) \<and>
    vs_num s = cm_session m \<and> vs_clmachine s = cl_num h \<and> vs_user s = us_num u"
  unfolding commands_joined_def by (auto split: if_splits)

lemma command_of_row_session: "command_of_row D (s, h, m, u) = Inr c \<Longrightarrow> ci_sessionId c = text_of (vs_sessionid s)"
  by (auto simp: command_of_row_def res_simps Let_def)

lemma commands_own:
  assumes "listCommands D key opt d = Inr l" and "caller key d = Inr me" and "\<not> isAdmin me d" and "c \<in> set l"
  shows "\<exists>s \<in> set (t_vsession d). ci_sessionId c = text_of (vs_sessionid s) \<and>
    (\<exists>u \<in> set (t_users d). us_num u = vs_user s \<and> us_userid u = u_userId me)"
proof -
  obtain sel where sel: "commands_options me opt d = Inr sel"
    and l: "res_map (command_of_row D)
      (order_by (\<lambda>(s, c, m, u). cm_starttime m) (filter sel (commands_joined d))) = Inr l"
    using assms(1,2) by (auto simp: listCommands_def res_simps)
  have own: "us_userid u = u_userId me" if "sel (s, c, m, u)" for s c m u
    using sel assms(3) that by (auto simp: commands_options_def admin_options_def ensure_def res_simps split: if_splits)
  obtain s h m u where "sel (s, h, m, u)" "(s, h, m, u) \<in> set (commands_joined d)" "command_of_row D (s, h, m, u) = Inr c"
    using res_map_Inr_set [OF l assms(4)] by auto
  then show ?thesis using own [of s h m u] command_of_row_session [of D s h m u c]
    by (intro bexI [of _ s] conjI bexI [of _ u]) (simp_all add: commands_joined_iff)
qed

lemma auth_systems_hidden:
  assumes "listAuthSystems key opt d = Inr l" and "caller key d = Inr me" and "\<not> isAdmin me d" and "y \<in> set l"
  shows "as_authLogin y = []" and "as_authPassword y = []"
proof -
  have "\<not> ls_fullInfo opt"
    using assms(1-3) by (auto simp: listAuthSystems_def authsystems_options_def admin_options_def ensure_def res_simps split: if_splits)
  then show "as_authLogin y = []" and "as_authPassword y = []"
    using assms(1,4) by (auto simp: listAuthSystems_def res_simps auth_system_of_row_def empty_auth_system_def)
qed

lemma users_hidden: "caller key d = Inr me \<Longrightarrow> \<not> isAdmin me d \<Longrightarrow> listUsers key opt d = Inl (UMSVishnuException ERRCODE_NO_ADMIN [])"
  by (simp add: listUsers_def users_options_def Let_def)

text \<open>
  C24. A caller who is no administrator sees only rows of his own in the lists of sessions, local accounts,
  accounts on authentication systems and commands, whatever options he sends, no list of users at all, and
  of an authentication system neither its login nor its password.
\<close>

theorem lists_show_own_rows:
  assumes "caller key d = Inr me" and "\<not> isAdmin me d"
  shows "(\<forall>opt l. listSessions key opt d = Inr l \<longrightarrow> (\<forall>s \<in> set l. se_userId s = u_userId me)) \<and>
    (\<forall>opt l. listLocalAccounts key opt d = Inr l \<longrightarrow> (\<forall>a \<in> set l. la_userId a = u_userId me)) \<and>
    (\<forall>opt l. listAuthAccounts key opt d = Inr l \<longrightarrow> (\<forall>a \<in> set l. aa_userId a = u_userId me)) \<and>
    (\<forall>D opt l. listCommands D key opt d = Inr l \<longrightarrow> (\<forall>c \<in> set l. \<exists>s \<in> set (t_vsession d).
       ci_sessionId c = text_of (vs_sessionid s) \<and> (\<exists>u \<in> set (t_users d). us_num u = vs_user s \<and> us_userid u = u_userId me))) \<and>
    (\<forall>opt. listUsers key opt d = Inl (UMSVishnuException ERRCODE_NO_ADMIN [])) \<and>
    (\<forall>opt l. listAuthSystems key opt d = Inr l \<longrightarrow> (\<forall>y \<in> set l. as_authLogin y = [] \<and> as_authPassword y = []))"
proof (intro conjI allI impI ballI)
  show "\<exists>s \<in> set (t_vsession d). ci_sessionId c = text_of (vs_sessionid s) \<and>
      (\<exists>u \<in> set (t_users d). us_num u = vs_user s \<and> us_userid u = u_userId me)"
    if "listCommands D key opt d = Inr l" "c \<in> set l" for D opt l c
    using commands_own [OF that(1) assms that(2)] .
qed (use assms in \<open>auto dest: sessions_own local_accounts_own auth_accounts_own auth_systems_hidden users_hidden\<close>)

definition all_sessions :: list_session_options where
  "all_sessions = \<lparr>lss_status = - 1, lss_closePolicy = 0, lss_inactivityDelay = 0, lss_machineId = [], lss_admin = False,
     lss_userId = [], lss_sessionId = [], lss_startDate = - 1, lss_endDate = - 1\<rparr>"

lemma example_listed:
  "caller ''k3'' example_db = Inr (empty_user\<lparr>u_userId := ''bob'', u_password := ''b.''\<rparr>)"
  "\<not> isAdmin (empty_user\<lparr>u_userId := ''bob'', u_password := ''b.''\<rparr>) example_db"
  "(case listSessions ''k3'' all_sessions example_db of Inr [s] \<Rightarrow> se_sessionKey s = ''k3'' | _ \<Rightarrow> False)"
  by code_simp+

theorem lists_show_own_rows_witness:
  "\<exists>s. listSessions ''k3'' all_sessions example_db = Inr [s] \<and> se_userId s = ''bob''"
proof -
  obtain s where s: "listSessions ''k3'' all_sessions example_db = Inr [s]"
    using example_listed(3) by (auto split: sum.splits list.splits)
  then show ?thesis using lists_show_own_rows [OF example_listed(1,2)] by auto
qed

section \<open>Listings that fail\<close>

text \<open>
  Listing the users of an authentication system never works: for an administrator who names a known
  system the database refuses the statement, because the quotes of its inner query are escaped too.
\<close>

theorem users_of_system_refused:
  assumes "caller key d = Inr me" and "isAdmin me d" and "lu_authSystemId opt \<noteq> []"
    and "query_checkUserId (lu_userId opt) d = Inr () \<or> lu_userId opt = []"
    and "y \<in> set (t_authsystem d)" and "ay_authsystemid y = Some (lu_authSystemId opt)" and "ay_status y = Some STATUS_ACTIVE"
  shows "listUsers key opt d = Inl (SystemException ERRCODE_DBERR ''syntax error'')"
proof -
  have "checkAuthSystemId (lu_authSystemId opt) d = Inr ()"
    using assms(5-7) by (auto simp: checkAuthSystemId_def ensure_def list_ex_iff sql_ne_def)
  moreover have "when_given (lu_userId opt) (query_checkUserId (lu_userId opt) d) = Inr ()"
    using assms(4) by (auto simp: when_given_def)
  ultimately show ?thesis using assms(1-3) by (simp add: listUsers_def users_options_def)
qed

definition example_system_db :: db where
  "example_system_db = example_db\<lparr>t_authsystem := [\<lparr>ay_num = 1, ay_authsystemid = Some ''LDAP_1'', ay_name = Some ''ldap'',
     ay_uri = Some ''ldap://h'', ay_authlogin = None, ay_authpassword = None, ay_userpwdencryption = Some 0,
     ay_authtype = Some 0, ay_status = Some 1\<rparr>]\<rparr>"

lemma example_admin: "caller ''k1'' example_system_db = Inr (empty_user\<lparr>u_userId := ''root'', u_password := ''a.''\<rparr>)"
  "isAdmin (empty_user\<lparr>u_userId := ''root'', u_password := ''a.''\<rparr>) example_system_db"
  by code_simp+

theorem users_of_system_refused_witness:
  "listUsers ''k1'' \<lparr>lu_userId = [], lu_authSystemId = ''LDAP_1''\<rparr> example_system_db =
    Inl (SystemException ERRCODE_DBERR ''syntax error'')"
  by (rule users_of_system_refused [OF example_admin, where y = "hd (t_authsystem example_system_db)"])
    (simp_all add: example_system_db_def)

subsection \<open>A command that cannot be read back\<close>

lemma order_by_mem: "x \<in> set (order_by attr (filter P xs)) \<longleftrightarrow> x \<in> set xs \<and> P x"
  by simp













end
