(* ===== verification/Fms_Queries.thy ===== *)
theory Fms_Queries
  imports Fms_Properties Ums_Listing
begin

text \<open>
  What the list of the transfers shows, and to whom.
\<close>

definition of_user_only :: "string \<Rightarrow> transfer_options" where
  "of_user_only uid = \<lparr>to_transferId = [], to_fromMachineId = [], to_userId = uid, to_status = 4\<rparr>"

lemma user_filter:
  assumes "uid \<noteq> []" and "query_checkUserId uid (fm_ums s) = Inr ()" and "user_privilege info \<noteq> PRIVILEGE_ADMIN"
  shows "transfers_options info (of_user_only uid) s = Inr (\<lambda>r. tr_userId r = Some uid)"
  using assms by (simp add: transfers_options_def of_user_only_def Let_def)

lemma transfers_joined_iff: "r \<in> set (transfers_joined s) \<longleftrightarrow>
    r \<in> set (t_transfer s) \<and> list_ex (\<lambda>v. vs_num v = tr_session r) (t_vsession (fm_ums s))"
  unfolding transfers_joined_def by (auto simp: list_ex_iff split: if_splits)

lemma transfer_of_row_sized:
  assumes "tr_fileSize r = Some n" and "in_width 64 n"
  shows "\<exists>t. transfer_of_row r = Inr t \<and> ft_transferId t = text_of (tr_transferid r)"
  using assms by (simp add: transfer_of_row_def Let_def)

lemma res_map_attr:
  assumes "\<And>x. x \<in> set xs \<Longrightarrow> \<exists>y. f x = Inr y \<and> g y = h x"
  shows "\<exists>ys. res_map f xs = Inr ys \<and> map g ys = map h xs"
  using assms
proof (induction xs)
  case (Cons x xs)
  then obtain y ys where "f x = Inr y" "g y = h x" "res_map f xs = Inr ys" "map g ys = map h xs"
    by (metis list.set_intros)
  then show ?case by simp
qed simp

text \<open>
  C28. The filter of the transfers by user is guarded the wrong way round: an administrator who names a user is refused
  for not being one, and everybody else gets all transfers of any user he names.
\<close>

theorem transfer_filter_inverted:
  assumes "validateAuthKey_any key (fm_ums s) = Inr info" and "uid \<noteq> []" and "query_checkUserId uid (fm_ums s) = Inr ()"
    and "\<And>r. r \<in> set (t_transfer s) \<Longrightarrow> \<exists>n. tr_fileSize r = Some n \<and> in_width 64 n"
  shows "if user_privilege info = PRIVILEGE_ADMIN
    then listFileTransfers key (of_user_only uid) s = Inl (UMSVishnuException ERRCODE_NO_ADMIN [])
    else \<exists>l. listFileTransfers key (of_user_only uid) s = Inr l \<and>
      set (map ft_transferId l) = set (map (\<lambda>r. text_of (tr_transferid r)) (filter (\<lambda>r. tr_userId r = Some uid \<and>
        list_ex (\<lambda>v. vs_num v = tr_session r) (t_vsession (fm_ums s))) (t_transfer s)))"
proof (cases "user_privilege info = PRIVILEGE_ADMIN")
  case True
  then show ?thesis using assms(1,2) by (simp add: listFileTransfers_def transfers_options_def of_user_only_def)
next
  case False
  let ?rows = "order_by tr_startTime (filter (\<lambda>r. tr_userId r = Some uid) (transfers_joined s))"
  have "\<exists>t. transfer_of_row r = Inr t \<and> ft_transferId t = text_of (tr_transferid r)" if "r \<in> set ?rows" for r
    using that assms(4) [of r] transfer_of_row_sized [of r] by (auto simp: transfers_joined_iff)
  from res_map_attr [of ?rows transfer_of_row, OF this] obtain l where
    l: "res_map transfer_of_row ?rows = Inr l" "map ft_transferId l = map (\<lambda>r. text_of (tr_transferid r)) ?rows" by blast
  then have "listFileTransfers key (of_user_only uid) s = Inr l"
    using assms(1) user_filter [OF assms(2,3) False] by (simp add: listFileTransfers_def)
  moreover have rows: "set ?rows = set (filter (\<lambda>r. tr_userId r = Some uid \<and>
      list_ex (\<lambda>v. vs_num v = tr_session r) (t_vsession (fm_ums s))) (t_transfer s))"
    by (simp only: set_order_by) (auto simp: transfers_joined_iff)
  have "set (map ft_transferId l) = set (map (\<lambda>r. text_of (tr_transferid r)) (filter (\<lambda>r. tr_userId r = Some uid \<and>
      list_ex (\<lambda>v. vs_num v = tr_session r) (t_vsession (fm_ums s))) (t_transfer s)))"
    unfolding l(2) set_map [where xs = ?rows] rows by (simp only: set_map)
  ultimately show ?thesis using False by (simp only: if_False) blast
qed

text \<open>The user of the example asks for the transfers of somebody else.\<close>

definition example_two_users :: fms where
  "example_two_users = example_fms\<lparr>fm_ums := example_ums\<lparr>t_users := t_users example_ums @
       [(hd (t_users example_ums))\<lparr>us_num := 2, us_userid := ''bob''\<rparr>]\<rparr>,
     t_transfer := [example_transfer\<lparr>tr_fileSize := Some 12\<rparr>,
       example_transfer\<lparr>tr_transferid := Some ''TR_2'', tr_userId := Some ''bob'', tr_fileSize := Some 7\<rparr>]\<rparr>"

lemma example_asking:
  "case validateAuthKey_any ''k1'' (fm_ums example_two_users) of Inl e \<Rightarrow> False
    | Inr info \<Rightarrow> userid info = ''ann'' \<and> user_privilege info \<noteq> PRIVILEGE_ADMIN"
  "query_checkUserId ''bob'' (fm_ums example_two_users) = Inr ()"
  by code_simp+

theorem transfer_filter_inverted_witness:
  "\<exists>l. listFileTransfers ''k1'' (of_user_only ''bob'') example_two_users = Inr l \<and> set (map ft_transferId l) = {''TR_2''}"
proof -
  obtain info where info: "validateAuthKey_any ''k1'' (fm_ums example_two_users) = Inr info" "user_privilege info \<noteq> PRIVILEGE_ADMIN"
    using example_asking(1) by (auto split: sum.splits)
  have sized: "\<exists>n. tr_fileSize r = Some n \<and> in_width 64 n" if "r \<in> set (t_transfer example_two_users)" for r
    using that by (auto simp: example_two_users_def in_width_def)
  have "set (map (\<lambda>r. text_of (tr_transferid r)) (filter (\<lambda>r. tr_userId r = Some ''bob'' \<and>
      list_ex (\<lambda>v. vs_num v = tr_session r) (t_vsession (fm_ums example_two_users))) (t_transfer example_two_users))) = {''TR_2''}"
    by code_simp
  then show ?thesis
    using transfer_filter_inverted [OF info(1) _ example_asking(2) sized] info(2) by simp
qed

end
