(* ===== verification/Tms_Listing.thy ===== *)
theory Tms_Listing
  imports Tms_Properties Ums_Listing
begin

text \<open>
  What the lists of the task management server show: whose jobs, how they are counted, and what progress is
  reported.
\<close>

section \<open>Jobs\<close>

definition default_list :: list_jobs_options where
  "default_list = \<lparr>lj_machineId = [], lj_jobId = [], lj_nbCpu = - 1, lj_fromSubmitDate = - 1, lj_toSubmitDate = - 1,
     lj_owner = [], lj_status = - 1, lj_priority = - 1, lj_queue = [], lj_multipleStatus = [], lj_batchJob = False,
     lj_listAll = False, lj_workId = - 1\<rparr>"

lemma default_options: "jobs_options Q default_list s = Inr (\<lambda>r. sql_less (jr_status r) STATE_COMPLETED)"
  by (simp add: jobs_options_def default_list_def multiple_status_def positive_date_def ensure_def when_given_def)

lemma jobs_joined_iff: "(r, v, u) \<in> set (jobs_joined s) \<longleftrightarrow>
    r \<in> set (t_job s) \<and> v \<in> set (t_vsession (tm_ums s)) \<and> u \<in> set (t_users (tm_ums s)) \<and>
    vs_num v = jr_session r \<and> vs_user v = us_num u"
  unfolding jobs_joined_def by (auto split: if_splits)

lemma count_states:
  assumes "\<And>j. j \<in> set js \<Longrightarrow> j_status j < STATE_COMPLETED"
  shows "jl_nbRunningJobs (job_counts js) + jl_nbWaitingJobs (job_counts js) +
    int (length (filter (\<lambda>j. j_status j < STATE_SUBMITTED) js)) = int (length js)"
proof -
  from assms have "\<forall>j \<in> set js. j_status j < STATE_COMPLETED" by blast
  then show ?thesis by (induction js) (auto simp: job_counts_def)
qed

text \<open>
  C26. A caller with an active session and an account who asks for the jobs without an option sees the
  unfinished jobs of all users, not only his own, whatever his privilege; the three counters add up to their
  number, with the jobs that have no state of the batch scheduler yet in none of the last two.
\<close>

theorem everyone_sees_all_jobs:
  assumes "validateAuthKey_any key (tm_ums s) = Inr info"
    and "\<And>r. r \<in> set (t_job s) \<Longrightarrow> case jr_status r of None \<Rightarrow> True | Some st \<Rightarrow> in_width 32 st"
  shows "\<exists>l. listJobs Q key default_list s = Inr l \<and>
    (\<forall>j. j \<in> set (jl_jobs l) \<longleftrightarrow> (\<exists>r v u. r \<in> set (t_job s) \<and> v \<in> set (t_vsession (tm_ums s)) \<and>
       u \<in> set (t_users (tm_ums s)) \<and> vs_num v = jr_session r \<and> vs_user v = us_num u \<and>
       sql_less (jr_status r) STATE_COMPLETED \<and> j = listed_job (r, v, u))) \<and>
    jl_nbJobs l = int (length (jl_jobs l)) \<and>
    jl_nbRunningJobs l + jl_nbWaitingJobs l + int (length (filter (\<lambda>j. j_status j < STATE_SUBMITTED) (jl_jobs l))) = jl_nbJobs l"
proof -
  let ?js = "map listed_job (order_by (\<lambda>(r, v, u). jr_submitDate r)
    (filter (\<lambda>(r, v, u). sql_less (jr_status r) STATE_COMPLETED) (jobs_joined s)))"
  have list: "listJobs Q key default_list s = Inr (job_counts ?js)"
    using assms(1) by (simp add: listJobs_def default_options) (simp add: default_list_def case_prod_unfold)
  have mem: "j \<in> set ?js \<longleftrightarrow> (\<exists>r v u. (r, v, u) \<in> set (jobs_joined s) \<and> sql_less (jr_status r) STATE_COMPLETED \<and>
      j = listed_job (r, v, u))" for j
    by auto
  have "j_status j < STATE_COMPLETED" if "j \<in> set ?js" for j
  proof -
    from that obtain r v u where r: "(r, v, u) \<in> set (jobs_joined s)" "sql_less (jr_status r) STATE_COMPLETED"
      and j: "j = listed_job (r, v, u)" unfolding mem by blast
    then show ?thesis using assms(2) [of r]
      by (auto simp: jobs_joined_iff sql_less_def listed_job_def job_info_def split: option.splits)
  qed
  from count_states [of ?js, OF this]
  have "jl_nbRunningJobs (job_counts ?js) + jl_nbWaitingJobs (job_counts ?js) +
      int (length (filter (\<lambda>j. j_status j < STATE_SUBMITTED) ?js)) = int (length ?js)" .
  moreover have "jl_jobs (job_counts ?js) = ?js" "jl_nbJobs (job_counts ?js) = int (length ?js)"
    by (simp_all add: job_counts_def)
  ultimately show ?thesis
    by (intro exI [of _ "job_counts ?js"] conjI allI) (simp_all only: list mem jobs_joined_iff, blast)
qed

definition example_queries :: tms_queries where
  "example_queries = \<lparr>tq_listQueues = (\<lambda>_. Inr []), tq_getJobStartTime = (\<lambda>_. Inr 40), tq_now = 100,
     ser_jobs = (\<lambda>_. []), ser_progression = (\<lambda>_. [])\<rparr>"

lemma example_session_valid: "\<exists>info. validateAuthKey_any ''k1'' (tm_ums example_tms) = Inr info"
proof -
  have "(case validateAuthKey_any ''k1'' (tm_ums example_tms) of Inl e \<Rightarrow> False | Inr info \<Rightarrow> True)" by code_simp
  then show ?thesis by (simp split: sum.splits)
qed

theorem everyone_sees_all_jobs_witness:
  "\<exists>l. listJobs example_queries ''k1'' default_list example_tms = Inr l \<and>
    jl_nbJobs l = int (length (jl_jobs l))"
proof -
  obtain info where "validateAuthKey_any ''k1'' (tm_ums example_tms) = Inr info" using example_session_valid by blast
  moreover have "case jr_status r of None \<Rightarrow> True | Some st \<Rightarrow> in_width 32 st" if "r \<in> set (t_job example_tms)" for r
    using that by (auto simp: example_tms_def example_row_def blank_job_def in_width_def)
  ultimately show ?thesis using everyone_sees_all_jobs [of "''k1''" example_tms info example_queries] by auto
qed

section \<open>Progress\<close>

text \<open>Three operations on numbers below a quotient of two numbers of 32 bits stay below 100.\<close>

lemma to_double_bound:
  assumes "0 \<le> q" and "q \<le> b"
  shows "0 \<le> to_double q" and "to_double q \<le> b * (1 + 1 / 2 ^ 53)"
proof -
  have e: "\<bar>to_double q - q\<bar> \<le> q / 2 ^ 53" by (rule to_double_error [OF assms(1)])
  have "q / 2 ^ 53 \<le> q" using assms(1) by simp
  with e show "0 \<le> to_double q" by linarith
  have "q * (1 + 1 / 2 ^ 53) \<le> b * (1 + 1 / 2 ^ 53)" using assms(2) by (intro mult_right_mono) simp_all
  moreover have "q + q / 2 ^ 53 = q * (1 + 1 / 2 ^ 53)" by (simp add: field_simps)
  ultimately show "to_double q \<le> b * (1 + 1 / 2 ^ 53)" using e by linarith
qed

lemma ratio_bound:
  assumes "0 \<le> gap" and "gap < w" and "w \<le> 2 ^ 31"
  shows "0 \<le> to_double (100 * to_double (to_double (of_int gap) / of_int w))"
    and "to_double (100 * to_double (to_double (of_int gap) / of_int w)) < 100"
proof -
  define u :: rat where "u = 1 + 1 / 2 ^ 53"
  have w: "0 < (of_int w :: rat)" using assms(1,2) by simp
  have g: "(0::rat) \<le> of_int gap" "(of_int gap :: rat) \<le> of_int (w - 1)" using assms(1,2) by simp_all
  note g1 = to_double_bound [OF g, folded u_def]
  have q: "0 \<le> to_double (of_int gap) / of_int w" "to_double (of_int gap) / of_int w \<le> of_int (w - 1) * u / of_int w"
    using g1(1) w by simp (rule divide_right_mono [OF g1(2)], use w in simp)
  note q1 = to_double_bound [OF q, folded u_def]
  have r: "0 \<le> 100 * to_double (to_double (of_int gap) / of_int w)"
    "100 * to_double (to_double (of_int gap) / of_int w) \<le> 100 * (of_int (w - 1) * u / of_int w * u)"
    using q1(1) by simp (rule mult_left_mono [OF q1(2)], simp)
  note r1 = to_double_bound [OF r, folded u_def]
  have "of_int (w - 1) / of_int w = 1 - 1 / (of_int w :: rat)" using w by (simp add: field_simps)
  also have "\<dots> \<le> 1 - 1 / 2 ^ 31"
  proof -
    have "(of_int w :: rat) \<le> of_int (2 ^ 31)" using assms(3) by (simp only: of_int_le_iff)
    then have "1 / 2 ^ 31 \<le> 1 / (of_int w :: rat)" using w by (intro divide_left_mono) simp_all
    then show ?thesis by simp
  qed
  finally have "of_int (w - 1) / of_int w * (100 * u * u * u) \<le> (1 - 1 / 2 ^ 31) * (100 * u * u * u)"
    by (rule mult_right_mono) (simp add: u_def)
  also have "\<dots> < 100" by (simp add: u_def field_simps)
  finally have "100 * (of_int (w - 1) * u / of_int w * u) * u < (100::rat)" by (simp add: mult_ac)
  then show "to_double (100 * to_double (to_double (of_int gap) / of_int w)) < 100" using r1(2) by (rule le_less_trans [rotated])
  show "0 \<le> to_double (100 * to_double (to_double (of_int gap) / of_int w))" by (rule r1(1))
qed

lemma running_percent_bound:
  assumes "0 \<le> gap" and "in_width 32 w" and "running_percent gap w = Inr p"
  shows "0 \<le> p \<and> p \<le> 99"
proof (cases "gap < (if w = 0 then 60 else w)")
  case False
  then show ?thesis using assms(3) by (simp add: running_percent_def Let_def split: if_splits)
next
  case True
  define w' where "w' = (if w = 0 then 60 else w)"
  have w': "gap < w'" "w' \<le> 2 ^ 31" using True assms(2) by (auto simp: w'_def in_width_def)
  let ?r = "to_double (100 * to_double (to_double (of_int gap) / of_int w'))"
  have "p = 1 \<or> p = toward_zero ?r"
    using assms(3) w'(1) by (auto simp: running_percent_def Let_def w'_def split: if_splits)
  moreover have "0 \<le> toward_zero ?r \<and> toward_zero ?r \<le> 99"
    using ratio_bound [OF assms(1) w'] by (simp add: toward_zero_def floor_less_iff [symmetric] flip: zle_add1_eq_le) (simp add: floor_less_iff)
  ultimately show ?thesis by auto
qed

lemma progress_of_job_bound:
  assumes "progress_of_job Q r = Inr p" and "\<And>b t. tq_getJobStartTime Q b = Inr t \<Longrightarrow> t \<le> tq_now Q"
    and "sql_less (jr_status r) STATE_COMPLETED"
    and "case jr_status r of None \<Rightarrow> True | Some st \<Rightarrow> in_width 32 st"
  shows "0 \<le> pg_percent p \<and> pg_percent p \<le> 99 \<and> (pg_status p \<noteq> STATE_RUNNING \<longrightarrow> pg_percent p = 0)"
proof -
  have unfinished: "int_of (jr_status r) \<noteq> STATE_COMPLETED"
    using assms(3,4) by (auto simp: sql_less_def split: option.splits)
  have wall: "in_width 32 (int_of v)" for v
  proof (cases v)
    case None
    then show ?thesis by (simp add: in_width_def)
  next
    case (Some n)
    then show ?thesis by (cases "in_width 32 n") (auto simp: int_of_def convertToInt_def lexical_cast_def in_width_def split: sum.splits option.splits)
  qed
  have "0 \<le> x \<and> x \<le> 99" if "tq_getJobStartTime Q b = Inr t" "running_percent (tq_now Q - t) (int_of v) = Inr x" for b t v x
    using running_percent_bound [OF _ wall that(2)] assms(2) [OF that(1)] by simp
  then show ?thesis
    using assms(1) unfinished by (fastforce simp: progress_of_job_def Let_def res_simps split: if_splits)
qed

text \<open>
  C27. The progress reported for a job lies between 0 and 99 percent, in the arithmetic of the code, and is 0 unless the
  job runs, as long as the scheduler reports no start in the future. The 100 percent that the code has for a completed
  job is never reported: the query leaves those jobs out.
\<close>

theorem progress_bounds:
  assumes "listProgress Q key opt s = Inr l" and "\<And>b t. tq_getJobStartTime Q b = Inr t \<Longrightarrow> t \<le> tq_now Q"
    and "\<And>r. r \<in> set (t_job s) \<Longrightarrow> case jr_status r of None \<Rightarrow> True | Some st \<Rightarrow> in_width 32 st" and "p \<in> set l"
  shows "0 \<le> pg_percent p \<and> pg_percent p \<le> 99 \<and> (pg_status p \<noteq> STATE_RUNNING \<longrightarrow> pg_percent p = 0)"
proof -
  obtain rows where rows: "set rows \<subseteq> set (t_job s)"
    and l: "res_map (progress_of_job Q) (order_by jr_jobid (filter (\<lambda>r. sql_less (jr_status r) STATE_COMPLETED) rows)) = Inr l"
  proof -
    let ?rows = "filter (\<lambda>r. (po_machineId opt \<noteq> [] \<longrightarrow> jr_submitMachineId r = Some (po_machineId opt)) \<and>
        (if po_jobId opt \<noteq> [] then has_jobid (po_jobId opt) r else jr_owner r = Some (po_user opt)))
      [r. r \<leftarrow> t_job s, v \<leftarrow> t_vsession (tm_ums s), vs_num v = jr_session r]"
    have "set ?rows \<subseteq> set (t_job s)" by (auto split: if_splits)
    moreover have "res_map (progress_of_job Q)
        (order_by jr_jobid (filter (\<lambda>r. sql_less (jr_status r) STATE_COMPLETED) ?rows)) = Inr l"
      using assms(1) unfolding listProgress_def Let_def by (elim res_bind_Inr_iff [THEN iffD1, elim_format] exE conjE)
    ultimately show thesis by (rule that)
  qed
  obtain r where "r \<in> set rows" "sql_less (jr_status r) STATE_COMPLETED" "progress_of_job Q r = Inr p"
    using res_map_Inr_set [OF l assms(4)] by auto
  then show ?thesis using progress_of_job_bound [of Q r p] assms(2,3) rows by blast
qed

lemma example_progress: "case listProgress example_queries ''k1'' \<lparr>po_user = ''ann'', po_jobId = [], po_machineId = []\<rparr> example_tms of
    Inr [p] \<Rightarrow> pg_jobId p = ''J_1'' \<and> pg_percent p = 99 | _ \<Rightarrow> False"
  by code_simp

theorem progress_bounds_witness:
  "\<exists>p. listProgress example_queries ''k1'' \<lparr>po_user = ''ann'', po_jobId = [], po_machineId = []\<rparr> example_tms = Inr [p] \<and>
    pg_percent p \<le> 99"
proof -
  obtain p where p: "listProgress example_queries ''k1'' \<lparr>po_user = ''ann'', po_jobId = [], po_machineId = []\<rparr> example_tms = Inr [p]"
    using example_progress by (auto split: sum.splits list.splits)
  moreover have "case jr_status r of None \<Rightarrow> True | Some st \<Rightarrow> in_width 32 st" if "r \<in> set (t_job example_tms)" for r
    using that by (auto simp: example_tms_def example_row_def blank_job_def in_width_def)
  ultimately have "pg_percent p \<le> 99"
    using progress_bounds [OF p] by (force simp: example_queries_def)
  with p show ?thesis by blast
qed

end
