(* ===== verification/Spec2Isabelle.thy ===== *)
theory Spec2Isabelle
  imports Util_Tms Object_Id Config Comm_Server Comm_Profile Comm_Json Comm_Sed Registry
    Ums_Mapper Fms_Mapper Tms_Mapper Fms_Listing Fms_Queries Tms_Listing Ums_Listing
begin

text \<open>
  VISHNU: a middleware that gives users of computing centres one access to machines, batch schedulers and files.
  A client calls a service by name; a dispatcher chooses a server that offers it; the server checks the session,
  works on the common database and on remote machines, records the command and answers. Three modules share this
  frame: user management (UMS), task management (TMS), file management (FMS).

  Parts of the program and theories, in the order of their imports (paths are under src/):

  Values and errors.
  Prelude holds the program's exceptions as one datatype, results as \<open>exn + 'a\<close>, the operations of
  std::string (find, substr, replace, erase with the exception out_of_range), of boost and of streams the code
  uses, with their laws. Errors: core/src/exception, message tables, what(), the text an exception travels as
  and its rebuilding by the client. Util_Vishnu and Util_Tms: core/src/utils/utilVishnu.cpp, tmsUtils.cpp and
  fmsUtils.cpp. Config: core/src/config, the tokeniser, the file loop over a stream with the flags of
  istream::getline, the typed look-ups. Object_Id: utilServer.cpp, identifiers from templates and their
  reservation in a table.

  Messages and processes.
  Comm_Profile and Comm_Json: communication/DIET_client.cpp and utils.cpp, the profile of a call, its JSON form,
  jobs, options and sessions as JSON. Comm_Server: Server.cpp and the annuary of the dispatcher, a list of
  servers. Comm_Sed: zhelpers.cpp, SeD.cpp, Worker.hpp, SeDWorker.hpp, dispatcher/, the request with retries,
  the dispatch to callbacks, the workers of the dispatcher and its watch.

  The registry of commands.
  Registry: registry/Mapper.cpp and MapperRegistry.cpp, the construction of the text a server records;
  Ums_Mapper, Fms_Mapper, Tms_Mapper: its decoding into a command line.

  User management.
  Ums_Data: the objects. Ums_Tables: one record per row, \<open>db\<close> with the ten tables and their key
  sequences, the queries, and operations as functions \<open>db \<Rightarrow> 'a result \<times> db\<close>
  (\<open>op_bind\<close>, \<open>op_throw\<close>). Ums_User, Ums_Session, Ums_Machine, Ums_Auth: the server
  classes of UMS/src/server and core/src/authenticator, each method one definition. Ums_Service: the services of
  XMS/src/internalApiUMS.cpp, the table of services \<open>ums_mcb\<close>. Ums_Lists: the list servers over
  core/src/utils/QueryServer.hpp and their services, \<open>ums_list_mcb\<close>. Ums_System: the server as a
  transition system \<open>ums_step\<close> (any service, any client, any time, or a round of the monitor).
  Ums_Invariant, Ums_Properties: what every history keeps. Ums_Listing: what the lists show.

  Task management.
  Tms_Script: ScriptGenConvertor.cpp. Tms_Options: ServerXMS::getConfigOptions. Tms_Tables: the state
  \<open>tms\<close>, the table of jobs beside the \<open>db\<close> of the users. Tms_Submit, Tms_Jobs,
  Tms_Output: JobServer.cpp, JobOutputServer.cpp, the monitor of jobs. Tms_Lists: the lists of jobs, of their
  progress (with the rounding of numbers of type double) and of queues; Tms_Listing what they show. Tms_Service,
  Tms_System, Tms_Properties: internalApiTMS.cpp, its transition system \<open>tms_step\<close> and the
  specification \<open>job_spec\<close> of the life of a job, which every history refines.

  File management.
  Fms_File: File.cpp, SSHFile.cpp and StringToDirEntry.hh, an operation as a function of the log of the commands
  run so far. Fms_Listing: what is read from a line of ls. Fms_Transfer: FileTransferServer.cpp and
  FileTransferCommand.cpp, the state \<open>fms\<close> with the table of transfers, the log and the threads not
  yet run. Fms_Service: internalApiFMS.cpp and internalApiFMS.hpp. Fms_Lists: ListFileTransfers.hpp; Fms_Queries
  what it shows. Fms_System, Fms_Properties: the transition system \<open>fms_step\<close>, in which the thread
  of an asynchronous transfer runs at any later time.

  Interfaces.
  A locale states what a group of proofs needs, and its interpretations discharge that on the model:
  \<open>service_registry\<close> (what add, remove and get of the annuary promise the dispatcher),
  \<open>command_builder\<close> (a mapper seen by the code that builds a command), \<open>line_reader\<close>
  (the body of the loop that reads the configuration), \<open>ums_relation\<close> and
  \<open>fms_relation\<close> (a relation between two states that every single statement keeps is kept by every
  history), \<open>job_writer\<close> (an assignment to the rows of the jobs), \<open>file_commands\<close> (a
  set of commands every file operation stays in). An invariant of a server is thus proved on the statements of
  the database only.

  Groups of lemmas.
  Each operation has lemmas for its branches; each server has an invariant (unique keys and identifiers,
  sessions owned by users, one live account per user and machine, distinct transfers), a refinement of its
  tables (sessions are opened at the end and only close, jobs follow their life cycle), and access properties
  (who may administer, whose jobs are cancelled, whose account a command runs on, whose rows a list shows). The
  wire formats have round trips, with the exact value where one loses something (a job's work, a wall time, a
  path with a colon). The loops that may not end have the exact condition under which they do. The failures the
  code has are proved as what it does: a move that removes its source after a failed copy, a stop that stops
  nothing, a monitor that fails every running transfer, a request that blocks the listing of the history.

  Parameters.
  What is not under src/ or is generated by the build is an argument of the definitions: the JSON library
  (\<open>jansson\<close> with the laws \<open>json_laws\<close>, which have an instance), the parsers and
  serializers of the EMF objects, the hash function crypt and the salt, the LDAP directory, the random session
  keys, the sockets and TLS (what a poll or an exchange gives), the batch schedulers and the processes started
  for them, the shell (what a command prints after the commands before it), the clock.

  Conventions and bounds.
  Integers that the code only compares and stores are \<open>int\<close>; where a conversion or an overflow
  matters it is written out. A service runs without another between its statements: a server answers one request
  after the other unless it is configured with more than one thread (CommServer.cpp, nbthreads), and what
  another process does on the same database is a step of its own between two services. A query without an order
  gives rows in the order of insertion, and an order puts the rows without a value last. The bound 1000000000 on
  a key: an identifier is printed into a buffer for ten characters, so a key of ten digits writes past it; below
  the bound every key prints on at most nine. \<open>UndefinedBehaviour\<close> is the outcome where the source
  reads or writes past an array, follows a null pointer or reads a variable that was never set. A loop that may
  not end is a \<open>partial_function (option)\<close>, and \<open>None\<close> is that it does not return; no
  definition uses fuel.

  Not modelled: the wrappers of external libraries (databases, batch schedulers, OpenSSL, LDAP), generated EMF
  classes and language bindings, command line parsing, process start-up, the thread pool, ssh helpers of the
  cloud back ends, the export of commands into a script and solveRestore, which runs SQL text, and works, whose
  rows can never be inserted (the statement names a column that the schemas do not have).
\<close>

end
